(* ===== verification/Prelude.thy ===== *)
theory Prelude
  imports Main "HOL-Library.Word" "HOL-Library.AList" "HOL-Library.Char_ord"
    "HOL-Library.List_Lexorder"
begin

text \<open>
  What every component of the development shares: the functions of Go's standard library
  the sources call (packages \<^verbatim>\<open>strings\<close>, \<^verbatim>\<open>strconv\<close>, \<^verbatim>\<open>sort\<close>), Go maps with an
  iteration order, errors, and the gNMI messages (\<^verbatim>\<open>Path\<close>, \<^verbatim>\<open>PathElem\<close>) that travel between the
  components.

  Strings are byte strings. Character classes (\<^verbatim>\<open>TrimSpace\<close>, \<^verbatim>\<open>ToLower\<close>) are those of ASCII.
  A Go map whose iteration the code observes is an association list: its order is one iteration
  order, and the theorems hold for every list, that is for every order. A Go map that the code
  only looks up is a function into \<^typ>\<open>'a option\<close>.
\<close>

section \<open>Collections of rewrite rules\<close>

named_theorems gostr \<open>facts on the string functions\<close>
named_theorems gomap \<open>facts on association-list maps\<close>

section \<open>Errors\<close>

text \<open>The gRPC status codes the code base returns, and Go errors: a status, a plain error, or a run-time
  panic (a nil dereference, an index out of range), which no handler recovers from.\<close>

datatype code = Unknown | InvalidArgument | NotFound | AlreadyExists | PermissionDenied
  | FailedPrecondition | Aborted | Unimplemented | Internal | Unavailable | Unauthenticated
  | ResourceExhausted | DeadlineExceeded | Canceled | DataLoss

datatype goerr = Plain string | Status code string | Panic string

text \<open>The text of an error, \<^verbatim>\<open>err.Error()\<close>.\<close>

fun codeText :: "code \<Rightarrow> string" where
  "codeText Unknown = ''Unknown''"
| "codeText InvalidArgument = ''InvalidArgument''"
| "codeText NotFound = ''NotFound''"
| "codeText AlreadyExists = ''AlreadyExists''"
| "codeText PermissionDenied = ''PermissionDenied''"
| "codeText FailedPrecondition = ''FailedPrecondition''"
| "codeText Aborted = ''Aborted''"
| "codeText Unimplemented = ''Unimplemented''"
| "codeText Internal = ''Internal''"
| "codeText Unavailable = ''Unavailable''"
| "codeText Unauthenticated = ''Unauthenticated''"
| "codeText ResourceExhausted = ''ResourceExhausted''"
| "codeText DeadlineExceeded = ''DeadlineExceeded''"
| "codeText Canceled = ''Canceled''"
| "codeText DataLoss = ''DataLoss''"

fun errText :: "goerr \<Rightarrow> string" where
  "errText (Plain s) = s"
| "errText (Status c s) = ''rpc error: code = '' @ codeText c @ '' desc = '' @ s"
| "errText (Panic s) = s"

section \<open>Package strings\<close>

definition HasPrefix :: "string \<Rightarrow> string \<Rightarrow> bool" where
  "HasPrefix s p \<longleftrightarrow> take (length p) s = p"

definition HasSuffix :: "string \<Rightarrow> string \<Rightarrow> bool" where
  "HasSuffix s p \<longleftrightarrow> HasPrefix (rev s) (rev p)"

definition TrimPrefix :: "string \<Rightarrow> string \<Rightarrow> string" where
  "TrimPrefix s p = (if HasPrefix s p then drop (length p) s else s)"

fun Contains :: "string \<Rightarrow> string \<Rightarrow> bool" where
  "Contains [] sub \<longleftrightarrow> sub = []"
| "Contains (c # s) sub \<longleftrightarrow> HasPrefix (c # s) sub \<or> Contains s sub"

definition is_space :: "char \<Rightarrow> bool" where
  "is_space c \<longleftrightarrow> c \<in> set [CHR '' '', CHR 0x09, CHR 0x0A, CHR 0x0B, CHR 0x0C, CHR 0x0D]"

definition TrimFunc :: "(char \<Rightarrow> bool) \<Rightarrow> string \<Rightarrow> string" where
  "TrimFunc f s = rev (dropWhile f (rev (dropWhile f s)))"

definition TrimSpace :: "string \<Rightarrow> string" where
  "TrimSpace = TrimFunc is_space"

definition lower_char :: "char \<Rightarrow> char" where
  "lower_char c = (let n = of_char c :: nat in if 65 \<le> n \<and> n \<le> 90 then char_of (n + 32) else c)"

definition ToLower :: "string \<Rightarrow> string" where
  "ToLower = map lower_char"

text \<open>\<^verbatim>\<open>strings.Split\<close> with a one-byte separator: always at least one part.\<close>

fun split_char :: "char \<Rightarrow> string \<Rightarrow> string list" where
  "split_char d [] = [[]]"
| "split_char d (c # s) =
     (if c = d then [] # split_char d s
      else (case split_char d s of [] \<Rightarrow> [[c]] | w # ws \<Rightarrow> (c # w) # ws))"

fun join :: "string \<Rightarrow> string list \<Rightarrow> string" where
  "join sep [] = []"
| "join sep [w] = w"
| "join sep (w # ws) = w @ sep @ join sep ws"

text \<open>\<^verbatim>\<open>strings.ReplaceAll\<close> with a two-byte pattern, the only form the sources use.\<close>

fun replace2 :: "char \<Rightarrow> char \<Rightarrow> string \<Rightarrow> string \<Rightarrow> string" where
  "replace2 a b new (x # y # s) =
     (if x = a \<and> y = b then new @ replace2 a b new s else x # replace2 a b new (y # s))"
| "replace2 a b new s = s"

section \<open>Package strconv\<close>

definition is_digit :: "char \<Rightarrow> bool" where
  "is_digit c \<longleftrightarrow> (let n = of_char c :: nat in 48 \<le> n \<and> n \<le> 57)"

definition digit_val :: "char \<Rightarrow> nat" where
  "digit_val c = of_char c - 48"

fun digits_val :: "nat \<Rightarrow> string \<Rightarrow> nat option" where
  "digits_val n [] = Some n"
| "digits_val n (c # s) = (if is_digit c then digits_val (10 * n + digit_val c) s else None)"

text \<open>\<^verbatim>\<open>strconv.ParseInt\<close> in base ten: an optional sign, at least one digit, and a range check for the number of
  bits; \<^verbatim>\<open>strconv.Atoi\<close> on a 64-bit target.\<close>

definition ParseInt :: "nat \<Rightarrow> string \<Rightarrow> int option" where
  "ParseInt bits s =
     (let (neg, ds) = (case s of [] \<Rightarrow> (False, [])
                       | c # r \<Rightarrow> if c = CHR ''-'' then (True, r)
                                 else if c = CHR ''+'' then (False, r) else (False, s))
      in if ds = [] then None
         else case digits_val 0 ds of
                None \<Rightarrow> None
              | Some n \<Rightarrow> (let i = (if neg then - int n else int n)
                          in if - (2 ^ (bits - 1)) \<le> i \<and> i < 2 ^ (bits - 1) then Some i else None))"

definition Atoi :: "string \<Rightarrow> int option" where
  "Atoi = ParseInt 64"

definition ParseBool :: "string \<Rightarrow> bool option" where
  "ParseBool s =
     (if s \<in> set [''1'', ''t'', ''T'', ''TRUE'', ''true'', ''True''] then Some True
      else if s \<in> set [''0'', ''f'', ''F'', ''FALSE'', ''false'', ''False''] then Some False else None)"

fun FormatNat :: "nat \<Rightarrow> string" where
  "FormatNat n = (if n < 10 then [char_of (48 + n)]
                  else FormatNat (n div 10) @ [char_of (48 + n mod 10)])"

declare FormatNat.simps [simp del]

definition FormatInt :: "int \<Rightarrow> string" where
  "FormatInt i = (if i < 0 then CHR ''-'' # FormatNat (nat (- i)) else FormatNat (nat i))"

section \<open>Go maps with an iteration order\<close>

type_synonym ('k, 'v) gomap = "('k \<times> 'v) list"

abbreviation gm_get :: "('k, 'v) gomap \<Rightarrow> 'k \<Rightarrow> 'v option" where
  "gm_get m k \<equiv> map_of m k"

abbreviation gm_set :: "'k \<Rightarrow> 'v \<Rightarrow> ('k, 'v) gomap \<Rightarrow> ('k, 'v) gomap" where
  "gm_set \<equiv> AList.update"

abbreviation gm_del :: "'k \<Rightarrow> ('k, 'v) gomap \<Rightarrow> ('k, 'v) gomap" where
  "gm_del \<equiv> AList.delete"

definition gm_ok :: "('k, 'v) gomap \<Rightarrow> bool" where
  "gm_ok m \<longleftrightarrow> distinct (map fst m)"

section \<open>gNMI paths\<close>

text \<open>\<^verbatim>\<open>gnmi.PathElem\<close> and \<^verbatim>\<open>gnmi.Path\<close>. A nil \<^verbatim>\<open>*gnmi.Path\<close> is \<^term>\<open>None\<close>; the generated getters
  return the zero value on it.\<close>

record path_elem =
  pe_name :: string
  pe_key :: "(string, string) gomap"

record gpath =
  p_origin :: string
  p_target :: string
  p_elem :: "path_elem list"

definition GetElem :: "gpath option \<Rightarrow> path_elem list" where
  "GetElem p = (case p of None \<Rightarrow> [] | Some q \<Rightarrow> p_elem q)"

definition GetTarget :: "gpath option \<Rightarrow> string" where
  "GetTarget p = (case p of None \<Rightarrow> [] | Some q \<Rightarrow> p_target q)"

definition GetOrigin :: "gpath option \<Rightarrow> string" where
  "GetOrigin p = (case p of None \<Rightarrow> [] | Some q \<Rightarrow> p_origin q)"

section \<open>Lemmas on the string functions\<close>

lemma HasPrefix_iff: "HasPrefix s p \<longleftrightarrow> (\<exists>t. s = p @ t)"
  by (auto simp: HasPrefix_def) (metis append_take_drop_id)

lemma HasPrefix_append [simp, gostr]: "HasPrefix (p @ t) p"
  by (simp add: HasPrefix_def)

lemma HasPrefix_Nil [simp, gostr]: "HasPrefix s []"
  by (simp add: HasPrefix_def)

lemma TrimPrefix_append [simp, gostr]: "TrimPrefix (p @ t) p = t"
  by (simp add: TrimPrefix_def)

lemma split_char_nonempty [simp, gostr]: "split_char d s \<noteq> []"
  by (induction s) (auto split: list.splits)

lemma join_split_char [gostr]: "join [d] (split_char d s) = s"
proof (induction s)
  case (Cons c s)
  then show ?case
    by (cases "split_char d s" rule: list.exhaust [case_names Nil Cons])
       (auto split: list.splits, (case_tac x22; simp)+)
qed simp

lemma split_char_none: "d \<notin> set s \<Longrightarrow> split_char d s = [s]"
  by (induction s) auto

lemma split_char_append: "d \<notin> set w \<Longrightarrow> split_char d (w @ d # s) = w # split_char d s"
  by (induction w) auto

lemma split_char_join: "l \<noteq> [] \<Longrightarrow> list_all (\<lambda>s. d \<notin> set s) l \<Longrightarrow> split_char d (join [d] l) = l"
  by (induction "[d]" l rule: join.induct) (auto simp: split_char_none split_char_append)

lemma HasSuffix_snoc [simp]: "HasSuffix (k @ [c]) [c]"
  by (simp add: HasSuffix_def HasPrefix_def)

section \<open>Lemmas on Go maps\<close>

lemma gm_set_new: "gm_get m k = None \<Longrightarrow> gm_set k v m = m @ [(k, v)]"
  by (induction m) (auto split: if_splits)

lemma fold_gm_set_distinct:
  "distinct (map fst m @ map g xs) \<Longrightarrow> fold (\<lambda>x. gm_set (g x) (h x)) xs m = m @ map (\<lambda>x. (g x, h x)) xs"
proof (induction xs arbitrary: m)
  case (Cons x xs)
  then have "gm_set (g x) (h x) m = m @ [(g x, h x)]"
    by (intro gm_set_new) (auto simp: map_of_eq_None_iff)
  with Cons show ?case by simp
qed simp

section \<open>Lemmas on numbers\<close>

lemma digit_char:
  assumes "d < 10"
  shows "is_digit (char_of (48 + d))" "digit_val (char_of (48 + d)) = d"
proof -
  have "of_char (char_of (48 + d)) = (48 + d :: nat)" using assms by simp
  with assms show "is_digit (char_of (48 + d))" "digit_val (char_of (48 + d)) = d"
    by (simp_all add: is_digit_def digit_val_def)
qed

lemma digits_val_append: "digits_val a (s @ t) = (case digits_val a s of None \<Rightarrow> None | Some b \<Rightarrow> digits_val b t)"
  by (induction s arbitrary: a) auto

lemma digits_val_FormatNat: "digits_val 0 (FormatNat n) = Some n"
proof (induction n rule: FormatNat.induct)
  case (1 n)
  show ?case
  proof (cases "n < 10")
    case True
    then show ?thesis using digit_char [OF True] by (subst FormatNat.simps) simp
  next
    case False
    then have "digits_val 0 (FormatNat (n div 10)) = Some (n div 10)" using 1 by simp
    then show ?thesis using False digit_char [of "n mod 10"] by (subst FormatNat.simps) (simp add: digits_val_append)
  qed
qed

lemma FormatNat_head: "\<exists>c s. FormatNat n = c # s \<and> is_digit c"
proof (induction n rule: FormatNat.induct)
  case (1 n)
  show ?case
  proof (cases "n < 10")
    case True
    then show ?thesis using digit_char(1) by (subst FormatNat.simps) simp
  next
    case False
    then obtain c s where "FormatNat (n div 10) = c # s" "is_digit c" using 1 by blast
    then show ?thesis using False by (subst FormatNat.simps) simp
  qed
qed

lemma ParseInt_FormatInt:
  assumes "- (2 ^ (bits - 1)) \<le> i" "i < 2 ^ (bits - 1)"
  shows "ParseInt bits (FormatInt i) = Some i"
proof (cases "i < 0")
  case True
  obtain c s where "FormatNat (nat (- i)) = c # s" using FormatNat_head by blast
  then show ?thesis using True assms digits_val_FormatNat [of "nat (- i)"] by (simp add: ParseInt_def FormatInt_def)
next
  case False
  obtain c s where cs: "FormatNat (nat i) = c # s" "is_digit c" using FormatNat_head by blast
  then have "c \<noteq> CHR ''-''" "c \<noteq> CHR ''+''" by (auto simp: is_digit_def)
  then show ?thesis using False assms cs digits_val_FormatNat [of "nat i"] by (simp add: ParseInt_def FormatInt_def)
qed

end
