(* ===== verification/Pathz_Authorizer.thy ===== *)
theory Pathz_Authorizer
  imports Prelude
begin

text \<open>
  The gNMI path authorizer, \<^verbatim>\<open>pathz_authorizer/pathz_authorizer.go\<close>: a trie of path names and key
  values whose nodes carry the permissions of users and groups, its construction from a policy
  (\<^verbatim>\<open>insertPath\<close>, \<^verbatim>\<open>createPolicies\<close>, \<^verbatim>\<open>createGroups\<close>), the look-up (\<^verbatim>\<open>authorize\<close>) and the
  processor that holds the active policy (\<^verbatim>\<open>GnmiAuthzProcessor\<close>).

  The trie is proved to implement a specification that never mentions it: the answer for a request
  is read off the list of rules, by trying the patterns of the request path in a fixed order
  (longest first, an exact key value before the wild card). The processor is proved to satisfy the
  contract of \<^verbatim>\<open>GnmiAuthzProcessorInterface\<close>, stated as the locale \<open>authz_processor\<close>.
\<close>

section \<open>Data\<close>

text \<open>The enumerations of the pathz protocol. Protocol buffers keep unknown values.\<close>

datatype action = ACTION_UNSPECIFIED | ACTION_DENY | ACTION_PERMIT | ACTION_OTHER int

datatype mode = MODE_UNSPECIFIED | MODE_READ | MODE_WRITE | MODE_OTHER int

datatype principal = User string | Group string | NoPrincipal

record auth_rule =
  ar_id :: string
  ar_path :: "path_elem list"
  ar_principal :: principal
  ar_action :: action
  ar_mode :: mode

record group_proto =
  gp_name :: string
  gp_users :: "string list"

record policy =
  pol_rules :: "auth_rule list"
  pol_groups :: "group_proto list"

type_synonym user_groups = "string \<rightharpoonup> string set"

record result =
  r_action :: action
  r_ruleId :: string
  r_matchedRule :: string

record ruleAction =
  ra_ruleId :: string
  ra_action :: action

record permission =
  perm_read :: ruleAction
  perm_write :: ruleAction

text \<open>\<^verbatim>\<open>gnmiAuthzNode\<close>. Only the map of groups is iterated over, so it alone carries an order.\<close>

datatype gnmiAuthzNode = Node
  (users: "string \<Rightarrow> permission option")
  (groups: "(string \<times> permission) list")
  (rule: string)
  (nameNext: "string \<Rightarrow> gnmiAuthzNode option")
  (nkey: string)
  (keyNext: "string \<Rightarrow> gnmiAuthzNode option")

definition emptyNode :: gnmiAuthzNode where
  "emptyNode = Node (\<lambda>_. None) [] [] (\<lambda>_. None) [] (\<lambda>_. None)"

record processor =
  pr_groups :: user_groups
  pr_root :: "gnmiAuthzNode option"
  pr_policy :: "policy option"

definition wildCard :: string where
  "wildCard = ''*''"

section \<open>Printing paths\<close>

definition print_keys :: "(string, string) gomap \<Rightarrow> string" where
  "print_keys m = concat (map (\<lambda>k. ''['' @ k @ ''='' @ (case gm_get m k of Some v \<Rightarrow> v | None \<Rightarrow> []) @ '']'')
                             (sort (map fst m)))"

definition printPath :: "path_elem list \<Rightarrow> string" where
  "printPath path =
     (let ret = concat (map (\<lambda>e. ''/'' @ pe_name e @ print_keys (pe_key e)) path)
      in if ret = [] then ''/'' else ret)"

definition PrintPathWithPrefix :: "gpath option \<Rightarrow> gpath option \<Rightarrow> string" where
  "PrintPathWithPrefix pre path = printPath (GetElem pre @ GetElem path)"

section \<open>Permissions\<close>

definition noResult :: result where
  "noResult = \<lparr>r_action = ACTION_UNSPECIFIED, r_ruleId = [], r_matchedRule = []\<rparr>"

definition noRuleAction :: ruleAction where
  "noRuleAction = \<lparr>ra_ruleId = [], ra_action = ACTION_UNSPECIFIED\<rparr>"

definition noPermission :: permission where
  "noPermission = \<lparr>perm_read = noRuleAction, perm_write = noRuleAction\<rparr>"

text \<open>\<^verbatim>\<open>updateResult\<close>: the error (an invalid mode) leaves the result as it is.\<close>

definition updateResult :: "result \<Rightarrow> permission \<Rightarrow> mode \<Rightarrow> string \<Rightarrow> result \<times> goerr option" where
  "updateResult res p m rl =
     (if r_action res = ACTION_DENY then (res, None)
      else let upd = (\<lambda>access. if ra_action access \<noteq> ACTION_UNSPECIFIED
                        then res\<lparr>r_action := ra_action access, r_ruleId := ra_ruleId access,
                                 r_matchedRule := rl\<rparr>
                        else res)
           in case m of
                MODE_READ \<Rightarrow> (upd (perm_read p), None)
              | MODE_WRITE \<Rightarrow> (upd (perm_write p), None)
              | _ \<Rightarrow> (res, Some (Plain ''invalid mode'')))"

definition setRuleAction :: "action \<Rightarrow> string \<Rightarrow> ruleAction \<Rightarrow> ruleAction" where
  "setRuleAction a rid r =
     (if ra_action r = ACTION_DENY then r else \<lparr>ra_ruleId = rid, ra_action = a\<rparr>)"

definition updatePermission ::
    "permission \<Rightarrow> action \<Rightarrow> mode \<Rightarrow> string \<Rightarrow> permission \<times> goerr option" where
  "updatePermission p a m rid =
     (if a = ACTION_UNSPECIFIED then (p, None)
      else case m of
             MODE_UNSPECIFIED \<Rightarrow> (p, None)
           | MODE_READ \<Rightarrow> (p\<lparr>perm_read := setRuleAction a rid (perm_read p)\<rparr>, None)
           | MODE_WRITE \<Rightarrow> (p\<lparr>perm_write := setRuleAction a rid (perm_write p)\<rparr>, None)
           | MODE_OTHER _ \<Rightarrow> (p, Some (Plain ''invalid mode'')))"

section \<open>Look-up\<close>

definition matched :: "result \<Rightarrow> bool" where
  "matched r \<longleftrightarrow> r_action r \<noteq> ACTION_UNSPECIFIED \<and> r_matchedRule r \<noteq> []"

definition orElse :: "result \<Rightarrow> result \<Rightarrow> result" where
  "orElse r d = (if matched r then r else d)"

text \<open>The loop over the groups of a node, with its early exit on a deny.\<close>

fun checkGroups :: "user_groups \<Rightarrow> string \<Rightarrow> mode \<Rightarrow> string \<Rightarrow> (string \<times> permission) list \<Rightarrow> result \<Rightarrow> result" where
  "checkGroups grps user m rl [] ret = ret"
| "checkGroups grps user m rl ((g, p) # gs) ret =
     (case grps g of
        None \<Rightarrow> checkGroups grps user m rl gs ret
      | Some members \<Rightarrow>
          if user \<in> members then
            let ret' = fst (updateResult ret p m rl)
            in if r_action ret' = ACTION_DENY \<and> r_matchedRule ret' \<noteq> [] then ret'
               else checkGroups grps user m rl gs ret'
          else checkGroups grps user m rl gs ret)"

text \<open>What a node answers by itself: the user's permission, else those of the user's groups.\<close>

definition localResult :: "gnmiAuthzNode \<Rightarrow> string \<Rightarrow> mode \<Rightarrow> user_groups \<Rightarrow> result" where
  "localResult node user m grps =
     (let ret = (case users node user of
                   Some p \<Rightarrow> fst (updateResult noResult p m (rule node))
                 | None \<Rightarrow> noResult)
      in if r_action ret = ACTION_UNSPECIFIED \<or> r_matchedRule ret = []
         then checkGroups grps user m (rule node) (groups node) ret
         else ret)"

function authorize ::
    "gnmiAuthzNode option \<Rightarrow> string \<Rightarrow> path_elem list \<Rightarrow> mode \<Rightarrow> nat \<Rightarrow> string list \<Rightarrow> nat
     \<Rightarrow> user_groups \<Rightarrow> result" where
  "authorize None user path m nameIdx keys keyIdx grps = noResult"
| "authorize (Some node) user path m nameIdx keys keyIdx grps =
     (let ret = localResult node user m grps
      in if nameIdx \<ge> length path then ret
         else if keys \<noteq> [] then
           (if keyIdx \<ge> length keys then ret
            else if keys ! keyIdx \<noteq> nkey node then ret
            else case gm_get (pe_key (path ! nameIdx)) (nkey node) of
                   None \<Rightarrow> ret
                 | Some keyValue \<Rightarrow>
                     if keyIdx + 1 = length keys then
                       orElse (authorize (keyNext node keyValue) user path m (nameIdx + 1) [] 0 grps)
                         (orElse (authorize (keyNext node wildCard) user path m (nameIdx + 1) [] 0 grps)
                            ret)
                     else
                       orElse (authorize (keyNext node keyValue) user path m nameIdx keys (keyIdx + 1) grps)
                         (orElse (authorize (keyNext node wildCard) user path m nameIdx keys (keyIdx + 1) grps)
                            ret))
         else
           let e = path ! nameIdx
           in if pe_key e \<noteq> [] then
                orElse (authorize (nameNext node (pe_name e)) user path m nameIdx
                          (sort (map fst (pe_key e))) 0 grps) ret
              else
                orElse (authorize (nameNext node (pe_name e)) user path m (nameIdx + 1) [] 0 grps) ret)"
  by pat_completeness auto
termination
  by (relation "measures [\<lambda>(n, user, path, m, nameIdx, keys, keyIdx, grps). length path - nameIdx,
        \<lambda>(n, user, path, m, nameIdx, keys, keyIdx, grps). if keys = [] then 1 else 0,
        \<lambda>(n, user, path, m, nameIdx, keys, keyIdx, grps). length keys - keyIdx]")
     (auto simp: set_empty [symmetric] simp del: set_empty)

declare authorize.simps [simp del]

section \<open>Insertion of a rule\<close>

text \<open>The leaf case of \<^verbatim>\<open>insertPath\<close>. The errors of \<^verbatim>\<open>updatePermission\<close> are dropped, as in the source.\<close>

definition applyRule :: "auth_rule \<Rightarrow> permission option \<Rightarrow> permission" where
  "applyRule r po = fst (updatePermission (case po of Some p \<Rightarrow> p | None \<Rightarrow> noPermission)
                           (ar_action r) (ar_mode r) (ar_id r))"

definition insertLeaf :: "gnmiAuthzNode \<Rightarrow> auth_rule \<Rightarrow> gnmiAuthzNode \<times> goerr option" where
  "insertLeaf node r =
     (let rl = printPath (ar_path r)
      in case ar_principal r of
           User u \<Rightarrow> (Node ((users node)(u \<mapsto> applyRule r (users node u))) (groups node) rl
                        (nameNext node) (nkey node) (keyNext node), None)
         | Group g \<Rightarrow> (Node (users node) (gm_set g (applyRule r (gm_get (groups node) g)) (groups node)) rl
                        (nameNext node) (nkey node) (keyNext node), None)
         | NoPrincipal \<Rightarrow> (Node (users node) (groups node) rl (nameNext node) (nkey node) (keyNext node),
                           Some (Plain ''invalid principal type'')))"

definition childOr :: "gnmiAuthzNode option \<Rightarrow> gnmiAuthzNode" where
  "childOr n = (case n of Some m \<Rightarrow> m | None \<Rightarrow> emptyNode)"

definition setKeyNext :: "gnmiAuthzNode \<Rightarrow> string \<Rightarrow> string \<Rightarrow> gnmiAuthzNode \<Rightarrow> gnmiAuthzNode" where
  "setKeyNext node k v ch = Node (users node) (groups node) (rule node) (nameNext node) k
                              ((keyNext node)(v \<mapsto> ch))"

definition setNameNext :: "gnmiAuthzNode \<Rightarrow> string \<Rightarrow> gnmiAuthzNode \<Rightarrow> gnmiAuthzNode" where
  "setNameNext node nm ch = Node (users node) (groups node) (rule node) ((nameNext node)(nm \<mapsto> ch))
                              (nkey node) (keyNext node)"

text \<open>\<^verbatim>\<open>insertPath\<close> updates the trie in place; an error leaves the nodes that were already written,
  so the updated trie is returned beside the error.\<close>

function insertPath :: "gnmiAuthzNode \<Rightarrow> auth_rule \<Rightarrow> nat \<Rightarrow> string list \<Rightarrow> nat \<Rightarrow> gnmiAuthzNode \<times> goerr option" where
  "insertPath node r nameIdx keys keyIdx =
     (let path = ar_path r
      in if nameIdx \<ge> length path then insertLeaf node r
         else if keys \<noteq> [] then
           (if keyIdx \<ge> length keys then (node, Some (Plain ''key index out of range''))
            else case gm_get (pe_key (path ! nameIdx)) (keys ! keyIdx) of
                   None \<Rightarrow> (node, Some (Plain (''key '' @ keys ! keyIdx @ '' not found in path'')))
                 | Some v \<Rightarrow>
                     if nkey node \<noteq> [] \<and> nkey node \<noteq> keys ! keyIdx
                     then (node, Some (Plain (''key '' @ nkey node @ '' mismatch from other configured rule'')))
                     else
                       let ch = childOr (keyNext node v);
                           res = (if keyIdx + 1 = length keys
                                  then insertPath ch r (nameIdx + 1) [] 0
                                  else insertPath ch r nameIdx keys (keyIdx + 1))
                       in (setKeyNext node (keys ! keyIdx) v (fst res), snd res))
         else
           let e = path ! nameIdx;
               ch = childOr (nameNext node (pe_name e));
               res = (if pe_key e \<noteq> [] then insertPath ch r nameIdx (sort (map fst (pe_key e))) 0
                      else insertPath ch r (nameIdx + 1) [] 0)
           in (setNameNext node (pe_name e) (fst res), snd res))"
  by pat_completeness auto
termination
  by (relation "measures [\<lambda>(n, r, nameIdx, keys, keyIdx). length (ar_path r) - nameIdx,
        \<lambda>(n, r, nameIdx, keys, keyIdx). if keys = [] then 1 else 0,
        \<lambda>(n, r, nameIdx, keys, keyIdx). length keys - keyIdx]")
     (auto simp: set_empty [symmetric] simp del: set_empty)

declare insertPath.simps [simp del]

section \<open>Policies\<close>

fun addUsers :: "string \<Rightarrow> string list \<Rightarrow> user_groups \<Rightarrow> user_groups" where
  "addUsers g [] m = m"
| "addUsers g (u # us) m =
     addUsers g us (m(g \<mapsto> insert u (case m g of Some s \<Rightarrow> s | None \<Rightarrow> {})))"

fun createGroupsFrom :: "group_proto list \<Rightarrow> user_groups \<Rightarrow> user_groups" where
  "createGroupsFrom [] m = m"
| "createGroupsFrom (g # gs) m =
     (let m' = (if gp_name g \<in> dom m then m else m(gp_name g \<mapsto> {}))
      in createGroupsFrom gs (addUsers (gp_name g) (gp_users g) m'))"

definition createGroups :: "group_proto list \<Rightarrow> user_groups" where
  "createGroups gs = createGroupsFrom gs (\<lambda>_. None)"

fun insertRules :: "gnmiAuthzNode \<Rightarrow> auth_rule list \<Rightarrow> goerr + gnmiAuthzNode" where
  "insertRules root [] = Inr root"
| "insertRules root (p # ps) =
     (case insertPath root p 0 [] 0 of
        (root', Some e) \<Rightarrow> Inl e
      | (root', None) \<Rightarrow> insertRules root' ps)"

definition createPolicies :: "auth_rule list \<Rightarrow> goerr + gnmiAuthzNode" where
  "createPolicies rules =
     (if rules = [] then Inl (Plain ''no rules found'') else insertRules emptyNode rules)"

text \<open>\<^verbatim>\<open>createNewPolicy\<close> on a nil proto reads no rules and no groups.\<close>

definition createNewPolicy :: "policy option \<Rightarrow> goerr + (gnmiAuthzNode \<times> user_groups)" where
  "createNewPolicy po =
     (let rules = (case po of Some p \<Rightarrow> pol_rules p | None \<Rightarrow> []);
          gs = (case po of Some p \<Rightarrow> pol_groups p | None \<Rightarrow> [])
      in case createPolicies rules of
           Inl e \<Rightarrow> Inl e
         | Inr root \<Rightarrow> Inr (root, createGroups gs))"

section \<open>The processor\<close>

definition newProcessor :: processor where
  "newProcessor = \<lparr>pr_groups = (\<lambda>_. None), pr_root = None, pr_policy = None\<rparr>"

definition Authorize :: "processor \<Rightarrow> string \<Rightarrow> gpath option \<Rightarrow> mode \<Rightarrow> goerr + result" where
  "Authorize pr user path m =
     (if m = MODE_UNSPECIFIED then Inl (Plain ''mode must be read or write'')
      else Inr (authorize (pr_root pr) user (GetElem path) m 0 [] 0 (pr_groups pr)))"

definition AuthorizeWithPrefix ::
    "processor \<Rightarrow> string \<Rightarrow> gpath option \<Rightarrow> gpath option \<Rightarrow> mode \<Rightarrow> goerr + result" where
  "AuthorizeWithPrefix pr user pre path m =
     (if m = MODE_UNSPECIFIED then Inl (Plain ''mode must be read or write'')
      else Inr (authorize (pr_root pr) user (GetElem pre @ GetElem path) m 0 [] 0 (pr_groups pr)))"

definition UpdatePolicyFromProto :: "processor \<Rightarrow> policy option \<Rightarrow> processor \<times> goerr option" where
  "UpdatePolicyFromProto pr po =
     (case createNewPolicy po of
        Inl e \<Rightarrow> (pr, Some e)
      | Inr (newRoot, newGroups) \<Rightarrow>
          (pr\<lparr>pr_root := Some newRoot, pr_groups := newGroups, pr_policy := po\<rparr>, None))"

text \<open>\<^verbatim>\<open>UpdatePolicyFromFile\<close>: \<open>content\<close> is what \<^verbatim>\<open>os.ReadFile\<close> returned and \<open>unmarshal\<close> the
  text-format parser of the protocol buffer library.\<close>

definition UpdatePolicyFromFile ::
    "(string \<Rightarrow> goerr + policy) \<Rightarrow> processor \<Rightarrow> goerr + string \<Rightarrow> processor \<times> goerr option" where
  "UpdatePolicyFromFile unmarshal pr content =
     (case content of
        Inl e \<Rightarrow> (pr, Some e)
      | Inr txt \<Rightarrow> (case unmarshal txt of
                     Inl e \<Rightarrow> (pr, Some e)
                   | Inr p \<Rightarrow> UpdatePolicyFromProto pr (Some p)))"

definition GetPolicy :: "processor \<Rightarrow> policy option" where
  "GetPolicy pr = pr_policy pr"

section \<open>Specification\<close>

text \<open>A path as a sequence of tokens: the name of an element, then its keys in alphabetical order.\<close>

datatype tok = TName string | TKey string string

definition keyToks :: "path_elem \<Rightarrow> string list \<Rightarrow> tok list" where
  "keyToks e ks = map (\<lambda>k. TKey k (case gm_get (pe_key e) k of Some v \<Rightarrow> v | None \<Rightarrow> [])) ks"

definition elemToks :: "path_elem \<Rightarrow> tok list" where
  "elemToks e = TName (pe_name e) # keyToks e (sort (map fst (pe_key e)))"

definition pathToks :: "path_elem list \<Rightarrow> tok list" where
  "pathToks p = concat (map elemToks p)"

fun printTok :: "tok \<Rightarrow> string" where
  "printTok (TName n) = ''/'' @ n"
| "printTok (TKey k v) = ''['' @ k @ ''='' @ v @ '']''"

definition printToks :: "tok list \<Rightarrow> string" where
  "printToks q = (let s = concat (map printTok q) in if s = [] then ''/'' else s)"

text \<open>The patterns a request path is compared with, in order of preference: longer patterns first,
  and at each key the exact value before the wild card.\<close>

fun patterns :: "tok list \<Rightarrow> tok list list" where
  "patterns [] = [[]]"
| "patterns (TName x # ts) = map ((#) (TName x)) (patterns ts) @ [[]]"
| "patterns (TKey k v # ts) =
     map ((#) (TKey k v)) (patterns ts) @ map ((#) (TKey k wildCard)) (patterns ts) @ [[]]"

text \<open>The permissions that a list of rules, all with the same path, gives to users and groups.\<close>

definition addUserRule :: "auth_rule \<Rightarrow> (string \<Rightarrow> permission option) \<Rightarrow> (string \<Rightarrow> permission option)" where
  "addUserRule r m = (case ar_principal r of User u \<Rightarrow> m(u \<mapsto> applyRule r (m u)) | _ \<Rightarrow> m)"

definition addGroupRule :: "auth_rule \<Rightarrow> (string \<times> permission) list \<Rightarrow> (string \<times> permission) list" where
  "addGroupRule r m =
     (case ar_principal r of Group g \<Rightarrow> gm_set g (applyRule r (gm_get m g)) m | _ \<Rightarrow> m)"

definition ruleResult :: "auth_rule list \<Rightarrow> tok list \<Rightarrow> string \<Rightarrow> mode \<Rightarrow> user_groups \<Rightarrow> result" where
  "ruleResult rules q user m grps =
     (let R = filter (\<lambda>r. pathToks (ar_path r) = q) rules
      in if R = [] then noResult
         else localResult (Node (fold addUserRule R (\<lambda>_. None)) (fold addGroupRule R []) (printToks q)
                             (\<lambda>_. None) [] (\<lambda>_. None)) user m grps)"

definition specAuthorize :: "auth_rule list \<Rightarrow> user_groups \<Rightarrow> string \<Rightarrow> mode \<Rightarrow> path_elem list \<Rightarrow> result" where
  "specAuthorize rules grps user m path =
     foldr (\<lambda>q. orElse (ruleResult rules q user m grps)) (patterns (pathToks path)) noResult"

section \<open>The trie over tokens\<close>

fun child :: "gnmiAuthzNode \<Rightarrow> tok \<Rightarrow> gnmiAuthzNode option" where
  "child n (TName x) = nameNext n x"
| "child n (TKey k v) = (if nkey n = k then keyNext n v else None)"

fun tokAuthorize :: "gnmiAuthzNode option \<Rightarrow> tok list \<Rightarrow> string \<Rightarrow> mode \<Rightarrow> user_groups \<Rightarrow> result" where
  "tokAuthorize None ts user m grps = noResult"
| "tokAuthorize (Some n) [] user m grps = localResult n user m grps"
| "tokAuthorize (Some n) (TName x # ts) user m grps =
     orElse (tokAuthorize (nameNext n x) ts user m grps) (localResult n user m grps)"
| "tokAuthorize (Some n) (TKey k v # ts) user m grps =
     orElse (tokAuthorize (child n (TKey k v)) ts user m grps)
       (orElse (tokAuthorize (child n (TKey k wildCard)) ts user m grps) (localResult n user m grps))"

text \<open>The tokens that are left at an index of the look-up.\<close>

definition restToks :: "path_elem list \<Rightarrow> nat \<Rightarrow> string list \<Rightarrow> nat \<Rightarrow> tok list" where
  "restToks path nameIdx keys keyIdx =
     (if keys = [] then pathToks (drop nameIdx path)
      else keyToks (path ! nameIdx) (drop keyIdx keys) @ pathToks (drop (Suc nameIdx) path))"

text \<open>The index states the look-up goes through: inside an element, its sorted keys.\<close>

definition idxOk :: "path_elem list \<Rightarrow> nat \<Rightarrow> string list \<Rightarrow> nat \<Rightarrow> bool" where
  "idxOk path nameIdx keys keyIdx \<longleftrightarrow>
     (keys \<noteq> [] \<longrightarrow> nameIdx < length path \<and> keyIdx < length keys \<and>
        set keys \<subseteq> fst ` set (pe_key (path ! nameIdx)))"

lemma noResult_unmatched [simp]: "\<not> matched noResult"
  by (simp add: matched_def noResult_def)

lemma orElse_noResult [simp]: "orElse noResult d = d"
  by (simp add: orElse_def)

lemma tokAuthorize_None [simp]: "tokAuthorize None ts user m grps = noResult"
  by (cases ts) simp_all

lemma pathToks_simps [simp]:
  "pathToks [] = []" "pathToks (e # p) = elemToks e @ pathToks p"
  by (simp_all add: pathToks_def)

lemma restToks_done: "nameIdx \<ge> length path \<Longrightarrow> restToks path nameIdx [] keyIdx = []"
  by (simp add: restToks_def)

lemma restToks_name:
  assumes "nameIdx < length path"
  shows "restToks path nameIdx [] keyIdx =
           TName (pe_name (path ! nameIdx)) #
             (if pe_key (path ! nameIdx) = [] then restToks path (Suc nameIdx) [] 0
              else restToks path nameIdx (sort (map fst (pe_key (path ! nameIdx)))) 0)"
proof -
  have "sort (map fst (pe_key (path ! nameIdx))) = [] \<longleftrightarrow> pe_key (path ! nameIdx) = []"
    by (metis map_is_Nil_conv set_empty set_sort)
  then show ?thesis using assms
    by (auto simp: restToks_def elemToks_def keyToks_def Cons_nth_drop_Suc [symmetric])
qed

lemma restToks_key:
  assumes "keys \<noteq> []" "keyIdx < length keys" "gm_get (pe_key (path ! nameIdx)) (keys ! keyIdx) = Some v"
  shows "restToks path nameIdx keys keyIdx =
           TKey (keys ! keyIdx) v #
             (if Suc keyIdx = length keys then restToks path (Suc nameIdx) [] 0
              else restToks path nameIdx keys (Suc keyIdx))"
  using assms by (auto simp: restToks_def keyToks_def Cons_nth_drop_Suc [symmetric])

lemma idxOk_name:
  "nameIdx < length path \<Longrightarrow> idxOk path nameIdx (sort (map fst (pe_key (path ! nameIdx)))) 0"
  by (auto simp: idxOk_def)

lemma idxOk_simps [simp]:
  "idxOk path nameIdx [] k"
  "idxOk path nameIdx keys keyIdx \<Longrightarrow> keys \<noteq> [] \<Longrightarrow> Suc keyIdx \<noteq> length keys \<Longrightarrow>
     idxOk path nameIdx keys (Suc keyIdx)"
  by (auto simp: idxOk_def)

lemma idxOk_lookup:
  assumes "idxOk path nameIdx keys keyIdx" "keys \<noteq> []"
  obtains v where "gm_get (pe_key (path ! nameIdx)) (keys ! keyIdx) = Some v"
proof -
  from assms have "keys ! keyIdx \<in> fst ` set (pe_key (path ! nameIdx))"
    by (auto simp: idxOk_def intro!: subsetD [OF _ nth_mem])
  then show thesis using that by (metis map_of_eq_None_iff not_None_eq)
qed

text \<open>The indexed look-up of the source is the token look-up.\<close>

lemma authorize_tokAuthorize:
  "idxOk path nameIdx keys keyIdx \<Longrightarrow>
   authorize n user path m nameIdx keys keyIdx grps =
     tokAuthorize n (restToks path nameIdx keys keyIdx) user m grps"
proof (induction n user path m nameIdx keys keyIdx grps rule: authorize.induct)
  case (1 user path m nameIdx keys keyIdx grps)
  show ?case by (simp add: authorize.simps)
next
  case (2 node user path m nameIdx keys keyIdx grps)
  consider (fin) "nameIdx \<ge> length path" | (key) "nameIdx < length path" "keys \<noteq> []"
    | (name) "nameIdx < length path" "keys = []"
    by linarith
  then show ?case
  proof cases
    case fin
    with "2.prems" have "keys = []" by (auto simp: idxOk_def)
    with fin show ?thesis by (simp add: authorize.simps restToks_done Let_def)
  next
    case key
    note ok = "2.prems"
    from ok key have ki: "keyIdx < length keys" by (simp add: idxOk_def)
    from idxOk_lookup [OF ok key(2)] obtain v where
      v: "gm_get (pe_key (path ! nameIdx)) (keys ! keyIdx) = Some v" .
    note rt = restToks_key [OF key(2) ki v]
    show ?thesis
    proof (cases "keys ! keyIdx = nkey node")
      case False
      then show ?thesis using key ki
        by (simp add: authorize.simps rt Let_def)
    next
      case True
      with "2.IH" ok key ki v show ?thesis
        by (cases "Suc keyIdx = length keys") (auto simp: authorize.simps rt Let_def)
    qed
  next
    case name
    with "2.IH"(5,6) show ?thesis
      by (auto simp: authorize.simps restToks_name Let_def idxOk_name)
  qed
qed

subsection \<open>Look-up along the patterns\<close>

fun nodeAt :: "gnmiAuthzNode option \<Rightarrow> tok list \<Rightarrow> gnmiAuthzNode option" where
  "nodeAt None q = None"
| "nodeAt (Some n) [] = Some n"
| "nodeAt (Some n) (t # q) = nodeAt (child n t) q"

definition localAt :: "gnmiAuthzNode option \<Rightarrow> tok list \<Rightarrow> string \<Rightarrow> mode \<Rightarrow> user_groups \<Rightarrow> result" where
  "localAt no q user m grps =
     (case nodeAt no q of None \<Rightarrow> noResult | Some n \<Rightarrow> localResult n user m grps)"

lemma localAt_simps [simp]:
  "localAt None q user m grps = noResult"
  "localAt (Some n) [] user m grps = localResult n user m grps"
  "localAt (Some n) (t # q) user m grps = localAt (child n t) q user m grps"
  by (simp_all add: localAt_def)

lemma orElse_assoc: "orElse (orElse a b) c = orElse a (orElse b c)"
  by (simp add: orElse_def)

lemma orElse_foldr:
  "foldr (\<lambda>q. orElse (g q)) qs d = orElse (foldr (\<lambda>q. orElse (g q)) qs noResult) d"
proof (induction qs)
  case (Cons q qs)
  then show ?case by (simp add: orElse_assoc)
qed simp

lemma tokAuthorize_patterns:
  assumes "\<And>q. matched (localAt no q user m grps) \<or> localAt no q user m grps = noResult"
  shows "tokAuthorize no ts user m grps =
           foldr (\<lambda>q. orElse (localAt no q user m grps)) (patterns ts) noResult"
  using assms
proof (induction ts arbitrary: no)
  case Nil
  from Nil.prems [of "[]"] show ?case
    by (cases no) (auto simp: orElse_def)
next
  case (Cons t ts)
  show ?case
  proof (cases no)
    case None
    have "foldr (\<lambda>q a. a) qs noResult = noResult" for qs :: "tok list list"
      by (induction qs) simp_all
    with None show ?thesis by simp
  next
    case (Some n)
    let ?f = "\<lambda>u qs. foldr (\<lambda>q. orElse (localAt (child n u) q user m grps)) qs noResult"
    let ?loc = "localResult n user m grps"
    have IH: "tokAuthorize (child n u) ts user m grps = ?f u (patterns ts)" for u
      using Cons.prems [of "u # _"] Some by (intro Cons.IH) simp
    have last: "orElse ?loc noResult = ?loc"
      using Cons.prems [of "[]"] Some by (auto simp: orElse_def)
    have mapf: "foldr (\<lambda>q. orElse (localAt (Some n) q user m grps)) (map ((#) u) qs) d =
        orElse (?f u qs) d" for u qs d
      by (subst orElse_foldr) (simp add: foldr_map comp_def)
    show ?thesis
    proof (cases t)
      case (TName x)
      with Some IH [of "TName x"] show ?thesis by (simp add: mapf last)
    next
      case (TKey k v)
      with Some IH [of t] IH [of "TKey k wildCard"] show ?thesis
        by (simp add: mapf last del: child.simps)
    qed
  qed
qed

subsection \<open>Insertion of a rule into the trie\<close>

fun tokInsert :: "gnmiAuthzNode \<Rightarrow> tok list \<Rightarrow> auth_rule \<Rightarrow> gnmiAuthzNode \<times> goerr option" where
  "tokInsert n [] r = insertLeaf n r"
| "tokInsert n (TName x # ts) r =
     (let res = tokInsert (childOr (nameNext n x)) ts r in (setNameNext n x (fst res), snd res))"
| "tokInsert n (TKey k v # ts) r =
     (if nkey n \<noteq> [] \<and> nkey n \<noteq> k
      then (n, Some (Plain (''key '' @ nkey n @ '' mismatch from other configured rule'')))
      else let res = tokInsert (childOr (keyNext n v)) ts r in (setKeyNext n k v (fst res), snd res))"

lemma insertPath_tokInsert:
  "idxOk (ar_path r) nameIdx keys keyIdx \<Longrightarrow>
   insertPath n r nameIdx keys keyIdx = tokInsert n (restToks (ar_path r) nameIdx keys keyIdx) r"
proof (induction n r nameIdx keys keyIdx rule: insertPath.induct)
  case (1 n r nameIdx keys keyIdx)
  let ?path = "ar_path r"
  consider (fin) "nameIdx \<ge> length ?path" | (key) "nameIdx < length ?path" "keys \<noteq> []"
    | (name) "nameIdx < length ?path" "keys = []"
    by linarith
  then show ?case
  proof cases
    case fin
    with "1.prems" have "keys = []" by (auto simp: idxOk_def)
    with fin show ?thesis by (simp add: insertPath.simps restToks_done Let_def)
  next
    case key
    note ok = "1.prems"
    from ok key have ki: "keyIdx < length keys" by (simp add: idxOk_def)
    from idxOk_lookup [OF ok key(2)] obtain v where
      v: "gm_get (pe_key (?path ! nameIdx)) (keys ! keyIdx) = Some v" .
    show ?thesis using "1.IH"(1,2) ok key ki v
      by (subst insertPath.simps)
         (cases "Suc keyIdx = length keys", auto simp: restToks_key [OF key(2) ki v] Let_def)
  next
    case name
    with "1.IH"(3,4) show ?thesis
      by (subst insertPath.simps) (auto simp: restToks_name Let_def idxOk_name)
  qed
qed

text \<open>A node that has no key has no key values.\<close>

inductive wf_node :: "gnmiAuthzNode \<Rightarrow> bool" where
  wf_nodeI: "(nkey n = [] \<Longrightarrow> keyNext n = (\<lambda>_. None)) \<Longrightarrow>
     (\<And>x c. nameNext n x = Some c \<Longrightarrow> wf_node c) \<Longrightarrow>
     (\<And>v c. keyNext n v = Some c \<Longrightarrow> wf_node c) \<Longrightarrow> wf_node n"

inductive_simps wf_node_iff: "wf_node n"

lemma wf_emptyNode [simp]: "wf_node emptyNode"
  by (subst wf_node_iff) (simp add: emptyNode_def)

lemma wf_childOr: "(\<And>c. no = Some c \<Longrightarrow> wf_node c) \<Longrightarrow> wf_node (childOr no)"
  by (cases no) (auto simp: childOr_def)

type_synonym node_data = "(string \<Rightarrow> permission option) \<times> (string \<times> permission) list \<times> string"

definition nodeData :: "gnmiAuthzNode \<Rightarrow> node_data" where
  "nodeData n = (users n, groups n, rule n)"

definition dataAt :: "gnmiAuthzNode option \<Rightarrow> tok list \<Rightarrow> node_data" where
  "dataAt no q = (case nodeAt no q of None \<Rightarrow> nodeData emptyNode | Some n \<Rightarrow> nodeData n)"

definition addRule :: "auth_rule \<Rightarrow> node_data \<Rightarrow> node_data" where
  "addRule r d = (case d of (us, gs, rl) \<Rightarrow> (addUserRule r us, addGroupRule r gs, printPath (ar_path r)))"

fun keyNamed :: "tok \<Rightarrow> bool" where
  "keyNamed (TName x) = True"
| "keyNamed (TKey k v) \<longleftrightarrow> k \<noteq> []"

lemma dataAt_simps [simp]:
  "dataAt None q = nodeData emptyNode"
  "dataAt (Some n) [] = nodeData n"
  "dataAt (Some n) (t # q) = dataAt (child n t) q"
  by (simp_all add: dataAt_def)

lemma child_emptyNode [simp]: "child emptyNode t = None"
  by (cases t) (simp_all add: emptyNode_def)

lemma dataAt_emptyNode [simp]: "dataAt (Some emptyNode) q = nodeData emptyNode"
  by (cases q) simp_all

lemma dataAt_childOr [simp]: "dataAt (Some (childOr no)) q = dataAt no q"
  by (cases no) (simp_all add: childOr_def)

lemma nodeData_set [simp]:
  "nodeData (setNameNext n x c) = nodeData n" "nodeData (setKeyNext n k v c) = nodeData n"
  by (simp_all add: nodeData_def setNameNext_def setKeyNext_def)

lemma child_setNameNext [simp]:
  "child (setNameNext n x c) t = (if t = TName x then Some c else child n t)"
  by (cases t) (auto simp: setNameNext_def)

lemma child_setKeyNext:
  assumes "wf_node n" "k \<noteq> []" "nkey n = [] \<or> nkey n = k"
  shows "child (setKeyNext n k v c) t = (if t = TKey k v then Some c else child n t)"
  using assms by (cases t) (auto simp: setKeyNext_def wf_node_iff [of n])

lemma wf_setNameNext: "wf_node n \<Longrightarrow> wf_node c \<Longrightarrow> wf_node (setNameNext n x c)"
  by (subst wf_node_iff, subst (asm) wf_node_iff [of n]) (auto simp: setNameNext_def split: if_splits)

lemma wf_setKeyNext: "wf_node n \<Longrightarrow> wf_node c \<Longrightarrow> k \<noteq> [] \<Longrightarrow> wf_node (setKeyNext n k v c)"
  by (subst wf_node_iff, subst (asm) wf_node_iff [of n]) (auto simp: setKeyNext_def split: if_splits)

lemma insertLeaf_ok:
  assumes "insertLeaf n r = (n', None)"
  shows "nodeData n' = addRule r (nodeData n)" "child n' = child n" "wf_node n' \<longleftrightarrow> wf_node n"
proof -
  show "nodeData n' = addRule r (nodeData n)"
    using assms by (auto simp: insertLeaf_def nodeData_def addRule_def addUserRule_def
        addGroupRule_def Let_def split: principal.splits)
  have eq: "nameNext n' = nameNext n" "nkey n' = nkey n" "keyNext n' = keyNext n"
    using assms by (auto simp: insertLeaf_def Let_def split: principal.splits)
  then have "child n' t = child n t" for t by (cases t) simp_all
  then show "child n' = child n" by blast
  show "wf_node n' \<longleftrightarrow> wf_node n" by (simp add: wf_node_iff [of n] wf_node_iff [of n'] eq)
qed

lemma tokInsert_ok:
  assumes "wf_node n" "tokInsert n ts r = (n', None)" "list_all keyNamed ts"
  shows "wf_node n' \<and> dataAt (Some n') q =
           (if q = ts then addRule r (dataAt (Some n) q) else dataAt (Some n) q)"
  using assms
proof (induction n ts r arbitrary: n' q rule: tokInsert.induct)
  case (1 n r)
  then have leaf: "insertLeaf n r = (n', None)" by simp
  show ?case using insertLeaf_ok [OF leaf] "1.prems"(1) by (cases q) simp_all
next
  case (2 n x ts r)
  obtain c where c: "tokInsert (childOr (nameNext n x)) ts r = (c, None)"
    and n': "n' = setNameNext n x c"
    using "2.prems"(2) by (cases "tokInsert (childOr (nameNext n x)) ts r") (auto simp: Let_def)
  have "wf_node (childOr (nameNext n x))"
    using "2.prems"(1) by (auto intro!: wf_childOr simp: wf_node_iff [of n])
  note IH = "2.IH" [OF this c]
  have wf: "wf_node n'" using IH "2.prems" n' by (simp add: wf_setNameNext)
  show ?case
  proof (cases q)
    case Nil
    with wf n' show ?thesis by simp
  next
    case (Cons t q')
    with wf n' IH [of q'] "2.prems"(3) show ?thesis by auto
  qed
next
  case (3 n k v ts r)
  have nk: "nkey n = [] \<or> nkey n = k"
    using "3.prems"(2) by (auto split: if_splits)
  obtain c where c: "tokInsert (childOr (keyNext n v)) ts r = (c, None)"
    and n': "n' = setKeyNext n k v c"
    using "3.prems"(2) nk by (cases "tokInsert (childOr (keyNext n v)) ts r") (auto simp: Let_def split: if_splits)
  have k: "k \<noteq> []" using "3.prems"(3) by simp
  have "wf_node (childOr (keyNext n v))"
    using "3.prems"(1) by (auto intro!: wf_childOr simp: wf_node_iff [of n])
  note IH = "3.IH" [OF _ this c]
  have wf: "wf_node n'" using IH [of "[]"] nk k "3.prems" n' by (auto simp: wf_setKeyNext)
  show ?case
  proof (cases q)
    case Nil
    with wf n' show ?thesis by simp
  next
    case (Cons t q')
    have old: "dataAt (keyNext n v) q' = dataAt (child n (TKey k v)) q'"
      using nk k "3.prems"(1) by (auto simp: wf_node_iff [of n])
    have "dataAt (Some c) q' = (if q' = ts then addRule r (dataAt (child n (TKey k v)) q')
        else dataAt (child n (TKey k v)) q')"
      using IH [of q'] nk "3.prems"(3) unfolding old [symmetric] by auto
    with wf n' Cons show ?thesis
      by (auto simp: child_setKeyNext [OF "3.prems"(1) k nk] simp del: child.simps)
  qed
qed

definition ruleKeysNamed :: "auth_rule \<Rightarrow> bool" where
  "ruleKeysNamed r \<longleftrightarrow> list_all keyNamed (pathToks (ar_path r))"

lemma insertRules_ok:
  assumes "wf_node n" "insertRules n rs = Inr root" "list_all ruleKeysNamed rs"
  shows "dataAt (Some root) q =
           fold addRule (filter (\<lambda>r. pathToks (ar_path r) = q) rs) (dataAt (Some n) q)"
  using assms
proof (induction rs arbitrary: n)
  case Nil
  then show ?case by simp
next
  case (Cons r rs)
  obtain n' where ins: "insertPath n r 0 [] 0 = (n', None)" and rest: "insertRules n' rs = Inr root"
    using Cons.prems(2) by (auto split: prod.splits option.splits)
  have "tokInsert n (pathToks (ar_path r)) r = (n', None)"
    using ins insertPath_tokInsert [of r 0 "[]" 0 n] by (simp add: restToks_def)
  from tokInsert_ok [OF Cons.prems(1) this] Cons.prems(3)
  have "wf_node n'" and "dataAt (Some n') q =
      (if q = pathToks (ar_path r) then addRule r (dataAt (Some n) q) else dataAt (Some n) q)"
    by (auto simp: ruleKeysNamed_def)
  with Cons.IH [OF _ rest] Cons.prems(3) show ?case by auto
qed

lemma printPath_printToks: "printPath p = printToks (pathToks p)"
proof -
  have "print_keys (pe_key e) = concat (map printTok (keyToks e (sort (map fst (pe_key e)))))" for e
    by (simp add: print_keys_def keyToks_def comp_def)
  then have "concat (map (\<lambda>e. ''/'' @ pe_name e @ print_keys (pe_key e)) p) =
      concat (map printTok (pathToks p))"
    by (induction p) (simp_all add: elemToks_def)
  then show ?thesis by (simp add: printPath_def printToks_def Let_def)
qed

lemma fold_addRule:
  "fold addRule R (us, gs, rl) =
     (fold addUserRule R us, fold addGroupRule R gs,
      if R = [] then rl else printPath (ar_path (last R)))"
  by (induction R arbitrary: us gs rl) (simp_all add: addRule_def)

lemma updateResult_cases:
  "ret = noResult \<or> matched ret \<Longrightarrow> rl \<noteq> [] \<Longrightarrow>
   fst (updateResult ret p m rl) = noResult \<or> matched (fst (updateResult ret p m rl))"
  by (cases m) (auto simp: updateResult_def matched_def Let_def)

lemma checkGroups_cases:
  assumes "ret = noResult \<or> matched ret" "rl \<noteq> []"
  shows "checkGroups grps user m rl gs ret = noResult \<or> matched (checkGroups grps user m rl gs ret)"
  using assms(1)
proof (induction gs arbitrary: ret)
  case (Cons gp gs)
  obtain g p where gp: "gp = (g, p)" by fastforce
  have upd: "fst (updateResult ret p m rl) = noResult \<or> matched (fst (updateResult ret p m rl))"
    using Cons.prems assms(2) by (rule updateResult_cases)
  show ?case
  proof (cases "grps g")
    case None
    then show ?thesis using Cons.IH [OF Cons.prems] gp by simp
  next
    case (Some members)
    then show ?thesis using Cons.IH [OF Cons.prems] Cons.IH [OF upd] upd gp by (simp add: Let_def)
  qed
qed simp

lemma localResult_cases:
  assumes "rule n \<noteq> []"
  shows "localResult n user m grps = noResult \<or> matched (localResult n user m grps)"
proof -
  define ret where "ret = (case users n user of Some p \<Rightarrow> fst (updateResult noResult p m (rule n))
                           | None \<Rightarrow> noResult)"
  have ret: "ret = noResult \<or> matched ret"
    using updateResult_cases [of noResult, OF _ assms] by (simp add: ret_def split: option.splits)
  have "localResult n user m grps = (if matched ret then ret
      else checkGroups grps user m (rule n) (groups n) ret)"
    by (auto simp: localResult_def ret_def [symmetric] Let_def matched_def)
  moreover have "checkGroups grps user m (rule n) (groups n) noResult = noResult \<or>
      matched (checkGroups grps user m (rule n) (groups n) noResult)"
    by (rule checkGroups_cases [OF _ assms]) simp
  ultimately show ?thesis using ret by auto
qed

lemma printToks_nonempty [simp]: "printToks q \<noteq> []"
  by (simp add: printToks_def Let_def)

lemma ruleResult_cases:
  "ruleResult rules q user m grps = noResult \<or> matched (ruleResult rules q user m grps)"
  using localResult_cases by (simp add: ruleResult_def Let_def)

lemma localResult_data:
  assumes "nodeData n = nodeData n'"
  shows "localResult n user m grps = localResult n' user m grps"
proof -
  from assms have eq: "users n = users n'" "groups n = groups n'" "rule n = rule n'"
    by (simp_all add: nodeData_def)
  show ?thesis unfolding localResult_def eq ..
qed

lemma localResult_emptyNode [simp]: "localResult emptyNode user m grps = noResult"
  by (simp add: localResult_def emptyNode_def)

lemma localAt_ruleResult:
  assumes "createPolicies rules = Inr root" "list_all ruleKeysNamed rules"
  shows "localAt (Some root) q user m grps = ruleResult rules q user m grps"
proof -
  let ?R = "filter (\<lambda>r. pathToks (ar_path r) = q) rules"
  have ins: "insertRules emptyNode rules = Inr root"
    using assms(1) by (simp add: createPolicies_def split: if_splits)
  have d: "dataAt (Some root) q = fold addRule ?R (nodeData emptyNode)"
    using insertRules_ok [OF wf_emptyNode ins assms(2), of q] by simp
  have "last ?R \<in> set ?R" if "?R \<noteq> []" using that by (rule last_in_set)
  then have pr: "?R \<noteq> [] \<Longrightarrow> printPath (ar_path (last ?R)) = printToks q"
    by (simp add: printPath_printToks)
  have le: "localAt (Some root) q user m grps = localResult n user m grps"
    if "dataAt (Some root) q = nodeData n" for n
  proof (cases "nodeAt (Some root) q")
    case None
    with that show ?thesis using localResult_data [of emptyNode n user m grps]
      by (simp add: localAt_def dataAt_def)
  next
    case (Some c)
    with that show ?thesis using localResult_data [of c n user m grps]
      by (simp add: localAt_def dataAt_def)
  qed
  show ?thesis
  proof (cases "?R = []")
    case True
    with d have "dataAt (Some root) q = nodeData emptyNode" by simp
    from le [OF this] True show ?thesis by (simp add: ruleResult_def)
  next
    case False
    let ?n = "Node (fold addUserRule ?R (\<lambda>_. None)) (fold addGroupRule ?R []) (printToks q)
                (\<lambda>_. None) [] (\<lambda>_. None)"
    have "dataAt (Some root) q = nodeData ?n"
      using d False pr by (simp add: fold_addRule nodeData_def emptyNode_def)
    from le [OF this] False show ?thesis by (simp add: ruleResult_def Let_def)
  qed
qed

text \<open>The look-up in the trie built from a list of rules is the specification on the rules.\<close>

lemma authorize_specAuthorize:
  assumes "createPolicies rules = Inr root" "list_all ruleKeysNamed rules"
  shows "authorize (Some root) user path m 0 [] 0 grps = specAuthorize rules grps user m path"
proof -
  have "authorize (Some root) user path m 0 [] 0 grps = tokAuthorize (Some root) (pathToks path) user m grps"
    using authorize_tokAuthorize [of path 0 "[]" 0 "Some root" user m grps] by (simp add: restToks_def)
  also have "\<dots> = foldr (\<lambda>q. orElse (localAt (Some root) q user m grps)) (patterns (pathToks path)) noResult"
    by (rule tokAuthorize_patterns) (metis localAt_ruleResult [OF assms] ruleResult_cases)
  finally show ?thesis by (simp add: specAuthorize_def localAt_ruleResult [OF assms])
qed

section \<open>What the permissions of a path mean\<close>

definition access :: "permission \<Rightarrow> mode \<Rightarrow> ruleAction" where
  "access p m = (case m of MODE_READ \<Rightarrow> perm_read p | MODE_WRITE \<Rightarrow> perm_write p | _ \<Rightarrow> noRuleAction)"

definition permOf :: "principal \<Rightarrow> auth_rule list \<Rightarrow> permission option" where
  "permOf pr R = fold (\<lambda>r acc. if ar_principal r = pr then Some (applyRule r acc) else acc) R None"

definition accessOf :: "principal \<Rightarrow> auth_rule list \<Rightarrow> mode \<Rightarrow> ruleAction" where
  "accessOf pr R m = (case permOf pr R of Some p \<Rightarrow> access p m | None \<Rightarrow> noRuleAction)"

text \<open>\<open>configured R pr m a i\<close>: some rule of \<open>R\<close> gives the principal this action in this mode.\<close>

definition configured :: "auth_rule list \<Rightarrow> principal \<Rightarrow> mode \<Rightarrow> action \<Rightarrow> string \<Rightarrow> bool" where
  "configured R pr m a i \<longleftrightarrow>
     (\<exists>r \<in> set R. ar_principal r = pr \<and> ar_mode r = m \<and> ar_action r = a \<and> ar_id r = i)"

lemma permOf_snoc:
  "permOf pr (R @ [r]) = (if ar_principal r = pr then Some (applyRule r (permOf pr R)) else permOf pr R)"
  by (simp add: permOf_def)

lemma permOf_Nil [simp]: "permOf pr [] = None"
  by (simp add: permOf_def)

lemma users_permOf: "fold addUserRule R (\<lambda>_. None) u = permOf (User u) R"
  by (induction R rule: rev_induct) (auto simp: permOf_snoc addUserRule_def split: principal.splits)

lemma groups_permOf: "gm_get (fold addGroupRule R []) g = permOf (Group g) R"
  by (induction R rule: rev_induct) (auto simp: permOf_snoc addGroupRule_def update_conv' split: principal.splits)

lemma groups_distinct: "distinct (map fst (fold addGroupRule R []))"
  by (induction R rule: rev_induct) (auto simp: addGroupRule_def distinct_update split: principal.splits)

lemma access_noPermission [simp]: "access noPermission m = noRuleAction"
  by (cases m) (simp_all add: access_def noPermission_def)

lemma access_applyRule:
  assumes "m = MODE_READ \<or> m = MODE_WRITE"
  shows "access (applyRule r po) m =
     (let old = (case po of Some p \<Rightarrow> access p m | None \<Rightarrow> noRuleAction)
      in if ar_action r = ACTION_UNSPECIFIED \<or> ar_mode r \<noteq> m then old
         else setRuleAction (ar_action r) (ar_id r) old)"
  using assms
  by (cases "ar_mode r"; cases po)
     (auto simp: applyRule_def updatePermission_def access_def Let_def noPermission_def)

lemma accessOf_snoc:
  assumes "m = MODE_READ \<or> m = MODE_WRITE"
  shows "accessOf pr (R @ [r]) m =
     (if ar_principal r = pr \<and> ar_action r \<noteq> ACTION_UNSPECIFIED \<and> ar_mode r = m
      then setRuleAction (ar_action r) (ar_id r) (accessOf pr R m) else accessOf pr R m)"
  using access_applyRule [OF assms, of r "permOf pr R"]
  by (auto simp: accessOf_def permOf_snoc Let_def split: option.splits)

lemma accessOf_sound:
  assumes "m = MODE_READ \<or> m = MODE_WRITE" "ra_action (accessOf pr R m) \<noteq> ACTION_UNSPECIFIED"
  shows "configured R pr m (ra_action (accessOf pr R m)) (ra_ruleId (accessOf pr R m))"
  using assms(2)
proof (induction R rule: rev_induct)
  case Nil
  then show ?case by (simp add: accessOf_def noRuleAction_def)
next
  case (snoc r R)
  then show ?case
    by (auto simp: accessOf_snoc [OF assms(1)] setRuleAction_def configured_def split: if_splits)
qed

lemma accessOf_deny:
  assumes "m = MODE_READ \<or> m = MODE_WRITE" "configured R pr m ACTION_DENY i"
  shows "ra_action (accessOf pr R m) = ACTION_DENY"
  using assms(2)
proof (induction R rule: rev_induct)
  case Nil
  then show ?case by (simp add: configured_def)
next
  case (snoc r R)
  then show ?case
    by (auto simp: accessOf_snoc [OF assms(1)] setRuleAction_def configured_def)
qed

lemma updateResult_access:
  assumes "m = MODE_READ \<or> m = MODE_WRITE"
  shows "fst (updateResult res p m rl) =
     (if r_action res = ACTION_DENY \<or> ra_action (access p m) = ACTION_UNSPECIFIED then res
      else res\<lparr>r_action := ra_action (access p m), r_ruleId := ra_ruleId (access p m), r_matchedRule := rl\<rparr>)"
  using assms by (auto simp: updateResult_def access_def Let_def)

lemma checkGroups_sound:
  assumes "m = MODE_READ \<or> m = MODE_WRITE"
    and "r_action (checkGroups grps user m rl gs ret) \<noteq> r_action ret
         \<or> r_ruleId (checkGroups grps user m rl gs ret) \<noteq> r_ruleId ret"
  shows "\<exists>g p mem. (g, p) \<in> set gs \<and> grps g = Some mem \<and> user \<in> mem \<and>
           ra_action (access p m) = r_action (checkGroups grps user m rl gs ret) \<and>
           ra_ruleId (access p m) = r_ruleId (checkGroups grps user m rl gs ret) \<and>
           ra_action (access p m) \<noteq> ACTION_UNSPECIFIED"
  using assms(2)
proof (induction gs arbitrary: ret)
  case Nil
  then show ?case by simp
next
  case (Cons gp gs)
  obtain g p where gp: "gp = (g, p)" by fastforce
  let ?r' = "fst (updateResult ret p m rl)"
  show ?case
  proof (cases "\<exists>mem. grps g = Some mem \<and> user \<in> mem")
    case False
    then have "checkGroups grps user m rl (gp # gs) ret = checkGroups grps user m rl gs ret"
      by (auto simp: gp split: option.splits)
    with Cons show ?thesis by (metis list.set_intros(2))
  next
    case True
    then obtain mem where mem: "grps g = Some mem" "user \<in> mem" by blast
    define fin where "fin = checkGroups grps user m rl (gp # gs) ret"
    have fin: "fin = ?r' \<or> fin = checkGroups grps user m rl gs ?r'"
      by (simp add: fin_def gp mem Let_def)
    show ?thesis
    proof (cases "r_action fin = r_action ?r' \<and> r_ruleId fin = r_ruleId ?r'")
      case True
      with Cons.prems have "r_action ?r' \<noteq> r_action ret \<or> r_ruleId ?r' \<noteq> r_ruleId ret"
        by (simp add: fin_def)
      with True mem show ?thesis
        unfolding fin_def [symmetric]
        by (intro exI [of _ g] exI [of _ p] exI [of _ mem])
           (auto simp: gp updateResult_access [OF assms(1)] split: if_splits)
    next
      case False
      with fin have "fin = checkGroups grps user m rl gs ?r'" by auto
      with False Cons.IH [of ?r'] show ?thesis
        unfolding fin_def [symmetric] by (metis list.set_intros(2))
    qed
  qed
qed

text \<open>Whatever the iteration order over the groups, a deny of one group decides, then a permit.\<close>

definition memberAction :: "user_groups \<Rightarrow> string \<Rightarrow> mode \<Rightarrow> (string \<times> permission) list \<Rightarrow> action \<Rightarrow> bool" where
  "memberAction grps user m gs a \<longleftrightarrow>
     (\<exists>(g, p) \<in> set gs. (\<exists>mem. grps g = Some mem \<and> user \<in> mem) \<and> ra_action (access p m) = a)"

definition knownActions :: "mode \<Rightarrow> (string \<times> permission) list \<Rightarrow> bool" where
  "knownActions m gs \<longleftrightarrow>
     list_all (\<lambda>(g, p). ra_action (access p m) \<in> {ACTION_UNSPECIFIED, ACTION_DENY, ACTION_PERMIT}) gs"

lemma checkGroups_action:
  assumes "m = MODE_READ \<or> m = MODE_WRITE" "rl \<noteq> []" "knownActions m gs"
    and "r_action ret = ACTION_UNSPECIFIED \<or> r_action ret = ACTION_PERMIT \<and> r_matchedRule ret \<noteq> []"
  shows "r_action (checkGroups grps user m rl gs ret) =
     (if memberAction grps user m gs ACTION_DENY then ACTION_DENY
      else if memberAction grps user m gs ACTION_PERMIT then ACTION_PERMIT else r_action ret)"
  using assms(3,4)
proof (induction gs arbitrary: ret)
  case Nil
  then show ?case by (simp add: memberAction_def)
next
  case (Cons gp gs)
  obtain g p where gp: "gp = (g, p)" by fastforce
  have known: "knownActions m gs"
    "ra_action (access p m) \<in> {ACTION_UNSPECIFIED, ACTION_DENY, ACTION_PERMIT}"
    using Cons.prems(1) by (auto simp: knownActions_def gp)
  show ?case
  proof (cases "\<exists>mem. grps g = Some mem \<and> user \<in> mem")
    case False
    then have "checkGroups grps user m rl (gp # gs) ret = checkGroups grps user m rl gs ret"
      by (auto simp: gp split: option.splits)
    with False Cons.IH [OF known(1) Cons.prems(2)] show ?thesis
      by (auto simp: memberAction_def gp)
  next
    case True
    then obtain mem where mem: "grps g = Some mem" "user \<in> mem" by blast
    let ?r' = "fst (updateResult ret p m rl)"
    have r': "r_action ?r' = (if ra_action (access p m) = ACTION_UNSPECIFIED then r_action ret
        else ra_action (access p m))" "r_action ?r' \<noteq> ACTION_UNSPECIFIED \<Longrightarrow> r_matchedRule ?r' \<noteq> []"
      using Cons.prems(2) assms(2) by (auto simp: updateResult_access [OF assms(1)])
    show ?thesis
    proof (cases "ra_action (access p m) = ACTION_DENY")
      case True
      with r' mem show ?thesis by (auto simp: gp Let_def memberAction_def)
    next
      case False
      with r' mem known(2) Cons.prems(2)
      have "checkGroups grps user m rl (gp # gs) ret = checkGroups grps user m rl gs ?r'"
        by (auto simp: gp Let_def split: if_splits)
      moreover have "r_action ?r' = ACTION_UNSPECIFIED \<or> r_action ?r' = ACTION_PERMIT \<and> r_matchedRule ?r' \<noteq> []"
        using False r' known(2) Cons.prems(2) by (auto split: if_splits)
      ultimately show ?thesis
        using Cons.IH [OF known(1), of ?r'] r' False known(2) mem
        by (auto simp: memberAction_def gp split: if_splits)
    qed
  qed
qed

lemma ruleResult_user:
  assumes "m = MODE_READ \<or> m = MODE_WRITE"
    and "ra_action (accessOf (User user) (filter (\<lambda>r. pathToks (ar_path r) = q) rules) m) \<noteq> ACTION_UNSPECIFIED"
  shows "ruleResult rules q user m grps =
     \<lparr>r_action = ra_action (accessOf (User user) (filter (\<lambda>r. pathToks (ar_path r) = q) rules) m),
      r_ruleId = ra_ruleId (accessOf (User user) (filter (\<lambda>r. pathToks (ar_path r) = q) rules) m),
      r_matchedRule = printToks q\<rparr>"
  using assms
  by (auto simp: ruleResult_def localResult_def users_permOf accessOf_def noRuleAction_def noResult_def
      updateResult_access [OF assms(1)] Let_def split: option.splits)

lemma ruleResult_sound:
  assumes m: "m = MODE_READ \<or> m = MODE_WRITE"
    and ne: "r_action (ruleResult rules q user m grps) \<noteq> ACTION_UNSPECIFIED"
  obtains r where "r \<in> set rules" "pathToks (ar_path r) = q" "ar_mode r = m"
    "ar_action r = r_action (ruleResult rules q user m grps)"
    "ar_id r = r_ruleId (ruleResult rules q user m grps)"
    "ar_principal r = User user \<or>
      (\<exists>g mem. ar_principal r = Group g \<and> grps g = Some mem \<and> user \<in> mem)"
proof -
  let ?R = "filter (\<lambda>r. pathToks (ar_path r) = q) rules"
  let ?res = "ruleResult rules q user m grps"
  note ext = that
  have found: thesis if "configured ?R pr m (r_action ?res) (r_ruleId ?res)"
    "pr = User user \<or> (\<exists>g mem. pr = Group g \<and> grps g = Some mem \<and> user \<in> mem)" for pr
  proof -
    from that(1) obtain r where "r \<in> set rules" "pathToks (ar_path r) = q" "ar_mode r = m"
      "ar_action r = r_action ?res" "ar_id r = r_ruleId ?res" "ar_principal r = pr"
      by (auto simp: configured_def)
    with that(2) show thesis by (intro ext [of r]) simp_all
  qed
  show thesis
  proof (cases "ra_action (accessOf (User user) ?R m) = ACTION_UNSPECIFIED")
    case False
    with accessOf_sound [OF m False] show thesis
      by (intro found [of "User user"]) (simp_all add: ruleResult_user [OF m])
  next
    case True
    let ?gs = "fold addGroupRule ?R []"
    have R: "?R \<noteq> []" using ne by (auto simp: ruleResult_def noResult_def)
    have ret: "(case permOf (User user) ?R of
        Some p \<Rightarrow> fst (updateResult noResult p m (printToks q)) | None \<Rightarrow> noResult) = noResult"
      using True by (auto simp: accessOf_def updateResult_access [OF m] noResult_def split: option.splits)
    have res: "?res = checkGroups grps user m (printToks q) ?gs noResult"
      using R ret by (simp add: ruleResult_def localResult_def users_permOf Let_def cong: option.case_cong)
        (simp add: noResult_def)
    have "r_action ?res \<noteq> r_action noResult" using ne by (simp add: noResult_def)
    with checkGroups_sound [OF m, of grps user "printToks q" ?gs noResult]
    obtain g p mem where g: "(g, p) \<in> set ?gs" "grps g = Some mem" "user \<in> mem"
      "ra_action (access p m) = r_action ?res" "ra_ruleId (access p m) = r_ruleId ?res"
      unfolding res by blast
    have "permOf (Group g) ?R = Some p"
      using g(1) groups_distinct [of ?R] by (simp add: groups_permOf [symmetric])
    then have acc: "accessOf (Group g) ?R m = access p m" by (simp add: accessOf_def)
    have "configured ?R (Group g) m (r_action ?res) (r_ruleId ?res)"
      using accessOf_sound [OF m, of "Group g" ?R] g(4,5) ne by (simp add: acc)
    then show thesis by (rule found) (use g(2,3) in blast)
  qed
qed

lemma hd_patterns: "\<exists>qs. patterns ts = ts # qs"
  by (induction ts rule: patterns.induct) auto

lemma foldr_orElse_in:
  "foldr (\<lambda>q. orElse (f q)) qs noResult \<noteq> noResult \<Longrightarrow>
   \<exists>q \<in> set qs. foldr (\<lambda>q. orElse (f q)) qs noResult = f q \<and> matched (f q)"
  by (induction qs) (auto simp: orElse_def)

section \<open>The contract of the processor\<close>

text \<open>\<^verbatim>\<open>GnmiAuthzProcessorInterface\<close>, as its clients rely on it.\<close>

locale authz_processor =
  fixes update :: "'p \<Rightarrow> policy option \<Rightarrow> 'p \<times> goerr option"
    and get :: "'p \<Rightarrow> policy option"
    and auth :: "'p \<Rightarrow> string \<Rightarrow> gpath option \<Rightarrow> gpath option \<Rightarrow> mode \<Rightarrow> goerr + result"
    and new :: "'p"
  assumes update_error: "update p po = (p', Some e) \<Longrightarrow> p' = p"
    and update_get: "update p po = (p', None) \<Longrightarrow> get p' = po"
    and update_nil: "update p None \<noteq> (p', None)"
    and update_auth: "update p po = (p1, None) \<Longrightarrow> update q po = (q1, None) \<Longrightarrow> auth p1 = auth q1"
    and update_again: "update p po = (p1, None) \<Longrightarrow> \<exists>q1. update q po = (q1, None)"
    and get_new: "get new = None"
begin

text \<open>Installing the policy that was active before brings the same decisions back.\<close>

lemma reinstall:
  assumes "update p po = (p1, None)"
  shows "\<exists>q1. update q (get p1) = (q1, None) \<and> get q1 = po \<and> auth q1 = auth p1"
proof -
  from update_again [OF assms] obtain q1 where q1: "update q po = (q1, None)" by blast
  with update_get [OF assms] update_get [OF q1] update_auth [OF q1 assms] show ?thesis by blast
qed

text \<open>A processor that never held a policy cannot be taken back to that state.\<close>

lemma reinstall_none:
  assumes "get p0 = None"
  shows "\<exists>e. update q (get p0) = (q, Some e)"
proof (cases "update q (get p0)")
  case (Pair q' eo)
  with assms update_nil [of q q'] obtain e where e: "eo = Some e" by (cases eo) auto
  with Pair update_error [of q "get p0" q' e] show ?thesis by simp
qed

end

interpretation pz: authz_processor UpdatePolicyFromProto GetPolicy AuthorizeWithPrefix newProcessor
proof unfold_locales
  show "UpdatePolicyFromProto p po = (p', Some e) \<Longrightarrow> p' = p" for p po p' e
    by (auto simp: UpdatePolicyFromProto_def split: sum.splits)
  show "UpdatePolicyFromProto p po = (p', None) \<Longrightarrow> GetPolicy p' = po" for p po p'
    by (auto simp: UpdatePolicyFromProto_def GetPolicy_def split: sum.splits)
  show "UpdatePolicyFromProto p None \<noteq> (p', None)" for p p'
    by (simp add: UpdatePolicyFromProto_def createNewPolicy_def createPolicies_def)
  show "UpdatePolicyFromProto p po = (p1, None) \<Longrightarrow> UpdatePolicyFromProto q po = (q1, None) \<Longrightarrow>
      AuthorizeWithPrefix p1 = AuthorizeWithPrefix q1" for p po p1 q q1
    by (auto simp: UpdatePolicyFromProto_def AuthorizeWithPrefix_def fun_eq_iff split: sum.splits)
  show "UpdatePolicyFromProto p po = (p1, None) \<Longrightarrow> \<exists>q1. UpdatePolicyFromProto q po = (q1, None)" for p po p1 q
    by (auto simp: UpdatePolicyFromProto_def split: sum.splits)
  show "GetPolicy newProcessor = None"
    by (simp add: GetPolicy_def newProcessor_def)
qed

section \<open>Properties\<close>

text \<open>A policy with a permit on a keyed path, a deny below it and a group rule with a wild card.\<close>

definition demoElem :: "string \<Rightarrow> path_elem" where
  "demoElem n = \<lparr>pe_name = n, pe_key = []\<rparr>"

definition demoPort :: "string \<Rightarrow> path_elem" where
  "demoPort v = \<lparr>pe_name = ''port'', pe_key = [(''id'', v)]\<rparr>"

definition demoPolicy :: policy where
  "demoPolicy = \<lparr>pol_rules =
      [\<lparr>ar_id = ''r1'', ar_path = [demoPort ''1''], ar_principal = User ''alice'',
        ar_action = ACTION_PERMIT, ar_mode = MODE_READ\<rparr>,
       \<lparr>ar_id = ''r2'', ar_path = [demoPort ''1'', demoElem ''mtu''], ar_principal = User ''alice'',
        ar_action = ACTION_DENY, ar_mode = MODE_READ\<rparr>,
       \<lparr>ar_id = ''r3'', ar_path = [demoPort ''*''], ar_principal = Group ''ops'',
        ar_action = ACTION_PERMIT, ar_mode = MODE_READ\<rparr>],
     pol_groups = [\<lparr>gp_name = ''ops'', gp_users = [''bob'']\<rparr>]\<rparr>"

definition demoPath :: "path_elem list \<Rightarrow> gpath option" where
  "demoPath es = Some \<lparr>p_origin = [], p_target = [], p_elem = es\<rparr>"

lemmas demo_defs = demoPolicy_def demoElem_def demoPort_def demoPath_def

lemma demoPolicy_ok:
  "snd (UpdatePolicyFromProto newProcessor (Some demoPolicy)) = None"
  by (simp add: demo_defs UpdatePolicyFromProto_def createNewPolicy_def createPolicies_def
      insertPath.simps insertLeaf_def childOr_def emptyNode_def setKeyNext_def setNameNext_def Let_def)

lemma demoPolicy_named: "list_all ruleKeysNamed (pol_rules demoPolicy)"
  by (simp add: demo_defs ruleKeysNamed_def pathToks_def elemToks_def keyToks_def)

lemma demoPolicy_update:
  "UpdatePolicyFromProto newProcessor (Some demoPolicy) =
     (fst (UpdatePolicyFromProto newProcessor (Some demoPolicy)), None)"
  using demoPolicy_ok by (metis prod.collapse)

lemma AuthorizeWithPrefix_spec:
  assumes "UpdatePolicyFromProto pr (Some pol) = (pr', None)"
    and "list_all ruleKeysNamed (pol_rules pol)"
    and "m \<noteq> MODE_UNSPECIFIED"
  shows "AuthorizeWithPrefix pr' user pre path m =
           Inr (specAuthorize (pol_rules pol) (createGroups (pol_groups pol)) user m
                  (GetElem pre @ GetElem path))"
  using assms authorize_specAuthorize [OF _ assms(2)]
  by (auto simp: UpdatePolicyFromProto_def createNewPolicy_def AuthorizeWithPrefix_def split: sum.splits)

lemma demoPolicy_permit:
  "specAuthorize (pol_rules demoPolicy) (createGroups (pol_groups demoPolicy)) ''alice'' MODE_READ
     [demoPort ''1'', demoElem ''speed''] =
   \<lparr>r_action = ACTION_PERMIT, r_ruleId = ''r1'', r_matchedRule = ''/port[id=1]''\<rparr>"
  by (simp add: specAuthorize_def demo_defs pathToks_def elemToks_def keyToks_def wildCard_def
      ruleResult_def localResult_def updateResult_def noResult_def addUserRule_def addGroupRule_def
      applyRule_def updatePermission_def setRuleAction_def noPermission_def noRuleAction_def
      orElse_def matched_def printToks_def Let_def)

text \<open>C1. The processor decides every request as the rules of its policy say: once a policy whose
  rules have named keys is installed, the trie look-up for a path gives the result of the first
  pattern of that path (longest first, exact key value before the wild card) for which the rules
  with exactly this path decide.\<close>

theorem authorize_implements_rules:
  assumes "UpdatePolicyFromProto pr (Some pol) = (pr', None)"
    and "list_all ruleKeysNamed (pol_rules pol)"
    and "m \<noteq> MODE_UNSPECIFIED"
  shows "AuthorizeWithPrefix pr' user pre path m =
           Inr (specAuthorize (pol_rules pol) (createGroups (pol_groups pol)) user m
                  (GetElem pre @ GetElem path))"
  using assms by (rule AuthorizeWithPrefix_spec)

theorem authorize_implements_rules_witness:
  "AuthorizeWithPrefix (fst (UpdatePolicyFromProto newProcessor (Some demoPolicy))) ''alice'' None
     (demoPath [demoPort ''1'', demoElem ''speed'']) MODE_READ =
   Inr \<lparr>r_action = ACTION_PERMIT, r_ruleId = ''r1'', r_matchedRule = ''/port[id=1]''\<rparr>"
  using authorize_implements_rules [OF demoPolicy_update demoPolicy_named, of MODE_READ "''alice''" None
      "demoPath [demoPort ''1'', demoElem ''speed'']"] demoPolicy_permit
  by (simp add: GetElem_def demoPath_def)

text \<open>C2. Nothing is permitted without a rule: when the processor permits a read or a write, its policy
  has a permit rule for that mode, whose path is a pattern of the request path and whose principal is
  the user or a group the user belongs to, and the result names that rule.\<close>

theorem permit_needs_rule:
  assumes "UpdatePolicyFromProto pr (Some pol) = (pr', None)"
    and "list_all ruleKeysNamed (pol_rules pol)"
    and "m = MODE_READ \<or> m = MODE_WRITE"
    and "AuthorizeWithPrefix pr' user pre path m = Inr res" and "r_action res = ACTION_PERMIT"
  shows "\<exists>r \<in> set (pol_rules pol). ar_action r = ACTION_PERMIT \<and> ar_mode r = m \<and> ar_id r = r_ruleId res \<and>
           pathToks (ar_path r) \<in> set (patterns (pathToks (GetElem pre @ GetElem path))) \<and>
           (ar_principal r = User user \<or>
            (\<exists>g mem. ar_principal r = Group g \<and> createGroups (pol_groups pol) g = Some mem \<and> user \<in> mem))"
proof -
  let ?rules = "pol_rules pol" and ?grps = "createGroups (pol_groups pol)"
  let ?qs = "patterns (pathToks (GetElem pre @ GetElem path))"
  have res: "res = foldr (\<lambda>q. orElse (ruleResult ?rules q user m ?grps)) ?qs noResult"
    using AuthorizeWithPrefix_spec [OF assms(1,2), of m user pre path] assms(3,4)
    by (auto simp: specAuthorize_def)
  moreover have "res \<noteq> noResult" using assms(5) by (auto simp: noResult_def)
  ultimately obtain q where q: "q \<in> set ?qs" "res = ruleResult ?rules q user m ?grps"
    using foldr_orElse_in by metis
  with assms(5) have "r_action (ruleResult ?rules q user m ?grps) \<noteq> ACTION_UNSPECIFIED" by simp
  from ruleResult_sound [OF assms(3) this] q assms(5) show ?thesis by metis
qed

theorem permit_needs_rule_witness:
  "\<exists>r \<in> set (pol_rules demoPolicy). ar_action r = ACTION_PERMIT \<and> ar_mode r = MODE_READ \<and> ar_id r = ''r1'' \<and>
     pathToks (ar_path r) \<in> set (patterns (pathToks [demoPort ''1'', demoElem ''speed''])) \<and>
     (ar_principal r = User ''alice'' \<or>
      (\<exists>g mem. ar_principal r = Group g \<and> createGroups (pol_groups demoPolicy) g = Some mem \<and> ''alice'' \<in> mem))"
  using permit_needs_rule [OF demoPolicy_update demoPolicy_named, of MODE_READ "''alice''" None
      "demoPath [demoPort ''1'', demoElem ''speed'']"] demoPolicy_permit
    AuthorizeWithPrefix_spec [OF demoPolicy_update demoPolicy_named]
  by (simp add: GetElem_def demoPath_def)

text \<open>C3. A deny rule for exactly the requested path and user always denies: no other rule, whatever its
  order in the policy, its action or its wild cards, and no group membership lifts it.\<close>

theorem exact_deny_denies:
  assumes "UpdatePolicyFromProto pr (Some pol) = (pr', None)"
    and "list_all ruleKeysNamed (pol_rules pol)"
    and "m = MODE_READ \<or> m = MODE_WRITE"
    and "r \<in> set (pol_rules pol)" "ar_principal r = User user" "ar_action r = ACTION_DENY" "ar_mode r = m"
    and "ar_path r = GetElem pre @ GetElem path"
  shows "\<exists>i. AuthorizeWithPrefix pr' user pre path m =
     Inr \<lparr>r_action = ACTION_DENY, r_ruleId = i, r_matchedRule = PrintPathWithPrefix pre path\<rparr>"
proof -
  let ?q = "pathToks (GetElem pre @ GetElem path)"
  let ?R = "filter (\<lambda>r. pathToks (ar_path r) = ?q) (pol_rules pol)"
  let ?res = "ruleResult (pol_rules pol) ?q user m (createGroups (pol_groups pol))"
  have "configured ?R (User user) m ACTION_DENY (ar_id r)"
    using assms(4-8) by (auto simp: configured_def)
  then have deny: "ra_action (accessOf (User user) ?R m) = ACTION_DENY"
    by (rule accessOf_deny [OF assms(3)])
  have res: "?res = \<lparr>r_action = ACTION_DENY, r_ruleId = ra_ruleId (accessOf (User user) ?R m),
      r_matchedRule = printToks ?q\<rparr>"
    using ruleResult_user [OF assms(3), of user ?q "pol_rules pol"] deny by simp
  then have "matched ?res" by (simp add: matched_def)
  moreover obtain qs where "patterns ?q = ?q # qs" using hd_patterns by blast
  ultimately have "specAuthorize (pol_rules pol) (createGroups (pol_groups pol)) user m
      (GetElem pre @ GetElem path) = ?res"
    by (simp add: specAuthorize_def orElse_def)
  with res AuthorizeWithPrefix_spec [OF assms(1,2), of m user pre path] assms(3) show ?thesis
    by (auto simp: PrintPathWithPrefix_def printPath_printToks)
qed

theorem exact_deny_denies_witness:
  "\<exists>i. AuthorizeWithPrefix (fst (UpdatePolicyFromProto newProcessor (Some demoPolicy))) ''alice''
     (demoPath [demoPort ''1'']) (demoPath [demoElem ''mtu'']) MODE_READ =
     Inr \<lparr>r_action = ACTION_DENY, r_ruleId = i,
         r_matchedRule = PrintPathWithPrefix (demoPath [demoPort ''1'']) (demoPath [demoElem ''mtu''])\<rparr>"
  by (rule exact_deny_denies [OF demoPolicy_update demoPolicy_named, where r = "pol_rules demoPolicy ! 1"])
     (simp_all add: demo_defs GetElem_def)

text \<open>The decision does not depend on the iteration order of the map of groups: any two orders of the
  same group permissions give the same action.\<close>

theorem group_order_irrelevant:
  assumes "m = MODE_READ \<or> m = MODE_WRITE" and "rl \<noteq> []" and "knownActions m gs" and "set gs' = set gs"
  shows "r_action (checkGroups grps user m rl gs' noResult) = r_action (checkGroups grps user m rl gs noResult)"
proof -
  have "knownActions m gs'" using assms(3,4) by (simp add: knownActions_def list_all_iff)
  then show ?thesis
    using checkGroups_action [OF assms(1,2)] assms(3,4) by (simp add: memberAction_def noResult_def)
qed

theorem group_order_irrelevant_witness:
  "r_action (checkGroups (\<lambda>_. Some {''bob''}) ''bob'' MODE_READ ''/''
     [(''b'', noPermission\<lparr>perm_read := \<lparr>ra_ruleId = ''d'', ra_action = ACTION_DENY\<rparr>\<rparr>),
      (''a'', noPermission\<lparr>perm_read := \<lparr>ra_ruleId = ''p'', ra_action = ACTION_PERMIT\<rparr>\<rparr>)] noResult) =
   r_action (checkGroups (\<lambda>_. Some {''bob''}) ''bob'' MODE_READ ''/''
     [(''a'', noPermission\<lparr>perm_read := \<lparr>ra_ruleId = ''p'', ra_action = ACTION_PERMIT\<rparr>\<rparr>),
      (''b'', noPermission\<lparr>perm_read := \<lparr>ra_ruleId = ''d'', ra_action = ACTION_DENY\<rparr>\<rparr>)] noResult)"
  by (rule group_order_irrelevant) (auto simp: knownActions_def access_def)

end
