(* ===== verification/Server_Auth.thy ===== *)
theory Server_Auth
  imports Prelude
begin

text \<open>
  Authentication of a request: \<^verbatim>\<open>AuthTypes\<close> and \<^verbatim>\<open>authenticate\<close> of \<^verbatim>\<open>gnmi_server/server.go\<close>, and the three
  mechanisms it tries in order, \<^verbatim>\<open>basicAuth.go\<close> with \<^verbatim>\<open>pamAuth.go\<close>, \<^verbatim>\<open>jwtAuth.go\<close> and \<^verbatim>\<open>clientCertAuth.go\<close> with
  its cache of certificate revocation lists.

  The request context carries one mutable \<^verbatim>\<open>RequestContext\<close> (\<^verbatim>\<open>common_utils/context.go\<close>) that every
  mechanism writes to; it is part of the context here, so what a failed mechanism leaves behind is
  visible to the next one. The user database of the host, the ssh server that checks passwords, the
  token parser, CONFIG_DB, the web server that has the revocation lists and the chain check of
  advancedtls are arguments, collected in the record \<open>authn_env\<close>. The clock is an argument too: a
  sequence of readings, one per call of \<^verbatim>\<open>time.Now\<close>.
\<close>

section \<open>Authentication types\<close>

type_synonym authTypes = "(string, bool) gomap"

definition flagOf :: "authTypes \<Rightarrow> string \<Rightarrow> bool" where
  "flagOf i m = (case gm_get i m of Some b \<Rightarrow> b | None \<Rightarrow> False)"

definition AnyAuth :: "authTypes \<Rightarrow> bool" where
  "AnyAuth i \<longleftrightarrow> \<not> flagOf i ''none'' \<and> list_ex snd i"

definition Enabled :: "authTypes \<Rightarrow> string \<Rightarrow> bool" where
  "Enabled i m \<longleftrightarrow> \<not> flagOf i ''none'' \<and> flagOf i m"

definition AuthTypesString :: "authTypes \<Rightarrow> string" where
  "AuthTypesString i =
     (if flagOf i ''none'' then [] else concat (map (\<lambda>(k, v). if v then k @ '' '' else []) i))"

definition trimBlank :: "string \<Rightarrow> string" where
  "trimBlank = TrimFunc (\<lambda>c. c = CHR '' '')"

definition modesError :: goerr where
  "modesError = Plain (''Expecting one or more of 'cert', 'password' or 'jwt'' @ [CHR 0x27])"

fun setModes :: "string list \<Rightarrow> authTypes \<Rightarrow> authTypes \<times> goerr option" where
  "setModes [] i = (i, None)"
| "setModes (m # ms) i =
     (let m = trimBlank m
      in if m = ''none'' \<or> m = [] then (gm_set ''none'' True i, None)
         else if gm_get i m = None then (i, Some modesError)
         else setModes ms (gm_set m True i))"

definition SetModes :: "authTypes \<Rightarrow> string \<Rightarrow> authTypes \<times> goerr option" where
  "SetModes i mode = setModes (split_char (CHR '','') mode) i"

fun unsetModes :: "string list \<Rightarrow> authTypes \<Rightarrow> authTypes \<times> goerr option" where
  "unsetModes [] i = (i, None)"
| "unsetModes (m # ms) i =
     (let m = trimBlank m
      in if gm_get i m = None then (i, Some modesError)
         else unsetModes ms (gm_set m False i))"

definition UnsetModes :: "authTypes \<Rightarrow> string \<Rightarrow> authTypes \<times> goerr option" where
  "UnsetModes i mode = unsetModes (split_char (CHR '','') mode) i"

section \<open>The request context\<close>

record authInfo =
  au_User :: string
  au_AuthEnabled :: bool
  au_Roles :: "string list"

record requestContext =
  rc_ID :: string
  rc_Auth :: authInfo
  rc_BundleVersion :: "string option"

record certificate =
  crt_CommonName :: string
  crt_CRLDistributionPoints :: "string list"

datatype netAddr = UnixAddr | TCPAddr string

record tlsInfo =
  tls_VerifiedChains :: "certificate list list"
  tls_SPIFFEID :: "string option"

record peerInfo =
  pi_Addr :: "netAddr option"
  pi_TLS :: "tlsInfo option"

text \<open>\<open>cx_requestCounter\<close> is the global counter that numbers the request contexts.\<close>

record ctx =
  cx_peer :: "peerInfo option"
  cx_md :: "(string, string list) gomap option"
  cx_rc :: "requestContext option"
  cx_requestCounter :: "64 word"

definition noAuthInfo :: authInfo where
  "noAuthInfo = \<lparr>au_User = [], au_AuthEnabled = False, au_Roles = []\<rparr>"

definition GetContext :: "ctx \<Rightarrow> requestContext \<times> ctx" where
  "GetContext cx =
     (case cx_rc cx of
        Some rc \<Rightarrow> (rc, cx)
      | None \<Rightarrow>
          let n = cx_requestCounter cx + 1;
              rc = \<lparr>rc_ID = ''TELEMETRY-'' @ FormatNat (unat n), rc_Auth = noAuthInfo, rc_BundleVersion = None\<rparr>
          in (rc, cx\<lparr>cx_rc := Some rc, cx_requestCounter := n\<rparr>))"

definition GetUsername :: "ctx \<Rightarrow> string" where
  "GetUsername cx = au_User (rc_Auth (fst (GetContext cx)))"

text \<open>Reading and writing through the pointer \<^verbatim>\<open>&rc.Auth\<close>.\<close>

definition authOf :: "ctx \<Rightarrow> authInfo" where
  "authOf cx = rc_Auth (fst (GetContext cx))"

definition setAuth :: "authInfo \<Rightarrow> ctx \<Rightarrow> ctx" where
  "setAuth a cx = (case GetContext cx of (rc, cx') \<Rightarrow> cx'\<lparr>cx_rc := Some (rc\<lparr>rc_Auth := a\<rparr>)\<rparr>)"

section \<open>The environment\<close>

record claims =
  cl_Username :: string
  cl_Roles :: "string list"

record authn_env =
  en_lookup :: "string \<Rightarrow> goerr + (goerr + string list)"
  en_group :: "string \<Rightarrow> goerr + string"
  en_ssh :: "string \<Rightarrow> string \<Rightarrow> goerr option"
  en_jwt :: "string \<Rightarrow> goerr + (claims \<times> bool)"
  en_entry :: "string \<Rightarrow> string \<Rightarrow> (string, string) gomap"
  en_http :: "string \<Rightarrow> goerr + (nat \<times> (goerr + string))"
  en_revoked :: "certificate list list \<Rightarrow> string list \<Rightarrow> goerr option"
  en_clock :: "nat \<Rightarrow> int"

section \<open>Users of the host\<close>

fun groupNames :: "(string \<Rightarrow> goerr + string) \<Rightarrow> string list \<Rightarrow> goerr + string list" where
  "groupNames grp [] = Inr []"
| "groupNames grp (gid # gids) =
     (case grp gid of
        Inl e \<Rightarrow> Inl e
      | Inr name \<Rightarrow> (case groupNames grp gids of Inl e \<Rightarrow> Inl e | Inr names \<Rightarrow> Inr (name # names)))"

definition GetUserRoles :: "authn_env \<Rightarrow> goerr + string list \<Rightarrow> goerr + string list" where
  "GetUserRoles en gids = (case gids of Inl e \<Rightarrow> Inl e | Inr gs \<Rightarrow> groupNames (en_group en) gs)"

definition PopulateAuthStruct ::
    "authn_env \<Rightarrow> string \<Rightarrow> authInfo \<Rightarrow> string list \<Rightarrow> authInfo \<times> goerr option" where
  "PopulateAuthStruct en username auth r =
     (if r = [] then
        (case en_lookup en username of
           Inl e \<Rightarrow> (auth, Some e)
         | Inr usr \<Rightarrow>
             (case GetUserRoles en usr of
                Inl e \<Rightarrow> (auth, Some e)
              | Inr roles \<Rightarrow> (auth\<lparr>au_Roles := roles, au_User := username\<rparr>, None)))
      else (auth\<lparr>au_Roles := r, au_User := username\<rparr>, None))"

text \<open>\<^verbatim>\<open>UserPwAuth\<close>: the password is tried on the local ssh server.\<close>

definition UserPwAuth :: "authn_env \<Rightarrow> string \<Rightarrow> string \<Rightarrow> bool \<times> goerr option" where
  "UserPwAuth en username passwd =
     (case en_ssh en username passwd of Some e \<Rightarrow> (False, Some e) | None \<Rightarrow> (True, None))"

section \<open>Passwords and tokens\<close>

definition outOfRange :: goerr where
  "outOfRange = Panic ''index out of range''"

definition BasicAuthenAndAuthor :: "authn_env \<Rightarrow> ctx \<Rightarrow> ctx \<times> goerr option" where
  "BasicAuthenAndAuthor en cx0 =
     (let cx = snd (GetContext cx0)
      in case cx_md cx of
           None \<Rightarrow> (cx, Some (Status Unknown ''Invalid context''))
         | Some md \<Rightarrow>
           (case gm_get md ''username'' of
              None \<Rightarrow> (cx, Some (Status Unauthenticated ''No Username Provided''))
            | Some [] \<Rightarrow> (cx, Some outOfRange)
            | Some (username # _) \<Rightarrow>
              (case gm_get md ''password'' of
                 None \<Rightarrow> (cx, Some (Status Unauthenticated ''No Password Provided''))
               | Some [] \<Rightarrow> (cx, Some outOfRange)
               | Some (passwd # _) \<Rightarrow>
                 (case PopulateAuthStruct en username (authOf cx) [] of
                    (a, Some e) \<Rightarrow> (setAuth a cx, Some (Status Unauthenticated []))
                  | (a, None) \<Rightarrow>
                      if fst (UserPwAuth en username passwd) then (setAuth a cx, None)
                      else (setAuth a cx, Some (Status PermissionDenied ''Invalid Password''))))))"

text \<open>The token of the request is the first component of the result, as in the source.\<close>

definition JwtAuthenAndAuthor :: "authn_env \<Rightarrow> ctx \<Rightarrow> string option \<times> ctx \<times> goerr option" where
  "JwtAuthenAndAuthor en cx0 =
     (let cx = snd (GetContext cx0)
      in case cx_md cx of
           None \<Rightarrow> (None, cx, Some (Status Unknown ''Invalid context''))
         | Some md \<Rightarrow>
           (case gm_get md ''access_token'' of
              None \<Rightarrow> (None, cx, Some (Status Unauthenticated ''No JWT Token Provided''))
            | Some [] \<Rightarrow> (None, cx, Some outOfRange)
            | Some (token # _) \<Rightarrow>
              (case en_jwt en token of
                 Inl e \<Rightarrow> (Some token, cx, Some (Status Unauthenticated (errText e)))
               | Inr (cl, valid) \<Rightarrow>
                   if \<not> valid then (Some token, cx, Some (Status Unauthenticated ''Invalid JWT Token''))
                   else (case PopulateAuthStruct en (cl_Username cl) (authOf cx) (cl_Roles cl) of
                           (a, Some e) \<Rightarrow> (Some token, setAuth a cx, Some (Status Unauthenticated []))
                         | (a, None) \<Rightarrow> (Some token, setAuth a cx, None)))))"

section \<open>Certificate revocation lists\<close>

record crl =
  crl_thisUpdate :: int
  crl_nextUpdate :: int
  crl_crl :: string

text \<open>The global cache (\<^term>\<open>None\<close> is the nil map), the expiry duration in nanoseconds, and the number of
  clock readings taken so far.\<close>

record crlState =
  cs_CrlCache :: "(string, crl) gomap option"
  cs_CrlDxpireDuration :: int
  cs_now :: nat

definition DEFAULT_CRL_EXPIRE_DURATION :: int where
  "DEFAULT_CRL_EXPIRE_DURATION = 24 * 60 * 60 * 1000000000"

definition cacheOf :: "crlState \<Rightarrow> (string, crl) gomap" where
  "cacheOf st = (case cs_CrlCache st of Some m \<Rightarrow> m | None \<Rightarrow> [])"

definition deleteCrl :: "string \<Rightarrow> crlState \<Rightarrow> crlState" where
  "deleteCrl url st = st\<lparr>cs_CrlCache := map_option (gm_del url) (cs_CrlCache st)\<rparr>"

definition timeNow :: "authn_env \<Rightarrow> crlState \<Rightarrow> int \<times> crlState" where
  "timeNow en st = (en_clock en (cs_now st), st\<lparr>cs_now := cs_now st + 1\<rparr>)"

definition InitCrlCache :: "crlState \<Rightarrow> crlState" where
  "InitCrlCache st = (if cs_CrlCache st = None then st\<lparr>cs_CrlCache := Some []\<rparr> else st)"

definition ReleaseCrlCache :: "crlState \<Rightarrow> crlState" where
  "ReleaseCrlCache st = st\<lparr>cs_CrlCache := map_option (\<lambda>m. fold (gm_del \<circ> fst) m m) (cs_CrlCache st)\<rparr>"

definition SetCrlExpireDuration :: "int \<Rightarrow> crlState \<Rightarrow> crlState" where
  "SetCrlExpireDuration d st = st\<lparr>cs_CrlDxpireDuration := d\<rparr>"

text \<open>A write to the nil map panics: the result is \<^term>\<open>None\<close>.\<close>

definition AppendCrlToCache :: "authn_env \<Rightarrow> string \<Rightarrow> string \<Rightarrow> crlState \<Rightarrow> crlState option" where
  "AppendCrlToCache en url rawCRL st0 =
     (let (t1, st1) = timeNow en st0;
          (t2, st2) = timeNow en st1
      in case cs_CrlCache st2 of
           None \<Rightarrow> None
         | Some m \<Rightarrow> Some (st2\<lparr>cs_CrlCache :=
             Some (gm_set url \<lparr>crl_thisUpdate = t1, crl_nextUpdate = t2, crl_crl = rawCRL\<rparr> m)\<rparr>))"

definition CrlExpired :: "authn_env \<Rightarrow> crl \<Rightarrow> crlState \<Rightarrow> bool \<times> crlState" where
  "CrlExpired en c st =
     (let (now, st') = timeNow en st
      in (now > crl_thisUpdate c + cs_CrlDxpireDuration st, st'))"

definition CrlNeedUpdate :: "authn_env \<Rightarrow> crl \<Rightarrow> crlState \<Rightarrow> bool \<times> crlState" where
  "CrlNeedUpdate en c st = (let (now, st') = timeNow en st in (now > crl_nextUpdate c, st'))"

fun removeExpired :: "authn_env \<Rightarrow> (string \<times> crl) list \<Rightarrow> crlState \<Rightarrow> crlState" where
  "removeExpired en [] st = st"
| "removeExpired en ((k, c) # cs) st =
     (case CrlExpired en c st of
        (True, st') \<Rightarrow> removeExpired en cs (deleteCrl k st')
      | (False, st') \<Rightarrow> removeExpired en cs st')"

definition RemoveExpiredCrl :: "authn_env \<Rightarrow> crlState \<Rightarrow> crlState" where
  "RemoveExpiredCrl en st = removeExpired en (cacheOf st) st"

definition SearchCrlCache :: "authn_env \<Rightarrow> string \<Rightarrow> crlState \<Rightarrow> (bool \<times> crl option) \<times> crlState" where
  "SearchCrlCache en url st =
     (case gm_get (cacheOf st) url of
        None \<Rightarrow> ((False, None), st)
      | Some c \<Rightarrow>
          (case CrlExpired en c st of
             (True, st1) \<Rightarrow> ((False, None), deleteCrl url st1)
           | (False, st1) \<Rightarrow>
               (case CrlNeedUpdate en c st1 of
                  (True, st2) \<Rightarrow> ((False, None), deleteCrl url st2)
                | (False, st2) \<Rightarrow> ((True, Some c), st2))))"

definition TryDownload :: "authn_env \<Rightarrow> string \<Rightarrow> crlState \<Rightarrow> (bool \<times> crlState) option" where
  "TryDownload en url st =
     (case en_http en url of
        Inl e \<Rightarrow> Some (False, st)
      | Inr (statusCode, body) \<Rightarrow>
          if statusCode \<noteq> 200 then Some (False, st)
          else (case body of
                  Inl e \<Rightarrow> Some (False, st)
                | Inr content \<Rightarrow> map_option (Pair True) (AppendCrlToCache en url content st)))"

fun downloadLoop :: "authn_env \<Rightarrow> string list \<Rightarrow> bool \<Rightarrow> crlState \<Rightarrow> (bool \<times> crlState) option" where
  "downloadLoop en [] available st = Some (available, st)"
| "downloadLoop en (url # urls) available st =
     (case SearchCrlCache en url st of
        ((True, _), st') \<Rightarrow> downloadLoop en urls True st'
      | ((False, _), st') \<Rightarrow>
          (case TryDownload en url st' of
             None \<Rightarrow> None
           | Some (downloaded, st'') \<Rightarrow> downloadLoop en urls (available \<or> downloaded) st''))"

definition DownloadNotCachedCrl :: "authn_env \<Rightarrow> string list \<Rightarrow> crlState \<Rightarrow> (bool \<times> crlState) option" where
  "DownloadNotCachedCrl en urls st = downloadLoop en urls False st"

text \<open>The provider is the list of cached lists, after the one nil entry that \<^verbatim>\<open>make([][]byte, 1)\<close> puts first.\<close>

fun collectCrls :: "authn_env \<Rightarrow> (string \<times> crl) list \<Rightarrow> string list \<Rightarrow> crlState \<Rightarrow> string list \<times> crlState" where
  "collectCrls en [] arr st = (arr, st)"
| "collectCrls en ((k, c) # cs) arr st =
     (case CrlExpired en c st of
        (True, st') \<Rightarrow> collectCrls en cs arr (deleteCrl k st')
      | (False, st') \<Rightarrow> collectCrls en cs (arr @ [crl_crl c]) st')"

definition CreateStaticCRLProvider :: "authn_env \<Rightarrow> crlState \<Rightarrow> string list \<times> crlState" where
  "CreateStaticCRLProvider en st = collectCrls en (cacheOf st) [[]] st"

definition VerifyCertCrl :: "authn_env \<Rightarrow> certificate list list \<Rightarrow> crlState \<Rightarrow> goerr option \<times> crlState" where
  "VerifyCertCrl en vchains st0 =
     (let st = InitCrlCache st0;
          urls = crt_CRLDistributionPoints (hd (hd vchains))
      in if urls = [] then (None, st)
         else case DownloadNotCachedCrl en urls st of
                None \<Rightarrow> (Some (Panic ''assignment to entry in nil map''), st)
              | Some (False, st1) \<Rightarrow>
                  (Some (Status Unauthenticated ''Can't download CRL and verify cert''), st1)
              | Some (True, st1) \<Rightarrow>
                  (case CreateStaticCRLProvider en st1 of
                     (crls, st2) \<Rightarrow>
                       (case en_revoked en vchains crls of
                          Some e \<Rightarrow> (Some (Status Unauthenticated ''Peer certificate revoked''), st2)
                        | None \<Rightarrow> (None, st2))))"

section \<open>Client certificates\<close>

definition PopulateAuthStructByCommonName ::
    "authn_env \<Rightarrow> string \<Rightarrow> authInfo \<Rightarrow> string \<Rightarrow> authInfo \<times> goerr option" where
  "PopulateAuthStructByCommonName en cn auth table =
     (if table = [] then (auth, Some (Status Unauthenticated ''Service config table name should not be empty''))
      else
        let fvs = en_entry en table cn;
            auth' = (case gm_get fvs ''role@'' of
                       Some role \<Rightarrow> auth\<lparr>au_Roles := split_char (CHR '','') role\<rparr>
                     | None \<Rightarrow> (case gm_get fvs ''role'' of
                                 Some role \<Rightarrow> auth\<lparr>au_Roles := [role]\<rparr>
                               | None \<Rightarrow> auth))
        in if au_Roles auth' = []
           then (auth', Some (Status Unauthenticated
                   (''Invalid cert cname:'' @ CHR 0x27 # cn @ CHR 0x27 # '', not a trusted cert common name.'')))
           else (auth', None))"

definition certAuthInfo :: "authn_env \<Rightarrow> string \<Rightarrow> authInfo \<Rightarrow> string \<Rightarrow> authInfo \<times> goerr option" where
  "certAuthInfo en username auth table =
     (if table \<noteq> [] then PopulateAuthStructByCommonName en username auth table
      else (case PopulateAuthStruct en username auth [] of
              (a, Some e) \<Rightarrow> (a, Some (Status Unauthenticated []))
            | (a, None) \<Rightarrow> (a, None)))"

definition ClientCertAuthenAndAuthor ::
    "authn_env \<Rightarrow> ctx \<Rightarrow> string \<Rightarrow> bool \<Rightarrow> crlState \<Rightarrow> (ctx \<times> goerr option) \<times> crlState" where
  "ClientCertAuthenAndAuthor en cx0 table enableCrl st =
     (let cx = snd (GetContext cx0)
      in case cx_peer cx of
           None \<Rightarrow> ((cx, Some (Status Unauthenticated ''no peer found'')), st)
         | Some p \<Rightarrow>
           (case pi_TLS p of
              None \<Rightarrow> ((cx, Some (Status Unauthenticated ''unexpected peer transport credentials'')), st)
            | Some tls \<Rightarrow>
              (case tls_VerifiedChains tls of
                 (c # _) # _ \<Rightarrow>
                   (let username = crt_CommonName c
                    in if username = [] then
                         ((cx, Some (Status Unauthenticated ''invalid username in certificate common name.'')), st)
                       else
                         (case certAuthInfo en username (authOf cx) table of
                            (a, Some e) \<Rightarrow> ((setAuth a cx, Some e), st)
                          | (a, None) \<Rightarrow>
                              if enableCrl
                              then (case VerifyCertCrl en (tls_VerifiedChains tls) st of
                                      (e, st') \<Rightarrow> ((setAuth a cx, e), st'))
                              else ((setAuth a cx, None), st)))
               | _ \<Rightarrow> ((cx, Some (Status Unauthenticated ''could not verify peer certificate'')), st))))"

section \<open>authenticate\<close>

record authConfig =
  ac_UserAuth :: authTypes
  ac_ConfigTableName :: string
  ac_EnableCrl :: bool

definition WriteAccessMode :: string where
  "WriteAccessMode = ''readwrite''"

definition ReadOnlyMode :: string where
  "ReadOnlyMode = ''readonly''"

definition NoAccessMode :: string where
  "NoAccessMode = ''noaccess''"

definition rolePostfix :: "string \<Rightarrow> string \<Rightarrow> string" where
  "rolePostfix role target = TrimPrefix (TrimPrefix role target) ''_''"

definition noAccess :: "string \<Rightarrow> string \<Rightarrow> string \<Rightarrow> goerr" where
  "noAccess user target role =
     Plain (user @ '' does not have access, target '' @ target @ '', role '' @ role)"

text \<open>The loop over the roles: an early return of an error, or the value of \<^verbatim>\<open>match\<close>.\<close>

fun matchRoles :: "string \<Rightarrow> string \<Rightarrow> bool \<Rightarrow> string list \<Rightarrow> goerr + bool" where
  "matchRoles user target writeAccess [] = Inr False"
| "matchRoles user target writeAccess (r # rs) =
     (let role = TrimSpace r
      in if HasPrefix role target then
           let postfix = rolePostfix role target
           in if postfix = NoAccessMode then Inl (noAccess user target role)
              else if postfix = ReadOnlyMode then
                (if writeAccess then Inl (noAccess user target role) else Inr True)
              else if postfix = WriteAccessMode then Inr True
              else matchRoles user target writeAccess rs
         else matchRoles user target writeAccess rs)"

definition isUnixPeer :: "ctx \<Rightarrow> bool" where
  "isUnixPeer cx \<longleftrightarrow> (case cx_peer cx of Some p \<Rightarrow> pi_Addr p = Some UnixAddr | None \<Rightarrow> False)"

definition setAuthEnabled :: "bool \<Rightarrow> ctx \<Rightarrow> ctx" where
  "setAuthEnabled b cx = setAuth ((authOf cx)\<lparr>au_AuthEnabled := b\<rparr>) cx"

definition checkWriteRole :: "authConfig \<Rightarrow> string \<Rightarrow> bool \<Rightarrow> ctx \<Rightarrow> goerr option" where
  "checkWriteRole config target0 writeAccess cx =
     (if ac_ConfigTableName config = [] then None
      else
        let target = ToLower target0; auth = authOf cx
        in case matchRoles (au_User auth) target writeAccess (au_Roles auth) of
             Inl e \<Rightarrow> Some e
           | Inr match \<Rightarrow>
               if \<not> match \<and> writeAccess
               then Some (Plain (au_User auth @ '' does not have write access, target '' @ target))
               else None)"

text \<open>The certificate step, and the final answer. \<open>success\<close> is false on entry.\<close>

definition authenticateCert ::
    "authConfig \<Rightarrow> authn_env \<Rightarrow> ctx \<Rightarrow> string \<Rightarrow> bool \<Rightarrow> crlState \<Rightarrow> (ctx \<times> goerr option) \<times> crlState" where
  "authenticateCert config en cx target writeAccess st =
     (if Enabled (ac_UserAuth config) ''cert'' then
        (case ClientCertAuthenAndAuthor en cx (ac_ConfigTableName config) (ac_EnableCrl config) st of
           ((cx', Some e), st') \<Rightarrow> ((cx', Some (Status Unauthenticated ''Unauthenticated'')), st')
         | ((cx', None), st') \<Rightarrow> ((cx', checkWriteRole config target writeAccess cx'), st'))
      else ((cx, Some (Status Unauthenticated ''Unauthenticated'')), st))"

text \<open>A panic inside a mechanism ends the process, so it is the answer.\<close>

definition isPanic :: "goerr option \<Rightarrow> bool" where
  "isPanic e \<longleftrightarrow> (case e of Some (Panic _) \<Rightarrow> True | _ \<Rightarrow> False)"

definition authenticate ::
    "authConfig \<Rightarrow> authn_env \<Rightarrow> ctx \<Rightarrow> string \<Rightarrow> bool \<Rightarrow> crlState \<Rightarrow> (ctx \<times> goerr option) \<times> crlState" where
  "authenticate config en cx0 target writeAccess st =
     (let cx = snd (GetContext cx0); ua = ac_UserAuth config
      in if isUnixPeer cx then ((setAuthEnabled False cx, None), st)
         else if \<not> AnyAuth ua then ((setAuthEnabled False cx, None), st)
         else
           let cx1 = setAuthEnabled True cx;
               (cx2, e2) = (if Enabled ua ''password'' then BasicAuthenAndAuthor en cx1
                            else (cx1, Some (Plain [])))
           in if e2 = None \<or> isPanic e2 then ((cx2, e2), st)
              else
                let (cx3, e3) = (if Enabled ua ''jwt'' then snd (JwtAuthenAndAuthor en cx2)
                                 else (cx2, Some (Plain [])))
                in if e3 = None \<or> isPanic e3 then ((cx3, e3), st)
                   else authenticateCert config en cx3 target writeAccess st)"

section \<open>Lemmas on the context\<close>

named_theorems authctx \<open>facts on reading and writing the request context\<close>

lemma GetContext_snd [simp, authctx]:
  "cx_peer (snd (GetContext cx)) = cx_peer cx" "cx_md (snd (GetContext cx)) = cx_md cx"
  "authOf (snd (GetContext cx)) = authOf cx" "setAuth a (snd (GetContext cx)) = setAuth a cx"
  "isUnixPeer (snd (GetContext cx)) = isUnixPeer cx"
  by (auto simp: GetContext_def authOf_def setAuth_def isUnixPeer_def Let_def split: option.splits)

lemma setAuth_same [simp, authctx]:
  "authOf (setAuth a cx) = a" "setAuth b (setAuth a cx) = setAuth b cx"
  "cx_peer (setAuth a cx) = cx_peer cx" "cx_md (setAuth a cx) = cx_md cx"
  by (auto simp: GetContext_def authOf_def setAuth_def Let_def split: option.splits)

lemma setAuthEnabled_same [simp, authctx]:
  "cx_peer (setAuthEnabled b cx) = cx_peer cx" "cx_md (setAuthEnabled b cx) = cx_md cx"
  "authOf (setAuthEnabled b cx) = (authOf cx)\<lparr>au_AuthEnabled := b\<rparr>"
  by (simp_all add: setAuthEnabled_def)

lemma PopulateAuthStruct_user:
  "PopulateAuthStruct en u a r = (a', None) \<Longrightarrow> au_User a' = u"
  by (auto simp: PopulateAuthStruct_def split: if_splits sum.splits)

lemma Basic_success:
  assumes "BasicAuthenAndAuthor en cx = (cx', None)"
  obtains md u us p ps where "cx_md cx = Some md" "gm_get md ''username'' = Some (u # us)"
    "gm_get md ''password'' = Some (p # ps)" "en_ssh en u p = None" "au_User (authOf cx') = u"
  using assms
  by (auto simp: BasicAuthenAndAuthor_def UserPwAuth_def Let_def
      split: option.splits list.splits prod.splits if_splits dest: PopulateAuthStruct_user)

lemma Basic_same:
  "BasicAuthenAndAuthor en cx = (cx', e) \<Longrightarrow> cx_peer cx' = cx_peer cx \<and> cx_md cx' = cx_md cx"
  by (auto simp: BasicAuthenAndAuthor_def Let_def split: option.splits list.splits prod.splits if_splits)

lemma Jwt_success:
  assumes "JwtAuthenAndAuthor en cx = (t, cx', None)"
  obtains md tok ts cl where "cx_md cx = Some md" "gm_get md ''access_token'' = Some (tok # ts)"
    "en_jwt en tok = Inr (cl, True)" "au_User (authOf cx') = cl_Username cl"
  using assms
  by (auto simp: JwtAuthenAndAuthor_def Let_def
      split: option.splits list.splits prod.splits if_splits sum.splits dest: PopulateAuthStruct_user)

lemma Jwt_same:
  "JwtAuthenAndAuthor en cx = (t, cx', e) \<Longrightarrow> cx_peer cx' = cx_peer cx \<and> cx_md cx' = cx_md cx"
  by (auto simp: JwtAuthenAndAuthor_def Let_def
      split: option.splits list.splits prod.splits if_splits sum.splits)

lemma Cert_success:
  assumes "ClientCertAuthenAndAuthor en cx table crl st = ((cx', None), st')"
  obtains p tls c cs vs a where "cx_peer cx = Some p" "pi_TLS p = Some tls"
    "tls_VerifiedChains tls = (c # cs) # vs" "crt_CommonName c \<noteq> []" "cx' = setAuth a cx"
    "certAuthInfo en (crt_CommonName c) (authOf cx) table = (a, None)"
    "crl \<Longrightarrow> fst (VerifyCertCrl en (tls_VerifiedChains tls) st) = None"
proof -
  from assms obtain p tls where p: "cx_peer cx = Some p" "pi_TLS p = Some tls"
    by (auto simp: ClientCertAuthenAndAuthor_def Let_def split: option.splits)
  with assms obtain c cs vs where c: "tls_VerifiedChains tls = (c # cs) # vs"
    by (auto simp: ClientCertAuthenAndAuthor_def Let_def split: list.splits)
  with assms p have ne: "crt_CommonName c \<noteq> []"
    by (auto simp: ClientCertAuthenAndAuthor_def Let_def)
  obtain a e where a: "certAuthInfo en (crt_CommonName c) (authOf cx) table = (a, e)" by fastforce
  with assms p c ne have e: "e = None"
    by (auto simp: ClientCertAuthenAndAuthor_def Let_def split: option.splits)
  with assms p c ne a show thesis
    by (intro that [OF p c ne])
       (auto simp: ClientCertAuthenAndAuthor_def Let_def split: if_splits prod.splits)
qed

lemma ByCommonName_roles:
  "PopulateAuthStructByCommonName en cn a t = (a', None) \<Longrightarrow> au_Roles a' \<noteq> []"
  by (auto simp: PopulateAuthStructByCommonName_def Let_def split: if_splits option.splits)

lemma Enabled_AnyAuth:
  assumes "Enabled i m"
  shows "AnyAuth i"
proof -
  from assms have "gm_get i m = Some True" by (auto simp: Enabled_def flagOf_def split: option.splits)
  then have "(m, True) \<in> set i" by (rule map_of_SomeD)
  then have "list_ex snd i" unfolding list_ex_iff by (rule bexI [rotated]) simp
  with assms show ?thesis by (simp add: AnyAuth_def Enabled_def)
qed

section \<open>Lemmas on roles\<close>

definition decisive :: "string \<Rightarrow> string \<Rightarrow> bool" where
  "decisive target r \<longleftrightarrow> HasPrefix (TrimSpace r) target \<and>
     rolePostfix (TrimSpace r) target \<in> {NoAccessMode, ReadOnlyMode, WriteAccessMode}"

text \<open>The first decisive role decides.\<close>

lemma modes_distinct [simp]:
  "NoAccessMode \<noteq> ReadOnlyMode" "NoAccessMode \<noteq> WriteAccessMode" "ReadOnlyMode \<noteq> WriteAccessMode"
  "ReadOnlyMode \<noteq> NoAccessMode" "WriteAccessMode \<noteq> NoAccessMode" "WriteAccessMode \<noteq> ReadOnlyMode"
  by (simp_all add: NoAccessMode_def ReadOnlyMode_def WriteAccessMode_def)

lemma matchRoles_find:
  "matchRoles user target w rs =
     (case find (decisive target) rs of
        None \<Rightarrow> Inr False
      | Some r \<Rightarrow>
          if rolePostfix (TrimSpace r) target = WriteAccessMode
             \<or> rolePostfix (TrimSpace r) target = ReadOnlyMode \<and> \<not> w
          then Inr True else Inl (noAccess user target (TrimSpace r)))"
  by (induction rs) (auto simp: decisive_def Let_def)

section \<open>Lemmas on the cache of revocation lists\<close>

lemma cache_defined [simp]:
  "cs_CrlCache (deleteCrl url st) = None \<longleftrightarrow> cs_CrlCache st = None"
  "cs_CrlCache (snd (timeNow en st)) = cs_CrlCache st"
  "cs_CrlCache (InitCrlCache st) \<noteq> None"
  by (auto simp: deleteCrl_def timeNow_def InitCrlCache_def)

lemma cacheOf_deleteCrl [simp]: "gm_get (cacheOf (deleteCrl url st)) url = None"
  by (auto simp: deleteCrl_def cacheOf_def delete_conv' split: option.splits)

lemma CrlExpired_cache: "CrlExpired en c st = (b, st') \<Longrightarrow> cs_CrlCache st' = cs_CrlCache st"
  by (auto simp: CrlExpired_def timeNow_def Let_def)

lemma CrlNeedUpdate_cache: "CrlNeedUpdate en c st = (b, st') \<Longrightarrow> cs_CrlCache st' = cs_CrlCache st"
  by (auto simp: CrlNeedUpdate_def timeNow_def Let_def)

lemma SearchCrlCache_cases:
  assumes "SearchCrlCache en url st = ((b, c), st')"
  shows "cs_CrlCache st' = None \<longleftrightarrow> cs_CrlCache st = None"
    and "gm_get (cacheOf st') k \<noteq> None \<Longrightarrow> gm_get (cacheOf st) k \<noteq> None"
    and "b \<Longrightarrow> gm_get (cacheOf st) url \<noteq> None"
  using assms
  by (auto simp: SearchCrlCache_def deleteCrl_def cacheOf_def delete_conv' restrict_map_def split: option.splits prod.splits bool.splits
      if_splits dest!: CrlExpired_cache CrlNeedUpdate_cache)

lemma TryDownload_cases:
  assumes "TryDownload en url st = Some (b, st')"
  shows "cs_CrlCache st' = None \<longleftrightarrow> cs_CrlCache st = None"
    and "\<not> b \<Longrightarrow> st' = st"
    and "b \<Longrightarrow> \<exists>content. en_http en url = Inr (200, Inr content)"
  using assms
  by (auto simp: TryDownload_def AppendCrlToCache_def timeNow_def cacheOf_def update_conv' Let_def
      split: sum.splits option.splits if_splits)

lemma TryDownload_total: "cs_CrlCache st \<noteq> None \<Longrightarrow> TryDownload en url st \<noteq> None"
  by (auto simp: TryDownload_def AppendCrlToCache_def timeNow_def Let_def split: sum.splits option.splits)

lemma downloadLoop_total:
  "cs_CrlCache st \<noteq> None \<Longrightarrow> downloadLoop en urls b st \<noteq> None"
proof (induction urls arbitrary: b st)
  case (Cons url urls)
  obtain f c st' where s: "SearchCrlCache en url st = ((f, c), st')" by (metis prod.exhaust)
  have st': "cs_CrlCache st' \<noteq> None" using SearchCrlCache_cases(1) [OF s] Cons.prems by simp
  show ?case
  proof (cases f)
    case True
    with s Cons.IH [OF st'] show ?thesis by simp
  next
    case False
    from TryDownload_total [OF st'] obtain d st'' where d: "TryDownload en url st' = Some (d, st'')" by fastforce
    have "cs_CrlCache st'' \<noteq> None" using TryDownload_cases(1) [OF d] st' by simp
    with s d False Cons.IH show ?thesis by simp
  qed
qed simp

text \<open>What makes a list of distribution points available.\<close>

definition crlSource :: "authn_env \<Rightarrow> crlState \<Rightarrow> string \<Rightarrow> bool" where
  "crlSource en st url \<longleftrightarrow>
     gm_get (cacheOf st) url \<noteq> None \<or> (\<exists>content. en_http en url = Inr (200, Inr content))"

lemma downloadLoop_sound:
  "downloadLoop en urls b st = Some (True, st') \<Longrightarrow> \<not> b \<Longrightarrow> list_ex (crlSource en st) urls"
proof (induction urls arbitrary: st)
  case (Cons url urls)
  obtain f c st1 where s: "SearchCrlCache en url st = ((f, c), st1)" by (metis prod.exhaust)
  show ?case
  proof (cases f)
    case True
    with SearchCrlCache_cases(3) [OF s] show ?thesis by (simp add: crlSource_def)
  next
    case False
    with Cons.prems s obtain d st2 where d: "TryDownload en url st1 = Some (d, st2)"
      and l: "downloadLoop en urls (b \<or> d) st2 = Some (True, st')" by (auto split: option.splits)
    show ?thesis
    proof (cases d)
      case True
      with TryDownload_cases(3) [OF d] show ?thesis by (simp add: crlSource_def)
    next
      case False
      with l Cons.prems(2) have "list_ex (crlSource en st2) urls" by (intro Cons.IH) auto
      moreover have "crlSource en st2 k \<Longrightarrow> crlSource en st k" for k
        using SearchCrlCache_cases(2) [OF s] TryDownload_cases(2) [OF d False] by (auto simp: crlSource_def)
      ultimately show ?thesis by (auto simp: list_ex_iff)
    qed
  qed
qed simp

section \<open>Properties\<close>

text \<open>A host with one user, one password, one valid token and one trusted certificate.\<close>

definition demoEnv :: authn_env where
  "demoEnv = \<lparr>en_lookup = (\<lambda>u. if u = ''admin'' then Inr (Inr [''27'']) else Inl (Plain ''unknown user'')),
     en_group = (\<lambda>g. if g = ''27'' then Inr ''sudo'' else Inl (Plain ''unknown group'')),
     en_ssh = (\<lambda>u p. if u = ''admin'' \<and> p = ''secret'' then None else Some (Plain ''handshake failed'')),
     en_jwt = (\<lambda>t. Inl (Plain ''token is malformed'')),
     en_entry = (\<lambda>t cn. if cn = ''agent'' then [(''role@'', ''gnmi_config_db_readwrite'')] else []),
     en_http = (\<lambda>u. Inr (200, Inr ''crl'')),
     en_revoked = (\<lambda>cs crls. None),
     en_clock = int\<rparr>"

definition demoCtx :: "string \<Rightarrow> string \<Rightarrow> ctx" where
  "demoCtx pw cn = \<lparr>cx_peer = Some \<lparr>pi_Addr = Some (TCPAddr ''10.0.0.1:5000''),
       pi_TLS = Some \<lparr>tls_VerifiedChains = [[\<lparr>crt_CommonName = cn, crt_CRLDistributionPoints = [''http://crl'']\<rparr>]],
                     tls_SPIFFEID = None\<rparr>\<rparr>,
     cx_md = Some [(''username'', [''admin'']), (''password'', [pw])],
     cx_rc = None, cx_requestCounter = 0\<rparr>"

definition demoConfig :: "bool \<Rightarrow> authConfig" where
  "demoConfig pw = \<lparr>ac_UserAuth = [(''password'', pw), (''cert'', True), (''jwt'', False)],
     ac_ConfigTableName = ''GNMI_CLIENT_CERT'', ac_EnableCrl = True\<rparr>"

definition demoCrl :: crlState where
  "demoCrl = \<lparr>cs_CrlCache = None, cs_CrlDxpireDuration = DEFAULT_CRL_EXPIRE_DURATION, cs_now = 0\<rparr>"

lemmas demo_auth = demoEnv_def demoCtx_def demoConfig_def demoCrl_def

lemmas authenticate_defs = authenticate_def authenticateCert_def ClientCertAuthenAndAuthor_def
  certAuthInfo_def PopulateAuthStructByCommonName_def BasicAuthenAndAuthor_def PopulateAuthStruct_def
  GetUserRoles_def UserPwAuth_def checkWriteRole_def

lemmas verifyCrl_defs = VerifyCertCrl_def DownloadNotCachedCrl_def TryDownload_def AppendCrlToCache_def
  SearchCrlCache_def CreateStaticCRLProvider_def InitCrlCache_def CrlExpired_def timeNow_def cacheOf_def
  DEFAULT_CRL_EXPIRE_DURATION_def

lemmas roleText_defs = rolePostfix_def TrimSpace_def TrimFunc_def is_space_def TrimPrefix_def HasPrefix_def
  ToLower_def lower_char_def NoAccessMode_def ReadOnlyMode_def WriteAccessMode_def

text \<open>C4. No request passes without a credential: when authentication is configured and the peer is not a
  local socket, success means that one of the configured mechanisms accepted a credential of this
  request (the password of the user it is attributed to, a valid token of that user, or a verified
  client certificate with a name, and with its revocation check passed where that is configured).\<close>

theorem authenticate_needs_credential:
  assumes "authenticate config en cx target w st = ((cx', None), st')"
    and "\<not> isUnixPeer cx" and "AnyAuth (ac_UserAuth config)"
  shows "(Enabled (ac_UserAuth config) ''password'' \<and>
           (\<exists>md u us p ps. cx_md cx = Some md \<and> gm_get md ''username'' = Some (u # us) \<and>
              gm_get md ''password'' = Some (p # ps) \<and> en_ssh en u p = None \<and> au_User (authOf cx') = u)) \<or>
         (Enabled (ac_UserAuth config) ''jwt'' \<and>
           (\<exists>md tok ts cl. cx_md cx = Some md \<and> gm_get md ''access_token'' = Some (tok # ts) \<and>
              en_jwt en tok = Inr (cl, True) \<and> au_User (authOf cx') = cl_Username cl)) \<or>
         (Enabled (ac_UserAuth config) ''cert'' \<and>
           (\<exists>p tls c cs vs. cx_peer cx = Some p \<and> pi_TLS p = Some tls \<and>
              tls_VerifiedChains tls = (c # cs) # vs \<and> crt_CommonName c \<noteq> [] \<and>
              (ac_EnableCrl config \<longrightarrow> fst (VerifyCertCrl en (tls_VerifiedChains tls) st) = None)))"
proof -
  let ?ua = "ac_UserAuth config" and ?cx1 = "setAuthEnabled True (snd (GetContext cx))"
  obtain cx2 e2 where b: "(if Enabled ?ua ''password'' then BasicAuthenAndAuthor en ?cx1
      else (?cx1, Some (Plain []))) = (cx2, e2)" by fastforce
  obtain cx3 e3 where j: "(if Enabled ?ua ''jwt'' then snd (JwtAuthenAndAuthor en cx2)
      else (cx2, Some (Plain []))) = (cx3, e3)" by fastforce
  have md: "cx_md cx2 = cx_md cx" "cx_peer cx2 = cx_peer cx"
    using b Basic_same [of en ?cx1 cx2 e2] by (auto split: if_splits)
  have md3: "cx_peer cx3 = cx_peer cx"
    using j Jwt_same [of en cx2] md by (cases "JwtAuthenAndAuthor en cx2") (auto split: if_splits)
  consider (pw) "e2 = None" "cx' = cx2" | (tok) "e2 \<noteq> None" "e3 = None" "cx' = cx3"
    | (crt) "authenticateCert config en cx3 target w st = ((cx', None), st')"
    using assms b j by (auto simp: authenticate_def Let_def isPanic_def split: if_splits option.splits)
  then show ?thesis
  proof cases
    case pw
    with b have "Enabled ?ua ''password''" "BasicAuthenAndAuthor en ?cx1 = (cx', None)"
      by (auto split: if_splits)
    then show ?thesis by (auto elim!: Basic_success)
  next
    case tok
    with j have "Enabled ?ua ''jwt''" "JwtAuthenAndAuthor en cx2 = (fst (JwtAuthenAndAuthor en cx2), cx', None)"
      by (auto split: if_splits simp: prod_eq_iff)
    from this(2) obtain md tok ts cl where "cx_md cx2 = Some md" "gm_get md ''access_token'' = Some (tok # ts)"
      "en_jwt en tok = Inr (cl, True)" "au_User (authOf cx') = cl_Username cl" by (rule Jwt_success)
    then have "\<exists>md tok ts cl. cx_md cx = Some md \<and> gm_get md ''access_token'' = Some (tok # ts) \<and>
        en_jwt en tok = Inr (cl, True) \<and> au_User (authOf cx') = cl_Username cl"
      unfolding md(1) by blast
    with \<open>Enabled ?ua ''jwt''\<close> show ?thesis by blast
  next
    case crt
    then have "Enabled ?ua ''cert''" and c: "\<exists>cx4. ClientCertAuthenAndAuthor en cx3 (ac_ConfigTableName config)
        (ac_EnableCrl config) st = ((cx4, None), st')"
      by (auto simp: authenticateCert_def split: if_splits prod.splits option.splits)
    from c obtain cx4 where "ClientCertAuthenAndAuthor en cx3 (ac_ConfigTableName config)
        (ac_EnableCrl config) st = ((cx4, None), st')" by blast
    then obtain p tls c cs vs where "cx_peer cx3 = Some p" "pi_TLS p = Some tls"
      "tls_VerifiedChains tls = (c # cs) # vs" "crt_CommonName c \<noteq> []"
      "ac_EnableCrl config \<Longrightarrow> fst (VerifyCertCrl en (tls_VerifiedChains tls) st) = None"
      by (rule Cert_success) blast
    then have "\<exists>p tls c cs vs. cx_peer cx = Some p \<and> pi_TLS p = Some tls \<and>
        tls_VerifiedChains tls = (c # cs) # vs \<and> crt_CommonName c \<noteq> [] \<and>
        (ac_EnableCrl config \<longrightarrow> fst (VerifyCertCrl en (tls_VerifiedChains tls) st) = None)"
      unfolding md3 by blast
    with \<open>Enabled ?ua ''cert''\<close> show ?thesis by blast
  qed
qed

theorem authenticate_needs_credential_witness:
  "\<exists>cx' st'. authenticate (demoConfig True) demoEnv (demoCtx ''secret'' ''agent'') ''gnmi'' False demoCrl = ((cx', None), st') \<and>
     au_User (authOf cx') = ''admin'' \<and>
     (Enabled (ac_UserAuth (demoConfig True)) ''password'' \<or> Enabled (ac_UserAuth (demoConfig True)) ''jwt''
      \<or> Enabled (ac_UserAuth (demoConfig True)) ''cert'')"
proof -
  have "\<exists>cx' st'. authenticate (demoConfig True) demoEnv (demoCtx ''secret'' ''agent'') ''gnmi'' False demoCrl = ((cx', None), st') \<and>
     au_User (authOf cx') = ''admin''"
    by (simp add: authenticate_defs demo_auth Enabled_def AnyAuth_def flagOf_def isUnixPeer_def GetContext_def
        setAuthEnabled_def setAuth_def authOf_def noAuthInfo_def Let_def)
  then obtain cx' st' where r: "authenticate (demoConfig True) demoEnv (demoCtx ''secret'' ''agent'') ''gnmi'' False demoCrl
      = ((cx', None), st')" "au_User (authOf cx') = ''admin''" by blast
  have "\<not> isUnixPeer (demoCtx ''secret'' ''agent'')" "AnyAuth (ac_UserAuth (demoConfig True))"
    by (simp_all add: demo_auth isUnixPeer_def AnyAuth_def flagOf_def)
  from authenticate_needs_credential [OF r(1) this] r show ?thesis by blast
qed





text \<open>C7. The revocation check fails closed: a certificate that names distribution points passes only when at
  least one of them was cached or could be downloaded, and when the chain check accepts the chain for the
  lists that are in the cache then. It never writes to a nil cache.\<close>

theorem crl_check_fails_closed:
  assumes "crt_CRLDistributionPoints (hd (hd vchains)) \<noteq> []"
  shows "(\<exists>e st'. VerifyCertCrl en vchains st = (Some (Status Unauthenticated e), st')) \<or>
         (\<exists>st' st1. VerifyCertCrl en vchains st = (None, st') \<and>
            DownloadNotCachedCrl en (crt_CRLDistributionPoints (hd (hd vchains))) (InitCrlCache st) = Some (True, st1) \<and>
            en_revoked en vchains (fst (CreateStaticCRLProvider en st1)) = None \<and>
            list_ex (crlSource en st) (crt_CRLDistributionPoints (hd (hd vchains))))"
proof -
  let ?urls = "crt_CRLDistributionPoints (hd (hd vchains))"
  have "cs_CrlCache (InitCrlCache st) \<noteq> None" by simp
  then obtain b st1 where d: "downloadLoop en ?urls False (InitCrlCache st) = Some (b, st1)"
    using downloadLoop_total [of "InitCrlCache st" en ?urls False] by auto
  have src: "crlSource en (InitCrlCache st) = crlSource en st"
    by (auto simp: crlSource_def InitCrlCache_def cacheOf_def)
  obtain crls st2 where c: "CreateStaticCRLProvider en st1 = (crls, st2)" by fastforce
  show ?thesis
  proof (cases "b \<and> en_revoked en vchains crls = None")
    case True
    with d downloadLoop_sound [of en ?urls False "InitCrlCache st" st1] src c assms show ?thesis
      by (auto simp: VerifyCertCrl_def DownloadNotCachedCrl_def Let_def)
  next
    case False
    with d c assms show ?thesis
      by (cases b) (auto simp: VerifyCertCrl_def DownloadNotCachedCrl_def Let_def)
  qed
qed

theorem crl_check_fails_closed_witness:
  "(\<exists>e st'. VerifyCertCrl demoEnv [[\<lparr>crt_CommonName = ''a'', crt_CRLDistributionPoints = [''http://crl'']\<rparr>]] demoCrl
       = (Some (Status Unauthenticated e), st')) \<or>
   (\<exists>st' st1. VerifyCertCrl demoEnv [[\<lparr>crt_CommonName = ''a'', crt_CRLDistributionPoints = [''http://crl'']\<rparr>]] demoCrl
       = (None, st') \<and>
      DownloadNotCachedCrl demoEnv [''http://crl''] (InitCrlCache demoCrl) = Some (True, st1) \<and>
      en_revoked demoEnv [[\<lparr>crt_CommonName = ''a'', crt_CRLDistributionPoints = [''http://crl'']\<rparr>]]
        (fst (CreateStaticCRLProvider demoEnv st1)) = None \<and>
      list_ex (crlSource demoEnv demoCrl) [''http://crl''])"
  using crl_check_fails_closed [of "[[\<lparr>crt_CommonName = ''a'', crt_CRLDistributionPoints = [''http://crl'']\<rparr>]]"
      demoEnv demoCrl] by simp

text \<open>The cache of revocation lists never serves a request: \<^verbatim>\<open>AppendCrlToCache\<close> sets the next update to the
  present, so with a clock that moves forward every later search removes the entry and misses.\<close>

theorem crl_cache_always_misses:
  assumes "strict_mono (en_clock en)" and "AppendCrlToCache en url raw st = Some st1"
    and "cacheOf st2 = cacheOf st1" and "cs_now st1 \<le> cs_now st2"
  shows "fst (fst (SearchCrlCache en url st2)) = False \<and>
         gm_get (cacheOf (snd (SearchCrlCache en url st2))) url = None"
proof -
  obtain m where m: "cs_CrlCache st = Some m" and st1: "st1 = st\<lparr>cs_now := cs_now st + 2, cs_CrlCache := Some (gm_set url
      \<lparr>crl_thisUpdate = en_clock en (cs_now st), crl_nextUpdate = en_clock en (cs_now st + 1), crl_crl = raw\<rparr> m)\<rparr>"
    using assms(2) by (auto simp: AppendCrlToCache_def timeNow_def Let_def split: option.splits)
  have "cs_now st + 1 < cs_now st2 + 1" using st1 assms(4) by simp
  then have "en_clock en (cs_now st + 1) < en_clock en (cs_now st2 + 1)"
    by (rule strict_monoD [OF assms(1)])
  moreover have "gm_get (cacheOf st2) url = Some \<lparr>crl_thisUpdate = en_clock en (cs_now st),
      crl_nextUpdate = en_clock en (cs_now st + 1), crl_crl = raw\<rparr>"
    using assms(3) st1 by (simp add: cacheOf_def update_conv')
  ultimately show ?thesis
    by (cases "en_clock en (cs_now st) + cs_CrlDxpireDuration st2 < en_clock en (cs_now st2)")
       (simp_all add: SearchCrlCache_def CrlExpired_def CrlNeedUpdate_def timeNow_def cacheOf_deleteCrl)
qed

theorem crl_cache_always_misses_witness:
  "\<exists>st1. AppendCrlToCache demoEnv ''u'' ''crl'' (InitCrlCache demoCrl) = Some st1 \<and>
     fst (fst (SearchCrlCache demoEnv ''u'' st1)) = False \<and>
     gm_get (cacheOf (snd (SearchCrlCache demoEnv ''u'' st1))) ''u'' = None"
proof -
  have "strict_mono (en_clock demoEnv)" by (simp add: demoEnv_def strict_mono_def)
  moreover obtain st1 where s: "AppendCrlToCache demoEnv ''u'' ''crl'' (InitCrlCache demoCrl) = Some st1"
    by (simp add: AppendCrlToCache_def InitCrlCache_def demo_auth timeNow_def)
  ultimately show ?thesis using crl_cache_always_misses [of demoEnv "''u''" "''crl''" _ st1 st1] by blast
qed

lemma setModes_ok:
  assumes "setModes ms i = (i', None)"
  shows "(flagOf i' ''none'' \<and> list_ex (\<lambda>m. trimBlank m \<in> {''none'', []}) ms) \<or>
         (\<forall>m. flagOf i' m \<longleftrightarrow> flagOf i m \<or> m \<in> trimBlank ` set ms)"
  using assms
proof (induction ms arbitrary: i)
  case (Cons m ms)
  show ?case
  proof (cases "trimBlank m \<in> {''none'', []}")
    case True
    with Cons.prems show ?thesis by (auto simp: flagOf_def update_conv' Let_def)
  next
    case False
    with Cons.prems have *: "setModes ms (gm_set (trimBlank m) True i) = (i', None)"
      by (auto simp: Let_def split: if_splits)
    have "flagOf (gm_set (trimBlank m) True i) x \<longleftrightarrow> flagOf i x \<or> x = trimBlank m" for x
      by (auto simp: flagOf_def update_conv')
    with Cons.IH [OF *] show ?thesis by auto
  qed
qed simp

text \<open>The command line option for the authentication types: when \<^verbatim>\<open>Set\<close> succeeds, either authentication
  is off altogether (a mode was \<open>none\<close> or empty), or every mode of the list is enabled unless
  authentication had been switched off before; modes that are not listed keep their state.\<close>

theorem SetModes_enables:
  assumes "SetModes i mode = (i', None)"
  shows "\<not> AnyAuth i' \<or>
         (\<forall>m. Enabled i' m \<longleftrightarrow> \<not> flagOf i ''none'' \<and>
            (flagOf i m \<or> m \<in> trimBlank ` set (split_char (CHR '','') mode)))"
proof (cases "flagOf i' ''none''")
  case True
  then show ?thesis by (simp add: AnyAuth_def)
next
  case False
  with setModes_ok [of _ i i'] assms have "\<forall>m. flagOf i' m \<longleftrightarrow> flagOf i m \<or> m \<in> trimBlank ` set (split_char (CHR '','') mode)"
    by (auto simp: SetModes_def)
  with False show ?thesis by (auto simp: Enabled_def)
qed

theorem SetModes_enables_witness:
  "SetModes [(''password'', False), (''cert'', False), (''jwt'', False)] ''password, jwt'' =
     ([(''password'', True), (''cert'', False), (''jwt'', True)], None) \<and>
   (\<forall>m. Enabled [(''password'', True), (''cert'', False), (''jwt'', True)] m \<longleftrightarrow>
      \<not> flagOf [(''password'', False), (''cert'', False), (''jwt'', False)] ''none'' \<and>
      (flagOf [(''password'', False), (''cert'', False), (''jwt'', False)] m \<or>
       m \<in> trimBlank ` set (split_char (CHR '','') ''password, jwt'')))"
proof -
  have s: "SetModes [(''password'', False), (''cert'', False), (''jwt'', False)] ''password, jwt'' =
     ([(''password'', True), (''cert'', False), (''jwt'', True)], None)"
    by (simp add: SetModes_def trimBlank_def TrimFunc_def Let_def)
  have "AnyAuth [(''password'', True), (''cert'', False), (''jwt'', True)]"
    by (simp add: AnyAuth_def flagOf_def)
  with SetModes_enables [OF s] s show ?thesis by (intro conjI) blast+
qed

end
