(* ===== verification/Os_World.thy ===== *)
theory Os_World
  imports Prelude
begin

text \<open>
  The part of the host that the gNSI services change: files and symbolic links (packages \<^verbatim>\<open>os\<close>,
  \<^verbatim>\<open>path/filepath\<close>) and the hashes of STATE_DB. Every system call may fail: a world carries a fault
  plan, and each call takes one step of it. A failing write may have written a part of the data.
  On top of them the helpers that the services share: \<^verbatim>\<open>copyFile\<close> and \<^verbatim>\<open>fileCheck\<close>
  (\<^verbatim>\<open>gnmi_server/gnsi_util.go\<close>), \<^verbatim>\<open>attemptWrite\<close> and \<^verbatim>\<open>writeCredentialsMetadataToDB\<close>
  (\<^verbatim>\<open>gnmi_server/gnsi_certz.go\<close>).

  Temporary files of \<^verbatim>\<open>os.CreateTemp\<close> have names of their own, which no path of the services denotes.
\<close>

section \<open>Files, links and the database\<close>

datatype inode = Regular string | Symlink string | Directory

datatype fname = Name string | Temp nat

text \<open>\<open>w_fault w n\<close> is the fate of the n-th system call: \<^term>\<open>None\<close> when it works, \<open>Some 0\<close> when it fails
  without an effect, and for a write \<open>Some (Suc k)\<close> when it fails after \<open>k\<close> bytes.\<close>

record world =
  w_files :: "(fname, inode) gomap"
  w_db :: "(string \<times> string, string) gomap"
  w_tick :: nat
  w_fault :: "nat \<Rightarrow> nat option"

definition ErrNotExist :: goerr where
  "ErrNotExist = Plain ''file does not exist''"

definition ErrExist :: goerr where
  "ErrExist = Plain ''file already exists''"

definition ErrIO :: goerr where
  "ErrIO = Plain ''input/output error''"

definition ErrInvalid :: goerr where
  "ErrInvalid = Plain ''invalid argument''"

definition step :: "world \<Rightarrow> world" where
  "step w = w\<lparr>w_tick := Suc (w_tick w)\<rparr>"

abbreviation fate :: "world \<Rightarrow> nat option" where
  "fate w \<equiv> w_fault w (w_tick w)"

abbreviation node :: "world \<Rightarrow> fname \<Rightarrow> inode option" where
  "node w n \<equiv> gm_get (w_files w) n"

definition putNode :: "fname \<Rightarrow> inode \<Rightarrow> world \<Rightarrow> world" where
  "putNode n i w = w\<lparr>w_files := gm_set n i (w_files w)\<rparr>"

definition delNode :: "fname \<Rightarrow> world \<Rightarrow> world" where
  "delNode n w = w\<lparr>w_files := gm_del n (w_files w)\<rparr>"

text \<open>Links are followed at most forty times, as Linux does.\<close>

fun resolve :: "nat \<Rightarrow> (fname, inode) gomap \<Rightarrow> fname \<Rightarrow> fname option" where
  "resolve 0 fs n = None"
| "resolve (Suc k) fs n =
     (case gm_get fs n of Some (Symlink t) \<Rightarrow> resolve k fs (Name t) | _ \<Rightarrow> Some n)"

definition target :: "world \<Rightarrow> fname \<Rightarrow> fname option" where
  "target w n = resolve 40 (w_files w) n"

definition osLstat :: "fname \<Rightarrow> world \<Rightarrow> (goerr + inode) \<times> world" where
  "osLstat n w =
     (if fate w \<noteq> None then (Inl ErrIO, step w)
      else (case node w n of None \<Rightarrow> (Inl ErrNotExist, step w) | Some i \<Rightarrow> (Inr i, step w)))"

definition osStat :: "fname \<Rightarrow> world \<Rightarrow> (goerr + inode) \<times> world" where
  "osStat n w =
     (if fate w \<noteq> None then (Inl ErrIO, step w)
      else (case target w n of
              None \<Rightarrow> (Inl ErrInvalid, step w)
            | Some m \<Rightarrow> (case node w m of None \<Rightarrow> (Inl ErrNotExist, step w) | Some i \<Rightarrow> (Inr i, step w))))"

definition osReadFile :: "fname \<Rightarrow> world \<Rightarrow> (goerr + string) \<times> world" where
  "osReadFile n w =
     (if fate w \<noteq> None then (Inl ErrIO, step w)
      else (case target w n of
              None \<Rightarrow> (Inl ErrInvalid, step w)
            | Some m \<Rightarrow> (case node w m of
                          None \<Rightarrow> (Inl ErrNotExist, step w)
                        | Some (Regular c) \<Rightarrow> (Inr c, step w)
                        | Some _ \<Rightarrow> (Inl ErrInvalid, step w))))"

definition osWriteFile :: "fname \<Rightarrow> string \<Rightarrow> world \<Rightarrow> goerr option \<times> world" where
  "osWriteFile n d w =
     (case target w n of
        None \<Rightarrow> (Some ErrInvalid, step w)
      | Some m \<Rightarrow>
          if node w m = Some Directory then (Some ErrInvalid, step w)
          else (case fate w of
                  None \<Rightarrow> (None, putNode m (Regular d) (step w))
                | Some 0 \<Rightarrow> (Some ErrIO, step w)
                | Some (Suc k) \<Rightarrow> (Some ErrIO, putNode m (Regular (take k d)) (step w))))"

definition osRename :: "fname \<Rightarrow> fname \<Rightarrow> world \<Rightarrow> goerr option \<times> world" where
  "osRename a b w =
     (if fate w \<noteq> None then (Some ErrIO, step w)
      else (case node w a of
              None \<Rightarrow> (Some ErrNotExist, step w)
            | Some i \<Rightarrow> if a = b then (None, step w)
                       else if node w b = Some Directory then (Some ErrExist, step w)
                       else (None, putNode b i (delNode a (step w)))))"

definition osSymlink :: "string \<Rightarrow> fname \<Rightarrow> world \<Rightarrow> goerr option \<times> world" where
  "osSymlink old new w =
     (if fate w \<noteq> None then (Some ErrIO, step w)
      else if node w new \<noteq> None then (Some ErrExist, step w)
      else (None, putNode new (Symlink old) (step w)))"

definition osReadlink :: "fname \<Rightarrow> world \<Rightarrow> (goerr + string) \<times> world" where
  "osReadlink n w =
     (if fate w \<noteq> None then (Inl ErrIO, step w)
      else (case node w n of
              None \<Rightarrow> (Inl ErrNotExist, step w)
            | Some (Symlink t) \<Rightarrow> (Inr t, step w)
            | Some _ \<Rightarrow> (Inl ErrInvalid, step w)))"

definition osChmod :: "fname \<Rightarrow> world \<Rightarrow> goerr option \<times> world" where
  "osChmod n w = (if fate w \<noteq> None then (Some ErrIO, step w)
     else if node w n = None then (Some ErrNotExist, step w) else (None, step w))"

text \<open>Entries of a directory: the names directly below it, in order.\<close>

definition childName :: "string \<Rightarrow> fname \<Rightarrow> string option" where
  "childName d n =
     (case n of
        Temp _ \<Rightarrow> None
      | Name p \<Rightarrow> if HasPrefix p (d @ ''/'') \<and> drop (length d + 1) p \<noteq> [] \<and> CHR ''/'' \<notin> set (drop (length d + 1) p)
                  then Some (drop (length d + 1) p) else None)"

definition entries :: "world \<Rightarrow> string \<Rightarrow> string list" where
  "entries w d = sort (remdups (List.map_filter (childName d \<circ> fst) (w_files w)))"

definition osReadDir :: "string \<Rightarrow> world \<Rightarrow> (goerr + string list) \<times> world" where
  "osReadDir d w =
     (if fate w \<noteq> None then (Inl ErrIO, step w)
      else if node w (Name d) \<noteq> Some Directory then (Inl ErrNotExist, step w)
      else (Inr (entries w d), step w))"

definition osRemove :: "fname \<Rightarrow> world \<Rightarrow> goerr option \<times> world" where
  "osRemove n w =
     (if fate w \<noteq> None then (Some ErrIO, step w)
      else (case node w n of
              None \<Rightarrow> (Some ErrNotExist, step w)
            | Some Directory \<Rightarrow>
                (case n of Name d \<Rightarrow> if entries w d = [] then (None, delNode n (step w))
                                   else (Some ErrExist, step w)
                 | Temp _ \<Rightarrow> (None, delNode n (step w)))
            | Some _ \<Rightarrow> (None, delNode n (step w))))"

definition osMkdirAll :: "string \<Rightarrow> world \<Rightarrow> goerr option \<times> world" where
  "osMkdirAll d w =
     (if fate w \<noteq> None then (Some ErrIO, step w)
      else (case node w (Name d) of
              None \<Rightarrow> (None, putNode (Name d) Directory (step w))
            | Some Directory \<Rightarrow> (None, step w)
            | Some _ \<Rightarrow> (Some ErrExist, step w)))"

text \<open>\<^verbatim>\<open>os.CreateTemp\<close>, and writing to and closing the file it opened.\<close>

definition osCreateTemp :: "world \<Rightarrow> (goerr + fname) \<times> world" where
  "osCreateTemp w =
     (if fate w \<noteq> None then (Inl ErrIO, step w)
      else (Inr (Temp (w_tick w)), putNode (Temp (w_tick w)) (Regular []) (step w)))"

definition fileWrite :: "fname \<Rightarrow> string \<Rightarrow> world \<Rightarrow> goerr option \<times> world" where
  "fileWrite n d w =
     (case fate w of
        None \<Rightarrow> (None, putNode n (Regular d) (step w))
      | Some k \<Rightarrow> (Some ErrIO, putNode n (Regular (take k d)) (step w)))"

definition fileClose :: "world \<Rightarrow> goerr option \<times> world" where
  "fileClose w = (if fate w \<noteq> None then (Some ErrIO, step w) else (None, step w))"

definition osOpen :: "fname \<Rightarrow> world \<Rightarrow> (goerr + string) \<times> world" where
  "osOpen n w = osReadFile n w"

text \<open>One field of a hash of STATE_DB.\<close>

definition HSet :: "string \<Rightarrow> string \<Rightarrow> string \<Rightarrow> world \<Rightarrow> goerr option \<times> world" where
  "HSet key fld val w =
     (if fate w \<noteq> None then (Some ErrIO, step w)
      else (None, (step w)\<lparr>w_db := gm_set (key, fld) val (w_db w)\<rparr>))"

text \<open>Several fields at once, and all fields of a hash.\<close>

definition HSetAll :: "string \<Rightarrow> (string \<times> string) list \<Rightarrow> world \<Rightarrow> goerr option \<times> world" where
  "HSetAll key fvs w =
     (if fate w \<noteq> None then (Some ErrIO, step w)
      else (None, (step w)\<lparr>w_db := fold (\<lambda>(f, v). gm_set (key, f) v) fvs (w_db w)\<rparr>))"

definition HGetAll :: "string \<Rightarrow> world \<Rightarrow> (goerr + (string, string) gomap) \<times> world" where
  "HGetAll key w =
     (if fate w \<noteq> None then (Inl ErrIO, step w)
      else (Inr (map (\<lambda>((k, f), v). (f, v)) (filter (\<lambda>((k, f), v). k = key) (w_db w))), step w))"

definition GetRedisDBClient :: "world \<Rightarrow> goerr option \<times> world" where
  "GetRedisDBClient w = (if fate w \<noteq> None then (Some ErrIO, step w) else (None, step w))"

section \<open>Package path/filepath\<close>

text \<open>\<^verbatim>\<open>Clean\<close> on Unix: empty and \<open>.\<close> elements go, \<open>..\<close> removes the element before it. The stack holds the elements
  in reverse.\<close>

fun cleanParts :: "bool \<Rightarrow> string list \<Rightarrow> string list \<Rightarrow> string list" where
  "cleanParts rooted stack [] = rev stack"
| "cleanParts rooted stack (p # ps) =
     (if p = [] \<or> p = ''.'' then cleanParts rooted stack ps
      else if p = ''..'' then
        (case stack of
           q # qs \<Rightarrow> if q = ''..'' then cleanParts rooted (p # stack) ps else cleanParts rooted qs ps
         | [] \<Rightarrow> cleanParts rooted (if rooted then [] else [p]) ps)
      else cleanParts rooted (p # stack) ps)"

definition Clean :: "string \<Rightarrow> string" where
  "Clean p =
     (let rooted = HasPrefix p ''/'';
          body = join ''/'' (cleanParts rooted [] (split_char (CHR ''/'') p))
      in if rooted then ''/'' @ body else if body = [] then ''.'' else body)"

definition JoinPath :: "string list \<Rightarrow> string" where
  "JoinPath ps = (let qs = dropWhile (\<lambda>p. p = []) ps in if qs = [] then [] else Clean (join ''/'' qs))"

definition DirPath :: "string \<Rightarrow> string" where
  "DirPath p = Clean (rev (dropWhile (\<lambda>c. c \<noteq> CHR ''/'') (rev p)))"

definition AbsPath :: "goerr + string \<Rightarrow> string \<Rightarrow> goerr + string" where
  "AbsPath cwd p =
     (if HasPrefix p ''/'' then Inr (Clean p)
      else case cwd of Inl e \<Rightarrow> Inl e | Inr d \<Rightarrow> Inr (JoinPath [d, p]))"

section \<open>Shared helpers\<close>

definition GetKey :: "string list \<Rightarrow> string" where
  "GetKey k = join ''|'' k"

definition backupExt :: string where
  "backupExt = ''.bak''"

definition credentialsTbl :: string where
  "credentialsTbl = ''CREDENTIALS''"

definition credentialsPath :: "string \<Rightarrow> string \<Rightarrow> string" where
  "credentialsPath tbl key =
     (let path = GetKey [credentialsTbl, tbl] in if length key > 0 then GetKey [path, key] else path)"

definition writeCredentialsMetadataToDB ::
    "string \<Rightarrow> string \<Rightarrow> string \<Rightarrow> string \<Rightarrow> world \<Rightarrow> goerr option \<times> world" where
  "writeCredentialsMetadataToDB tbl key fld val w =
     (case GetRedisDBClient w of
        (Some e, w1) \<Rightarrow> (Some (Plain (''REDIS is not available: '' @ errText e)), w1)
      | (None, w1) \<Rightarrow> HSet (credentialsPath tbl key) fld val w1)"

definition attemptWrite :: "string \<Rightarrow> string \<Rightarrow> world \<Rightarrow> goerr option \<times> world" where
  "attemptWrite name d w =
     (case osWriteFile (Name name) d w of
        (None, w1) \<Rightarrow> (None, w1)
      | (Some e, w1) \<Rightarrow>
          (case osRemove (Name name) w1 of
             (Some _, w2) \<Rightarrow> (Some (Plain (''Write '' @ name @ '' failed: '' @ errText e @ ''; Cleanup failed'')), w2)
           | (None, w2) \<Rightarrow> (Some e, w2)))"

definition removeTemp :: "fname \<Rightarrow> goerr \<Rightarrow> world \<Rightarrow> goerr option \<times> world" where
  "removeTemp t e w = (Some e, snd (osRemove t w))"

text \<open>From the temporary file on, \<^verbatim>\<open>copyFile\<close> and \<^verbatim>\<open>saveToAuthzFile\<close> are the same: write, close, rename over the
  destination, and change the mode.\<close>

definition installTemp :: "string \<Rightarrow> string \<Rightarrow> world \<Rightarrow> goerr option \<times> world" where
  "installTemp d dst w =
     (case osCreateTemp w of
        (Inl e, w1) \<Rightarrow> (Some e, w1)
      | (Inr t, w1) \<Rightarrow>
          (case fileWrite t d w1 of
             (Some e, w2) \<Rightarrow> removeTemp t e w2
           | (None, w2) \<Rightarrow>
               (case fileClose w2 of
                  (Some e, w3) \<Rightarrow> removeTemp t e w3
                | (None, w3) \<Rightarrow>
                    (case osRename t (Name dst) w3 of
                       (Some e, w4) \<Rightarrow> removeTemp t e w4
                     | (None, w4) \<Rightarrow> osChmod (Name dst) w4))))"

definition copyFile :: "string \<Rightarrow> string \<Rightarrow> world \<Rightarrow> goerr option \<times> world" where
  "copyFile src dst w =
     (case osStat (Name src) w of
        (Inl e, w1) \<Rightarrow> (Some e, w1)
      | (Inr (Regular _), w1) \<Rightarrow>
          (case osOpen (Name src) w1 of
             (Inl e, w2) \<Rightarrow> (Some e, w2)
           | (Inr d, w2) \<Rightarrow> installTemp d dst w2)
      | (Inr _, w1) \<Rightarrow> (Some (Plain (src @ '' is not a regular file'')), w1))"

definition fileCheck :: "string \<Rightarrow> world \<Rightarrow> goerr option \<times> world" where
  "fileCheck f w =
     (case osLstat (Name f) w of
        (Inl e, w1) \<Rightarrow> (Some e, w1)
      | (Inr (Regular _), w1) \<Rightarrow> (None, w1)
      | (Inr _, w1) \<Rightarrow> (Some (Plain (f @ '' is not a regular file'')), w1))"

section \<open>What the calls change\<close>

named_theorems world \<open>effects of the system calls on the parts of the world\<close>

text \<open>The world as the services see it: the named files.\<close>

definition names :: "world \<Rightarrow> string \<Rightarrow> inode option" where
  "names w f = node w (Name f)"

lemma step_sel [simp, world]:
  "w_files (step w) = w_files w" "w_db (step w) = w_db w" "w_fault (step w) = w_fault w"
  "w_tick (step w) = Suc (w_tick w)" "names (step w) = names w"
  by (simp_all add: step_def names_def fun_eq_iff)

lemma putNode_sel [simp, world]:
  "w_db (putNode n i w) = w_db w" "w_fault (putNode n i w) = w_fault w" "w_tick (putNode n i w) = w_tick w"
  "node (putNode n i w) m = (if m = n then Some i else node w m)"
  "names (putNode (Name f) i w) = (names w)(f \<mapsto> i)" "names (putNode (Temp k) i w) = names w"
  by (auto simp: putNode_def names_def update_conv' fun_eq_iff)

lemma delNode_sel [simp, world]:
  "w_db (delNode n w) = w_db w" "w_fault (delNode n w) = w_fault w" "w_tick (delNode n w) = w_tick w"
  "node (delNode n w) m = (if m = n then None else node w m)"
  "names (delNode (Name f) w) = (names w)(f := None)" "names (delNode (Temp k) w) = names w"
  by (auto simp: delNode_def names_def delete_conv' fun_eq_iff)

text \<open>Two worlds that differ at most in temporary files and in the number of calls.\<close>

definition sameNames :: "world \<Rightarrow> world \<Rightarrow> bool" where
  "sameNames w w' \<longleftrightarrow> names w' = names w \<and> w_db w' = w_db w \<and> w_fault w' = w_fault w"

text \<open>The content a path leads to.\<close>

fun follow :: "nat \<Rightarrow> (string \<Rightarrow> inode option) \<Rightarrow> string \<Rightarrow> string option" where
  "follow 0 fs f = None"
| "follow (Suc k) fs f =
     (case fs f of Some (Symlink t) \<Rightarrow> follow k fs t | Some (Regular c) \<Rightarrow> Some c | _ \<Rightarrow> None)"

lemma resolve_Name: "resolve k fs (Name f) = Some n \<Longrightarrow> \<exists>g. n = Name g"
  by (induction k arbitrary: f) (auto split: option.splits inode.splits)

lemma resolve_not_link: "resolve k fs n = Some m \<Longrightarrow> gm_get fs m \<noteq> Some (Symlink t)"
  by (induction k arbitrary: n) (auto split: option.splits inode.splits)

lemma resolve_plain: "gm_get fs n = Some (Regular c) \<or> gm_get fs n = None \<Longrightarrow> resolve (Suc k) fs n = Some n"
  by auto

lemma target_plain:
  "names w f = Some (Regular c) \<Longrightarrow> target w (Name f) = Some (Name f)"
  "names w f = None \<Longrightarrow> target w (Name f) = Some (Name f)"
  by (simp_all add: target_def names_def resolve_plain numeral_eq_Suc del: resolve.simps)

lemma osRemove_world [simp, world]:
  "w_db (snd (osRemove n w)) = w_db w" "w_fault (snd (osRemove n w)) = w_fault w"
  "w_tick (snd (osRemove n w)) = Suc (w_tick w)" "names (snd (osRemove (Temp k) w)) = names w"
  by (auto simp: osRemove_def split: option.splits inode.splits fname.splits)

lemma osRemove_other: "g \<noteq> f \<Longrightarrow> names (snd (osRemove (Name f) w)) g = names w g"
  by (auto simp: osRemove_def split: option.splits inode.splits)

lemma osRemove_cases:
  "osRemove (Name f) w = (None, w') \<Longrightarrow> names w' = (names w)(f := None)"
  "osRemove (Name f) w = (Some e, w') \<Longrightarrow> names w' = names w"
  by (auto simp: osRemove_def split: option.splits inode.splits if_splits)

lemma removeTemp_world [simp, world]:
  "w_db (snd (removeTemp t e w)) = w_db w" "w_fault (snd (removeTemp t e w)) = w_fault w"
  "names (snd (removeTemp (Temp k) e w)) = names w" "fst (removeTemp t e w) = Some e"
  by (simp_all add: removeTemp_def)

lemma removeTemp_eq [simp]: "removeTemp t e w \<noteq> (None, w')"
  "removeTemp t e w = (Some e', w') \<longleftrightarrow> e' = e \<and> w' = snd (osRemove t w)"
  by (auto simp: removeTemp_def)

lemma osChmod_world [simp, world]: "snd (osChmod n w) = step w"
  by (simp add: osChmod_def)

lemma installTemp_cases:
  "installTemp d dst w = (None, w') \<Longrightarrow>
     names w' = (names w)(dst \<mapsto> Regular d) \<and> w_db w' = w_db w \<and> w_fault w' = w_fault w"
  "installTemp d dst w = (Some e, w') \<Longrightarrow>
     (names w' = names w \<or> names w' = (names w)(dst \<mapsto> Regular d)) \<and> w_db w' = w_db w \<and> w_fault w' = w_fault w"
  by (auto simp: installTemp_def osCreateTemp_def fileWrite_def fileClose_def osRename_def osChmod_def
      split: if_splits option.splits)

text \<open>Without a fault it works, unless the destination is a directory.\<close>

definition quiet :: "world \<Rightarrow> bool" where
  "quiet w \<longleftrightarrow> (\<forall>n \<ge> w_tick w. w_fault w n = None)"

lemma quiet_fate [simp]: "quiet w \<Longrightarrow> w_tick w \<le> n \<Longrightarrow> w_fault w n = None"
  by (simp add: quiet_def)

lemma quiet_step [simp]: "quiet w \<Longrightarrow> quiet (step w)"
  by (simp add: quiet_def)

lemma quiet_put [simp]: "quiet (putNode n i w) = quiet w" "quiet (delNode n w) = quiet w"
  by (simp_all add: quiet_def)

lemma installTemp_quiet:
  "quiet w \<Longrightarrow> names w dst \<noteq> Some Directory \<Longrightarrow> \<exists>w'. installTemp d dst w = (None, w') \<and> quiet w'"
  by (auto simp: installTemp_def osCreateTemp_def fileWrite_def fileClose_def osRename_def osChmod_def names_def)

lemma osReadFile_plain:
  "names w f = Some (Regular c) \<Longrightarrow>
   osReadFile (Name f) w = (if fate w = None then (Inr c, step w) else (Inl ErrIO, step w))"
  by (auto simp: osReadFile_def target_plain) (simp add: names_def)

lemma osStat_plain:
  "names w f = Some (Regular c) \<Longrightarrow>
   osStat (Name f) w = (if fate w = None then (Inr (Regular c), step w) else (Inl ErrIO, step w))"
  by (auto simp: osStat_def target_plain) (simp add: names_def)

lemma copyFile_plain:
  assumes "names w src = Some (Regular c)"
  shows "copyFile src dst w = (None, w') \<Longrightarrow>
      names w' = (names w)(dst \<mapsto> Regular c) \<and> w_db w' = w_db w \<and> w_fault w' = w_fault w"
    and "copyFile src dst w = (Some e, w') \<Longrightarrow>
      (names w' = names w \<or> names w' = (names w)(dst \<mapsto> Regular c)) \<and> w_db w' = w_db w \<and> w_fault w' = w_fault w"
  using assms
  by (auto simp: copyFile_def osStat_plain osOpen_def osReadFile_plain split: if_splits
      dest!: installTemp_cases)

lemma copyFile_quiet:
  assumes "names w src = Some (Regular c)" "quiet w" "names w dst \<noteq> Some Directory"
  shows "\<exists>w'. copyFile src dst w = (None, w') \<and> quiet w'"
  using assms by (simp add: copyFile_def osStat_plain osOpen_def osReadFile_plain installTemp_quiet)

lemma fileCheck_cases:
  "fileCheck f w = (e, w') \<Longrightarrow> w' = step w"
  "fileCheck f w = (None, w') \<Longrightarrow> \<exists>c. names w f = Some (Regular c)"
  by (auto simp: fileCheck_def osLstat_def names_def split: option.splits inode.splits if_splits)

text \<open>Writing to a path that is no link and no directory.\<close>

definition plainFile :: "world \<Rightarrow> string \<Rightarrow> bool" where
  "plainFile w f \<longleftrightarrow> (case names w f of None \<Rightarrow> True | Some (Regular _) \<Rightarrow> True | _ \<Rightarrow> False)"

lemma plainFile_target: "plainFile w f \<Longrightarrow> target w (Name f) = Some (Name f)"
  by (auto simp: plainFile_def target_plain split: option.splits inode.splits)

lemma plainFile_not_dir: "plainFile w f \<Longrightarrow> node w (Name f) \<noteq> Some Directory"
  by (auto simp: plainFile_def names_def split: option.splits inode.splits)

lemma attemptWrite_cases:
  assumes "plainFile w f"
  shows "attemptWrite f d w = (None, w') \<Longrightarrow>
      names w' = (names w)(f \<mapsto> Regular d) \<and> w_db w' = w_db w \<and> w_fault w' = w_fault w"
    and "attemptWrite f d w = (Some e, w') \<Longrightarrow>
      (\<forall>g. g \<noteq> f \<longrightarrow> names w' g = names w g) \<and> plainFile w' f \<and> w_db w' = w_db w \<and> w_fault w' = w_fault w"
proof -
  note t = plainFile_target [OF assms] plainFile_not_dir [OF assms]
  show "attemptWrite f d w = (None, w') \<Longrightarrow>
      names w' = (names w)(f \<mapsto> Regular d) \<and> w_db w' = w_db w \<and> w_fault w' = w_fault w"
    using t by (auto simp: attemptWrite_def osWriteFile_def split: option.splits nat.splits prod.splits)
  show "attemptWrite f d w = (Some e, w') \<Longrightarrow>
      (\<forall>g. g \<noteq> f \<longrightarrow> names w' g = names w g) \<and> plainFile w' f \<and> w_db w' = w_db w \<and> w_fault w' = w_fault w"
    using t assms
    by (auto simp: attemptWrite_def osWriteFile_def osRemove_def plainFile_def
        split: option.splits nat.splits inode.splits if_splits)
qed

lemma writeCredentials_world:
  assumes "writeCredentialsMetadataToDB tbl key fld val w = (r, w')"
  shows "w_files w' = w_files w" "names w' = names w" "w_fault w' = w_fault w"
    "w_db w' = (if r = None then gm_set (credentialsPath tbl key, fld) val (w_db w) else w_db w)"
  using assms
  by (auto simp: writeCredentialsMetadataToDB_def GetRedisDBClient_def HSet_def names_def fun_eq_iff
      split: if_splits)

lemma writeCredentials_quiet:
  "quiet w \<Longrightarrow> \<exists>w'. writeCredentialsMetadataToDB tbl key fld val w = (None, w') \<and> quiet w'"
  by (auto simp: writeCredentialsMetadataToDB_def GetRedisDBClient_def HSet_def quiet_def)

end
