(* ===== verification/Json.thy ===== *)
theory Json
  imports Prelude
begin

text \<open>
  JSON values, their printing and their parsing as package \<^verbatim>\<open>encoding/json\<close> does it, for the components
  that keep their state or their answers as JSON text. Strings are ASCII here; numbers are kept as the
  text of the literal. The parser takes fuel; the length of the text is always enough for a text that the
  printer wrote, which is what the round trip \<open>parseJson_print\<close> shows.
\<close>

datatype json = JNull | JBool bool | JNum string | JStr string | JArr "json list" | JObj "(string \<times> json) list"

section \<open>Printing\<close>

definition hexDigit :: "nat \<Rightarrow> char" where
  "hexDigit n = (if n < 10 then char_of (48 + n) else char_of (87 + n))"

text \<open>The encoder escapes the quote, the backslash, control characters and the characters that matter to HTML.\<close>

definition escChar :: "char \<Rightarrow> string" where
  "escChar c =
     (let n = of_char c :: nat
      in if n = 34 \<or> n = 92 then [CHR 0x5C, c]
         else if n = 8 then [CHR 0x5C, CHR ''b'']
         else if n = 12 then [CHR 0x5C, CHR ''f'']
         else if n = 10 then [CHR 0x5C, CHR ''n'']
         else if n = 13 then [CHR 0x5C, CHR ''r'']
         else if n = 9 then [CHR 0x5C, CHR ''t'']
         else if n < 32 \<or> n = 60 \<or> n = 62 \<or> n = 38
              then [CHR 0x5C, CHR ''u'', CHR ''0'', CHR ''0'', hexDigit (n div 16), hexDigit (n mod 16)]
         else [c])"

definition printStr :: "string \<Rightarrow> string" where
  "printStr s = CHR 0x22 # concat (map escChar s) @ [CHR 0x22]"

fun printJson :: "json \<Rightarrow> string" where
  "printJson JNull = ''null''"
| "printJson (JBool b) = (if b then ''true'' else ''false'')"
| "printJson (JNum s) = s"
| "printJson (JStr s) = printStr s"
| "printJson (JArr vs) = ''['' @ join '','' (map printJson vs) @ '']''"
| "printJson (JObj ms) = ''{'' @ join '','' (map (\<lambda>(k, v). printStr k @ '':'' @ printJson v) ms) @ ''}''"

section \<open>Parsing\<close>

definition jsonSpace :: "char \<Rightarrow> bool" where
  "jsonSpace c \<longleftrightarrow> c \<in> set [CHR '' '', CHR 0x09, CHR 0x0A, CHR 0x0D]"

definition skipWs :: "string \<Rightarrow> string" where
  "skipWs = dropWhile jsonSpace"

definition hexVal :: "char \<Rightarrow> nat option" where
  "hexVal c =
     (let n = of_char c :: nat
      in if 48 \<le> n \<and> n \<le> 57 then Some (n - 48)
         else if 97 \<le> n \<and> n \<le> 102 then Some (n - 87)
         else if 65 \<le> n \<and> n \<le> 70 then Some (n - 55) else None)"

definition unescape :: "char \<Rightarrow> char option" where
  "unescape c =
     (if c = CHR 0x22 \<or> c = CHR 0x5C \<or> c = CHR ''/'' then Some c
      else if c = CHR ''b'' then Some (CHR 0x08)
      else if c = CHR ''f'' then Some (CHR 0x0C)
      else if c = CHR ''n'' then Some (CHR 0x0A)
      else if c = CHR ''r'' then Some (CHR 0x0D)
      else if c = CHR ''t'' then Some (CHR 0x09) else None)"

text \<open>The rest of a string literal after its opening quote. Code points above ASCII are refused.\<close>

fun parseStr :: "string \<Rightarrow> (string \<times> string) option" where
  "parseStr [] = None"
| "parseStr (c # r) =
     (if c = CHR 0x22 then Some ([], r)
      else if c = CHR 0x5C then
        (case r of
           [] \<Rightarrow> None
         | e # r1 \<Rightarrow>
             if e = CHR ''u'' then
               (case r1 of
                  h1 # h2 # h3 # h4 # r2 \<Rightarrow>
                    (case (hexVal h1, hexVal h2, hexVal h3, hexVal h4) of
                       (Some 0, Some 0, Some a, Some b) \<Rightarrow>
                         if a < 8 then map_option (\<lambda>(s, t). (char_of (16 * a + b) # s, t)) (parseStr r2) else None
                     | _ \<Rightarrow> None)
                | _ \<Rightarrow> None)
             else (case unescape e of
                     None \<Rightarrow> None
                   | Some d \<Rightarrow> map_option (\<lambda>(s, t). (d # s, t)) (parseStr r1)))
      else if of_char c < (32 :: nat) then None
      else map_option (\<lambda>(s, t). (c # s, t)) (parseStr r))"

text \<open>The longest number literal at the front of a text: sign, integer part, fraction, exponent.\<close>

definition digitsOf :: "string \<Rightarrow> string" where
  "digitsOf s = takeWhile is_digit s"

definition lexInt :: "string \<Rightarrow> string option" where
  "lexInt s = (case s of
       [] \<Rightarrow> None
     | c # r \<Rightarrow> if c = CHR ''0'' then Some [c] else if is_digit c then Some (digitsOf s) else None)"

definition lexFrac :: "string \<Rightarrow> string option" where
  "lexFrac s = (case s of
       [] \<Rightarrow> Some []
     | c # r \<Rightarrow> if c = CHR ''.'' then (if digitsOf r = [] then None else Some (c # digitsOf r)) else Some [])"

definition lexExp :: "string \<Rightarrow> string option" where
  "lexExp s = (case s of
       [] \<Rightarrow> Some []
     | c # r \<Rightarrow> if c = CHR ''e'' \<or> c = CHR ''E'' then
                 (let (sg, d) = (case r of x # r' \<Rightarrow> if x = CHR ''+'' \<or> x = CHR ''-'' then ([x], r') else ([], r)
                                 | [] \<Rightarrow> ([], []))
                  in if digitsOf d = [] then None else Some (c # sg @ digitsOf d))
               else Some [])"

definition lexNum :: "string \<Rightarrow> (string \<times> string) option" where
  "lexNum s =
     (let sg = (if HasPrefix s ''-'' then ''-'' else []); s1 = drop (length sg) s
      in case lexInt s1 of
           None \<Rightarrow> None
         | Some i \<Rightarrow>
             (let s2 = drop (length i) s1
              in case lexFrac s2 of
                   None \<Rightarrow> None
                 | Some f \<Rightarrow>
                     (let s3 = drop (length f) s2
                      in case lexExp s3 of
                           None \<Rightarrow> None
                         | Some e \<Rightarrow> Some (sg @ i @ f @ e, drop (length e) s3))))"

fun parseVal :: "nat \<Rightarrow> string \<Rightarrow> (json \<times> string) option"
and parseElems :: "nat \<Rightarrow> string \<Rightarrow> (json list \<times> string) option"
and parseMems :: "nat \<Rightarrow> string \<Rightarrow> ((string \<times> json) list \<times> string) option" where
  "parseVal 0 s = None"
| "parseVal (Suc k) s =
     (case skipWs s of
        [] \<Rightarrow> None
      | c # r \<Rightarrow>
          if c = CHR 0x22 then map_option (\<lambda>(x, t). (JStr x, t)) (parseStr r)
          else if c = CHR ''{'' then
            (case skipWs r of
               d # t \<Rightarrow> if d = CHR ''}'' then Some (JObj [], t)
                        else map_option (\<lambda>(x, t). (JObj x, t)) (parseMems k r)
             | [] \<Rightarrow> None)
          else if c = CHR ''['' then
            (case skipWs r of
               d # t \<Rightarrow> if d = CHR '']'' then Some (JArr [], t)
                        else map_option (\<lambda>(x, t). (JArr x, t)) (parseElems k r)
             | [] \<Rightarrow> None)
          else if HasPrefix (c # r) ''true'' then Some (JBool True, drop 4 (c # r))
          else if HasPrefix (c # r) ''false'' then Some (JBool False, drop 5 (c # r))
          else if HasPrefix (c # r) ''null'' then Some (JNull, drop 4 (c # r))
          else map_option (\<lambda>(x, t). (JNum x, t)) (lexNum (c # r)))"
| "parseElems 0 s = None"
| "parseElems (Suc k) s =
     (case parseVal k s of
        None \<Rightarrow> None
      | Some (v, r) \<Rightarrow>
          (case skipWs r of
             [] \<Rightarrow> None
           | c # t \<Rightarrow> if c = CHR '']'' then Some ([v], t)
                      else if c = CHR '','' then map_option (\<lambda>(vs, u). (v # vs, u)) (parseElems k t)
                      else None))"
| "parseMems 0 s = None"
| "parseMems (Suc k) s =
     (case skipWs s of
        [] \<Rightarrow> None
      | c # r \<Rightarrow>
          if c \<noteq> CHR 0x22 then None
          else (case parseStr r of
                  None \<Rightarrow> None
                | Some (key, r1) \<Rightarrow>
                    (case skipWs r1 of
                       [] \<Rightarrow> None
                     | d # r2 \<Rightarrow>
                         if d \<noteq> CHR '':'' then None
                         else (case parseVal k r2 of
                                 None \<Rightarrow> None
                               | Some (v, r3) \<Rightarrow>
                                   (case skipWs r3 of
                                      [] \<Rightarrow> None
                                    | x # t \<Rightarrow>
                                        if x = CHR ''}'' then Some ([(key, v)], t)
                                        else if x = CHR '','' then map_option (\<lambda>(ms, u). ((key, v) # ms, u)) (parseMems k t)
                                        else None)))))"

text \<open>\<^verbatim>\<open>json.Unmarshal\<close> into an \<^verbatim>\<open>interface{}\<close>, and \<^verbatim>\<open>json.Valid\<close>: one value, and only space after it.\<close>

definition parseJson :: "string \<Rightarrow> json option" where
  "parseJson s =
     (case parseVal (2 * length s + 2) s of
        Some (v, r) \<Rightarrow> if skipWs r = [] then Some v else None
      | None \<Rightarrow> None)"

definition jsonValid :: "string \<Rightarrow> bool" where
  "jsonValid s \<longleftrightarrow> parseJson s \<noteq> None"

section \<open>Round trip\<close>

definition asciiStr :: "string \<Rightarrow> bool" where
  "asciiStr s \<longleftrightarrow> list_all (\<lambda>c. of_char c < (128 :: nat)) s"

text \<open>What may follow a value inside a text.\<close>

definition delim :: "string \<Rightarrow> bool" where
  "delim r \<longleftrightarrow> (case r of [] \<Rightarrow> True | c # _ \<Rightarrow> c \<in> set [CHR '','', CHR ''}'', CHR '']'', CHR 0x0A])"

fun wfJson :: "json \<Rightarrow> bool" where
  "wfJson JNull = True"
| "wfJson (JBool b) = True"
| "wfJson (JNum s) = (\<forall>r. delim r \<longrightarrow> lexNum (s @ r) = Some (s, r))"
| "wfJson (JStr s) = asciiStr s"
| "wfJson (JArr vs) = list_all wfJson vs"
| "wfJson (JObj ms) = list_all (\<lambda>(k, v). asciiStr k \<and> wfJson v) ms"

lemma hexVal_hexDigit: "n < 16 \<Longrightarrow> hexVal (hexDigit n) = Some n"
  by (simp add: hexVal_def hexDigit_def Let_def)

lemma parseStr_escChar:
  assumes "of_char c < (128 :: nat)"
  shows "parseStr (escChar c @ t) = map_option (\<lambda>(s, u). (c # s, u)) (parseStr t)"
proof -
  define n where "n = (of_char c :: nat)"
  have c: "c = char_of n" by (simp add: n_def)
  consider "n = 34" | "n = 92" | "n = 8" | "n = 12" | "n = 10" | "n = 13" | "n = 9"
    | (ctl) "n \<notin> {34, 92, 8, 12, 10, 13, 9}" "n < 32 \<or> n = 60 \<or> n = 62 \<or> n = 38"
    | (plain) "n \<notin> {34, 92, 8, 12, 10, 13, 9, 60, 62, 38}" "n \<ge> 32" by fastforce
  then show ?thesis
  proof cases
    case ctl
    have "16 * (n div 16) + n mod 16 = n" by simp
    moreover have "n div 16 < 8" "n mod 16 < 16" "n div 16 < 16" using assms by (auto simp: n_def)
    moreover have "hexVal CHR ''0'' = Some 0" by (simp add: hexVal_def)
    ultimately show ?thesis using ctl
      by (auto simp: escChar_def n_def [symmetric] hexVal_hexDigit c Let_def)
  next
    case plain
    then have "c \<noteq> CHR 0x22" "c \<noteq> CHR 0x5C" by (auto simp: n_def)
    with plain show ?thesis by (simp add: escChar_def n_def [symmetric] Let_def)
  qed (simp_all add: escChar_def n_def [symmetric] c unescape_def char_of_def bit_0 Let_def)
qed

lemma parseStr_print:
  "asciiStr s \<Longrightarrow> parseStr (concat (map escChar s) @ CHR 0x22 # r) = Some (s, r)"
  by (induction s) (simp_all add: asciiStr_def parseStr_escChar)

lemma skipWs_other [simp]: "\<not> jsonSpace c \<Longrightarrow> skipWs (c # r) = c # r"
  by (simp add: skipWs_def)

lemma jsonSpace_simps [simp]:
  "\<not> jsonSpace CHR 0x22" "\<not> jsonSpace CHR ''{''" "\<not> jsonSpace CHR ''}''" "\<not> jsonSpace CHR ''[''"
  "\<not> jsonSpace CHR '']''" "\<not> jsonSpace CHR '',''" "\<not> jsonSpace CHR '':''" "\<not> jsonSpace CHR ''t''"
  "\<not> jsonSpace CHR ''f''" "\<not> jsonSpace CHR ''n''" "\<not> jsonSpace CHR ''-''"
  by (simp_all add: jsonSpace_def)

lemma wfNum_lex: "wfJson (JNum s) \<Longrightarrow> delim r \<Longrightarrow> lexNum (s @ r) = Some (s, r)"
  by simp

lemma lexNum_head:
  assumes "lexNum s = Some (s', r)"
  obtains c t where "s = c # t" "c = CHR ''-'' \<or> is_digit c"
proof (cases s)
  case Nil
  with assms show thesis by (simp add: lexNum_def lexInt_def HasPrefix_def)
next
  case (Cons c t)
  with assms have "c = CHR ''-'' \<or> is_digit c"
    by (auto simp: lexNum_def lexInt_def HasPrefix_def is_digit_def Let_def split: if_splits option.splits list.splits)
  with Cons that show thesis by blast
qed

lemma digit_not_special:
  assumes "c = CHR ''-'' \<or> is_digit c"
  shows "\<not> jsonSpace c" "c \<noteq> CHR 0x22" "c \<noteq> CHR ''{''" "c \<noteq> CHR ''[''" "c \<noteq> CHR ''t''" "c \<noteq> CHR ''f''" "c \<noteq> CHR ''n''"
  using assms by (auto simp: is_digit_def jsonSpace_def Let_def)

lemma printJson_head:
  "wfJson v \<Longrightarrow> \<exists>c t. printJson v = c # t \<and> \<not> jsonSpace c \<and> c \<noteq> CHR '']''"
proof (cases v)
  case (JNum s)
  assume "wfJson v"
  with JNum have "lexNum (s @ []) = Some (s, [])" by (intro wfNum_lex) (simp_all add: delim_def)
  then obtain c t where ct: "s = c # t" "c = CHR ''-'' \<or> is_digit c" by (metis append_Nil2 lexNum_head)
  from digit_not_special(1) [OF ct(2)] ct JNum show ?thesis by (auto simp: is_digit_def)
qed (auto simp: printStr_def)

lemma join_Cons: "join sep (w # ws) = w @ (if ws = [] then [] else sep @ join sep ws)"
  by (cases ws) auto

lemma delim_simps [simp]: "delim []" "delim (CHR '','' # r)" "delim (CHR ''}'' # r)" "delim (CHR '']'' # r)"
  "delim (CHR 0x0A # r)"
  by (simp_all add: delim_def)

definition printMem :: "string \<times> json \<Rightarrow> string" where
  "printMem m = printStr (fst m) @ '':'' @ printJson (snd m)"

lemma printMem_pair: "printMem (x, v) = CHR 0x22 # concat (map escChar x) @ CHR 0x22 # CHR '':'' # printJson v"
  by (simp add: printMem_def printStr_def)

lemma printJson_JObj: "printJson (JObj ms) = ''{'' @ join '','' (map printMem ms) @ ''}''"
proof -
  have "(\<lambda>(k, v). printStr k @ '':'' @ printJson v) = printMem" by (simp add: fun_eq_iff printMem_def)
  then show ?thesis by (simp only: printJson.simps)
qed

lemma parse_print_all:
  "(wfJson v \<longrightarrow> delim r \<longrightarrow> length (printJson v) < k \<longrightarrow> parseVal k (printJson v @ r) = Some (v, r))"
proof (induction v arbitrary: k r)
  case (JNum s)
  show ?case
  proof (intro impI)
    assume wf: "wfJson (JNum s)" and d: "delim r" and k: "length (printJson (JNum s)) < k"
    from wfNum_lex [OF wf d] have l: "lexNum (s @ r) = Some (s, r)" .
    then obtain c t where ct: "s @ r = c # t" "c = CHR ''-'' \<or> is_digit c" by (rule lexNum_head)
    from k obtain k' where "k = Suc k'" by (cases k) auto
    with l ct digit_not_special [OF ct(2)] show "parseVal k (printJson (JNum s) @ r) = Some (JNum s, r)"
      by (simp add: HasPrefix_def)
  qed
next
  case (JArr vs)
  have elems: "vs' \<noteq> [] \<Longrightarrow> set vs' \<subseteq> set vs \<Longrightarrow> list_all wfJson vs' \<Longrightarrow> length (join '','' (map printJson vs')) + 2 \<le> k' \<Longrightarrow>
      parseElems k' (join '','' (map printJson vs') @ '']'' @ r) = Some (vs', r)" for vs' k'
  proof (induction vs' arbitrary: k')
    case (Cons v vs')
    from Cons.prems(4) obtain k1 where k1: "k' = Suc k1" by (cases k') auto
    let ?rest = "(if vs' = [] then [] else '','' @ join '','' (map printJson vs')) @ '']'' @ r"
    have "parseVal k1 (printJson v @ ?rest) = Some (v, ?rest)"
      using JArr.IH [of v ?rest k1] Cons.prems k1 by (auto simp: join_Cons)
    moreover have "vs' \<noteq> [] \<Longrightarrow> parseElems k1 (join '','' (map printJson vs') @ '']'' @ r) = Some (vs', r)"
      using Cons.IH [of k1] Cons.prems k1 by (simp add: join_Cons)
    ultimately show ?case by (auto simp: k1 join_Cons)
  qed simp
  show ?case
  proof (intro impI)
    assume wf: "wfJson (JArr vs)" and d: "delim r" and k: "length (printJson (JArr vs)) < k"
    from k obtain k' where k': "k = Suc k'" by (cases k) auto
    show "parseVal k (printJson (JArr vs) @ r) = Some (JArr vs, r)"
    proof (cases vs)
      case Nil
      then show ?thesis by (simp add: k')
    next
      case (Cons v ws)
      with wf have "wfJson v" by simp
      from printJson_head [OF this] obtain c t where ct: "printJson v = c # t" "\<not> jsonSpace c" "c \<noteq> CHR '']''" by blast
      have "parseElems k' (join '','' (map printJson vs) @ '']'' @ r) = Some (vs, r)"
        using wf k k' Cons by (intro elems) simp_all
      with ct Cons show ?thesis by (auto simp: k' join_Cons)
    qed
  qed
next
  case (JObj ms)
  have mems: "ms' \<noteq> [] \<Longrightarrow> set ms' \<subseteq> set ms \<Longrightarrow> list_all (\<lambda>(k, v). asciiStr k \<and> wfJson v) ms' \<Longrightarrow>
      length (join '','' (map printMem ms')) + 2 \<le> k' \<Longrightarrow>
      parseMems k' (join '','' (map printMem ms') @ ''}'' @ r) = Some (ms', r)" for ms' k'
  proof (induction ms' arbitrary: k')
    case (Cons m ms')
    obtain x v where m: "m = (x, v)" by fastforce
    from Cons.prems(4) obtain k1 where k1: "k' = Suc k1" by (cases k') auto
    let ?rest = "(if ms' = [] then [] else '','' @ join '','' (map printMem ms')) @ ''}'' @ r"
    have "m \<in> set ms" "snd m = v" using Cons.prems(2) m by auto
    then have "parseVal k1 (printJson v @ ?rest) = Some (v, ?rest)"
      using JObj.IH [of m v ?rest k1] Cons.prems k1 m by (auto simp: join_Cons printMem_pair)
    moreover have "ms' \<noteq> [] \<Longrightarrow> parseMems k1 (join '','' (map printMem ms') @ ''}'' @ r) = Some (ms', r)"
      using Cons.IH [of k1] Cons.prems k1 by (simp add: join_Cons)
    moreover have "parseStr (concat (map escChar x) @ CHR 0x22 # CHR '':'' # printJson v @ ?rest) =
        Some (x, CHR '':'' # printJson v @ ?rest)"
      using Cons.prems(3) m by (intro parseStr_print) simp
    ultimately show ?case by (auto simp: k1 m join_Cons printMem_pair)
  qed simp
  show ?case
  proof (intro impI)
    assume wf: "wfJson (JObj ms)" and d: "delim r" and k: "length (printJson (JObj ms)) < k"
    from k obtain k' where k': "k = Suc k'" by (cases k) auto
    show "parseVal k (printJson (JObj ms) @ r) = Some (JObj ms, r)"
    proof (cases ms)
      case Nil
      then show ?thesis by (simp add: k')
    next
      case (Cons m ms')
      have "parseMems k' (join '','' (map printMem ms) @ ''}'' @ r) = Some (ms, r)"
        using wf k [unfolded printJson_JObj] k' Cons by (intro mems) simp_all
      with Cons show ?thesis unfolding printJson_JObj by (cases m) (auto simp: k' join_Cons printMem_pair)
    qed
  qed
qed (auto simp: printStr_def parseStr_print HasPrefix_def elim!: less_natE)

theorem parseJson_print: "wfJson v \<Longrightarrow> parseJson (printJson v) = Some v"
  using parse_print_all [of v "[]" "2 * length (printJson v) + 2"]
  by (simp add: parseJson_def skipWs_def)

text \<open>Decoding into a structure whose fields are strings, the form of the metadata files. The members are
  applied in order; null leaves the field, another type is an error. Names are compared exactly (the
  decoder of Go also accepts another case).\<close>

definition strField :: "string \<Rightarrow> (string \<times> json) list \<Rightarrow> string \<Rightarrow> string" where
  "strField k ms old = fold (\<lambda>(x, v) acc. if x = k then (case v of JStr s \<Rightarrow> s | _ \<Rightarrow> acc) else acc) ms old"

definition strFieldOk :: "string \<Rightarrow> (string \<times> json) list \<Rightarrow> bool" where
  "strFieldOk k ms \<longleftrightarrow> list_all (\<lambda>(x, v). x = k \<longrightarrow> (case v of JStr _ \<Rightarrow> True | JNull \<Rightarrow> True | _ \<Rightarrow> False)) ms"

text \<open>\<^verbatim>\<open>json.NewEncoder(buf).Encode\<close> ends the text with a newline.\<close>

definition encodeLine :: "json \<Rightarrow> string" where
  "encodeLine v = printJson v @ [CHR 0x0A]"

lemma parseJson_encodeLine:
  assumes "wfJson (JObj ms)"
  shows "parseJson (encodeLine (JObj ms)) = Some (JObj ms)"
proof -
  let ?k = "2 * length (encodeLine (JObj ms)) + 2"
  have "parseVal ?k (printJson (JObj ms) @ [CHR 0x0A]) = Some (JObj ms, [CHR 0x0A])"
    using assms parse_print_all [of "JObj ms" "[CHR 0x0A]" ?k] by (simp add: encodeLine_def)
  then have "parseVal ?k (encodeLine (JObj ms)) = Some (JObj ms, [CHR 0x0A])"
    by (simp only: encodeLine_def)
  then show ?thesis by (simp add: parseJson_def skipWs_def jsonSpace_def)
qed

section \<open>Decoded values\<close>

text \<open>What \<^verbatim>\<open>json.Unmarshal\<close> makes of a text when the type is \<^verbatim>\<open>interface{}\<close>: objects are Go maps. A number is a
  float64; it keeps its literal here, and \<open>num\<close> is the argument that gives the text of the float, \<^term>\<open>None\<close> when it
  is out of range.\<close>

text \<open>The members of an object as a Go map: a later member replaces an earlier one.\<close>

definition goMembers :: "(string \<times> 'v) list \<Rightarrow> (string, 'v) gomap" where
  "goMembers ms = fold (\<lambda>(k, v). gm_set k v) ms []"

text \<open>\<^verbatim>\<open>fmt.Sprintf("%v", v)\<close> of a decoded value. Maps print with their keys sorted.\<close>

fun goText :: "(string \<Rightarrow> string option) \<Rightarrow> json \<Rightarrow> string" where
  "goText num JNull = ''<nil>''"
| "goText num (JBool b) = (if b then ''true'' else ''false'')"
| "goText num (JNum n) = (case num n of Some t \<Rightarrow> t | None \<Rightarrow> [])"
| "goText num (JStr s) = s"
| "goText num (JArr vs) = ''['' @ join '' '' (map (goText num) vs) @ '']''"
| "goText num (JObj ms) =
     ''map['' @ join '' '' (map (\<lambda>(k, t). k @ '':'' @ t) (sort_key fst (goMembers (map (\<lambda>(k, v). (k, goText num v)) ms)))) @ '']''"

fun numsOk :: "(string \<Rightarrow> string option) \<Rightarrow> json \<Rightarrow> bool" where
  "numsOk num (JNum n) = (num n \<noteq> None)"
| "numsOk num (JArr vs) = list_all (numsOk num) vs"
| "numsOk num (JObj ms) = list_all (\<lambda>(k, v). numsOk num v) ms"
| "numsOk num _ = True"

definition asMap :: "json \<Rightarrow> (string, json) gomap option" where
  "asMap v = (case v of JNull \<Rightarrow> Some [] | JObj ms \<Rightarrow> Some (goMembers ms) | _ \<Rightarrow> None)"

fun goValue :: "json \<Rightarrow> json" where
  "goValue (JArr vs) = JArr (map goValue vs)"
| "goValue (JObj ms) = JObj (goMembers (map (\<lambda>(k, v). (k, goValue v)) ms))"
| "goValue v = v"

definition decodeJson :: "(string \<Rightarrow> string option) \<Rightarrow> string \<Rightarrow> json option" where
  "decodeJson num s =
     (case parseJson s of
        None \<Rightarrow> None
      | Some v \<Rightarrow> if numsOk num v then Some (goValue v) else None)"

text \<open>\<^verbatim>\<open>json.Marshal\<close> of such a value: the keys of a map are sorted, a number has the text of its float.\<close>

fun encodeGo :: "(string \<Rightarrow> string option) \<Rightarrow> json \<Rightarrow> string" where
  "encodeGo num JNull = ''null''"
| "encodeGo num (JBool b) = (if b then ''true'' else ''false'')"
| "encodeGo num (JNum n) = (case num n of Some t \<Rightarrow> t | None \<Rightarrow> [])"
| "encodeGo num (JStr s) = printStr s"
| "encodeGo num (JArr vs) = ''['' @ join '','' (map (encodeGo num) vs) @ '']''"
| "encodeGo num (JObj ms) =
     ''{'' @ join '','' (map (\<lambda>(k, t). printStr k @ '':'' @ t) (sort_key fst (map (\<lambda>(k, v). (k, encodeGo num v)) ms))) @ ''}''"

end
