(* ===== verification/Gnsi_Rotation.thy ===== *)
theory Gnsi_Rotation
  imports Os_World Json Server_Auth
begin

text \<open>
  The protocol that the gNSI services have in common: a stream of requests, each processed and answered,
  until the client finalizes; anything else (an error in a request, a broken stream, the end of the
  stream) reverts to the state before the rotation. The locale \<open>rotation\<close> states what a service promises
  of its loop, and shows once for all that a rotation ends in a revert or in a finalize of a state whose
  checkpoint is intact.
\<close>

section \<open>Streams\<close>

text \<open>What \<^verbatim>\<open>stream.Recv\<close> gives: a request, with the outcome of the \<^verbatim>\<open>stream.Send\<close> that answers it, or an error.
  The end of the list is \<^verbatim>\<open>io.EOF\<close>.\<close>

datatype 'r event = Recv 'r "goerr option" | RecvErr goerr

fun finalizes :: "('r \<Rightarrow> bool) \<Rightarrow> 'r event \<Rightarrow> bool" where
  "finalizes f (Recv r _) = f r"
| "finalizes f (RecvErr _) = False"

section \<open>The protocol\<close>

locale rotation =
  fixes loop :: "'s \<Rightarrow> 'r event list \<Rightarrow> goerr option \<times> 's"
    and isFinal :: "'r \<Rightarrow> bool"
    and process :: "'s \<Rightarrow> 'r \<Rightarrow> goerr option \<times> 's"
    and revert :: "'s \<Rightarrow> 's"
    and final :: "'s \<Rightarrow> goerr option \<times> 's"
    and saved :: "'c \<Rightarrow> 's \<Rightarrow> bool"
  assumes loop_eof: "\<exists>e. loop s [] = (Some e, revert s)"
    and loop_recv_err: "\<exists>e. loop s (RecvErr re # es) = (Some e, revert s)"
    and loop_final: "isFinal r \<Longrightarrow> loop s (Recv r x # es) = final s"
    and loop_process_err: "\<not> isFinal r \<Longrightarrow> process s r = (Some e, s') \<Longrightarrow>
          \<exists>e'. loop s (Recv r x # es) = (Some e', revert s')"
    and loop_send_err: "\<not> isFinal r \<Longrightarrow> process s r = (None, s') \<Longrightarrow>
          \<exists>e'. loop s (Recv r (Some y) # es) = (Some e', revert s')"
    and loop_next: "\<not> isFinal r \<Longrightarrow> process s r = (None, s') \<Longrightarrow> loop s (Recv r None # es) = loop s' es"
    and process_saved: "saved c s \<Longrightarrow> process s r = (eo, s') \<Longrightarrow> saved c s'"
begin

lemma loop_ends:
  assumes "saved c s"
  shows "\<exists>s'. saved c s' \<and> ((\<exists>e. loop s es = (Some e, revert s')) \<or>
           (loop s es = final s' \<and> (\<exists>ev \<in> set es. finalizes isFinal ev)))"
  using assms
proof (induction es arbitrary: s)
  case Nil
  then show ?case using loop_eof by blast
next
  case (Cons ev es)
  show ?case
  proof (cases ev)
    case (RecvErr x)
    with Cons.prems show ?thesis using loop_recv_err by blast
  next
    case (Recv r x)
    show ?thesis
    proof (cases "isFinal r")
      case True
      with Cons.prems Recv show ?thesis using loop_final by fastforce
    next
      case False
      obtain e s' where p: "process s r = (e, s')" by fastforce
      have s': "saved c s'" using process_saved [OF Cons.prems p] .
      show ?thesis
      proof (cases "e = None \<and> x = None")
        case True
        with False p Recv have "loop s (ev # es) = loop s' es" using loop_next by simp
        with Cons.IH [OF s'] show ?thesis by auto
      next
        case err: False
        then have "\<exists>e'. loop s (ev # es) = (Some e', revert s')"
          using False p Recv loop_process_err [OF False] loop_send_err [OF False] by (cases e; cases x) auto
        with s' show ?thesis by blast
      qed
    qed
  qed
qed

text \<open>A client that never finalizes always gets an error, and the service reverts.\<close>

lemma loop_unfinished:
  assumes "saved c s" and "list_all (\<lambda>ev. \<not> finalizes isFinal ev) es"
  obtains s' e where "saved c s'" "loop s es = (Some e, revert s')"
proof -
  from assms(2) have "\<not> (\<exists>ev \<in> set es. finalizes isFinal ev)" by (auto simp: list_all_iff)
  with loop_ends [OF assms(1), of es] that show thesis by blast
qed

text \<open>Requests that are all processed and answered are followed by whatever comes next.\<close>

fun processAll :: "'s \<Rightarrow> 'r list \<Rightarrow> 's option" where
  "processAll s [] = Some s"
| "processAll s (r # rs) =
     (if isFinal r then None else case process s r of (None, s') \<Rightarrow> processAll s' rs | (Some _, _) \<Rightarrow> None)"

lemma loop_processAll:
  "processAll s rs = Some s' \<Longrightarrow> loop s (map (\<lambda>r. Recv r None) rs @ es) = loop s' es"
  by (induction rs arbitrary: s) (auto simp: loop_next split: if_splits prod.splits option.splits)

lemma processAll_snoc:
  "processAll s (rs @ [r]) = Some s' \<longleftrightarrow>
     (\<exists>s1. processAll s rs = Some s1 \<and> \<not> isFinal r \<and> process s1 r = (None, s'))"
  by (induction rs arbitrary: s) (auto split: prod.splits option.splits)

text \<open>A rotation succeeds only through a finalize, after requests that were all processed and answered.\<close>

lemma loop_success:
  assumes "loop s es = (None, s')"
  shows "\<exists>rs r x es' s1. es = map (\<lambda>r. Recv r None) rs @ Recv r x # es' \<and> isFinal r \<and>
           processAll s rs = Some s1 \<and> final s1 = (None, s')"
  using assms
proof (induction es arbitrary: s)
  case Nil
  then show ?case using loop_eof [of s] by auto
next
  case (Cons ev es)
  show ?case
  proof (cases ev)
    case (RecvErr x)
    with Cons.prems show ?thesis using loop_recv_err [of s x es] by auto
  next
    case (Recv r x)
    show ?thesis
    proof (cases "isFinal r")
      case True
      with Cons.prems Recv loop_final [OF True, of s x es] show ?thesis
        by (intro exI [of _ "[]"]) auto
    next
      case False
      obtain e s1 where p: "process s r = (e, s1)" by fastforce
      have ok: "e = None \<and> x = None"
      proof (rule ccontr)
        assume "\<not> (e = None \<and> x = None)"
        then have "\<exists>e'. loop s (ev # es) = (Some e', revert s1)"
          using p Recv loop_process_err [OF False] loop_send_err [OF False] by (cases e; cases x) auto
        with Cons.prems show False by auto
      qed
      with Cons.prems Recv p loop_next [OF False, of s s1 es] have "loop s1 es = (None, s')" by simp
      from Cons.IH [OF this] obtain rs r' x' es' s2 where
        *: "es = map (\<lambda>r. Recv r None) rs @ Recv r' x' # es'" "isFinal r'" "processAll s1 rs = Some s2"
        "final s2 = (None, s')" by blast
      with ok Recv p False show ?thesis by (intro exI [of _ "r # rs"]) auto
    qed
  qed
qed

end

end
