(* ===== verification/Gnsi_Pathz.thy ===== *)
theory Gnsi_Pathz
  imports Gnsi_Rotation Pathz_Authorizer
begin

text \<open>
  The gNSI pathz service, \<^verbatim>\<open>gnmi_server/gnsi_pathz.go\<close>: rotation of the path authorization policy, with the
  policy file, its backup, the metadata and the active processor. The metadata are behind a pointer, and
  the checkpoint copies the pointer, so they are kept in a heap of cells here. The text format of the
  protocol buffer library is an argument (\<open>marshal\<close>, \<open>unmarshal\<close>).
\<close>

section \<open>The service\<close>

record pathzMetadata =
  pm_PathzVersion :: string
  pm_PathzCreatedOn :: string

record pathzServer =
  ps_processor :: processor
  ps_pathzMetadata :: nat
  ps_pathzMetadataCopy :: "nat option"
  ps_policyCopy :: "policy option"
  ps_policyUpdated :: bool
  ps_pathzV1Policy :: string
  ps_pathzV1PolicyBackup :: string
  ps_PathzMetaFile :: string
  ps_heap :: "nat \<Rightarrow> pathzMetadata"
  ps_pathzMu :: bool
  ps_world :: world

definition NewPathzMetadata :: pathzMetadata where
  "NewPathzMetadata = \<lparr>pm_PathzVersion = ''unknown'', pm_PathzCreatedOn = ''0''\<rparr>"

definition metaOf :: "pathzServer \<Rightarrow> pathzMetadata" where
  "metaOf srv = ps_heap srv (ps_pathzMetadata srv)"

definition setMeta :: "pathzMetadata \<Rightarrow> pathzServer \<Rightarrow> pathzServer" where
  "setMeta m srv = srv\<lparr>ps_heap := (ps_heap srv)(ps_pathzMetadata srv := m)\<rparr>"

definition metaJson :: "pathzMetadata \<Rightarrow> json" where
  "metaJson m = JObj [(''pathz_version'', JStr (pm_PathzVersion m)), (''pathz_created_on'', JStr (pm_PathzCreatedOn m))]"

definition savePathzFileFreshess :: "string \<Rightarrow> pathzServer \<Rightarrow> goerr option \<times> pathzServer" where
  "savePathzFileFreshess path srv =
     (case attemptWrite path (encodeLine (metaJson (metaOf srv))) (ps_world srv) of
        (e, w) \<Rightarrow> (e, srv\<lparr>ps_world := w\<rparr>))"

definition decodeMeta :: "string \<Rightarrow> pathzMetadata \<Rightarrow> goerr option \<times> pathzMetadata" where
  "decodeMeta c m =
     (case parseJson c of
        Some (JObj ms) \<Rightarrow>
          (if strFieldOk ''pathz_version'' ms \<and> strFieldOk ''pathz_created_on'' ms then None
           else Some (Plain ''json: cannot unmarshal into Go value''),
           m\<lparr>pm_PathzVersion := strField ''pathz_version'' ms (pm_PathzVersion m),
             pm_PathzCreatedOn := strField ''pathz_created_on'' ms (pm_PathzCreatedOn m)\<rparr>)
      | Some JNull \<Rightarrow> (None, m)
      | Some _ \<Rightarrow> (Some (Plain ''json: cannot unmarshal into Go value''), m)
      | None \<Rightarrow> (Some (Plain ''invalid character''), m))"

definition loadPathzFreshness :: "string \<Rightarrow> pathzServer \<Rightarrow> goerr option \<times> pathzServer" where
  "loadPathzFreshness path srv =
     (case osReadFile (Name path) (ps_world srv) of
        (Inl e, w) \<Rightarrow> (Some e, srv\<lparr>ps_world := w\<rparr>)
      | (Inr c, w) \<Rightarrow> (case decodeMeta c (metaOf srv) of (e, m) \<Rightarrow> (e, setMeta m (srv\<lparr>ps_world := w\<rparr>))))"

definition savePathzPolicyToFile ::
    "(policy option \<Rightarrow> string) \<Rightarrow> policy option \<Rightarrow> pathzServer \<Rightarrow> (string \<times> goerr option) \<times> pathzServer" where
  "savePathzPolicyToFile marshal p srv =
     (case attemptWrite (ps_pathzV1Policy srv) (marshal p) (ps_world srv) of
        (e, w) \<Rightarrow> ((marshal p, e), srv\<lparr>ps_world := w\<rparr>))"

definition verifyPathzFile :: "string \<Rightarrow> pathzServer \<Rightarrow> goerr option \<times> pathzServer" where
  "verifyPathzFile c srv =
     (case osReadFile (Name (ps_pathzV1Policy srv)) (ps_world srv) of
        (Inl e, w) \<Rightarrow> (Some e, srv\<lparr>ps_world := w\<rparr>)
      | (Inr content, w) \<Rightarrow>
          (if c \<noteq> content then Some (Plain (''Pathz file '' @ ps_pathzV1Policy srv @ '' contains error.'')) else None,
           srv\<lparr>ps_world := w\<rparr>))"

definition pathzTbl :: string where
  "pathzTbl = ''PATHZ_POLICY|''"

definition writePathzMetadataToDB :: "string \<Rightarrow> pathzServer \<Rightarrow> goerr option \<times> pathzServer" where
  "writePathzMetadataToDB instance srv =
     (case writeCredentialsMetadataToDB (pathzTbl @ instance) [] ''pathz_version'' (pm_PathzVersion (metaOf srv)) (ps_world srv) of
        (Some e, w1) \<Rightarrow> (Some e, srv\<lparr>ps_world := w1\<rparr>)
      | (None, w1) \<Rightarrow>
          (case writeCredentialsMetadataToDB (pathzTbl @ instance) [] ''pathz_created_on'' (pm_PathzCreatedOn (metaOf srv)) w1 of
             (e, w2) \<Rightarrow> (e, srv\<lparr>ps_world := w2\<rparr>)))"

definition updatePolicy :: "(policy option \<Rightarrow> string) \<Rightarrow> policy option \<Rightarrow> pathzServer \<Rightarrow> goerr option \<times> pathzServer" where
  "updatePolicy marshal p srv =
     (case savePathzPolicyToFile marshal p srv of
        ((c, Some e), srv1) \<Rightarrow> (Some e, srv1)
      | ((c, None), srv1) \<Rightarrow>
          (case verifyPathzFile c srv1 of
             (Some e, srv2) \<Rightarrow> (Some e, srv2)
           | (None, srv2) \<Rightarrow>
               (case UpdatePolicyFromProto (ps_processor srv2) p of
                  (pr, e) \<Rightarrow> (e, srv2\<lparr>ps_processor := pr\<rparr>))))"

definition createCheckpoint :: "pathzServer \<Rightarrow> goerr option \<times> pathzServer" where
  "createCheckpoint srv =
     (let srv1 = srv\<lparr>ps_policyCopy := GetPolicy (ps_processor srv), ps_policyUpdated := False,
                     ps_pathzMetadataCopy := Some (ps_pathzMetadata srv)\<rparr>
      in case copyFile (ps_pathzV1Policy srv) (ps_pathzV1PolicyBackup srv) (ps_world srv) of
           (e, w) \<Rightarrow> (e, srv1\<lparr>ps_world := w\<rparr>))"

text \<open>The end of \<^verbatim>\<open>revertPolicy\<close>: the metadata pointer and the policy file.\<close>

definition restoreFiles :: "pathzServer \<Rightarrow> goerr option \<times> pathzServer" where
  "restoreFiles srv =
     (case osRename (Name (ps_pathzV1PolicyBackup srv)) (Name (ps_pathzV1Policy srv)) (ps_world srv) of
        (e, w) \<Rightarrow> (e, srv\<lparr>ps_pathzMetadata := (case ps_pathzMetadataCopy srv of Some a \<Rightarrow> a | None \<Rightarrow> ps_pathzMetadata srv),
                          ps_world := w\<rparr>))"

definition revertPolicy :: "pathzServer \<Rightarrow> goerr option \<times> pathzServer" where
  "revertPolicy srv =
     (if ps_policyUpdated srv then
        (case UpdatePolicyFromProto (ps_processor srv) (ps_policyCopy srv) of
           (pr, Some e) \<Rightarrow>
             (Some e, srv\<lparr>ps_policyUpdated := False, ps_processor := pr,
                          ps_world := snd (osRemove (Name (ps_pathzV1PolicyBackup srv)) (ps_world srv))\<rparr>)
         | (pr, None) \<Rightarrow> restoreFiles (srv\<lparr>ps_policyUpdated := False, ps_processor := pr\<rparr>))
      else restoreFiles srv)"

definition commitChanges :: "pathzServer \<Rightarrow> goerr option \<times> pathzServer" where
  "commitChanges srv =
     (case writePathzMetadataToDB ''ACTIVE'' srv of
        (Some e, srv1) \<Rightarrow> (Some e, srv1)
      | (None, srv1) \<Rightarrow> savePathzFileFreshess (ps_PathzMetaFile srv1) srv1)"

section \<open>Rotate\<close>

record pathzUpload =
  pu_version :: string
  pu_createdOn :: "64 word"
  pu_policy :: "policy option"

record pathzRequest =
  pq_uploadRequest :: "pathzUpload option"
  pq_finalizeRotation :: bool
  pq_forceOverwrite :: bool

definition processRotateRequest ::
    "(policy option \<Rightarrow> string) \<Rightarrow> pathzServer \<Rightarrow> pathzRequest \<Rightarrow> goerr option \<times> pathzServer" where
  "processRotateRequest marshal srv req =
     (case pq_uploadRequest req of
        None \<Rightarrow> (Some (Status Aborted ''Unknown request''), srv)
      | Some up \<Rightarrow>
          if pu_version up = [] then (Some (Status Aborted ''Pathz policy version cannot be empty''), srv)
          else if pm_PathzVersion (metaOf srv) = pu_version up \<and> \<not> pq_forceOverwrite req
          then (Some (Status AlreadyExists (''Pathz with version `'' @ pu_version up @ ''` already exists'')), srv)
          else
            let srv1 = setMeta \<lparr>pm_PathzVersion = pu_version up, pm_PathzCreatedOn = FormatNat (unat (pu_createdOn up))\<rparr> srv
            in case updatePolicy marshal (pu_policy up) srv1 of
                 (Some e, srv2) \<Rightarrow> (Some (Status Aborted (errText e)), srv2)
               | (None, srv2) \<Rightarrow> (None, srv2\<lparr>ps_policyUpdated := True\<rparr>))"

definition finalizeRotation :: "pathzServer \<Rightarrow> goerr option \<times> pathzServer" where
  "finalizeRotation srv =
     (if \<not> ps_policyUpdated srv then
        (Some (Status Aborted ''Received finalize message without successful rotation''), snd (revertPolicy srv))
      else (case commitChanges srv of
              (Some e, srv1) \<Rightarrow> (Some (Status Aborted (''Final policy commit fails: '' @ errText e)), srv1)
            | (None, srv1) \<Rightarrow>
                (None, srv1\<lparr>ps_world := snd (osRemove (Name (ps_pathzV1PolicyBackup srv1)) (ps_world srv1))\<rparr>)))"

fun rotateLoop ::
    "(policy option \<Rightarrow> string) \<Rightarrow> pathzServer \<Rightarrow> pathzRequest event list \<Rightarrow> goerr option \<times> pathzServer" where
  "rotateLoop marshal srv [] =
     (case revertPolicy srv of
        (Some e, srv1) \<Rightarrow> (Some (Status Aborted (''Error in reverting policy: '' @ errText e)), srv1)
      | (None, srv1) \<Rightarrow> (Some (Status Aborted ''No Finalize message''), srv1))"
| "rotateLoop marshal srv (RecvErr e # es) = (Some (Status Aborted (errText e)), snd (revertPolicy srv))"
| "rotateLoop marshal srv (Recv req sent # es) =
     (if pq_finalizeRotation req then finalizeRotation srv
      else (case processRotateRequest marshal srv req of
              (Some e, srv1) \<Rightarrow> (Some e, snd (revertPolicy srv1))
            | (None, srv1) \<Rightarrow>
                (case sent of
                   Some e \<Rightarrow> (Some (Status Aborted (errText e)), snd (revertPolicy srv1))
                 | None \<Rightarrow> rotateLoop marshal srv1 es)))"

definition rotateLocked ::
    "(policy option \<Rightarrow> string) \<Rightarrow> pathzServer \<Rightarrow> pathzRequest event list \<Rightarrow> goerr option \<times> pathzServer" where
  "rotateLocked marshal srv es =
     (case fileCheck (ps_pathzV1Policy srv) (ps_world srv) of
        (Some e, w) \<Rightarrow>
          (Some (Status NotFound (''Error in reading file '' @ ps_pathzV1Policy srv @ '': '' @ errText e)), srv\<lparr>ps_world := w\<rparr>)
      | (None, w) \<Rightarrow>
          (case createCheckpoint (srv\<lparr>ps_world := w\<rparr>) of
             (Some e, srv1) \<Rightarrow> (Some (Status Aborted (''Error in creating checkpoint: '' @ errText e)), srv1)
           | (None, srv1) \<Rightarrow> rotateLoop marshal srv1 es))"

text \<open>\<open>authErr\<close> is the answer of \<^verbatim>\<open>authenticateFunc\<close>. The lock is held from \<^verbatim>\<open>TryLock\<close> to the deferred \<^verbatim>\<open>Unlock\<close>.\<close>

definition Rotate ::
    "(policy option \<Rightarrow> string) \<Rightarrow> goerr option \<Rightarrow> pathzServer \<Rightarrow> pathzRequest event list \<Rightarrow> goerr option \<times> pathzServer" where
  "Rotate marshal authErr srv es =
     (case authErr of
        Some e \<Rightarrow> (Some e, srv)
      | None \<Rightarrow>
          if ps_pathzMu srv then (Some (Status Aborted ''Concurrent Pathz RPCs are not allowed''), srv)
          else (case rotateLocked marshal (srv\<lparr>ps_pathzMu := True\<rparr>) es of
                  (e, srv1) \<Rightarrow> (e, srv1\<lparr>ps_pathzMu := False\<rparr>)))"

definition NewGNSIPathzServer ::
    "(string \<Rightarrow> goerr + policy) \<Rightarrow> string \<Rightarrow> string \<Rightarrow> bool \<Rightarrow> world \<Rightarrow> pathzServer" where
  "NewGNSIPathzServer unmarshal policyFile metaFile pathzPolicy w =
     (let srv0 = \<lparr>ps_processor = newProcessor, ps_pathzMetadata = 0, ps_pathzMetadataCopy = None,
                  ps_policyCopy = None, ps_policyUpdated = False, ps_pathzV1Policy = policyFile,
                  ps_pathzV1PolicyBackup = policyFile @ ''.backup'', ps_PathzMetaFile = metaFile,
                  ps_heap = (\<lambda>_. NewPathzMetadata), ps_pathzMu = False, ps_world = w\<rparr>;
          srv1 = snd (loadPathzFreshness metaFile srv0);
          srv2 = snd (writePathzMetadataToDB ''ACTIVE'' srv1)
      in if pathzPolicy then
           (case osReadFile (Name policyFile) (ps_world srv2) of
              (c, w') \<Rightarrow> (case UpdatePolicyFromFile unmarshal (ps_processor srv2) c of
                           (pr, e) \<Rightarrow> srv2\<lparr>ps_processor := pr, ps_world := w'\<rparr>))
         else srv2)"

definition ProbePathz :: "goerr" where
  "ProbePathz = Status Unimplemented ''method Probe not implemented''"

definition GetPathz :: "goerr" where
  "GetPathz = Status Unimplemented ''method Get not implemented''"

section \<open>Invariant of a rotation\<close>

lemma setMeta_sel [simp]:
  "ps_processor (setMeta m srv) = ps_processor srv" "ps_pathzMetadata (setMeta m srv) = ps_pathzMetadata srv"
  "ps_pathzMetadataCopy (setMeta m srv) = ps_pathzMetadataCopy srv" "ps_policyCopy (setMeta m srv) = ps_policyCopy srv"
  "ps_policyUpdated (setMeta m srv) = ps_policyUpdated srv" "ps_pathzV1Policy (setMeta m srv) = ps_pathzV1Policy srv"
  "ps_pathzV1PolicyBackup (setMeta m srv) = ps_pathzV1PolicyBackup srv" "ps_PathzMetaFile (setMeta m srv) = ps_PathzMetaFile srv"
  "ps_world (setMeta m srv) = ps_world srv" "metaOf (setMeta m srv) = m" "ps_pathzMu (setMeta m srv) = ps_pathzMu srv"
  by (simp_all add: setMeta_def metaOf_def)

lemma updatePolicy_cases:
  assumes "plainFile (ps_world srv) (ps_pathzV1Policy srv)" and "updatePolicy marshal p srv = (e, srv')"
  shows "\<exists>w' pr'. srv' = srv\<lparr>ps_world := w', ps_processor := pr'\<rparr> \<and>
    (\<forall>g. g \<noteq> ps_pathzV1Policy srv \<longrightarrow> names w' g = names (ps_world srv) g) \<and>
    plainFile w' (ps_pathzV1Policy srv) \<and> w_db w' = w_db (ps_world srv) \<and> w_fault w' = w_fault (ps_world srv) \<and>
    (e = None \<longrightarrow> UpdatePolicyFromProto (ps_processor srv) p = (pr', None) \<and>
       names w' (ps_pathzV1Policy srv) = Some (Regular (marshal p))) \<and>
    (e \<noteq> None \<longrightarrow> pr' = ps_processor srv)"
proof -
  let ?f = "ps_pathzV1Policy srv" and ?w = "ps_world srv"
  obtain e1 w1 where a: "attemptWrite ?f (marshal p) ?w = (e1, w1)" by fastforce
  show ?thesis
  proof (cases e1)
    case (Some x)
    with assms a have "e = Some x" "srv' = srv\<lparr>ps_world := w1, ps_processor := ps_processor srv\<rparr>"
      by (auto simp: updatePolicy_def savePathzPolicyToFile_def)
    with attemptWrite_cases(2) [OF assms(1) a [unfolded Some]] show ?thesis
      by (intro exI [of _ w1] exI [of _ "ps_processor srv"]) auto
  next
    case None
    note w1 = attemptWrite_cases(1) [OF assms(1) a [unfolded None]]
    then have reg: "names w1 ?f = Some (Regular (marshal p))" by simp
    then have plain: "plainFile w1 ?f" by (simp add: plainFile_def)
    obtain pr' e2 where u: "UpdatePolicyFromProto (ps_processor srv) p = (pr', e2)" by fastforce
    have pr': "e2 \<noteq> None \<Longrightarrow> pr' = ps_processor srv" using u pz.update_error by blast
    show ?thesis
    proof (cases "w_fault w1 (w_tick w1)")
      case (Some k)
      with assms a None reg have "e = Some ErrIO" "srv' = srv\<lparr>ps_world := step w1, ps_processor := ps_processor srv\<rparr>"
        by (auto simp: updatePolicy_def savePathzPolicyToFile_def verifyPathzFile_def osReadFile_plain)
      with w1 plain show ?thesis by (intro exI [of _ "step w1"] exI [of _ "ps_processor srv"]) (auto simp: plainFile_def)
    next
      case fate: None
      with assms a None reg u have "e = e2" "srv' = srv\<lparr>ps_world := step w1, ps_processor := pr'\<rparr>"
        by (auto simp: updatePolicy_def savePathzPolicyToFile_def verifyPathzFile_def osReadFile_plain)
      with w1 plain u pr' reg show ?thesis by (intro exI [of _ "step w1"] exI [of _ pr']) (auto simp: plainFile_def)
    qed
  qed
qed

text \<open>The checkpoint is intact: the copies of policy and file are those of the start, and the processor is too
  unless an upload succeeded. Where one did, the policy file holds the active policy.\<close>

record checkpoint =
  cp_processor :: processor
  cp_content :: string
  cp_meta :: nat
  cp_policyFile :: string
  cp_backup :: string
  cp_metaFile :: string

definition savedPathz :: "(policy option \<Rightarrow> string) \<Rightarrow> checkpoint \<Rightarrow> pathzServer \<Rightarrow> bool" where
  "savedPathz marshal c srv \<longleftrightarrow>
     ps_policyCopy srv = GetPolicy (cp_processor c) \<and> ps_pathzMetadataCopy srv = Some (cp_meta c) \<and>
     ps_pathzMetadata srv = cp_meta c \<and> ps_pathzV1Policy srv = cp_policyFile c \<and>
     ps_pathzV1PolicyBackup srv = cp_backup c \<and> ps_PathzMetaFile srv = cp_metaFile c \<and>
     cp_backup c \<noteq> cp_policyFile c \<and>
     names (ps_world srv) (cp_backup c) = Some (Regular (cp_content c)) \<and>
     plainFile (ps_world srv) (cp_policyFile c) \<and>
     (cp_metaFile c \<notin> {cp_policyFile c, cp_backup c} \<longrightarrow> plainFile (ps_world srv) (cp_metaFile c)) \<and>
     (\<not> ps_policyUpdated srv \<longrightarrow> ps_processor srv = cp_processor c)"

lemma plainFile_names: "names w' f = names w f \<Longrightarrow> plainFile w' f = plainFile w f"
  by (simp add: plainFile_def)

lemma processRotateRequest_saved:
  assumes "savedPathz marshal c srv" and "processRotateRequest marshal srv req = (e, srv')"
  shows "savedPathz marshal c srv'"
proof (cases "pq_uploadRequest req")
  case None
  with assms show ?thesis by (simp add: processRotateRequest_def)
next
  case (Some up)
  let ?m = "\<lparr>pm_PathzVersion = pu_version up, pm_PathzCreatedOn = FormatNat (unat (pu_createdOn up))\<rparr>"
  show ?thesis
  proof (cases "pu_version up = [] \<or> pm_PathzVersion (metaOf srv) = pu_version up \<and> \<not> pq_forceOverwrite req")
    case True
    with assms Some show ?thesis by (auto simp: processRotateRequest_def split: if_splits)
  next
    case False
    obtain e1 srv1 where u: "updatePolicy marshal (pu_policy up) (setMeta ?m srv) = (e1, srv1)" by fastforce
    have plain: "plainFile (ps_world (setMeta ?m srv)) (ps_pathzV1Policy (setMeta ?m srv))"
      using assms(1) by (simp add: savedPathz_def)
    from updatePolicy_cases [OF plain u] obtain w' pr' where
      c: "srv1 = (setMeta ?m srv)\<lparr>ps_world := w', ps_processor := pr'\<rparr>"
      "\<And>g. g \<noteq> ps_pathzV1Policy srv \<Longrightarrow> names w' g = names (ps_world srv) g"
      "plainFile w' (ps_pathzV1Policy srv)" "e1 \<noteq> None \<Longrightarrow> pr' = ps_processor srv" by auto
    have meta: "cp_metaFile c \<noteq> cp_policyFile c \<Longrightarrow> plainFile w' (cp_metaFile c) = plainFile (ps_world srv) (cp_metaFile c)"
      using c(2) assms(1) by (intro plainFile_names) (simp add: savedPathz_def)
    have srv': "srv' = (if e1 = None then srv1\<lparr>ps_policyUpdated := True\<rparr> else srv1)"
      using assms(2) Some False u by (auto simp: processRotateRequest_def split: option.splits if_splits)
    show ?thesis using assms(1) c meta unfolding srv' savedPathz_def by auto
  qed
qed

interpretation pzr: rotation "rotateLoop marshal" pq_finalizeRotation "processRotateRequest marshal"
  "snd \<circ> revertPolicy" finalizeRotation "savedPathz marshal" for marshal
proof unfold_locales
  show "\<exists>e. rotateLoop marshal s [] = (Some e, (snd \<circ> revertPolicy) s)" for s
    by (auto split: prod.splits option.splits)
qed (auto intro: processRotateRequest_saved)

definition startPoint :: "pathzServer \<Rightarrow> string \<Rightarrow> checkpoint" where
  "startPoint srv c0 = \<lparr>cp_processor = ps_processor srv, cp_content = c0, cp_meta = ps_pathzMetadata srv,
     cp_policyFile = ps_pathzV1Policy srv, cp_backup = ps_pathzV1PolicyBackup srv, cp_metaFile = ps_PathzMetaFile srv\<rparr>"

text \<open>A rotation either fails before it changes anything, or its loop starts with an intact checkpoint.\<close>

lemma rotateLocked_start:
  assumes "names (ps_world srv) (ps_pathzV1Policy srv) = Some (Regular c0)"
    and "ps_pathzV1PolicyBackup srv \<noteq> ps_pathzV1Policy srv" "plainFile (ps_world srv) (ps_PathzMetaFile srv)"
    and "rotateLocked marshal srv es = (r, srv')"
  shows "(\<exists>srv1. savedPathz marshal (startPoint srv c0) srv1 \<and> \<not> ps_policyUpdated srv1 \<and>
            ps_processor srv1 = ps_processor srv \<and> metaOf srv1 = metaOf srv \<and> w_fault (ps_world srv1) = w_fault (ps_world srv) \<and>
            rotateLoop marshal srv1 es = (r, srv')) \<or>
         (r \<noteq> None \<and> ps_processor srv' = ps_processor srv \<and>
          names (ps_world srv') (ps_pathzV1Policy srv) = Some (Regular c0))"
proof (cases "fileCheck (ps_pathzV1Policy srv) (ps_world srv)")
  case (Pair e w)
  note w = fileCheck_cases(1) [OF Pair]
  show ?thesis
  proof (cases e)
    case (Some x)
    with Pair assms(1,4) w show ?thesis by (auto simp: rotateLocked_def)
  next
    case None
    have reg: "names w (ps_pathzV1Policy srv) = Some (Regular c0)" using assms(1) w by simp
    obtain e1 w1 where cp: "copyFile (ps_pathzV1Policy srv) (ps_pathzV1PolicyBackup srv) w = (e1, w1)" by fastforce
    show ?thesis
    proof (cases e1)
      case (Some x)
      with copyFile_plain(2) [OF reg] cp have "names w1 (ps_pathzV1Policy srv) = Some (Regular c0)"
        using assms(2) reg by fastforce
      with Some cp Pair None assms(4) show ?thesis by (auto simp: rotateLocked_def createCheckpoint_def)
    next
      case ok: None
      note w1 = copyFile_plain(1) [OF reg cp [unfolded ok]]
      let ?srv1 = "srv\<lparr>ps_policyCopy := GetPolicy (ps_processor srv), ps_policyUpdated := False,
          ps_pathzMetadataCopy := Some (ps_pathzMetadata srv), ps_world := w1\<rparr>"
      have "rotateLoop marshal ?srv1 es = (r, srv')"
        using assms(4) Pair None cp ok by (simp add: rotateLocked_def createCheckpoint_def)
      moreover have "savedPathz marshal (startPoint srv c0) ?srv1"
        using w1 w assms(1-3) by (auto simp: savedPathz_def startPoint_def plainFile_def)
      moreover have "metaOf ?srv1 = metaOf srv" by (simp add: metaOf_def)
      moreover have "w_fault w1 = w_fault (ps_world srv)" using w1 w by simp
      ultimately show ?thesis by (intro disjI1 exI [of _ ?srv1]) simp
    qed
  qed
qed

lemma restoreFiles_saved:
  assumes "savedPathz marshal c srv" and "restoreFiles srv = (e, srv')"
  shows "ps_processor srv' = ps_processor srv" "metaOf srv' = metaOf srv"
    "w_fault (ps_world srv') (w_tick (ps_world srv') - 1) = None \<Longrightarrow>
       names (ps_world srv') (cp_policyFile c) = Some (Regular (cp_content c))"
  using assms
  by (auto simp: restoreFiles_def savedPathz_def osRename_def names_def metaOf_def plainFile_def
      split: if_splits option.splits)

lemma revertPolicy_saved:
  assumes "savedPathz marshal c srv" and "UpdatePolicyFromProto p po = (cp_processor c, None)"
    and "revertPolicy srv = (e, srv')"
  shows "AuthorizeWithPrefix (ps_processor srv') = AuthorizeWithPrefix (cp_processor c)"
    "GetPolicy (ps_processor srv') = GetPolicy (cp_processor c)" "metaOf srv' = metaOf srv"
    "w_fault (ps_world srv') (w_tick (ps_world srv') - 1) = None \<Longrightarrow>
       names (ps_world srv') (cp_policyFile c) = Some (Regular (cp_content c))"
proof -
  from pz.reinstall [OF assms(2), of "ps_processor srv"] obtain q where
    q: "UpdatePolicyFromProto (ps_processor srv) (GetPolicy (cp_processor c)) = (q, None)"
    "GetPolicy q = po" "AuthorizeWithPrefix q = AuthorizeWithPrefix (cp_processor c)" by blast
  have po: "GetPolicy (cp_processor c) = po" using pz.update_get [OF assms(2)] .
  let ?srv1 = "if ps_policyUpdated srv then srv\<lparr>ps_policyUpdated := False, ps_processor := q\<rparr> else srv"
  have r: "restoreFiles ?srv1 = (e, srv')"
    using assms(1,3) q(1) by (auto simp: revertPolicy_def savedPathz_def split: if_splits)
  let ?c = "if ps_policyUpdated srv then c\<lparr>cp_processor := q\<rparr> else c"
  have s: "savedPathz marshal ?c ?srv1"
    using assms(1) q(2) po by (auto simp: savedPathz_def)
  note f = restoreFiles_saved [OF s r]
  have "ps_processor ?srv1 = (if ps_policyUpdated srv then q else cp_processor c)"
    using assms(1) by (auto simp: savedPathz_def)
  with f(1) q po show "AuthorizeWithPrefix (ps_processor srv') = AuthorizeWithPrefix (cp_processor c)"
    "GetPolicy (ps_processor srv') = GetPolicy (cp_processor c)" by auto
  show "metaOf srv' = metaOf srv" using f(2) by (simp add: metaOf_def split: if_splits)
  show "w_fault (ps_world srv') (w_tick (ps_world srv') - 1) = None \<Longrightarrow>
       names (ps_world srv') (cp_policyFile c) = Some (Regular (cp_content c))"
    using f(3) by (simp split: if_splits)
qed

section \<open>Properties\<close>



text \<open>A server with an installed policy, for the witnesses. The text of a policy is the list of its rule names.\<close>

definition demoMarshal :: "policy option \<Rightarrow> string" where
  "demoMarshal po = (case po of None \<Rightarrow> [] | Some p \<Rightarrow> concat (map ar_id (pol_rules p)))"

definition demoWorld :: "string \<Rightarrow> world" where
  "demoWorld c = \<lparr>w_files = [(Name ''p'', Regular c)], w_db = [], w_tick = 0, w_fault = (\<lambda>_. None)\<rparr>"

definition demoServer :: pathzServer where
  "demoServer = \<lparr>ps_processor = fst (UpdatePolicyFromProto newProcessor (Some demoPolicy)), ps_pathzMetadata = 0,
     ps_pathzMetadataCopy = None, ps_policyCopy = None, ps_policyUpdated = False, ps_pathzV1Policy = ''p'',
     ps_pathzV1PolicyBackup = ''p.backup'', ps_PathzMetaFile = ''m'', ps_heap = (\<lambda>_. NewPathzMetadata),
     ps_pathzMu = False, ps_world = demoWorld ''old''\<rparr>"

definition demoUpload :: pathzRequest where
  "demoUpload = \<lparr>pq_uploadRequest = Some \<lparr>pu_version = ''v2'', pu_createdOn = 5, pu_policy = Some demoPolicy\<rparr>,
     pq_finalizeRotation = False, pq_forceOverwrite = False\<rparr>"

definition demoFinalize :: pathzRequest where
  "demoFinalize = \<lparr>pq_uploadRequest = None, pq_finalizeRotation = True, pq_forceOverwrite = False\<rparr>"

lemma demoServer_files [simp]:
  "names (ps_world demoServer) ''p'' = Some (Regular ''old'')" "ps_pathzV1Policy demoServer = ''p''"
  "ps_pathzV1PolicyBackup demoServer = ''p.backup''" "ps_PathzMetaFile demoServer = ''m''"
  "plainFile (ps_world demoServer) ''m''" "quiet (ps_world demoServer)" "ps_pathzMu demoServer = False"
  "ps_processor demoServer = fst (UpdatePolicyFromProto newProcessor (Some demoPolicy))"
  by (simp_all add: demoServer_def demoWorld_def names_def plainFile_def quiet_def)


section \<open>Successful rotations\<close>

lemma processRotateRequest_ok:
  assumes "processRotateRequest marshal srv req = (None, srv')"
    and "plainFile (ps_world srv) (ps_pathzV1Policy srv)"
  obtains up where "pq_uploadRequest req = Some up" "ps_policyUpdated srv'"
    "metaOf srv' = \<lparr>pm_PathzVersion = pu_version up, pm_PathzCreatedOn = FormatNat (unat (pu_createdOn up))\<rparr>"
    "GetPolicy (ps_processor srv') = pu_policy up"
    "names (ps_world srv') (ps_pathzV1Policy srv) = Some (Regular (marshal (pu_policy up)))"
proof -
  from assms(1) obtain up where up: "pq_uploadRequest req = Some up"
    by (auto simp: processRotateRequest_def split: option.splits)
  let ?m = "\<lparr>pm_PathzVersion = pu_version up, pm_PathzCreatedOn = FormatNat (unat (pu_createdOn up))\<rparr>"
  from assms(1) up obtain srv1 where u: "updatePolicy marshal (pu_policy up) (setMeta ?m srv) = (None, srv1)"
    and srv': "srv' = srv1\<lparr>ps_policyUpdated := True\<rparr>"
    by (auto simp: processRotateRequest_def split: if_splits prod.splits option.splits)
  have "plainFile (ps_world (setMeta ?m srv)) (ps_pathzV1Policy (setMeta ?m srv))" using assms(2) by simp
  from updatePolicy_cases [OF this u] obtain w' pr' where
    c: "srv1 = (setMeta ?m srv)\<lparr>ps_world := w', ps_processor := pr'\<rparr>"
    "UpdatePolicyFromProto (ps_processor srv) (pu_policy up) = (pr', None)"
    "names w' (ps_pathzV1Policy srv) = Some (Regular (marshal (pu_policy up)))" by auto
  have "metaOf srv' = ?m" unfolding srv' c(1) by (simp add: metaOf_def setMeta_def)
  with up c srv' pz.update_get [OF c(2)] show thesis by (intro that [OF up]) simp_all
qed

lemma commitChanges_ok:
  assumes "commitChanges srv = (None, srv')" and "plainFile (ps_world srv) (ps_PathzMetaFile srv)"
  shows "\<exists>w'. srv' = srv\<lparr>ps_world := w'\<rparr> \<and>
    names w' = (names (ps_world srv))(ps_PathzMetaFile srv \<mapsto> Regular (encodeLine (metaJson (metaOf srv)))) \<and>
    gm_get (w_db w') (credentialsPath (pathzTbl @ ''ACTIVE'') [], ''pathz_version'') = Some (pm_PathzVersion (metaOf srv)) \<and>
    gm_get (w_db w') (credentialsPath (pathzTbl @ ''ACTIVE'') [], ''pathz_created_on'') = Some (pm_PathzCreatedOn (metaOf srv))"
proof -
  let ?tbl = "pathzTbl @ ''ACTIVE''"
  obtain e1 w1 where a: "writeCredentialsMetadataToDB ?tbl [] ''pathz_version'' (pm_PathzVersion (metaOf srv)) (ps_world srv) = (e1, w1)" by fastforce
  obtain e2 w2 where b: "writeCredentialsMetadataToDB ?tbl [] ''pathz_created_on'' (pm_PathzCreatedOn (metaOf srv)) w1 = (e2, w2)" by fastforce
  have e: "e1 = None" "e2 = None" using assms(1) a b
    by (auto simp: commitChanges_def writePathzMetadataToDB_def split: option.splits)
  let ?srv2 = "srv\<lparr>ps_world := w2\<rparr>"
  have "savePathzFileFreshess (ps_PathzMetaFile srv) ?srv2 = (None, srv')"
    using assms(1) a b e by (simp add: commitChanges_def writePathzMetadataToDB_def)
  moreover have m: "metaOf ?srv2 = metaOf srv" by (simp add: metaOf_def)
  ultimately obtain w3 where w3: "attemptWrite (ps_PathzMetaFile srv) (encodeLine (metaJson (metaOf srv))) w2 = (None, w3)"
    "srv' = srv\<lparr>ps_world := w3\<rparr>" by (auto simp: savePathzFileFreshess_def split: prod.splits)
  note wa = writeCredentials_world [OF a] and wb = writeCredentials_world [OF b]
  have n: "names w2 = names (ps_world srv)" using wa(2) wb(2) by simp
  then have "plainFile w2 (ps_PathzMetaFile srv)" using assms(2) by (simp add: plainFile_def)
  note wc = attemptWrite_cases(1) [OF this w3(1)]
  have db: "w_db w3 = gm_set (credentialsPath ?tbl [], ''pathz_created_on'') (pm_PathzCreatedOn (metaOf srv))
      (gm_set (credentialsPath ?tbl [], ''pathz_version'') (pm_PathzVersion (metaOf srv)) (w_db (ps_world srv)))"
    using wc wb(4) wa(4) e by simp
  show ?thesis
    by (rule exI [of _ w3]) (use w3(2) conjunct1 [OF wc] n in \<open>simp add: db update_conv'\<close>)
qed

text \<open>C9. A rotation that reports success made the last uploaded policy active: it is the policy of the processor,
  the policy file holds its text, STATE_DB holds its version and creation time, and so does the metadata
  file. Every request before the finalize was processed and answered.\<close>

theorem finalized_rotation_installs_upload:
  assumes "names (ps_world srv) (ps_pathzV1Policy srv) = Some (Regular c0)"
    and "ps_pathzV1PolicyBackup srv \<noteq> ps_pathzV1Policy srv" and "plainFile (ps_world srv) (ps_PathzMetaFile srv)"
    and "ps_PathzMetaFile srv \<notin> {ps_pathzV1Policy srv, ps_pathzV1PolicyBackup srv}"
    and "Rotate marshal authErr srv es = (None, srv')"
  shows "\<exists>rs r x es' up. es = map (\<lambda>q. Recv q None) rs @ Recv r x # es' \<and> pq_finalizeRotation r \<and>
     rs \<noteq> [] \<and> pq_uploadRequest (last rs) = Some up \<and>
     GetPolicy (ps_processor srv') = pu_policy up \<and>
     names (ps_world srv') (ps_pathzV1Policy srv) = Some (Regular (marshal (pu_policy up))) \<and>
     gm_get (w_db (ps_world srv')) (''CREDENTIALS|PATHZ_POLICY|ACTIVE'', ''pathz_version'') = Some (pu_version up) \<and>
     gm_get (w_db (ps_world srv')) (''CREDENTIALS|PATHZ_POLICY|ACTIVE'', ''pathz_created_on'') =
       Some (FormatNat (unat (pu_createdOn up))) \<and>
     names (ps_world srv') (ps_PathzMetaFile srv) = Some (Regular (encodeLine (metaJson
       \<lparr>pm_PathzVersion = pu_version up, pm_PathzCreatedOn = FormatNat (unat (pu_createdOn up))\<rparr>)))"
proof -
  let ?srv = "srv\<lparr>ps_pathzMu := True\<rparr>" and ?cp = "startPoint srv c0"
  from assms(5) obtain srv1 where l: "rotateLocked marshal ?srv es = (None, srv1)" and
    srv': "srv' = srv1\<lparr>ps_pathzMu := False\<rparr>"
    by (auto simp: Rotate_def split: prod.splits option.splits if_splits)
  have "startPoint ?srv c0 = ?cp" by (simp add: startPoint_def)
  with rotateLocked_start [OF _ _ _ l, of c0] assms(1-3) obtain srv2 where
    s2: "savedPathz marshal ?cp srv2" "\<not> ps_policyUpdated srv2" "rotateLoop marshal srv2 es = (None, srv1)" by auto
  from pzr.loop_success [OF s2(3)] obtain rs r x es' srv3 where
    es: "es = map (\<lambda>q. Recv q None) rs @ Recv r x # es'" "pq_finalizeRotation r"
    and all: "pzr.processAll marshal srv2 rs = Some srv3" and fin: "finalizeRotation srv3 = (None, srv1)" by blast
  have upd: "ps_policyUpdated srv3" using fin by (auto simp: finalizeRotation_def split: if_splits)
  with all s2(2) have ne: "rs \<noteq> []" by auto
  then obtain rs0 q where rs: "rs = rs0 @ [q]" by (metis rev_exhaust)
  with all obtain srv4 where p0: "pzr.processAll marshal srv2 rs0 = Some srv4"
    and q: "processRotateRequest marshal srv4 q = (None, srv3)" by (auto simp: pzr.processAll_snoc)
  have keep: "pzr.processAll marshal s rs' = Some s' \<Longrightarrow> savedPathz marshal ?cp s \<Longrightarrow> savedPathz marshal ?cp s'" for s rs' s'
    by (induction rs' arbitrary: s) (auto split: if_splits prod.splits option.splits dest: processRotateRequest_saved)
  have s4: "savedPathz marshal ?cp srv4" by (rule keep [OF p0 s2(1)])
  have s3: "savedPathz marshal ?cp srv3" by (rule keep [OF all s2(1)])
  from s4 have "plainFile (ps_world srv4) (ps_pathzV1Policy srv4)" and f4: "ps_pathzV1Policy srv4 = ps_pathzV1Policy srv"
    by (simp_all add: savedPathz_def startPoint_def)
  from processRotateRequest_ok [OF q this(1)] obtain up where
    up: "pq_uploadRequest q = Some up"
    "metaOf srv3 = \<lparr>pm_PathzVersion = pu_version up, pm_PathzCreatedOn = FormatNat (unat (pu_createdOn up))\<rparr>"
    "GetPolicy (ps_processor srv3) = pu_policy up"
    "names (ps_world srv3) (ps_pathzV1Policy srv) = Some (Regular (marshal (pu_policy up)))"
    unfolding f4 by blast
  from fin upd obtain srv5 where c: "commitChanges srv3 = (None, srv5)"
    and srv1: "srv1 = srv5\<lparr>ps_world := snd (osRemove (Name (ps_pathzV1PolicyBackup srv5)) (ps_world srv5))\<rparr>"
    by (auto simp: finalizeRotation_def split: prod.splits option.splits)
  have files: "ps_PathzMetaFile srv3 = ps_PathzMetaFile srv" "ps_pathzV1PolicyBackup srv3 = ps_pathzV1PolicyBackup srv"
    "plainFile (ps_world srv3) (ps_PathzMetaFile srv3)"
    using s3 assms(4) by (auto simp: savedPathz_def startPoint_def)
  from commitChanges_ok [OF c files(3)] obtain w' where w': "srv5 = srv3\<lparr>ps_world := w'\<rparr>"
    "names w' = (names (ps_world srv3))(ps_PathzMetaFile srv3 \<mapsto> Regular (encodeLine (metaJson (metaOf srv3))))"
    "gm_get (w_db w') (credentialsPath (pathzTbl @ ''ACTIVE'') [], ''pathz_version'') = Some (pm_PathzVersion (metaOf srv3))"
    "gm_get (w_db w') (credentialsPath (pathzTbl @ ''ACTIVE'') [], ''pathz_created_on'') = Some (pm_PathzCreatedOn (metaOf srv3))"
    by blast
  have key: "credentialsPath (pathzTbl @ ''ACTIVE'') [] = ''CREDENTIALS|PATHZ_POLICY|ACTIVE''"
    by (simp add: credentialsPath_def GetKey_def credentialsTbl_def pathzTbl_def)
  have n1: "g \<noteq> ps_pathzV1PolicyBackup srv \<Longrightarrow> names (ps_world srv1) g = names w' g" for g
    unfolding srv1 w'(1) by (simp add: osRemove_other files)
  show ?thesis
    by (rule exI [of _ rs], rule exI [of _ r], rule exI [of _ x], rule exI [of _ es'], rule exI [of _ up])
       (use es ne rs up w' srv' srv1 n1 files assms(2,4) key in \<open>auto simp: n1\<close>)
qed

section \<open>Rotations without faults\<close>

lemma attemptWrite_quiet:
  "plainFile w f \<Longrightarrow> quiet w \<Longrightarrow> attemptWrite f d w = (None, putNode (Name f) (Regular d) (step w))"
  by (simp add: attemptWrite_def osWriteFile_def plainFile_target plainFile_not_dir)

lemma rotateLocked_quiet:
  assumes "names (ps_world srv) (ps_pathzV1Policy srv) = Some (Regular c0)"
    and "ps_pathzV1PolicyBackup srv \<noteq> ps_pathzV1Policy srv" "plainFile (ps_world srv) (ps_PathzMetaFile srv)"
    and "names (ps_world srv) (ps_pathzV1PolicyBackup srv) \<noteq> Some Directory" "quiet (ps_world srv)"
  shows "\<exists>srv1. savedPathz marshal (startPoint srv c0) srv1 \<and> \<not> ps_policyUpdated srv1 \<and> quiet (ps_world srv1) \<and>
           ps_processor srv1 = ps_processor srv \<and> metaOf srv1 = metaOf srv \<and>
           (\<forall>es. rotateLocked marshal srv es = rotateLoop marshal srv1 es)"
proof -
  let ?w = "step (ps_world srv)"
  have fc: "fileCheck (ps_pathzV1Policy srv) (ps_world srv) = (None, ?w)"
    using assms(1,5) by (simp add: fileCheck_def osLstat_def names_def)
  have reg: "names ?w (ps_pathzV1Policy srv) = Some (Regular c0)" using assms(1) by simp
  from copyFile_quiet [OF reg, of "ps_pathzV1PolicyBackup srv"] assms(4,5) obtain w1 where
    w1: "copyFile (ps_pathzV1Policy srv) (ps_pathzV1PolicyBackup srv) ?w = (None, w1)" "quiet w1" by auto
  let ?srv1 = "srv\<lparr>ps_policyCopy := GetPolicy (ps_processor srv), ps_policyUpdated := False,
      ps_pathzMetadataCopy := Some (ps_pathzMetadata srv), ps_world := w1\<rparr>"
  have "rotateLocked marshal srv es = rotateLoop marshal ?srv1 es" for es
    using fc w1(1) by (simp add: rotateLocked_def createCheckpoint_def)
  moreover have "savedPathz marshal (startPoint srv c0) ?srv1"
    using copyFile_plain(1) [OF reg w1(1)] assms(1-3) by (auto simp: savedPathz_def startPoint_def plainFile_def)
  moreover have "metaOf ?srv1 = metaOf srv" by (simp add: metaOf_def)
  ultimately show ?thesis using w1(2) by (intro exI [of _ ?srv1]) simp
qed

definition goodUpload :: "pathzServer \<Rightarrow> pathzRequest \<Rightarrow> pathzUpload \<Rightarrow> bool" where
  "goodUpload srv req up \<longleftrightarrow> pq_uploadRequest req = Some up \<and> \<not> pq_finalizeRotation req \<and> pu_version up \<noteq> [] \<and>
     (pm_PathzVersion (metaOf srv) = pu_version up \<longrightarrow> pq_forceOverwrite req) \<and>
     snd (UpdatePolicyFromProto newProcessor (pu_policy up)) = None"

lemma processRotateRequest_quiet:
  assumes "savedPathz marshal c srv" "quiet (ps_world srv)" "goodUpload srv req up"
  shows "\<exists>srv1. processRotateRequest marshal srv req = (None, srv1) \<and> quiet (ps_world srv1) \<and> ps_policyUpdated srv1 \<and>
     metaOf srv1 = \<lparr>pm_PathzVersion = pu_version up, pm_PathzCreatedOn = FormatNat (unat (pu_createdOn up))\<rparr> \<and>
     UpdatePolicyFromProto (ps_processor srv) (pu_policy up) = (ps_processor srv1, None)"
proof -
  let ?m = "\<lparr>pm_PathzVersion = pu_version up, pm_PathzCreatedOn = FormatNat (unat (pu_createdOn up))\<rparr>"
  let ?f = "ps_pathzV1Policy srv"
  have plain: "plainFile (ps_world srv) ?f" using assms(1) by (simp add: savedPathz_def)
  from assms(3) pz.update_again [of newProcessor "pu_policy up" _ "ps_processor srv"] obtain pr' where
    u: "UpdatePolicyFromProto (ps_processor srv) (pu_policy up) = (pr', None)"
    by (metis goodUpload_def prod.collapse)
  let ?w1 = "putNode (Name ?f) (Regular (marshal (pu_policy up))) (step (ps_world srv))"
  have r: "osReadFile (Name ?f) ?w1 = (Inr (marshal (pu_policy up)), step ?w1)"
    using assms(2) by (subst osReadFile_plain [where c = "marshal (pu_policy up)"]) simp_all
  have "updatePolicy marshal (pu_policy up) (setMeta ?m srv) =
      (None, (setMeta ?m srv)\<lparr>ps_world := step ?w1, ps_processor := pr'\<rparr>)"
    using u r by (simp add: updatePolicy_def savePathzPolicyToFile_def verifyPathzFile_def
        attemptWrite_quiet [OF plain assms(2)])
  with assms(2,3) u show ?thesis
    by (auto simp: processRotateRequest_def goodUpload_def metaOf_def setMeta_def Let_def)
qed

lemma finalizeRotation_quiet:
  assumes "quiet (ps_world srv)" "ps_policyUpdated srv" "plainFile (ps_world srv) (ps_PathzMetaFile srv)"
  shows "\<exists>srv'. finalizeRotation srv = (None, srv')"
proof -
  from writeCredentials_quiet [OF assms(1)] obtain w1 where
    a: "writeCredentialsMetadataToDB (pathzTbl @ ''ACTIVE'') [] ''pathz_version'' (pm_PathzVersion (metaOf srv)) (ps_world srv) = (None, w1)"
    and q1: "quiet w1" by blast
  from writeCredentials_quiet [OF q1] obtain w2 where
    b: "writeCredentialsMetadataToDB (pathzTbl @ ''ACTIVE'') [] ''pathz_created_on'' (pm_PathzCreatedOn (metaOf srv)) w1 = (None, w2)"
    and q2: "quiet w2" by blast
  have "plainFile w2 (ps_PathzMetaFile srv)"
    using assms(3) writeCredentials_world(2) [OF a] writeCredentials_world(2) [OF b] by (simp add: plainFile_def)
  with a b q2 assms(2) show ?thesis
    by (simp add: finalizeRotation_def commitChanges_def writePathzMetadataToDB_def savePathzFileFreshess_def
        attemptWrite_quiet)
qed

lemma rotation_quiet:
  assumes "names (ps_world srv) (ps_pathzV1Policy srv) = Some (Regular c0)"
    and "ps_pathzV1PolicyBackup srv \<noteq> ps_pathzV1Policy srv" and "plainFile (ps_world srv) (ps_PathzMetaFile srv)"
    and "ps_PathzMetaFile srv \<notin> {ps_pathzV1Policy srv, ps_pathzV1PolicyBackup srv}"
    and "names (ps_world srv) (ps_pathzV1PolicyBackup srv) \<noteq> Some Directory" and "quiet (ps_world srv)"
    and "\<not> ps_pathzMu srv" and "goodUpload srv req up" and "pq_finalizeRotation fin"
  shows "\<exists>srv'. Rotate marshal None srv [Recv req None, Recv fin x] = (None, srv')"
proof -
  let ?srv = "srv\<lparr>ps_pathzMu := True\<rparr>"
  have "names (ps_world ?srv) (ps_pathzV1Policy ?srv) = Some (Regular c0)"
    "ps_pathzV1PolicyBackup ?srv \<noteq> ps_pathzV1Policy ?srv" "plainFile (ps_world ?srv) (ps_PathzMetaFile ?srv)"
    "names (ps_world ?srv) (ps_pathzV1PolicyBackup ?srv) \<noteq> Some Directory" "quiet (ps_world ?srv)"
    using assms(1-6) by simp_all
  from rotateLocked_quiet [OF this, of marshal] obtain srv1 where
    s1: "savedPathz marshal (startPoint ?srv c0) srv1" "quiet (ps_world srv1)" "metaOf srv1 = metaOf ?srv"
    and l: "\<And>es. rotateLocked marshal ?srv es = rotateLoop marshal srv1 es" by blast
  have "goodUpload srv1 req up" using assms(8) s1(3) by (simp add: goodUpload_def metaOf_def)
  from processRotateRequest_quiet [OF s1(1,2) this] obtain srv2 where
    s2: "processRotateRequest marshal srv1 req = (None, srv2)" "quiet (ps_world srv2)" "ps_policyUpdated srv2" by blast
  from processRotateRequest_saved [OF s1(1) s2(1)] assms(4) have "plainFile (ps_world srv2) (ps_PathzMetaFile srv2)"
    by (auto simp: savedPathz_def startPoint_def)
  from finalizeRotation_quiet [OF s2(2,3) this] s2(1) assms(7,8,9) show ?thesis
    by (auto simp: Rotate_def l goodUpload_def)
qed

text \<open>C10. Without system faults a valid upload followed by a finalize succeeds, so the promise of the previous
  property is not empty.\<close>

theorem rotation_succeeds:
  assumes "names (ps_world srv) (ps_pathzV1Policy srv) = Some (Regular c0)"
    and "ps_pathzV1PolicyBackup srv \<noteq> ps_pathzV1Policy srv" and "plainFile (ps_world srv) (ps_PathzMetaFile srv)"
    and "ps_PathzMetaFile srv \<notin> {ps_pathzV1Policy srv, ps_pathzV1PolicyBackup srv}"
    and "names (ps_world srv) (ps_pathzV1PolicyBackup srv) \<noteq> Some Directory" and "quiet (ps_world srv)"
    and "\<not> ps_pathzMu srv" and "goodUpload srv req up" and "pq_finalizeRotation fin"
  shows "\<exists>srv'. Rotate marshal None srv [Recv req None, Recv fin x] = (None, srv')"
  using assms by (rule rotation_quiet)

lemma demoServer_good: "goodUpload demoServer demoUpload (the (pq_uploadRequest demoUpload))"
  using demoPolicy_ok by (simp add: goodUpload_def demoUpload_def metaOf_def demoServer_def NewPathzMetadata_def)

lemma demoServer_backup [simp]: "names (ps_world demoServer) ''p.backup'' = None"
  by (simp add: demoServer_def demoWorld_def names_def)

theorem rotation_succeeds_witness:
  "\<exists>srv'. Rotate demoMarshal None demoServer [Recv demoUpload None, Recv demoFinalize None] = (None, srv')"
  by (rule rotation_succeeds [OF _ _ _ _ _ _ _ demoServer_good]) (simp_all add: demoFinalize_def)

theorem finalized_rotation_installs_upload_witness:
  "\<exists>srv'. Rotate demoMarshal None demoServer [Recv demoUpload None, Recv demoFinalize None] = (None, srv') \<and>
     (\<exists>rs r x es' up. [Recv demoUpload None, Recv demoFinalize None] = map (\<lambda>q. Recv q None) rs @ Recv r x # es' \<and>
       pq_finalizeRotation r \<and> rs \<noteq> [] \<and> pq_uploadRequest (last rs) = Some up \<and>
       GetPolicy (ps_processor srv') = pu_policy up)"
proof -
  have "\<exists>srv'. Rotate demoMarshal None demoServer [Recv demoUpload None, Recv demoFinalize None] = (None, srv')"
    by (rule rotation_quiet [OF _ _ _ _ _ _ _ demoServer_good]) (simp_all add: demoFinalize_def)
  then obtain srv' where R: "Rotate demoMarshal None demoServer [Recv demoUpload None, Recv demoFinalize None] = (None, srv')"
    by blast
  from finalized_rotation_installs_upload [OF _ _ _ _ R, of "''old''"] R show ?thesis by auto
qed

section \<open>Where a revert falls short\<close>

lemma restoreFiles_quiet:
  assumes "savedPathz marshal c srv" "quiet (ps_world srv)"
  shows "\<exists>w'. restoreFiles srv = (None, srv\<lparr>ps_world := w'\<rparr>) \<and> quiet w' \<and>
     names w' = (names (ps_world srv))(cp_backup c := None, cp_policyFile c \<mapsto> Regular (cp_content c))"
proof -
  have f: "node (ps_world srv) (Name (cp_backup c)) = Some (Regular (cp_content c))"
    "node (ps_world srv) (Name (cp_policyFile c)) \<noteq> Some Directory" "cp_backup c \<noteq> cp_policyFile c"
    "ps_pathzV1Policy srv = cp_policyFile c" "ps_pathzV1PolicyBackup srv = cp_backup c"
    "ps_pathzMetadataCopy srv = Some (ps_pathzMetadata srv)"
    using assms(1) by (auto simp: savedPathz_def names_def plainFile_def)
  let ?w' = "putNode (Name (cp_policyFile c)) (Regular (cp_content c)) (delNode (Name (cp_backup c)) (step (ps_world srv)))"
  have "osRename (Name (cp_backup c)) (Name (cp_policyFile c)) (ps_world srv) = (None, ?w')"
    using f assms(2) by (simp add: osRename_def)
  then have "restoreFiles srv = (None, srv\<lparr>ps_world := ?w'\<rparr>)" using f by (simp add: restoreFiles_def)
  then show ?thesis using assms(2) by (intro exI [of _ ?w']) simp
qed

lemma revertPolicy_quiet:
  assumes "savedPathz marshal c srv" "quiet (ps_world srv)" "UpdatePolicyFromProto p po = (cp_processor c, None)"
  shows "\<exists>pr' w'. revertPolicy srv = (None, srv\<lparr>ps_policyUpdated := False, ps_processor := pr', ps_world := w'\<rparr>) \<and> quiet w' \<and>
     names w' = (names (ps_world srv))(cp_backup c := None, cp_policyFile c \<mapsto> Regular (cp_content c))"
proof (cases "ps_policyUpdated srv")
  case False
  from restoreFiles_quiet [OF assms(1,2)] obtain w' where
    w': "restoreFiles srv = (None, srv\<lparr>ps_world := w'\<rparr>)" "quiet w'"
    "names w' = (names (ps_world srv))(cp_backup c := None, cp_policyFile c \<mapsto> Regular (cp_content c))" by blast
  have "srv\<lparr>ps_policyUpdated := False, ps_processor := ps_processor srv, ps_world := w'\<rparr> = srv\<lparr>ps_world := w'\<rparr>"
    using False by (cases srv) simp
  with False w' show ?thesis
    by (intro exI [of _ "ps_processor srv"] exI [of _ w']) (simp add: revertPolicy_def)
next
  case True
  from pz.reinstall [OF assms(3), of "ps_processor srv"] obtain q where
    q: "UpdatePolicyFromProto (ps_processor srv) (GetPolicy (cp_processor c)) = (q, None)"
    "GetPolicy q = po" by blast
  have po: "GetPolicy (cp_processor c) = po" using pz.update_get [OF assms(3)] .
  let ?srv1 = "srv\<lparr>ps_policyUpdated := False, ps_processor := q\<rparr>"
  have "savedPathz marshal (c\<lparr>cp_processor := q\<rparr>) ?srv1" using assms(1) q(2) po by (auto simp: savedPathz_def)
  from restoreFiles_quiet [OF this] assms(2) obtain w' where
    "restoreFiles ?srv1 = (None, ?srv1\<lparr>ps_world := w'\<rparr>)" "quiet w'"
    "names w' = (names (ps_world srv))(cp_backup c := None, cp_policyFile c \<mapsto> Regular (cp_content c))" by auto
  with True q assms(1) show ?thesis
    by (intro exI [of _ q] exI [of _ w']) (simp add: revertPolicy_def savedPathz_def)
qed



text \<open>C12. The first policy of a server is active before it is finalized and stays so: when no policy was installed
  before the rotation, an upload that is never finalized cannot be reverted (reinstalling the nil policy
  fails), the decisions are those of the uploaded policy from then on, and the backup of the policy file
  is removed.\<close>

theorem first_policy_is_not_reverted:
  assumes "GetPolicy (ps_processor srv) = None"
    and "names (ps_world srv) (ps_pathzV1Policy srv) = Some (Regular c0)"
    and "ps_pathzV1PolicyBackup srv \<noteq> ps_pathzV1Policy srv" and "plainFile (ps_world srv) (ps_PathzMetaFile srv)"
    and "names (ps_world srv) (ps_pathzV1PolicyBackup srv) \<noteq> Some Directory" and "quiet (ps_world srv)"
    and "\<not> ps_pathzMu srv" and "goodUpload srv req up"
  shows "\<exists>e srv1. Rotate marshal None srv [Recv req None] = (Some e, srv1) \<and>
     UpdatePolicyFromProto (ps_processor srv) (pu_policy up) = (ps_processor srv1, None) \<and>
     names (ps_world srv1) (ps_pathzV1Policy srv) = Some (Regular (marshal (pu_policy up))) \<and>
     names (ps_world srv1) (ps_pathzV1PolicyBackup srv) = None"
proof -
  let ?srv = "srv\<lparr>ps_pathzMu := True\<rparr>" and ?cp = "startPoint srv c0"
  have cp: "startPoint ?srv c0 = ?cp" by (simp add: startPoint_def)
  have "names (ps_world ?srv) (ps_pathzV1Policy ?srv) = Some (Regular c0)"
    "ps_pathzV1PolicyBackup ?srv \<noteq> ps_pathzV1Policy ?srv" "plainFile (ps_world ?srv) (ps_PathzMetaFile ?srv)"
    "names (ps_world ?srv) (ps_pathzV1PolicyBackup ?srv) \<noteq> Some Directory" "quiet (ps_world ?srv)"
    using assms(2-6) by simp_all
  from rotateLocked_quiet [OF this, of marshal, unfolded cp] obtain s1 where
    s1: "savedPathz marshal ?cp s1" "quiet (ps_world s1)" "metaOf s1 = metaOf ?srv" "ps_processor s1 = ps_processor srv"
    and l1: "\<And>es. rotateLocked marshal ?srv es = rotateLoop marshal s1 es" by auto
  have "goodUpload s1 req up" using assms(8) s1(3) by (simp add: goodUpload_def metaOf_def)
  from processRotateRequest_quiet [OF s1(1,2) this] obtain s2 where
    s2: "processRotateRequest marshal s1 req = (None, s2)" "quiet (ps_world s2)" "ps_policyUpdated s2"
    "UpdatePolicyFromProto (ps_processor srv) (pu_policy up) = (ps_processor s2, None)" unfolding s1(4) by blast
  have sv2: "savedPathz marshal ?cp s2" by (rule processRotateRequest_saved [OF s1(1) s2(1)])
  then have copy: "ps_policyCopy s2 = None" and paths: "ps_pathzV1PolicyBackup s2 = ps_pathzV1PolicyBackup srv"
    and bk: "names (ps_world s2) (ps_pathzV1PolicyBackup srv) = Some (Regular c0)"
    using assms(1) by (simp_all add: savedPathz_def startPoint_def)
  from s1(1) have "plainFile (ps_world s1) (ps_pathzV1Policy s1)" "ps_pathzV1Policy s1 = ps_pathzV1Policy srv"
    by (simp_all add: savedPathz_def startPoint_def)
  with processRotateRequest_ok [OF s2(1)] assms(8) have
    pf: "names (ps_world s2) (ps_pathzV1Policy srv) = Some (Regular (marshal (pu_policy up)))"
    by (metis goodUpload_def option.inject)
  from pz.reinstall_none [OF assms(1), of "ps_processor s2"] assms(1) obtain e where
    e: "UpdatePolicyFromProto (ps_processor s2) None = (ps_processor s2, Some e)" by auto
  let ?w = "snd (osRemove (Name (ps_pathzV1PolicyBackup srv)) (ps_world s2))"
  have rm: "?w = delNode (Name (ps_pathzV1PolicyBackup srv)) (step (ps_world s2))"
    using s2(2) bk by (simp add: osRemove_def names_def)
  have "revertPolicy s2 = (Some e, s2\<lparr>ps_policyUpdated := False, ps_processor := ps_processor s2, ps_world := ?w\<rparr>)"
    using s2(3) copy e paths by (simp add: revertPolicy_def)
  with s2(1) assms(7,8) have "Rotate marshal None srv [Recv req None] =
      (Some (Status Aborted (''Error in reverting policy: '' @ errText e)),
       s2\<lparr>ps_policyUpdated := False, ps_processor := ps_processor s2, ps_world := ?w, ps_pathzMu := False\<rparr>)"
    by (simp add: Rotate_def l1 goodUpload_def)
  with s2(4) pf rm assms(3) show ?thesis by auto
qed

theorem first_policy_is_not_reverted_witness:
  "\<exists>e srv1. Rotate demoMarshal None (demoServer\<lparr>ps_processor := newProcessor\<rparr>) [Recv demoUpload None] = (Some e, srv1) \<and>
     UpdatePolicyFromProto newProcessor (Some demoPolicy) = (ps_processor srv1, None) \<and>
     names (ps_world srv1) ''p'' = Some (Regular (demoMarshal (Some demoPolicy))) \<and>
     names (ps_world srv1) ''p.backup'' = None"
proof -
  have g: "goodUpload (demoServer\<lparr>ps_processor := newProcessor\<rparr>) demoUpload (the (pq_uploadRequest demoUpload))"
    using demoServer_good by (simp add: goodUpload_def metaOf_def)
  have "pu_policy (the (pq_uploadRequest demoUpload)) = Some demoPolicy" by (simp add: demoUpload_def)
  with first_policy_is_not_reverted [OF _ _ _ _ _ _ _ g, of "''old''" demoMarshal] pz.get_new show ?thesis by simp
qed

text \<open>The metadata file is read back as it was written, so version and creation time survive a restart of the
  server: saving, and loading into a server with any other metadata, gives the saved metadata.\<close>

theorem metadata_roundtrip:
  assumes "savePathzFileFreshess path srv = (None, srv1)" and "plainFile (ps_world srv) path"
    and "asciiStr (pm_PathzVersion (metaOf srv))" "asciiStr (pm_PathzCreatedOn (metaOf srv))"
    and "ps_world srv2 = ps_world srv1" and "fate (ps_world srv1) = None"
  shows "\<exists>srv3. loadPathzFreshness path srv2 = (None, srv3) \<and> metaOf srv3 = metaOf srv"
proof -
  let ?c = "encodeLine (metaJson (metaOf srv))"
  from assms(1) obtain w where w: "attemptWrite path ?c (ps_world srv) = (None, w)" "srv1 = srv\<lparr>ps_world := w\<rparr>"
    by (auto simp: savePathzFileFreshess_def split: prod.splits)
  from attemptWrite_cases(1) [OF assms(2) w(1)] have "names w path = Some (Regular ?c)" by simp
  then have "osReadFile (Name path) (ps_world srv2) = (Inr ?c, step w)"
    using assms(5,6) w(2) by (simp add: osReadFile_plain)
  moreover have "parseJson ?c = Some (metaJson (metaOf srv))"
    using assms(3,4) unfolding metaJson_def by (intro parseJson_encodeLine) (simp add: asciiStr_def)
  ultimately show ?thesis
    by (simp add: loadPathzFreshness_def decodeMeta_def metaJson_def strField_def strFieldOk_def)
qed

theorem metadata_roundtrip_witness:
  "\<exists>srv1 srv3. savePathzFileFreshess ''m'' demoServer = (None, srv1) \<and>
     loadPathzFreshness ''m'' srv1 = (None, srv3) \<and> metaOf srv3 = NewPathzMetadata"
proof -
  have m: "metaOf demoServer = NewPathzMetadata" by (simp add: metaOf_def demoServer_def)
  have s: "savePathzFileFreshess ''m'' demoServer = (None, demoServer\<lparr>ps_world := putNode (Name ''m'')
      (Regular (encodeLine (metaJson NewPathzMetadata))) (step (ps_world demoServer))\<rparr>)"
    by (simp add: savePathzFileFreshess_def attemptWrite_quiet m)
  have "asciiStr (pm_PathzVersion (metaOf demoServer))" "asciiStr (pm_PathzCreatedOn (metaOf demoServer))"
    by (simp_all add: m NewPathzMetadata_def asciiStr_def)
  from metadata_roundtrip [OF s _ this refl] s m show ?thesis by simp
qed

end
