(* ===== verification/Gnsi_Authz.thy ===== *)
theory Gnsi_Authz
  imports Gnsi_Rotation
begin

text \<open>
  The gNSI authz service, \<^verbatim>\<open>gnmi_server/gnsi_authz.go\<close>: rotation of the gRPC authorization policy, a JSON
  file that the gRPC library watches, with its backup and with the version and creation time in STATE_DB.
\<close>

section \<open>The service\<close>

record authzMetadata =
  am_AuthzVersion :: string
  am_AuthzCreatedOn :: string

record authzServer =
  as_authzMetadata :: authzMetadata
  as_authzMetadataCopy :: authzMetadata
  as_AuthzPolicyFile :: string
  as_AuthzMetaFile :: string
  as_authzMu :: bool
  as_world :: world

definition backupFile :: "authzServer \<Rightarrow> string" where
  "backupFile srv = as_AuthzPolicyFile srv @ backupExt"

definition authzVersionFld :: string where
  "authzVersionFld = ''authz_version''"

definition authzCreatedOnFld :: string where
  "authzCreatedOnFld = ''authz_created_on''"

definition NewAuthzMetadata :: authzMetadata where
  "NewAuthzMetadata = \<lparr>am_AuthzVersion = ''unknown'', am_AuthzCreatedOn = ''0''\<rparr>"

definition setAuthzField :: "string \<Rightarrow> string \<Rightarrow> authzMetadata \<Rightarrow> authzMetadata" where
  "setAuthzField fld val m =
     (if fld = authzVersionFld then m\<lparr>am_AuthzVersion := val\<rparr>
      else if fld = authzCreatedOnFld then m\<lparr>am_AuthzCreatedOn := val\<rparr> else m)"

definition writeAuthzMetadataToDB :: "string \<Rightarrow> string \<Rightarrow> authzServer \<Rightarrow> goerr option \<times> authzServer" where
  "writeAuthzMetadataToDB fld val srv =
     (case writeCredentialsMetadataToDB ''AUTHZ_POLICY|p4rt'' [] fld val (as_world srv) of
        (Some e, w1) \<Rightarrow> (Some e, srv\<lparr>as_world := w1\<rparr>)
      | (None, w1) \<Rightarrow>
          (case writeCredentialsMetadataToDB ''AUTHZ_POLICY|gnxi'' [] fld val w1 of
             (Some e, w2) \<Rightarrow> (Some e, srv\<lparr>as_world := w2\<rparr>)
           | (None, w2) \<Rightarrow>
               (None, srv\<lparr>as_world := w2, as_authzMetadata := setAuthzField fld val (as_authzMetadata srv)\<rparr>)))"

definition authzJson :: "authzMetadata \<Rightarrow> json" where
  "authzJson m = JObj [(''authz_version'', JStr (am_AuthzVersion m)), (''authz_created_on'', JStr (am_AuthzCreatedOn m))]"

definition saveAuthzFileFreshess :: "string \<Rightarrow> authzServer \<Rightarrow> goerr option \<times> authzServer" where
  "saveAuthzFileFreshess path srv =
     (case osWriteFile (Name path) (encodeLine (authzJson (as_authzMetadata srv))) (as_world srv) of
        (None, w1) \<Rightarrow> (None, srv\<lparr>as_world := w1\<rparr>)
      | (Some e, w1) \<Rightarrow>
          (case osRemove (Name path) w1 of
             (Some _, w2) \<Rightarrow> (Some (Plain (''Write '' @ path @ '' failed: '' @ errText e @ ''; Cleanup failed'')), srv\<lparr>as_world := w2\<rparr>)
           | (None, w2) \<Rightarrow> (Some e, srv\<lparr>as_world := w2\<rparr>)))"

definition decodeAuthz :: "string \<Rightarrow> authzMetadata \<Rightarrow> goerr option \<times> authzMetadata" where
  "decodeAuthz c m =
     (case parseJson c of
        Some (JObj ms) \<Rightarrow>
          (if strFieldOk ''authz_version'' ms \<and> strFieldOk ''authz_created_on'' ms then None
           else Some (Plain ''json: cannot unmarshal into Go value''),
           m\<lparr>am_AuthzVersion := strField ''authz_version'' ms (am_AuthzVersion m),
             am_AuthzCreatedOn := strField ''authz_created_on'' ms (am_AuthzCreatedOn m)\<rparr>)
      | Some JNull \<Rightarrow> (None, m)
      | Some _ \<Rightarrow> (Some (Plain ''json: cannot unmarshal into Go value''), m)
      | None \<Rightarrow> (Some (Plain ''invalid character''), m))"

definition loadAuthzFreshness :: "string \<Rightarrow> authzServer \<Rightarrow> goerr option \<times> authzServer" where
  "loadAuthzFreshness path srv =
     (case osReadFile (Name path) (as_world srv) of
        (Inl e, w) \<Rightarrow> (Some e, srv\<lparr>as_world := w\<rparr>)
      | (Inr c, w) \<Rightarrow> (case decodeAuthz c (as_authzMetadata srv) of
                        (e, m) \<Rightarrow> (e, srv\<lparr>as_world := w, as_authzMetadata := m\<rparr>)))"

definition checkpointAuthzFreshness :: "authzServer \<Rightarrow> authzServer" where
  "checkpointAuthzFreshness srv = srv\<lparr>as_authzMetadataCopy := as_authzMetadata srv\<rparr>"

definition revertAuthzFileFreshness :: "authzServer \<Rightarrow> authzServer" where
  "revertAuthzFileFreshness srv =
     (let srv1 = snd (writeAuthzMetadataToDB authzVersionFld (am_AuthzVersion (as_authzMetadataCopy srv)) srv)
      in snd (writeAuthzMetadataToDB authzCreatedOnFld (am_AuthzCreatedOn (as_authzMetadataCopy srv1)) srv1))"

definition checkpointAuthzFile :: "authzServer \<Rightarrow> goerr option \<times> authzServer" where
  "checkpointAuthzFile srv =
     (case copyFile (as_AuthzPolicyFile srv) (backupFile srv) (as_world srv) of (e, w) \<Rightarrow> (e, srv\<lparr>as_world := w\<rparr>))"

definition saveToAuthzFile :: "string \<Rightarrow> authzServer \<Rightarrow> goerr option \<times> authzServer" where
  "saveToAuthzFile p srv =
     (case installTemp p (as_AuthzPolicyFile srv) (as_world srv) of (e, w) \<Rightarrow> (e, srv\<lparr>as_world := w\<rparr>))"

definition commitAuthzFileChanges :: "authzServer \<Rightarrow> goerr option \<times> authzServer" where
  "commitAuthzFileChanges srv =
     (case osStat (Name (as_AuthzPolicyFile srv)) (as_world srv) of
        (Inl e, w1) \<Rightarrow> (Some e, srv\<lparr>as_world := w1\<rparr>)
      | (Inr (Regular _), w1) \<Rightarrow>
          (case osStat (Name (backupFile srv)) w1 of
             (Inl e, w2) \<Rightarrow> (None, srv\<lparr>as_world := w2\<rparr>)
           | (Inr (Regular _), w2) \<Rightarrow>
               (case osRemove (Name (backupFile srv)) w2 of (e, w3) \<Rightarrow> (e, srv\<lparr>as_world := w3\<rparr>))
           | (Inr _, w2) \<Rightarrow>
               (Some (Plain (backupFile srv @ '' is not a regular file; did not remove it.'')), srv\<lparr>as_world := w2\<rparr>))
      | (Inr _, w1) \<Rightarrow>
          (Some (Plain (as_AuthzPolicyFile srv @ '' is not a regular file'')), srv\<lparr>as_world := w1\<rparr>))"

section \<open>Rotate\<close>

record authzUpload =
  zu_version :: string
  zu_createdOn :: "64 word"
  zu_policy :: string

record authzRequest =
  zq_uploadRequest :: "authzUpload option"
  zq_finalizeRotation :: bool
  zq_forceOverwrite :: bool

definition processRotateRequest :: "authzServer \<Rightarrow> authzRequest \<Rightarrow> goerr option \<times> authzServer" where
  "processRotateRequest srv req =
     (case zq_uploadRequest req of
        None \<Rightarrow> (Some (Status Aborted ''Unknown request''), srv)
      | Some up \<Rightarrow>
          if zu_policy up = [] then (Some (Status Aborted ''Authz policy cannot be empty!''), srv)
          else if zu_version up = [] then (Some (Status Aborted ''Authz policy version cannot be empty!''), srv)
          else if \<not> jsonValid (zu_policy up)
          then (Some (Status Aborted (''Authz policy `'' @ zu_policy up @ ''` is malformed'')), srv)
          else (case fileCheck (as_AuthzPolicyFile srv) (as_world srv) of
            (Some e, w) \<Rightarrow>
              (Some (Status NotFound (''Error in reading file '' @ as_AuthzPolicyFile srv @ '': '' @ errText e @
                 ''. Please try Install.'')), srv\<lparr>as_world := w\<rparr>)
          | (None, w) \<Rightarrow>
              let srv0 = srv\<lparr>as_world := w\<rparr>
              in if am_AuthzVersion (as_authzMetadata srv) = zu_version up \<and> \<not> zq_forceOverwrite req
                 then (Some (Status AlreadyExists (''Authz with version `'' @ zu_version up @ ''` already exists'')), srv0)
                 else (case writeAuthzMetadataToDB authzVersionFld (zu_version up) srv0 of
                   (Some e, srv1) \<Rightarrow> (Some (Status Aborted (errText e)), srv1)
                 | (None, srv1) \<Rightarrow>
                   (case writeAuthzMetadataToDB authzCreatedOnFld (FormatNat (unat (zu_createdOn up))) srv1 of
                      (Some e, srv2) \<Rightarrow> (Some (Status Aborted (errText e)), srv2)
                    | (None, srv2) \<Rightarrow>
                      (case saveToAuthzFile (zu_policy up) srv2 of
                         (Some e, srv3) \<Rightarrow> (Some (Status Aborted (errText e)), srv3)
                       | (None, srv3) \<Rightarrow> (None, srv3))))))"

text \<open>The block that every early end of the loop runs: the file from its backup, then the metadata.\<close>

definition revertAuthz :: "authzServer \<Rightarrow> authzServer" where
  "revertAuthz srv =
     (case copyFile (backupFile srv) (as_AuthzPolicyFile srv) (as_world srv) of
        (e, w) \<Rightarrow> revertAuthzFileFreshness (srv\<lparr>as_world := w\<rparr>))"

definition finalizeAuthz :: "authzServer \<Rightarrow> goerr option \<times> authzServer" where
  "finalizeAuthz srv =
     (let srv1 = snd (commitAuthzFileChanges srv)
      in (None, snd (saveAuthzFileFreshess (as_AuthzMetaFile srv1) srv1)))"

fun rotateLoop :: "authzServer \<Rightarrow> authzRequest event list \<Rightarrow> goerr option \<times> authzServer" where
  "rotateLoop srv [] = (Some (Status Aborted ''No Finalize message''), revertAuthz srv)"
| "rotateLoop srv (RecvErr e # es) = (Some (Status Aborted (errText e)), revertAuthz srv)"
| "rotateLoop srv (Recv req sent # es) =
     (if zq_finalizeRotation req then finalizeAuthz srv
      else (case processRotateRequest srv req of
              (Some e, srv1) \<Rightarrow> (Some e, revertAuthz srv1)
            | (None, srv1) \<Rightarrow>
                (case sent of
                   Some e \<Rightarrow> (Some (Status Aborted (errText e)), revertAuthz srv1)
                 | None \<Rightarrow> rotateLoop srv1 es)))"

text \<open>A checkpoint that fails is only logged.\<close>

definition Rotate :: "goerr option \<Rightarrow> authzServer \<Rightarrow> authzRequest event list \<Rightarrow> goerr option \<times> authzServer" where
  "Rotate authErr srv es =
     (case authErr of
        Some e \<Rightarrow> (Some e, srv)
      | None \<Rightarrow>
          if as_authzMu srv then (Some (Status Aborted ''concurrent authz.Rotate RPCs are not allowed''), srv)
          else
            let srv0 = checkpointAuthzFreshness (srv\<lparr>as_authzMu := True\<rparr>);
                srv1 = snd (checkpointAuthzFile srv0)
            in (case rotateLoop srv1 es of (e, srv2) \<Rightarrow> (e, srv2\<lparr>as_authzMu := False\<rparr>)))"

definition NewGNSIAuthzServer :: "string \<Rightarrow> string \<Rightarrow> world \<Rightarrow> authzServer" where
  "NewGNSIAuthzServer policyFile metaFile w =
     (let srv0 = \<lparr>as_authzMetadata = NewAuthzMetadata, as_authzMetadataCopy = \<lparr>am_AuthzVersion = [], am_AuthzCreatedOn = []\<rparr>,
                  as_AuthzPolicyFile = policyFile, as_AuthzMetaFile = metaFile, as_authzMu = False, as_world = w\<rparr>;
          srv1 = checkpointAuthzFreshness (snd (loadAuthzFreshness metaFile srv0));
          srv2 = snd (writeAuthzMetadataToDB authzVersionFld (am_AuthzVersion (as_authzMetadata srv1)) srv1)
      in snd (writeAuthzMetadataToDB authzCreatedOnFld (am_AuthzCreatedOn (as_authzMetadata srv2)) srv2))"

section \<open>The policy file is never torn\<close>

text \<open>A file with a content in a given set.\<close>

definition holds :: "string set \<Rightarrow> inode option \<Rightarrow> bool" where
  "holds S n \<longleftrightarrow> (\<exists>c. n = Some (Regular c) \<and> c \<in> S)"

definition wholeFiles :: "string \<Rightarrow> string set \<Rightarrow> authzServer \<Rightarrow> bool" where
  "wholeFiles f S srv \<longleftrightarrow> as_AuthzPolicyFile srv = f \<and> holds S (names (as_world srv) f) \<and>
     (names (as_world srv) (f @ backupExt) = None \<or> holds S (names (as_world srv) (f @ backupExt))) \<and>
     as_AuthzMetaFile srv \<notin> {f, f @ backupExt} \<and> plainFile (as_world srv) (as_AuthzMetaFile srv)"

lemma backup_differs [simp]: "f @ backupExt \<noteq> f" "f \<noteq> f @ backupExt" "backupExt \<noteq> []"
  by (simp_all add: backupExt_def)

lemma writeAuthz_world:
  assumes "writeAuthzMetadataToDB fld val srv = (e, srv')"
  shows "names (as_world srv') = names (as_world srv)" "as_AuthzPolicyFile srv' = as_AuthzPolicyFile srv"
    "as_AuthzMetaFile srv' = as_AuthzMetaFile srv" "as_authzMetadataCopy srv' = as_authzMetadataCopy srv"
  using assms
  by (auto simp: writeAuthzMetadataToDB_def split: prod.splits option.splits dest!: writeCredentials_world(2))

lemma writeAuthz_snd [simp]:
  "names (as_world (snd (writeAuthzMetadataToDB fld val srv))) = names (as_world srv)"
  "as_AuthzPolicyFile (snd (writeAuthzMetadataToDB fld val srv)) = as_AuthzPolicyFile srv"
  "as_AuthzMetaFile (snd (writeAuthzMetadataToDB fld val srv)) = as_AuthzMetaFile srv"
  "as_authzMetadataCopy (snd (writeAuthzMetadataToDB fld val srv)) = as_authzMetadataCopy srv"
  by (cases "writeAuthzMetadataToDB fld val srv"; simp add: writeAuthz_world)+

lemma wholeFiles_cong:
  "names (as_world srv') = names (as_world srv) \<Longrightarrow> as_AuthzPolicyFile srv' = as_AuthzPolicyFile srv \<Longrightarrow>
   as_AuthzMetaFile srv' = as_AuthzMetaFile srv \<Longrightarrow> wholeFiles f S srv' = wholeFiles f S srv"
  by (simp add: wholeFiles_def plainFile_def)

text \<open>A copy onto a file leaves it as it was or gives it the whole content of the source.\<close>

lemma copyFile_whole:
  assumes "names w src = None \<or> names w src = Some (Regular c)" and "copyFile src dst w = (e, w')"
  shows "names w' = names w \<or> (names w src = Some (Regular c) \<and> names w' = (names w)(dst \<mapsto> Regular c))"
proof (cases "names w src")
  case None
  then have "osStat (Name src) w = (if fate w = None then (Inl ErrNotExist, step w) else (Inl ErrIO, step w))"
    by (simp add: osStat_def target_plain) (simp add: names_def)
  with assms(2) show ?thesis by (auto simp: copyFile_def split: if_splits)
next
  case (Some i)
  with assms(1) have "names w src = Some (Regular c)" by simp
  with copyFile_plain [OF this, of dst] assms(2) show ?thesis by (cases e) blast+
qed

lemma revertAuthz_whole: "wholeFiles f S srv \<Longrightarrow> wholeFiles f S (revertAuthz srv)"
proof -
  assume w: "wholeFiles f S srv"
  obtain e w' where c: "copyFile (backupFile srv) (as_AuthzPolicyFile srv) (as_world srv) = (e, w')" by fastforce
  from w obtain c0 where "names (as_world srv) (backupFile srv) = None \<or>
      names (as_world srv) (backupFile srv) = Some (Regular c0) \<and> c0 \<in> S"
    by (auto simp: wholeFiles_def holds_def backupFile_def)
  with copyFile_whole [OF _ c, of c0] have "names w' = names (as_world srv) \<or>
      (c0 \<in> S \<and> names w' = (names (as_world srv))(f \<mapsto> Regular c0))"
    using w by (auto simp: wholeFiles_def)
  with w have "wholeFiles f S (srv\<lparr>as_world := w'\<rparr>)" by (auto simp: wholeFiles_def holds_def plainFile_def)
  moreover have "revertAuthz srv = revertAuthzFileFreshness (srv\<lparr>as_world := w'\<rparr>)" by (simp add: revertAuthz_def c)
  ultimately show ?thesis
    using wholeFiles_cong [of "revertAuthz srv" "srv\<lparr>as_world := w'\<rparr>"] by (simp add: revertAuthzFileFreshness_def Let_def)
qed

lemma processRotateRequest_whole:
  assumes "wholeFiles f S srv" "processRotateRequest srv req = (e, srv')"
    and "\<And>up. zq_uploadRequest req = Some up \<Longrightarrow> zu_policy up \<in> S"
  shows "wholeFiles f S srv'"
proof -
  have save: "wholeFiles f S s2'" if "saveToAuthzFile p s2 = (e2, s2')" "wholeFiles f S s2" "p \<in> S" for p s2 e2 s2'
  proof -
    note s = that
    obtain w where i: "installTemp p f (as_world s2) = (e2, w)" "s2' = s2\<lparr>as_world := w\<rparr>"
      using s(1,2) by (auto simp: saveToAuthzFile_def wholeFiles_def split: prod.splits)
    then have "names w = names (as_world s2) \<or> names w = (names (as_world s2))(f \<mapsto> Regular p)"
      using installTemp_cases [of p f "as_world s2"] by (cases e2) blast+
    with s(2,3) i(2) show ?thesis by (auto simp: wholeFiles_def holds_def plainFile_def)
  qed
  show ?thesis
  proof (cases "(\<exists>up. zq_uploadRequest req = Some up \<and> zu_policy up \<noteq> [] \<and> zu_version up \<noteq> [] \<and> jsonValid (zu_policy up))")
    case False
    with assms(1,2) show ?thesis by (auto simp: processRotateRequest_def split: option.splits if_splits)
  next
    case True
    then obtain up where up: "zq_uploadRequest req = Some up" "zu_policy up \<noteq> []" "zu_version up \<noteq> []"
      "jsonValid (zu_policy up)" by blast
    obtain e0 w where fc: "fileCheck (as_AuthzPolicyFile srv) (as_world srv) = (e0, w)" by fastforce
    let ?s0 = "srv\<lparr>as_world := w\<rparr>"
    obtain e1 s1 where s1: "writeAuthzMetadataToDB authzVersionFld (zu_version up) ?s0 = (e1, s1)" by fastforce
    obtain e2 s2 where s2: "writeAuthzMetadataToDB authzCreatedOnFld (FormatNat (unat (zu_createdOn up))) s1 = (e2, s2)" by fastforce
    obtain e3 s3 where s3: "saveToAuthzFile (zu_policy up) s2 = (e3, s3)" by fastforce
    have w0: "wholeFiles f S ?s0" using assms(1) fileCheck_cases(1) [OF fc] by (simp add: wholeFiles_def plainFile_def)
    then have w1: "wholeFiles f S s1" using writeAuthz_world [OF s1] by (simp add: wholeFiles_def plainFile_def)
    then have w2: "wholeFiles f S s2" using writeAuthz_world [OF s2] by (simp add: wholeFiles_def plainFile_def)
    have w3: "wholeFiles f S s3" by (rule save [OF s3 w2 assms(3) [OF up(1)]])
    have "srv' \<in> {?s0, s1, s2, s3}"
      using assms(2) up fc s1 s2 s3
      by (auto simp: processRotateRequest_def Let_def split: option.splits if_splits)
    with w0 w1 w2 w3 show ?thesis by blast
  qed
qed

lemma osStat_step: "osStat n w = (r, w') \<Longrightarrow> w' = step w"
  by (auto simp: osStat_def split: if_splits option.splits)

lemma osRemove_names: "osRemove (Name f) w = (e, w') \<Longrightarrow> names w' = names w \<or> names w' = (names w)(f := None)"
  using osRemove_cases [of f w] by (cases e) auto

lemma saveAuthz_names:
  assumes "plainFile (as_world srv) path" "g \<noteq> path"
  shows "names (as_world (snd (saveAuthzFileFreshess path srv))) g = names (as_world srv) g"
  using assms osRemove_other [OF assms(2)]
  by (auto simp: saveAuthzFileFreshess_def osWriteFile_def plainFile_target plainFile_not_dir
      split: option.splits nat.splits prod.splits dest!: osRemove_names)

lemma finalizeAuthz_whole:
  assumes "wholeFiles f S srv" "finalizeAuthz srv = (e, srv')"
  shows "holds S (names (as_world srv') f)"
proof -
  obtain e1 s1 where c: "commitAuthzFileChanges srv = (e1, s1)" by fastforce
  have s1: "\<exists>w. s1 = srv\<lparr>as_world := w\<rparr> \<and> (names w = names (as_world srv) \<or> names w = (names (as_world srv))(f @ backupExt := None))"
    using c assms(1)
    by (auto simp: commitAuthzFileChanges_def wholeFiles_def backupFile_def split: prod.splits sum.splits inode.splits
        dest!: osStat_step osRemove_names)
  then obtain w where w: "s1 = srv\<lparr>as_world := w\<rparr>"
    "names w = names (as_world srv) \<or> names w = (names (as_world srv))(f @ backupExt := None)" by blast
  have "plainFile w (as_AuthzMetaFile srv)" using w(2) assms(1) by (auto simp: plainFile_def wholeFiles_def)
  then have other: "g \<noteq> as_AuthzMetaFile srv \<Longrightarrow> names (as_world srv') g = names w g" for g
    using assms(2) c w(1) saveAuthz_names [of s1 "as_AuthzMetaFile srv" g] by (auto simp: finalizeAuthz_def Let_def)
  from other [of f] assms(1) w(2) show ?thesis by (auto simp: wholeFiles_def)
qed

text \<open>The policies that a stream of requests uploads.\<close>

fun uploads :: "authzRequest event list \<Rightarrow> string set" where
  "uploads [] = {}"
| "uploads (Recv req _ # es) =
     (case zq_uploadRequest req of Some up \<Rightarrow> insert (zu_policy up) (uploads es) | None \<Rightarrow> uploads es)"
| "uploads (RecvErr _ # es) = uploads es"

lemma wholeFiles_file: "wholeFiles f S srv \<Longrightarrow> holds S (names (as_world srv) f)"
  by (simp add: wholeFiles_def)

lemma rotateLoop_whole:
  assumes "wholeFiles f S srv" "uploads es \<subseteq> S" "rotateLoop srv es = (r, srv')"
  shows "holds S (names (as_world srv') f)"
  using assms
proof (induction srv es rule: rotateLoop.induct)
  case (3 srv req sent es)
  obtain e srv1 where p: "processRotateRequest srv req = (e, srv1)" by fastforce
  have w1: "wholeFiles f S srv1"
    by (rule processRotateRequest_whole [OF "3.prems"(1) p]) (use "3.prems"(2) in auto)
  have es: "uploads es \<subseteq> S" using "3.prems"(2) by (auto split: option.splits)
  show ?case
  proof (cases "zq_finalizeRotation req")
    case True
    with "3.prems" finalizeAuthz_whole show ?thesis by simp
  next
    case False
    with "3.prems"(3) p have "rotateLoop srv1 es = (r, srv') \<and> e = None \<and> sent = None \<or> srv' = revertAuthz srv1"
      by (auto split: option.splits)
    with "3.IH" [OF False p [symmetric]] w1 es False revertAuthz_whole wholeFiles_file show ?thesis by blast
  qed
qed (use revertAuthz_whole wholeFiles_file in auto)

lemma checkpointAuthzFile_whole:
  assumes "wholeFiles f S srv"
  shows "wholeFiles f S (snd (checkpointAuthzFile srv))"
proof -
  obtain c where c: "names (as_world srv) f = Some (Regular c)" "c \<in> S" "as_AuthzPolicyFile srv = f"
    using assms by (auto simp: wholeFiles_def holds_def)
  obtain e w where cp: "copyFile f (f @ backupExt) (as_world srv) = (e, w)" by fastforce
  from copyFile_whole [OF disjI2 [OF c(1)] cp] have
    "names w = names (as_world srv) \<or> names w = (names (as_world srv))(f @ backupExt \<mapsto> Regular c)" by auto
  with assms c cp show ?thesis
    by (auto simp: checkpointAuthzFile_def backupFile_def wholeFiles_def holds_def plainFile_def)
qed

section \<open>The checkpoint and the revert without faults\<close>

definition authzKey :: "string \<Rightarrow> string" where
  "authzKey i = credentialsPath (''AUTHZ_POLICY|'' @ i) []"

text \<open>STATE_DB shows the metadata, for both instances of the policy.\<close>

definition published :: "authzMetadata \<Rightarrow> world \<Rightarrow> bool" where
  "published m w \<longleftrightarrow>
     gm_get (w_db w) (authzKey ''p4rt'', authzVersionFld) = Some (am_AuthzVersion m) \<and>
     gm_get (w_db w) (authzKey ''gnxi'', authzVersionFld) = Some (am_AuthzVersion m) \<and>
     gm_get (w_db w) (authzKey ''p4rt'', authzCreatedOnFld) = Some (am_AuthzCreatedOn m) \<and>
     gm_get (w_db w) (authzKey ''gnxi'', authzCreatedOnFld) = Some (am_AuthzCreatedOn m)"

lemma writeAuthz_quiet:
  assumes "quiet (as_world srv)"
  shows "\<exists>w. writeAuthzMetadataToDB fld val srv =
      (None, srv\<lparr>as_world := w, as_authzMetadata := setAuthzField fld val (as_authzMetadata srv)\<rparr>) \<and> quiet w \<and>
    names w = names (as_world srv) \<and>
    w_db w = gm_set (authzKey ''gnxi'', fld) val (gm_set (authzKey ''p4rt'', fld) val (w_db (as_world srv)))"
proof -
  from writeCredentials_quiet [OF assms] obtain w1 where
    a: "writeCredentialsMetadataToDB ''AUTHZ_POLICY|p4rt'' [] fld val (as_world srv) = (None, w1)" and q: "quiet w1" by blast
  from writeCredentials_quiet [OF q] obtain w2 where
    b: "writeCredentialsMetadataToDB ''AUTHZ_POLICY|gnxi'' [] fld val w1 = (None, w2)" and q2: "quiet w2" by blast
  show ?thesis
    using writeCredentials_world [OF a] writeCredentials_world [OF b] q2 a b
    by (intro exI [of _ w2]) (simp add: writeAuthzMetadataToDB_def authzKey_def)
qed

definition savedAuthz :: "authzMetadata \<times> string \<times> string \<Rightarrow> authzServer \<Rightarrow> bool" where
  "savedAuthz c srv = (case c of (m, f, content) \<Rightarrow> as_AuthzPolicyFile srv = f \<and> as_authzMetadataCopy srv = m \<and>
     (\<exists>d. names (as_world srv) f = Some (Regular d)) \<and>
     names (as_world srv) (f @ backupExt) = Some (Regular content) \<and> quiet (as_world srv))"

lemma saveToAuthzFile_quiet:
  assumes "savedAuthz c srv"
  shows "\<exists>w. saveToAuthzFile p srv = (None, srv\<lparr>as_world := w\<rparr>) \<and> savedAuthz c (srv\<lparr>as_world := w\<rparr>) \<and>
     names w = (names (as_world srv))(as_AuthzPolicyFile srv \<mapsto> Regular p)"
proof -
  have "names (as_world srv) (as_AuthzPolicyFile srv) \<noteq> Some Directory" "quiet (as_world srv)"
    using assms by (auto simp: savedAuthz_def)
  from installTemp_quiet [OF this(2,1), of p] obtain w where
    w: "installTemp p (as_AuthzPolicyFile srv) (as_world srv) = (None, w)" "quiet w" by blast
  from installTemp_cases(1) [OF w(1)] w assms show ?thesis
    by (intro exI [of _ w]) (auto simp: saveToAuthzFile_def savedAuthz_def)
qed

lemma writeAuthz_saved:
  assumes "savedAuthz c srv"
  shows "\<exists>w. writeAuthzMetadataToDB fld val srv =
      (None, srv\<lparr>as_world := w, as_authzMetadata := setAuthzField fld val (as_authzMetadata srv)\<rparr>) \<and>
    savedAuthz c (srv\<lparr>as_world := w, as_authzMetadata := setAuthzField fld val (as_authzMetadata srv)\<rparr>)"
proof -
  have "quiet (as_world srv)" using assms by (auto simp: savedAuthz_def)
  from writeAuthz_quiet [OF this, of fld val] assms show ?thesis by (auto simp: savedAuthz_def)
qed

lemma processRotateRequest_savedAuthz:
  assumes "savedAuthz c srv" "processRotateRequest srv req = (e, srv')"
  shows "savedAuthz c srv'"
proof (cases "\<exists>up. zq_uploadRequest req = Some up \<and> zu_policy up \<noteq> [] \<and> zu_version up \<noteq> [] \<and> jsonValid (zu_policy up)")
  case False
  with assms show ?thesis by (auto simp: processRotateRequest_def split: option.splits if_splits)
next
  case True
  then obtain up where up: "zq_uploadRequest req = Some up" "zu_policy up \<noteq> []" "zu_version up \<noteq> []"
    "jsonValid (zu_policy up)" by blast
  obtain e0 w where fc: "fileCheck (as_AuthzPolicyFile srv) (as_world srv) = (e0, w)" by fastforce
  let ?s0 = "srv\<lparr>as_world := w\<rparr>"
  have s0: "savedAuthz c ?s0" using assms(1) fileCheck_cases(1) [OF fc] by (auto simp: savedAuthz_def)
  from writeAuthz_saved [OF s0] obtain s1 where
    s1: "writeAuthzMetadataToDB authzVersionFld (zu_version up) ?s0 = (None, s1)" "savedAuthz c s1" by blast
  from writeAuthz_saved [OF s1(2)] obtain s2 where
    s2: "writeAuthzMetadataToDB authzCreatedOnFld (FormatNat (unat (zu_createdOn up))) s1 = (None, s2)" "savedAuthz c s2" by blast
  from saveToAuthzFile_quiet [OF s2(2)] obtain s3 where
    s3: "saveToAuthzFile (zu_policy up) s2 = (None, s3)" "savedAuthz c s3" by blast
  have "srv' \<in> {?s0, s3}"
    using assms(2) up fc s1(1) s2(1) s3(1) by (auto simp: processRotateRequest_def Let_def split: option.splits if_splits)
  with s0 s3(2) show ?thesis by blast
qed

interpretation azr: rotation rotateLoop zq_finalizeRotation processRotateRequest revertAuthz finalizeAuthz savedAuthz
  by unfold_locales (auto intro: processRotateRequest_savedAuthz)

lemma revertAuthz_quiet:
  assumes "savedAuthz (m, f, content) srv"
  shows "names (as_world (revertAuthz srv)) f = Some (Regular content)" "as_authzMetadata (revertAuthz srv) = m"
    "published m (as_world (revertAuthz srv))"
proof -
  have f: "names (as_world srv) (backupFile srv) = Some (Regular content)" "as_AuthzPolicyFile srv = f"
    "quiet (as_world srv)" "names (as_world srv) f \<noteq> Some Directory" "as_authzMetadataCopy srv = m"
    using assms by (auto simp: savedAuthz_def backupFile_def)
  from copyFile_quiet [OF f(1) f(3) f(4)] obtain w where
    w: "copyFile (backupFile srv) f (as_world srv) = (None, w)" "quiet w" by blast
  have n: "names w f = Some (Regular content)" using copyFile_plain(1) [OF f(1) w(1)] by simp
  from writeAuthz_quiet [of "srv\<lparr>as_world := w\<rparr>" authzVersionFld "am_AuthzVersion m"] w(2) obtain w1 where
    w1: "writeAuthzMetadataToDB authzVersionFld (am_AuthzVersion m) (srv\<lparr>as_world := w\<rparr>) =
      (None, srv\<lparr>as_world := w1, as_authzMetadata := setAuthzField authzVersionFld (am_AuthzVersion m) (as_authzMetadata srv)\<rparr>)"
    "quiet w1" "names w1 = names w"
    "w_db w1 = gm_set (authzKey ''gnxi'', authzVersionFld) (am_AuthzVersion m)
       (gm_set (authzKey ''p4rt'', authzVersionFld) (am_AuthzVersion m) (w_db w))" by auto
  let ?s1 = "srv\<lparr>as_world := w1, as_authzMetadata := setAuthzField authzVersionFld (am_AuthzVersion m) (as_authzMetadata srv)\<rparr>"
  from writeAuthz_quiet [of ?s1 authzCreatedOnFld "am_AuthzCreatedOn m"] w1(2) obtain w2 where
    w2: "writeAuthzMetadataToDB authzCreatedOnFld (am_AuthzCreatedOn m) ?s1 =
      (None, ?s1\<lparr>as_world := w2, as_authzMetadata := setAuthzField authzCreatedOnFld (am_AuthzCreatedOn m) (as_authzMetadata ?s1)\<rparr>)"
    "names w2 = names w1"
    "w_db w2 = gm_set (authzKey ''gnxi'', authzCreatedOnFld) (am_AuthzCreatedOn m)
       (gm_set (authzKey ''p4rt'', authzCreatedOnFld) (am_AuthzCreatedOn m) (w_db w1))" by auto
  have r: "revertAuthz srv = ?s1\<lparr>as_world := w2, as_authzMetadata := setAuthzField authzCreatedOnFld (am_AuthzCreatedOn m) (as_authzMetadata ?s1)\<rparr>"
    using w(1) w1(1) w2(1) f(2,5) by (simp add: revertAuthz_def revertAuthzFileFreshness_def)
  show "names (as_world (revertAuthz srv)) f = Some (Regular content)" using n w1(3) w2(2) by (simp add: r)
  show "as_authzMetadata (revertAuthz srv) = m"
    by (simp add: r setAuthzField_def authzVersionFld_def authzCreatedOnFld_def)
  have fld: "authzVersionFld \<noteq> authzCreatedOnFld" "authzCreatedOnFld \<noteq> authzVersionFld"
    by (simp_all add: authzVersionFld_def authzCreatedOnFld_def)
  have key: "authzKey ''p4rt'' \<noteq> authzKey ''gnxi''" "authzKey ''gnxi'' \<noteq> authzKey ''p4rt''"
    by (simp_all add: authzKey_def credentialsPath_def GetKey_def credentialsTbl_def)
  show "published m (as_world (revertAuthz srv))"
    using fld key by (simp add: r published_def w2(3) w1(4) update_conv')
qed

section \<open>Properties\<close>

text \<open>C13. The policy file that the gRPC library watches is never torn: whatever the stream does and whichever
  system calls fail, after a rotation it holds, as a whole, the policy from before, the policy of the
  backup file, or one of the uploaded policies.\<close>

theorem policy_file_never_torn:
  assumes "names (as_world srv) (as_AuthzPolicyFile srv) = Some (Regular c)"
    and "names (as_world srv) (backupFile srv) \<in> {None, Some (Regular b)}"
    and "as_AuthzMetaFile srv \<notin> {as_AuthzPolicyFile srv, backupFile srv}"
    and "plainFile (as_world srv) (as_AuthzMetaFile srv)"
    and "Rotate authErr srv es = (r, srv')"
  shows "\<exists>d. names (as_world srv') (as_AuthzPolicyFile srv) = Some (Regular d) \<and> d \<in> {c, b} \<union> uploads es"
proof (cases "authErr = None \<and> \<not> as_authzMu srv")
  case False
  with assms(1,5) show ?thesis by (auto simp: Rotate_def split: option.splits if_splits)
next
  case True
  let ?f = "as_AuthzPolicyFile srv" and ?S = "{c, b} \<union> uploads es"
  let ?s1 = "snd (checkpointAuthzFile (checkpointAuthzFreshness (srv\<lparr>as_authzMu := True\<rparr>)))"
  have "wholeFiles ?f ?S (checkpointAuthzFreshness (srv\<lparr>as_authzMu := True\<rparr>))"
    using assms(1-4) by (auto simp: wholeFiles_def holds_def checkpointAuthzFreshness_def backupFile_def)
  then have "wholeFiles ?f ?S ?s1" by (rule checkpointAuthzFile_whole)
  moreover obtain srv2 where "rotateLoop ?s1 es = (r, srv2)" "srv' = srv2\<lparr>as_authzMu := False\<rparr>"
    using True assms(5) by (auto simp: Rotate_def Let_def split: prod.splits)
  ultimately have "holds ?S (names (as_world srv') ?f)" using rotateLoop_whole [of ?f ?S ?s1 es r srv2] by auto
  then show ?thesis by (auto simp: holds_def)
qed

definition demoAuthz :: "(nat \<Rightarrow> nat option) \<Rightarrow> authzServer" where
  "demoAuthz fault = \<lparr>as_authzMetadata = NewAuthzMetadata, as_authzMetadataCopy = NewAuthzMetadata,
     as_AuthzPolicyFile = ''a'', as_AuthzMetaFile = ''m'', as_authzMu = False,
     as_world = \<lparr>w_files = [(Name ''a'', Regular ''{}''), (Name ''a.bak'', Regular ''[]'')], w_db = [], w_tick = 0, w_fault = fault\<rparr>\<rparr>"

definition demoAuthzUpload :: authzRequest where
  "demoAuthzUpload = \<lparr>zq_uploadRequest = Some \<lparr>zu_version = ''v2'', zu_createdOn = 5, zu_policy = ''null''\<rparr>,
     zq_finalizeRotation = False, zq_forceOverwrite = False\<rparr>"

lemma demoAuthz_files [simp]:
  "names (as_world (demoAuthz flt)) ''a'' = Some (Regular ''{}'')"
  "names (as_world (demoAuthz flt)) ''a.bak'' = Some (Regular ''[]'')"
  "as_AuthzPolicyFile (demoAuthz flt) = ''a''" "backupFile (demoAuthz flt) = ''a.bak''"
  "as_AuthzMetaFile (demoAuthz flt) = ''m''" "plainFile (as_world (demoAuthz flt)) ''m''"
  "as_authzMetadata (demoAuthz flt) = NewAuthzMetadata" "as_authzMu (demoAuthz flt) = False"
  "quiet (as_world (demoAuthz (\<lambda>_. None)))"
  by (simp_all add: demoAuthz_def names_def backupFile_def backupExt_def plainFile_def quiet_def)

theorem policy_file_never_torn_witness:
  "\<exists>r srv' d. Rotate None (demoAuthz (\<lambda>n. if n = 3 then Some 1 else None)) [Recv demoAuthzUpload None] = (r, srv') \<and>
     names (as_world srv') ''a'' = Some (Regular d) \<and> d \<in> {''{}'', ''[]'', ''null''}"
proof -
  let ?srv = "demoAuthz (\<lambda>n. if n = 3 then Some 1 else None)"
  obtain r srv' where R: "Rotate None ?srv [Recv demoAuthzUpload None] = (r, srv')" by fastforce
  from policy_file_never_torn [of ?srv "''{}''" "''[]''", OF _ _ _ _ R] R show ?thesis
    by (auto simp: demoAuthzUpload_def)
qed

text \<open>C14. Without faults of the host, a rotation that the client does not finalize restores everything: the
  policy file has its old content, the version and creation time are the old ones, and STATE_DB shows
  them for both instances of the policy.\<close>

theorem abandoned_rotation_restores_everything:
  assumes "names (as_world srv) (as_AuthzPolicyFile srv) = Some (Regular c)"
    and "names (as_world srv) (backupFile srv) \<noteq> Some Directory" and "quiet (as_world srv)"
    and "\<not> as_authzMu srv" and "list_all (\<lambda>ev. \<not> finalizes zq_finalizeRotation ev) es"
    and "Rotate None srv es = (r, srv')"
  shows "r \<noteq> None \<and> names (as_world srv') (as_AuthzPolicyFile srv) = Some (Regular c) \<and>
         as_authzMetadata srv' = as_authzMetadata srv \<and> published (as_authzMetadata srv) (as_world srv')"
proof -
  let ?f = "as_AuthzPolicyFile srv" and ?m = "as_authzMetadata srv"
  from copyFile_quiet [OF assms(1,3), of "backupFile srv"] assms(2) obtain w where
    w: "copyFile ?f (backupFile srv) (as_world srv) = (None, w)" "quiet w" by blast
  let ?s1 = "srv\<lparr>as_authzMu := True, as_authzMetadataCopy := ?m, as_world := w\<rparr>"
  have "savedAuthz (?m, ?f, c) ?s1"
    using copyFile_plain(1) [OF assms(1) w(1)] assms(1) w(2) by (auto simp: savedAuthz_def backupFile_def)
  from azr.loop_unfinished [OF this assms(5)] obtain s2 e where
    s2: "savedAuthz (?m, ?f, c) s2" "rotateLoop ?s1 es = (Some e, revertAuthz s2)" by blast
  have "Rotate None srv es = (Some e, (revertAuthz s2)\<lparr>as_authzMu := False\<rparr>)"
    using s2(2) w(1) assms(4) by (simp add: Rotate_def checkpointAuthzFile_def checkpointAuthzFreshness_def backupFile_def)
  with assms(6) revertAuthz_quiet [OF s2(1)] show ?thesis by auto
qed

theorem abandoned_rotation_restores_everything_witness:
  "\<exists>r srv'. Rotate None (demoAuthz (\<lambda>_. None)) [Recv demoAuthzUpload None] = (r, srv') \<and> r \<noteq> None \<and>
     names (as_world srv') ''a'' = Some (Regular ''{}'') \<and> published NewAuthzMetadata (as_world srv')"
proof -
  obtain r srv' where R: "Rotate None (demoAuthz (\<lambda>_. None)) [Recv demoAuthzUpload None] = (r, srv')" by fastforce
  have "list_all (\<lambda>ev. \<not> finalizes zq_finalizeRotation ev) [Recv demoAuthzUpload None]" by (simp add: demoAuthzUpload_def)
  from abandoned_rotation_restores_everything [OF _ _ _ _ this R, of "''{}''"] R show ?thesis by auto
qed

end
