(* ===== verification/Gnsi_Certz.thy ===== *)
theory Gnsi_Certz
  imports Gnsi_Rotation
begin

text \<open>
  The gNSI certz service, \<^verbatim>\<open>gnmi_server/gnsi_certz.go\<close>: profiles of credentials (certificate and key, trust
  bundle, revocation lists, authentication policy), the symbolic links to the active files, the CSR
  requests, and the rotation that uploads, activates, reverts and finalizes them.

  The cryptography (key generation, CSR encoding, PEM and CRL decoding) and the working directory are
  arguments (\<open>certz_env\<close>), and so are the readings of the clock. A run-time panic ends the process: it is
  recorded in the state, and nothing runs after it.
\<close>

section \<open>Profiles\<close>

datatype certzType = certType | tbType | crlType | apType | otherType int

fun certzTypeString :: "certzType \<Rightarrow> string" where
  "certzTypeString certType = ''Certificate''"
| "certzTypeString tbType = ''TrustBundle''"
| "certzTypeString crlType = ''CRLBundle''"
| "certzTypeString apType = ''AuthPolicy''"
| "certzTypeString (otherType i) = ''unknown''"

record genericEntity =
  ge_EType :: certzType
  ge_CreatedOn :: "64 word"
  ge_Version :: string
  ge_CertPath :: string
  ge_KeyPath :: string
  ge_Final :: bool

record entityGroup =
  eg_Cert :: "genericEntity option"
  eg_TrustBundle :: "genericEntity option"
  eg_CrlBundle :: "genericEntity option"
  eg_AuthPolicy :: "genericEntity option"

record profile =
  pf_ID :: string
  pf_ActiveEntities :: entityGroup
  pf_LastEntities :: entityGroup
  pf_generatedKey :: "string option"

record certzConfig =
  zc_SrvCertLnk :: string
  zc_SrvCertFile :: string
  zc_SrvKeyLnk :: string
  zc_SrvKeyFile :: string
  zc_CaCertLnk :: string
  zc_CaCertFile :: string
  zc_CertCRLConfig :: string
  zc_FedPolicyFile :: string
  zc_CertzMetaFile :: string
  zc_IntManFile :: string

text \<open>\<open>cz_clock\<close> gives the readings of \<^verbatim>\<open>time.Now().UnixNano()\<close>, \<open>cz_reads\<close> counts them.\<close>

record certzServer =
  cz_profiles :: "(string, profile) gomap"
  cz_config :: certzConfig
  cz_integrityManifestFile :: string
  cz_certzMu :: bool
  cz_crashed :: bool
  cz_clock :: "nat \<Rightarrow> nat"
  cz_reads :: nat
  cz_world :: world

definition defaultProfile :: string where
  "defaultProfile = ''gnxi''"

definition crlDefault :: string where
  "crlDefault = ''crl''"

definition crlFlush :: string where
  "crlFlush = ''_flush''"

definition zeroEntity :: genericEntity where
  "zeroEntity = \<lparr>ge_EType = certType, ge_CreatedOn = 0, ge_Version = [], ge_CertPath = [], ge_KeyPath = [], ge_Final = False\<rparr>"

definition noEntities :: entityGroup where
  "noEntities = \<lparr>eg_Cert = None, eg_TrustBundle = None, eg_CrlBundle = None, eg_AuthPolicy = None\<rparr>"

definition onWorld :: "(world \<Rightarrow> 'a \<times> world) \<Rightarrow> certzServer \<Rightarrow> 'a \<times> certzServer" where
  "onWorld f srv = (case f (cz_world srv) of (r, w) \<Rightarrow> (r, srv\<lparr>cz_world := w\<rparr>))"

definition nowNano :: "certzServer \<Rightarrow> nat \<times> certzServer" where
  "nowNano srv = (cz_clock srv (cz_reads srv), srv\<lparr>cz_reads := cz_reads srv + 1\<rparr>)"

definition setProfile :: "string \<Rightarrow> profile \<Rightarrow> certzServer \<Rightarrow> certzServer" where
  "setProfile pid p srv = srv\<lparr>cz_profiles := gm_set pid p (cz_profiles srv)\<rparr>"

definition crash :: "string \<Rightarrow> certzServer \<Rightarrow> goerr option \<times> certzServer" where
  "crash msg srv = (Some (Panic msg), srv\<lparr>cz_crashed := True\<rparr>)"

definition nilDeref :: string where
  "nilDeref = ''invalid memory address or nil pointer dereference''"

section \<open>Freshness in STATE_DB\<close>

text \<open>The two fields of an entity; an unknown type has empty names.\<close>

fun freshnessId :: "certzType \<Rightarrow> string option" where
  "freshnessId certType = Some ''certificate''"
| "freshnessId tbType = Some ''ca_trust_bundle''"
| "freshnessId crlType = Some ''certificate_revocation_list_bundle''"
| "freshnessId apType = Some ''authentication_policy''"
| "freshnessId (otherType i) = None"

definition freshnessFields :: "certzType \<Rightarrow> string \<times> string" where
  "freshnessFields t =
     (case freshnessId t of
        Some i \<Rightarrow> (i @ ''_version'', i @ ''_created_on'')
      | None \<Rightarrow> ([], []))"

definition writeEntityFreshness :: "string \<Rightarrow> genericEntity \<Rightarrow> world \<Rightarrow> world" where
  "writeEntityFreshness pid e w =
     (let created = FormatNat (unat (ge_CreatedOn e)) @ ''000000000'';
          (vFld, cFld) = freshnessFields (ge_EType e);
          w1 = snd (writeCredentialsMetadataToDB ''CERT'' pid cFld created w)
      in snd (writeCredentialsMetadataToDB ''CERT'' pid vFld (ge_Version e) w1))"

section \<open>Symbolic links\<close>

definition rmSymlink :: "string \<Rightarrow> world \<Rightarrow> (goerr + string) \<times> world" where
  "rmSymlink path w =
     (case osLstat (Name path) w of
        (r, w1) \<Rightarrow>
          if r = Inl ErrNotExist then (Inr [], w1)
          else (case osReadlink (Name path) w1 of
                  (Inl e, w2) \<Rightarrow> (Inl e, w2)
                | (Inr old, w2) \<Rightarrow>
                    (case osRemove (Name path) w2 of
                       (Some e, w3) \<Rightarrow> (Inl e, w3)
                     | (None, w3) \<Rightarrow> (Inr old, w3))))"

definition restoreSymlink :: "string \<Rightarrow> string \<Rightarrow> world \<Rightarrow> goerr option \<times> world" where
  "restoreSymlink oldTarget link w =
     (if oldTarget = [] then (None, w)
      else (case osStat (Name oldTarget) w of
              (Inl e, w1) \<Rightarrow>
                (Some (Plain (if e = ErrNotExist then ''oldTarget '' @ oldTarget @ '' does not exist: '' @ errText e
                              else ''failed to stat oldTarget '' @ oldTarget @ '': '' @ errText e)), w1)
            | (Inr _, w1) \<Rightarrow>
                (case rmSymlink link w1 of
                   (Inl e, w2) \<Rightarrow> (Some e, w2)
                 | (Inr _, w2) \<Rightarrow> osSymlink oldTarget (Name link) w2)))"

definition rmFileIfNotPointedToBySymlink :: "string \<Rightarrow> string \<Rightarrow> world \<Rightarrow> goerr option \<times> world" where
  "rmFileIfNotPointedToBySymlink file link w =
     (case osLstat (Name link) w of
        (r, w1) \<Rightarrow>
          if r = Inl ErrNotExist then (None, w1)
          else (case osReadlink (Name link) w1 of
                  (Inl e, w2) \<Rightarrow> (Some e, w2)
                | (Inr linked, w2) \<Rightarrow> if file = linked then (None, w2) else osRemove (Name file) w2))"

definition isSymlinkValid :: "string \<Rightarrow> world \<Rightarrow> bool \<times> world" where
  "isSymlinkValid path w =
     (case osStat (Name path) w of (Inr (Regular _), w1) \<Rightarrow> (True, w1) | (_, w1) \<Rightarrow> (False, w1))"

text \<open>The links, once the absolute paths are known.\<close>

definition setLinkPair :: "string \<Rightarrow> string \<Rightarrow> string \<Rightarrow> string \<Rightarrow> world \<Rightarrow> goerr option \<times> world" where
  "setLinkPair certLnk keyLnk cert key w =
     (case rmSymlink certLnk w of
        (Inl e, w1) \<Rightarrow> (Some e, w1)
      | (Inr oldCert, w1) \<Rightarrow>
          (case rmSymlink keyLnk w1 of
             (Inl e, w2) \<Rightarrow> (Some e, snd (restoreSymlink oldCert certLnk w2))
           | (Inr oldKey, w2) \<Rightarrow>
               (case osSymlink cert (Name certLnk) w2 of
                  (Some e, w3) \<Rightarrow>
                    (Some e, snd (restoreSymlink oldKey keyLnk (snd (restoreSymlink oldCert certLnk w3))))
                | (None, w3) \<Rightarrow>
                    (case osSymlink key (Name keyLnk) w3 of
                       (Some e, w4) \<Rightarrow>
                         (Some e, snd (restoreSymlink oldKey keyLnk (snd (restoreSymlink oldCert certLnk w4))))
                     | (None, w4) \<Rightarrow> (None, w4)))))"

definition atomicSetSrvCertKeyPair ::
    "goerr + string \<Rightarrow> certzConfig \<Rightarrow> string \<Rightarrow> string \<Rightarrow> world \<Rightarrow> goerr option \<times> world" where
  "atomicSetSrvCertKeyPair cwd cfg sCert sKey w =
     (case AbsPath cwd sCert of
        Inl e \<Rightarrow> (Some e, w)
      | Inr cert \<Rightarrow>
          (case AbsPath cwd sKey of
             Inl e \<Rightarrow> (Some e, w)
           | Inr key \<Rightarrow> setLinkPair (zc_SrvCertLnk cfg) (zc_SrvKeyLnk cfg) cert key w))"

definition atomicSetCACert :: "goerr + string \<Rightarrow> certzConfig \<Rightarrow> string \<Rightarrow> world \<Rightarrow> goerr option \<times> world" where
  "atomicSetCACert cwd cfg caCert w =
     (case AbsPath cwd caCert of
        Inl e \<Rightarrow> (Some e, w)
      | Inr cert \<Rightarrow>
          (case rmSymlink (zc_CaCertLnk cfg) w of
             (Inl e, w1) \<Rightarrow> (Some e, w1)
           | (Inr oldCert, w1) \<Rightarrow>
               (case osSymlink cert (Name (zc_CaCertLnk cfg)) w1 of
                  (Some e, w2) \<Rightarrow> (Some e, snd (restoreSymlink oldCert (zc_CaCertLnk cfg) w2))
                | (None, w2) \<Rightarrow> (None, w2))))"

text \<open>The two conditions of \<^verbatim>\<open>restoreFromFile\<close> ask whether the error of \<^verbatim>\<open>Lstat\<close> is \<^verbatim>\<open>ErrNotExist\<close>.\<close>

definition restoreFromFile :: "string \<Rightarrow> string \<Rightarrow> world \<Rightarrow> string \<times> world" where
  "restoreFromFile link file w =
     (let fromFile = (\<lambda>v. case osStat (Name file) v of
             (r, v1) \<Rightarrow> if r = Inl ErrNotExist then (''unknown'', v1) else (file, v1))
      in case osLstat (Name link) w of
           (r, w1) \<Rightarrow>
             if r = Inl ErrNotExist then fromFile w1
             else (case osReadlink (Name link) w1 of
                     (Inl _, w2) \<Rightarrow> fromFile w2
                   | (Inr path, w2) \<Rightarrow>
                       (case osLstat (Name path) w2 of
                          (r2, w3) \<Rightarrow> if r2 = Inl ErrNotExist then fromFile w3 else (path, w3))))"

definition removeEntityFiles :: "genericEntity \<Rightarrow> world \<Rightarrow> world" where
  "removeEntityFiles e w =
     (case ge_EType e of
        certType \<Rightarrow> snd (osRemove (Name (ge_KeyPath e)) (snd (osRemove (Name (ge_CertPath e)) w)))
      | tbType \<Rightarrow> snd (osRemove (Name (ge_CertPath e)) w)
      | _ \<Rightarrow> w)"

section \<open>Revocation lists\<close>

datatype certificateType = X509 | OtherCertType

datatype certificateEncoding = PEM | OtherEncoding

record crlMsg =
  cr_Type :: certificateType
  cr_Encoding :: certificateEncoding
  cr_Id :: string
  cr_CertificateRevocationList :: string

datatype csrSuite =
    RSA_2048_SHA_256 | RSA_2048_SHA_384 | RSA_2048_SHA_512
  | RSA_3072_SHA_256 | RSA_3072_SHA_384 | RSA_3072_SHA_512
  | RSA_4096_SHA_256 | RSA_4096_SHA_384 | RSA_4096_SHA_512
  | ECDSA_PRIME256V1_SHA_256 | ECDSA_PRIME256V1_SHA_384 | ECDSA_PRIME256V1_SHA_512
  | ECDSA_SECP384R1_SHA_256 | ECDSA_SECP384R1_SHA_384 | ECDSA_SECP384R1_SHA_512
  | ECDSA_SECP521R1_SHA_256 | ECDSA_SECP521R1_SHA_384 | ECDSA_SECP521R1_SHA_512
  | EDDSA_ED25519 | CIPHER_UNSPECIFIED

datatype sigAlgo = SHA256WithRSA | SHA384WithRSA | SHA512WithRSA
  | ECDSAWithSHA256 | ECDSAWithSHA384 | ECDSAWithSHA512 | PureEd25519 | UnknownSignatureAlgorithm

datatype keyKind = RSAKey nat | ECKey nat

record csrParams =
  sp_CsrSuite :: csrSuite
  sp_CommonName :: string
  sp_Country :: string
  sp_State :: string
  sp_City :: string
  sp_Organization :: string
  sp_OrganizationalUnit :: string

text \<open>\<open>ce_generateKey\<close> makes a private key, \<open>ce_createCsr\<close> encodes and signs the request for a subject,
  \<open>ce_marshalKey\<close> and \<open>ce_pemEncode\<close> print them, \<open>ce_pemDecode\<close> finds the first block of a PEM text and
  \<open>ce_parseCrl\<close> says whether its bytes are a revocation list.\<close>

record certz_env =
  ce_cwd :: "goerr + string"
  ce_generateKey :: "keyKind \<Rightarrow> goerr + string"
  ce_createCsr :: "csrParams \<Rightarrow> sigAlgo \<Rightarrow> string \<Rightarrow> goerr + string"
  ce_marshalKey :: "string \<Rightarrow> string"
  ce_pemEncode :: "string \<Rightarrow> string \<Rightarrow> string"
  ce_pemDecode :: "string \<Rightarrow> string option"
  ce_parseCrl :: "string \<Rightarrow> goerr option"

text \<open>The first loop of \<^verbatim>\<open>rotateCRLBundle\<close> checks and writes each list; \<open>i\<close> is the loop index.\<close>

fun checkCrls :: "certz_env \<Rightarrow> string \<Rightarrow> nat \<Rightarrow> crlMsg list \<Rightarrow> world \<Rightarrow> goerr option \<times> world" where
  "checkCrls en path i [] w = (None, w)"
| "checkCrls en path i (c # cs) w =
     (if cr_Type c \<noteq> X509 then (Some (Status InvalidArgument ''CRL type has to be X.509''), w)
      else if cr_Encoding c \<noteq> PEM then (Some (Status InvalidArgument ''CRL encoding has to be PEM''), w)
      else if cr_CertificateRevocationList c = []
      then (Some (Status InvalidArgument (''CRL #'' @ FormatNat i @ '' is empty'')), w)
      else (case ce_pemDecode en (cr_CertificateRevocationList c) of
              None \<Rightarrow> (Some (Panic nilDeref), w)
            | Some der \<Rightarrow>
                (case ce_parseCrl en der of
                   Some e \<Rightarrow> (Some (Status InvalidArgument (''CRL failed to parse: '' @ errText e)), w)
                 | None \<Rightarrow>
                     (case attemptWrite (JoinPath [path, cr_Id c]) (cr_CertificateRevocationList c) w of
                        (Some e, w1) \<Rightarrow>
                          (Some (Status FailedPrecondition (''CRL '' @ cr_Id c @ '' write failed: '' @ errText e)), w1)
                      | (None, w1) \<Rightarrow> checkCrls en path (Suc i) cs w1))))"

fun writeCrls :: "string \<Rightarrow> crlMsg list \<Rightarrow> world \<Rightarrow> goerr option \<times> world" where
  "writeCrls path [] w = (None, w)"
| "writeCrls path (c # cs) w =
     (case attemptWrite (JoinPath [path, cr_Id c]) (cr_CertificateRevocationList c) w of
        (Some e, w1) \<Rightarrow>
          (Some (Status FailedPrecondition (''CRL '' @ cr_Id c @ '' write failed: '' @ errText e)), w1)
      | (None, w1) \<Rightarrow> writeCrls path cs w1)"

definition readDirNames :: "string \<Rightarrow> world \<Rightarrow> string list \<times> world" where
  "readDirNames path w = (case osReadDir path w of (Inl _, w1) \<Rightarrow> ([], w1) | (Inr fs, w1) \<Rightarrow> (fs, w1))"

definition removeAll :: "string \<Rightarrow> string list \<Rightarrow> world \<Rightarrow> world" where
  "removeAll path fs w = fold (\<lambda>f v. snd (osRemove (Name (JoinPath [path, f])) v)) fs w"

definition clearDir :: "string \<Rightarrow> world \<Rightarrow> world" where
  "clearDir path w = (case readDirNames path w of (fs, w1) \<Rightarrow> removeAll path fs w1)"

definition rotateCRLBundle :: "certz_env \<Rightarrow> crlMsg list \<Rightarrow> string \<Rightarrow> world \<Rightarrow> goerr option \<times> world" where
  "rotateCRLBundle en certs path w =
     (if certs = [] then (Some (Status InvalidArgument ''CRL bundle cannot be empty''), w)
      else (case checkCrls en path 0 certs w of
              (Some e, w1) \<Rightarrow> (Some e, w1)
            | (None, w1) \<Rightarrow> writeCrls path certs (clearDir path w1)))"

fun copyFiles :: "string \<Rightarrow> string \<Rightarrow> string list \<Rightarrow> world \<Rightarrow> world" where
  "copyFiles srcPath dstPath [] w = w"
| "copyFiles srcPath dstPath (f # fs) w =
     (case osReadFile (Name (JoinPath [srcPath, f])) w of
        (Inl _, w1) \<Rightarrow> copyFiles srcPath dstPath fs w1
      | (Inr input, w1) \<Rightarrow>
          copyFiles srcPath dstPath fs (snd (attemptWrite (JoinPath [dstPath, f]) input w1)))"

definition copyCRLBundle :: "string \<Rightarrow> string \<Rightarrow> world \<Rightarrow> world" where
  "copyCRLBundle srcPath dstPath w =
     (case readDirNames srcPath (clearDir dstPath w) of (fs, w1) \<Rightarrow> copyFiles srcPath dstPath fs w1)"

definition crlPathOf :: "certzConfig \<Rightarrow> string \<Rightarrow> string" where
  "crlPathOf cfg pid = JoinPath [zc_CertCRLConfig cfg, if pid = defaultProfile then crlDefault else pid]"

section \<open>Signing requests\<close>

fun parseCSRSuite :: "csrSuite \<Rightarrow> nat \<times> sigAlgo" where
  "parseCSRSuite RSA_2048_SHA_256 = (2048, SHA256WithRSA)"
| "parseCSRSuite RSA_2048_SHA_384 = (2048, SHA384WithRSA)"
| "parseCSRSuite RSA_2048_SHA_512 = (2048, SHA512WithRSA)"
| "parseCSRSuite RSA_3072_SHA_256 = (3072, SHA512WithRSA)"
| "parseCSRSuite RSA_3072_SHA_384 = (3072, SHA384WithRSA)"
| "parseCSRSuite RSA_3072_SHA_512 = (3072, SHA512WithRSA)"
| "parseCSRSuite RSA_4096_SHA_256 = (4096, SHA512WithRSA)"
| "parseCSRSuite RSA_4096_SHA_384 = (4096, SHA384WithRSA)"
| "parseCSRSuite RSA_4096_SHA_512 = (4096, SHA512WithRSA)"
| "parseCSRSuite ECDSA_PRIME256V1_SHA_256 = (256, ECDSAWithSHA256)"
| "parseCSRSuite ECDSA_PRIME256V1_SHA_384 = (256, ECDSAWithSHA384)"
| "parseCSRSuite ECDSA_PRIME256V1_SHA_512 = (256, ECDSAWithSHA512)"
| "parseCSRSuite ECDSA_SECP384R1_SHA_256 = (384, ECDSAWithSHA256)"
| "parseCSRSuite ECDSA_SECP384R1_SHA_384 = (384, ECDSAWithSHA384)"
| "parseCSRSuite ECDSA_SECP384R1_SHA_512 = (384, ECDSAWithSHA512)"
| "parseCSRSuite ECDSA_SECP521R1_SHA_256 = (521, ECDSAWithSHA256)"
| "parseCSRSuite ECDSA_SECP521R1_SHA_384 = (521, ECDSAWithSHA384)"
| "parseCSRSuite ECDSA_SECP521R1_SHA_512 = (521, ECDSAWithSHA512)"
| "parseCSRSuite EDDSA_ED25519 = (256, PureEd25519)"
| "parseCSRSuite CIPHER_UNSPECIFIED = (0, UnknownSignatureAlgorithm)"

fun sigAlgoString :: "sigAlgo \<Rightarrow> string" where
  "sigAlgoString SHA256WithRSA = ''SHA256-RSA''"
| "sigAlgoString SHA384WithRSA = ''SHA384-RSA''"
| "sigAlgoString SHA512WithRSA = ''SHA512-RSA''"
| "sigAlgoString ECDSAWithSHA256 = ''ECDSA-SHA256''"
| "sigAlgoString ECDSAWithSHA384 = ''ECDSA-SHA384''"
| "sigAlgoString ECDSAWithSHA512 = ''ECDSA-SHA512''"
| "sigAlgoString PureEd25519 = ''Ed25519''"
| "sigAlgoString UnknownSignatureAlgorithm = ''0''"

text \<open>Which key is generated for an algorithm and a size.\<close>

definition keyFor :: "sigAlgo \<Rightarrow> nat \<Rightarrow> goerr + keyKind" where
  "keyFor a n =
     (if a \<in> {SHA256WithRSA, SHA384WithRSA, SHA512WithRSA} then Inr (RSAKey n)
      else if a \<in> {ECDSAWithSHA256, ECDSAWithSHA384, ECDSAWithSHA512} then
        (if n = 256 \<or> n = 384 \<or> n = 521 then Inr (ECKey n)
         else Inl (Status InvalidArgument (''Unsupported key size for ECDSA: '' @ FormatNat n)))
      else Inl (Status InvalidArgument (''Unsupported Algorithm: '' @ sigAlgoString a)))"

definition doGenerateCsr ::
    "certz_env \<Rightarrow> string \<Rightarrow> csrParams option \<Rightarrow> certzServer \<Rightarrow> (goerr + string) \<times> certzServer" where
  "doGenerateCsr en pid po srv =
     (case po of
        None \<Rightarrow> (Inl (Panic nilDeref), srv\<lparr>cz_crashed := True\<rparr>)
      | Some ps \<Rightarrow>
          (case parseCSRSuite (sp_CsrSuite ps) of
             (keySize, algo) \<Rightarrow>
               (case keyFor algo keySize of
                  Inl e \<Rightarrow> (Inl e, srv)
                | Inr kind \<Rightarrow>
                    (case ce_generateKey en kind of
                       Inl e \<Rightarrow> (Inl (Status Internal (''GenerateKey failed: '' @ errText e)), srv)
                     | Inr privKey \<Rightarrow>
                         (case ce_createCsr en ps algo privKey of
                            Inl e \<Rightarrow> (Inl (Status Internal (''CreateCertificateRequest failed: '' @ errText e)), srv)
                          | Inr csrCert \<Rightarrow>
                              let csr = ce_pemEncode en ''CERTIFICATE REQUEST'' csrCert;
                                  key = ce_pemEncode en ''PRIVATE KEY'' (ce_marshalKey en privKey)
                              in (case gm_get (cz_profiles srv) pid of
                                    None \<Rightarrow> (Inl (Panic nilDeref), srv\<lparr>cz_crashed := True\<rparr>)
                                  | Some p \<Rightarrow> (Inr csr, setProfile pid (p\<lparr>pf_generatedKey := Some key\<rparr>) srv)))))))"

section \<open>Uploads\<close>

record certMsg =
  cm_Type :: certificateType
  cm_Encoding :: certificateEncoding
  cm_Certificate :: "string option"
  cm_PrivateKey :: "string option"

datatype certChain = CertChain (cc_Certificate: "certMsg option") (cc_Parent: "certChain option")

datatype entityOneof = CertificateChain certChain | TrustBundle certChain
  | CertificateRevocationListBundle "crlMsg list" | AuthenticationPolicy string | NoEntity

record entityMsg =
  em_CreatedOn :: "64 word"
  em_Version :: string
  em_Entity :: entityOneof

definition bytesOf :: "string option \<Rightarrow> string" where
  "bytesOf b = (case b of Some s \<Rightarrow> s | None \<Rightarrow> [])"

text \<open>The parents of a certificate chain, appended in order. A parent without a certificate is dereferenced.\<close>

fun readParents :: "certChain option \<Rightarrow> string \<Rightarrow> goerr + string" where
  "readParents None cert = Inr cert"
| "readParents (Some (CertChain c parent)) cert =
     (case c of
        None \<Rightarrow> Inl (Panic nilDeref)
      | Some m \<Rightarrow>
          if cm_Type m \<noteq> X509 then Inl (Status InvalidArgument ''certificate type has to be X.509'')
          else if cm_Encoding m \<noteq> PEM then Inl (Status InvalidArgument ''certificate encoding has to be PEM'')
          else readParents parent (cert @ bytesOf (cm_Certificate m) @ [CHR 0x0A]))"

definition readCertChain :: "string option \<Rightarrow> certChain \<Rightarrow> goerr + (string \<times> string)" where
  "readCertChain generatedKey chain =
     (case cc_Certificate chain of
        None \<Rightarrow> Inl (Status InvalidArgument ''Missing Certificate'')
      | Some m \<Rightarrow>
          if cm_Type m \<noteq> X509 then Inl (Status InvalidArgument ''certificate type has to be X.509'')
          else if cm_Encoding m \<noteq> PEM then Inl (Status InvalidArgument ''certificate encoding has to be PEM'')
          else (case cm_Certificate m of
                  None \<Rightarrow> Inl (Status InvalidArgument ''Missing Cert data'')
                | Some c \<Rightarrow>
                    (case (case cm_PrivateKey m of Some k \<Rightarrow> Some k | None \<Rightarrow> generatedKey) of
                       None \<Rightarrow> Inl (Status InvalidArgument ''Missing Key'')
                     | Some key \<Rightarrow>
                         (case readParents (cc_Parent chain) (c @ [CHR 0x0A]) of
                            Inl e \<Rightarrow> Inl e
                          | Inr cert \<Rightarrow> Inr (cert, key)))))"

definition dashes :: "string \<Rightarrow> string" where
  "dashes = map (\<lambda>c. if c = CHR '' '' then CHR ''-'' else c)"

definition newGenericEntity :: "certzType \<Rightarrow> string \<Rightarrow> entityMsg \<Rightarrow> certzServer \<Rightarrow> genericEntity \<times> certzServer" where
  "newGenericEntity eType pid msg srv0 =
     (case nowNano srv0 of
        (t, srv) \<Rightarrow>
          let cfg = cz_config srv; ver = dashes (em_Version msg);
              base = pid @ ''_'' @ ver @ ''_'' @ FormatNat t;
              (certPath, keyPath) =
                (case eType of
                   certType \<Rightarrow> (DirPath (zc_SrvCertLnk cfg) @ ''/'' @ base @ ''_cert.pem'',
                                DirPath (zc_SrvKeyLnk cfg) @ ''/'' @ base @ ''_key.pem'')
                 | tbType \<Rightarrow> (DirPath (zc_CaCertLnk cfg) @ ''/ca_'' @ base @ ''_bundle.pem'', [])
                 | crlType \<Rightarrow> (crlPathOf cfg pid, [])
                 | apType \<Rightarrow> (zc_FedPolicyFile cfg, [])
                 | otherType _ \<Rightarrow> ([], []))
          in (\<lparr>ge_EType = eType, ge_CreatedOn = em_CreatedOn msg, ge_Version = em_Version msg,
               ge_CertPath = certPath, ge_KeyPath = keyPath, ge_Final = False\<rparr>, srv))"

text \<open>The entity of a message: the type its content has.\<close>

fun entityType :: "entityOneof \<Rightarrow> certzType option" where
  "entityType (CertificateChain _) = Some certType"
| "entityType (TrustBundle _) = Some tbType"
| "entityType (CertificateRevocationListBundle _) = Some crlType"
| "entityType (AuthenticationPolicy _) = Some apType"
| "entityType NoEntity = None"

definition saveAuthPolicy :: "string \<Rightarrow> string \<Rightarrow> world \<Rightarrow> goerr option \<times> world" where
  "saveAuthPolicy path policy w =
     (case osLstat (Name (path @ backupExt)) w of
        (r, w1) \<Rightarrow>
          (case (if r = Inl ErrNotExist then osRename (Name path) (Name (path @ backupExt)) w1 else (None, w1)) of
             (Some e, w2) \<Rightarrow> (Some e, w2)
           | (None, w2) \<Rightarrow>
               (case attemptWrite path policy w2 of
                  (Some e, w3) \<Rightarrow> (Some e, snd (osRename (Name (path @ backupExt)) (Name path) w3))
                | (None, w3) \<Rightarrow> (None, w3))))"

definition saveTrustBundle :: "certChain \<Rightarrow> string \<Rightarrow> world \<Rightarrow> goerr option \<times> world" where
  "saveTrustBundle chain path w =
     (case cc_Certificate chain of
        None \<Rightarrow> (Some (Panic nilDeref), w)
      | Some tb \<Rightarrow>
          if cm_Type tb \<noteq> X509 then (Some (Status InvalidArgument ''trustBundle type has to be X.509''), w)
          else if cm_Encoding tb \<noteq> PEM then (Some (Status InvalidArgument ''trustBundle encoding has to be PEM''), w)
          else if bytesOf (cm_Certificate tb) = []
          then (Some (Status InvalidArgument ''trustBundle cannot be empty''), w)
          else attemptWrite path (bytesOf (cm_Certificate tb)) w)"

definition saveCertKey :: "string option \<Rightarrow> certChain \<Rightarrow> genericEntity \<Rightarrow> world \<Rightarrow> goerr option \<times> world" where
  "saveCertKey generatedKey chain e w =
     (case readCertChain generatedKey chain of
        Inl er \<Rightarrow> (Some er, w)
      | Inr (cert, key) \<Rightarrow>
          (case attemptWrite (ge_KeyPath e) key w of
             (Some er, w1) \<Rightarrow> (Some er, w1)
           | (None, w1) \<Rightarrow> attemptWrite (ge_CertPath e) cert w1))"

definition generatedKeyOf :: "certzServer \<Rightarrow> string \<Rightarrow> string option" where
  "generatedKeyOf srv pid = (case gm_get (cz_profiles srv) pid of Some p \<Rightarrow> pf_generatedKey p | None \<Rightarrow> None)"

definition markCrash :: "goerr option \<times> certzServer \<Rightarrow> goerr option \<times> certzServer" where
  "markCrash r = (case r of (Some (Panic m), srv) \<Rightarrow> (Some (Panic m), srv\<lparr>cz_crashed := True\<rparr>) | _ \<Rightarrow> r)"

definition saveEntities :: "certz_env \<Rightarrow> string \<Rightarrow> entityMsg \<Rightarrow> genericEntity \<Rightarrow> certzServer \<Rightarrow> goerr option \<times> certzServer" where
  "saveEntities en pid msg e srv =
     markCrash
       (case em_Entity msg of
          CertificateChain c \<Rightarrow> onWorld (saveCertKey (generatedKeyOf srv pid) c e) srv
        | TrustBundle c \<Rightarrow> onWorld (saveTrustBundle c (ge_CertPath e)) srv
        | CertificateRevocationListBundle certs \<Rightarrow>
            (case onWorld (rotateCRLBundle en certs (ge_CertPath e)) srv of
               (None, srv1) \<Rightarrow> (None, srv1)
             | (Some (Panic m), srv1) \<Rightarrow> (Some (Panic m), srv1)
             | (Some er, srv1) \<Rightarrow> (Some (Status Aborted (errText er)), srv1))
        | AuthenticationPolicy policy \<Rightarrow> onWorld (saveAuthPolicy (ge_CertPath e) policy) srv
        | NoEntity \<Rightarrow> (Some (Status Internal ''failed to find entity type''), srv))"

fun activeOf :: "certzType \<Rightarrow> entityGroup \<Rightarrow> genericEntity option" where
  "activeOf certType g = eg_Cert g"
| "activeOf tbType g = eg_TrustBundle g"
| "activeOf crlType g = eg_CrlBundle g"
| "activeOf apType g = eg_AuthPolicy g"
| "activeOf (otherType i) g = None"

fun setEntity :: "certzType \<Rightarrow> genericEntity option \<Rightarrow> entityGroup \<Rightarrow> entityGroup" where
  "setEntity certType e g = g\<lparr>eg_Cert := e\<rparr>"
| "setEntity tbType e g = g\<lparr>eg_TrustBundle := e\<rparr>"
| "setEntity crlType e g = g\<lparr>eg_CrlBundle := e\<rparr>"
| "setEntity apType e g = g\<lparr>eg_AuthPolicy := e\<rparr>"
| "setEntity (otherType i) e g = g"

text \<open>What the four cases of \<^verbatim>\<open>activateEntity\<close> do to the profile: a final entity becomes the last one.\<close>

definition activateIn :: "genericEntity \<Rightarrow> profile \<Rightarrow> profile" where
  "activateIn e p =
     (let t = ge_EType e;
          cur = activeOf t (pf_ActiveEntities p);
          last' = (case cur of Some c \<Rightarrow> if ge_Final c then setEntity t cur (pf_LastEntities p) else pf_LastEntities p
                   | None \<Rightarrow> pf_LastEntities p)
      in p\<lparr>pf_ActiveEntities := setEntity t (Some e) (pf_ActiveEntities p), pf_LastEntities := last'\<rparr>)"

definition setLinks :: "certz_env \<Rightarrow> certzConfig \<Rightarrow> genericEntity \<Rightarrow> world \<Rightarrow> goerr option \<times> world" where
  "setLinks en cfg e w =
     (case ge_EType e of
        certType \<Rightarrow> atomicSetSrvCertKeyPair (ce_cwd en) cfg (ge_CertPath e) (ge_KeyPath e) w
      | tbType \<Rightarrow> atomicSetCACert (ce_cwd en) cfg (ge_CertPath e) w
      | _ \<Rightarrow> (None, w))"

definition activateEntity :: "certz_env \<Rightarrow> string \<Rightarrow> genericEntity \<Rightarrow> certzServer \<Rightarrow> goerr option \<times> certzServer" where
  "activateEntity en pid e srv =
     (case gm_get (cz_profiles srv) pid of
        None \<Rightarrow> (Some (Status InvalidArgument (''Rotate requested with invalid ssl_profile_id: '' @ pid)), srv)
      | Some p \<Rightarrow>
          (case onWorld (setLinks en (cz_config srv) e) srv of
             (Some er, srv1) \<Rightarrow> (Some er, srv1)
           | (None, srv1) \<Rightarrow>
               let srv2 = setProfile pid (activateIn e p) srv1
               in (None, srv2\<lparr>cz_world := writeEntityFreshness pid e (cz_world srv2)\<rparr>)))"

text \<open>A profile without the entity would be dereferenced.\<close>

definition entityAlreadyActive :: "string \<Rightarrow> genericEntity \<Rightarrow> certzServer \<Rightarrow> goerr option" where
  "entityAlreadyActive pid e srv =
     (case gm_get (cz_profiles srv) pid of
        None \<Rightarrow> None
      | Some p \<Rightarrow>
          (case ge_EType e of
             otherType _ \<Rightarrow> None
           | t \<Rightarrow>
               (case activeOf t (pf_ActiveEntities p) of
                  None \<Rightarrow> Some (Panic nilDeref)
                | Some a \<Rightarrow>
                    if ge_Version e = ge_Version a
                    then Some (Status AlreadyExists (certzTypeString t @ '' with profile=`'' @ pid @ ''` and version=`'' @
                           ge_Version e @ ''` already exists''))
                    else None)))"

definition uploadEntity :: "certz_env \<Rightarrow> bool \<Rightarrow> string \<Rightarrow> entityMsg \<Rightarrow> certzServer \<Rightarrow> goerr option \<times> certzServer" where
  "uploadEntity en overwrite pid msg srv =
     (if em_CreatedOn msg = 0 then (Some (Status InvalidArgument ''created_on cannot be empty''), srv)
      else if em_Version msg = [] then (Some (Status InvalidArgument ''version cannot be empty''), srv)
      else (case entityType (em_Entity msg) of
              None \<Rightarrow> (Some (Status Internal ''failed to find entity type''), srv)
            | Some t \<Rightarrow>
                if t = crlType \<and> zc_CertCRLConfig (cz_config srv) = []
                then (Some (Status Aborted ''CRL not configured''), srv)
                else (case newGenericEntity t pid msg srv of
                  (e, srv1) \<Rightarrow>
                    (case (if overwrite then None else entityAlreadyActive pid e srv1) of
                       Some er \<Rightarrow> markCrash (Some er, srv1)
                     | None \<Rightarrow>
                         (case saveEntities en pid msg e srv1 of
                            (Some (Panic m), srv2) \<Rightarrow> (Some (Panic m), srv2)
                          | (Some er, srv2) \<Rightarrow> (Some (Status Aborted (''Entity save err: '' @ errText er)), srv2)
                          | (None, srv2) \<Rightarrow>
                              (case activateEntity en pid e srv2 of
                                 (Some er, srv3) \<Rightarrow>
                                   (Some (Status Aborted (''Entity activate err: '' @ errText er)), srv3)
                               | (None, srv3) \<Rightarrow> (None, srv3)))))))"

fun uploadAll :: "certz_env \<Rightarrow> bool \<Rightarrow> string \<Rightarrow> entityMsg list \<Rightarrow> certzServer \<Rightarrow> goerr option \<times> certzServer" where
  "uploadAll en overwrite pid [] srv = (None, srv)"
| "uploadAll en overwrite pid (m # ms) srv =
     (case uploadEntity en overwrite pid m srv of
        (Some e, srv1) \<Rightarrow> (Some e, srv1)
      | (None, srv1) \<Rightarrow> uploadAll en overwrite pid ms srv1)"

definition doUpload :: "certz_env \<Rightarrow> entityMsg list \<Rightarrow> bool \<Rightarrow> string \<Rightarrow> certzServer \<Rightarrow> goerr option \<times> certzServer" where
  "doUpload en msgs overwrite pid srv =
     (if msgs = [] then (Some (Status InvalidArgument ''entity cannot be empty''), srv)
      else uploadAll en overwrite pid msgs srv)"

section \<open>Metadata\<close>

text \<open>The tags of \<^verbatim>\<open>genericEntity\<close> lack their quotes, so the fields keep their Go names and are never omitted.\<close>

definition typeNumber :: "certzType \<Rightarrow> int" where
  "typeNumber t = (case t of certType \<Rightarrow> 0 | tbType \<Rightarrow> 1 | crlType \<Rightarrow> 2 | apType \<Rightarrow> 3 | otherType i \<Rightarrow> i)"

definition typeOfNumber :: "int \<Rightarrow> certzType" where
  "typeOfNumber i = (if i = 0 then certType else if i = 1 then tbType else if i = 2 then crlType
     else if i = 3 then apType else otherType i)"

definition entityJson :: "genericEntity option \<Rightarrow> json" where
  "entityJson eo =
     (case eo of
        None \<Rightarrow> JNull
      | Some e \<Rightarrow> JObj [(''EType'', JNum (FormatInt (typeNumber (ge_EType e)))),
          (''CreatedOn'', JNum (FormatNat (unat (ge_CreatedOn e)))), (''Version'', JStr (ge_Version e)),
          (''CertPath'', JStr (ge_CertPath e)), (''KeyPath'', JStr (ge_KeyPath e)), (''Final'', JBool (ge_Final e))])"

definition groupJson :: "entityGroup \<Rightarrow> json" where
  "groupJson g = JObj [(''certificate'', entityJson (eg_Cert g)), (''trust_bundle'', entityJson (eg_TrustBundle g)),
     (''crl_bundle'', entityJson (eg_CrlBundle g)), (''auth_policy'', entityJson (eg_AuthPolicy g))]"

definition profileJson :: "profile \<Rightarrow> json" where
  "profileJson p = JObj [(''profile_id'', JStr (pf_ID p)), (''active'', groupJson (pf_ActiveEntities p)),
     (''last_active'', groupJson (pf_LastEntities p))]"

text \<open>The encoder sorts the keys of a map.\<close>

definition profilesJson :: "(string, profile) gomap \<Rightarrow> json" where
  "profilesJson ps = JObj (map (\<lambda>(k, p). (k, profileJson p)) (sort_key fst ps))"

definition saveCertzMetadata :: "string \<Rightarrow> (string, profile) gomap \<Rightarrow> world \<Rightarrow> goerr option \<times> world" where
  "saveCertzMetadata path ps w = attemptWrite path (printJson (profilesJson ps)) w"

text \<open>Decoding applies the members in order to the current value; a member of the wrong type is skipped and
  makes the result an error. The first component says whether all was well.\<close>

definition entityField :: "string \<times> json \<Rightarrow> bool \<times> genericEntity \<Rightarrow> bool \<times> genericEntity" where
  "entityField m acc =
     (case (m, acc) of
        ((k, v), ok, e) \<Rightarrow>
          if v = JNull then acc
          else if k = ''EType'' then
            (case v of JNum s \<Rightarrow> (case Atoi s of Some i \<Rightarrow> (ok, e\<lparr>ge_EType := typeOfNumber i\<rparr>) | None \<Rightarrow> (False, e))
             | _ \<Rightarrow> (False, e))
          else if k = ''CreatedOn'' then
            (case v of JNum s \<Rightarrow> (case digits_val 0 s of
                                   Some n \<Rightarrow> if n < 2 ^ 64 then (ok, e\<lparr>ge_CreatedOn := of_nat n\<rparr>) else (False, e)
                                 | None \<Rightarrow> (False, e))
             | _ \<Rightarrow> (False, e))
          else if k = ''Version'' then (case v of JStr s \<Rightarrow> (ok, e\<lparr>ge_Version := s\<rparr>) | _ \<Rightarrow> (False, e))
          else if k = ''CertPath'' then (case v of JStr s \<Rightarrow> (ok, e\<lparr>ge_CertPath := s\<rparr>) | _ \<Rightarrow> (False, e))
          else if k = ''KeyPath'' then (case v of JStr s \<Rightarrow> (ok, e\<lparr>ge_KeyPath := s\<rparr>) | _ \<Rightarrow> (False, e))
          else if k = ''Final'' then (case v of JBool b \<Rightarrow> (ok, e\<lparr>ge_Final := b\<rparr>) | _ \<Rightarrow> (False, e))
          else acc)"

definition decodeEntity :: "json \<Rightarrow> genericEntity option \<Rightarrow> bool \<times> genericEntity option" where
  "decodeEntity v cur =
     (let e0 = (case cur of Some e \<Rightarrow> e | None \<Rightarrow> zeroEntity)
      in case v of
           JNull \<Rightarrow> (True, None)
         | JObj ms \<Rightarrow> (case fold entityField ms (True, e0) of (ok, e) \<Rightarrow> (ok, Some e))
         | _ \<Rightarrow> (False, Some e0))"

definition groupField :: "string \<times> json \<Rightarrow> bool \<times> entityGroup \<Rightarrow> bool \<times> entityGroup" where
  "groupField m acc =
     (case (m, acc) of
        ((k, v), ok, g) \<Rightarrow>
          if k = ''certificate'' then (case decodeEntity v (eg_Cert g) of (b, e) \<Rightarrow> (ok \<and> b, g\<lparr>eg_Cert := e\<rparr>))
          else if k = ''trust_bundle'' then
            (case decodeEntity v (eg_TrustBundle g) of (b, e) \<Rightarrow> (ok \<and> b, g\<lparr>eg_TrustBundle := e\<rparr>))
          else if k = ''crl_bundle'' then
            (case decodeEntity v (eg_CrlBundle g) of (b, e) \<Rightarrow> (ok \<and> b, g\<lparr>eg_CrlBundle := e\<rparr>))
          else if k = ''auth_policy'' then
            (case decodeEntity v (eg_AuthPolicy g) of (b, e) \<Rightarrow> (ok \<and> b, g\<lparr>eg_AuthPolicy := e\<rparr>))
          else acc)"

definition decodeGroup :: "json \<Rightarrow> entityGroup \<Rightarrow> bool \<times> entityGroup" where
  "decodeGroup v g = (case v of JNull \<Rightarrow> (True, g) | JObj ms \<Rightarrow> fold groupField ms (True, g) | _ \<Rightarrow> (False, g))"

definition profileField :: "string \<times> json \<Rightarrow> bool \<times> profile \<Rightarrow> bool \<times> profile" where
  "profileField m acc =
     (case (m, acc) of
        ((k, v), ok, p) \<Rightarrow>
          if k = ''profile_id'' then
            (case v of JStr s \<Rightarrow> (ok, p\<lparr>pf_ID := s\<rparr>) | JNull \<Rightarrow> acc | _ \<Rightarrow> (False, p))
          else if k = ''active'' then
            (case decodeGroup v (pf_ActiveEntities p) of (b, g) \<Rightarrow> (ok \<and> b, p\<lparr>pf_ActiveEntities := g\<rparr>))
          else if k = ''last_active'' then
            (case decodeGroup v (pf_LastEntities p) of (b, g) \<Rightarrow> (ok \<and> b, p\<lparr>pf_LastEntities := g\<rparr>))
          else acc)"

definition zeroProfile :: profile where
  "zeroProfile = \<lparr>pf_ID = [], pf_ActiveEntities = noEntities, pf_LastEntities = noEntities, pf_generatedKey = None\<rparr>"

text \<open>A map element is decoded into a new pointer; null gives a nil pointer.\<close>

definition decodeProfile :: "json \<Rightarrow> bool \<times> profile option" where
  "decodeProfile v =
     (case v of
        JNull \<Rightarrow> (True, None)
      | JObj ms \<Rightarrow> (case fold profileField ms (True, zeroProfile) of (ok, p) \<Rightarrow> (ok, Some p))
      | _ \<Rightarrow> (False, Some zeroProfile))"

definition decodeProfiles :: "string \<Rightarrow> bool \<times> (string, profile option) gomap" where
  "decodeProfiles c =
     (case parseJson c of
        Some (JObj ms) \<Rightarrow>
          fold (\<lambda>(k, v) (ok, ps). case decodeProfile v of (b, p) \<Rightarrow> (ok \<and> b, gm_set k p ps)) ms (True, [])
      | Some JNull \<Rightarrow> (True, [])
      | _ \<Rightarrow> (False, []))"

text \<open>\<^verbatim>\<open>Lstat\<close> of a path, when the question is only whether it does not exist.\<close>

definition missing :: "string \<Rightarrow> world \<Rightarrow> bool \<times> world" where
  "missing path w = (case osLstat (Name path) w of (r, w1) \<Rightarrow> (r = Inl ErrNotExist, w1))"

definition doesNotExist :: "string \<Rightarrow> string \<Rightarrow> string \<Rightarrow> string" where
  "doesNotExist what pid path =
     what @ '' '' @ CHR 0x27 # pid @ CHR 0x27 # '': '' @ CHR 0x27 # path @ CHR 0x27 # '' does not exist''"

definition validateProfileExists :: "profile \<Rightarrow> world \<Rightarrow> goerr option \<times> world" where
  "validateProfileExists p w =
     (if pf_ID p = [] then (Some (Status NotFound ''cannot validate empty profile''), w)
      else (case eg_Cert (pf_ActiveEntities p) of
              None \<Rightarrow> (Some (Panic nilDeref), w)
            | Some c \<Rightarrow>
                (case missing (ge_CertPath c) w of
                   (True, w1) \<Rightarrow> (Some (Status NotFound (doesNotExist ''Cert'' (pf_ID p) (ge_CertPath c))), w1)
                 | (False, w1) \<Rightarrow>
                     (case missing (ge_KeyPath c) w1 of
                        (True, w2) \<Rightarrow> (Some (Status NotFound (doesNotExist ''Key'' (pf_ID p) (ge_KeyPath c))), w2)
                      | (False, w2) \<Rightarrow>
                          (case eg_TrustBundle (pf_ActiveEntities p) of
                             None \<Rightarrow> (Some (Panic nilDeref), w2)
                           | Some tb \<Rightarrow>
                               (case missing (ge_CertPath tb) w2 of
                                  (True, w3) \<Rightarrow> (Some (Status NotFound (doesNotExist ''TB'' (pf_ID p) (ge_CertPath tb))), w3)
                                | (False, w3) \<Rightarrow> (None, w3)))))))"

text \<open>The loop over the decoded profiles: an invalid one is dropped. A nil profile is dereferenced.\<close>

fun validProfiles ::
    "(string, profile option) gomap \<Rightarrow> world \<Rightarrow> (goerr + (string, profile) gomap) \<times> world" where
  "validProfiles [] w = (Inr [], w)"
| "validProfiles ((k, None) # ps) w = (Inl (Panic nilDeref), w)"
| "validProfiles ((k, Some p) # ps) w =
     (case validateProfileExists p w of
        (Some (Panic m), w1) \<Rightarrow> (Inl (Panic m), w1)
      | (r, w1) \<Rightarrow>
          (case validProfiles ps w1 of
             (Inl e, w2) \<Rightarrow> (Inl e, w2)
           | (Inr qs, w2) \<Rightarrow> (Inr (if r = None then (k, p) # qs else qs), w2)))"

text \<open>Profiles that were decoded before a type error stay in the map without validation; a nil one is
  dereferenced when its freshness is written.\<close>

definition nonNil :: "(string, profile option) gomap \<Rightarrow> goerr + (string, profile) gomap" where
  "nonNil ps = (if list_all (\<lambda>(k, p). p \<noteq> None) ps then Inr (map (\<lambda>(k, p). (k, the p)) ps) else Inl (Panic nilDeref))"

definition loadCertzMetadata :: "string \<Rightarrow> world \<Rightarrow> (goerr + (string, profile) gomap) \<times> world" where
  "loadCertzMetadata path w =
     (case osReadFile (Name path) w of
        (Inl e, w1) \<Rightarrow> (Inr [], w1)
      | (Inr c, w1) \<Rightarrow>
          (case decodeProfiles c of
             (True, ps) \<Rightarrow> validProfiles ps w1
           | (False, ps) \<Rightarrow> (nonNil ps, w1)))"

section \<open>Start\<close>

definition bootstrapDefaultProfile :: "certzConfig \<Rightarrow> nat \<Rightarrow> world \<Rightarrow> profile \<times> world" where
  "bootstrapDefaultProfile cfg t w =
     (let (cert, w1) = restoreFromFile (zc_SrvCertLnk cfg) (zc_SrvCertFile cfg) w;
          (key, w2) = restoreFromFile (zc_SrvKeyLnk cfg) (zc_SrvKeyFile cfg) w1;
          (ca, w3) = restoreFromFile (zc_CaCertLnk cfg) (zc_CaCertFile cfg) w2;
          e = zeroEntity\<lparr>ge_CreatedOn := of_nat t, ge_Version := ''V1'', ge_Final := True\<rparr>
      in (\<lparr>pf_ID = defaultProfile,
           pf_ActiveEntities =
             \<lparr>eg_Cert = Some (e\<lparr>ge_EType := certType, ge_CertPath := cert, ge_KeyPath := key\<rparr>),
              eg_TrustBundle = Some (e\<lparr>ge_EType := tbType, ge_CertPath := ca\<rparr>),
              eg_CrlBundle = Some (e\<lparr>ge_EType := crlType, ge_CertPath := zc_CertCRLConfig cfg\<rparr>),
              eg_AuthPolicy = Some (e\<lparr>ge_EType := apType, ge_CertPath := zc_FedPolicyFile cfg\<rparr>)\<rparr>,
           pf_LastEntities = \<lparr>eg_Cert = Some zeroEntity, eg_TrustBundle = Some zeroEntity,
              eg_CrlBundle = Some zeroEntity, eg_AuthPolicy = Some zeroEntity\<rparr>,
           pf_generatedKey = None\<rparr>, w3))"

fun publishEntities :: "string \<Rightarrow> genericEntity option list \<Rightarrow> world \<Rightarrow> goerr option \<times> world" where
  "publishEntities pid [] w = (None, w)"
| "publishEntities pid (None # es) w = (Some (Panic nilDeref), w)"
| "publishEntities pid (Some e # es) w = publishEntities pid es (writeEntityFreshness pid e w)"

fun publishProfiles :: "(string \<times> profile) list \<Rightarrow> world \<Rightarrow> goerr option \<times> world" where
  "publishProfiles [] w = (None, w)"
| "publishProfiles ((k, p) # ps) w =
     (let g = pf_ActiveEntities p
      in case publishEntities (pf_ID p) [eg_Cert g, eg_TrustBundle g, eg_CrlBundle g, eg_AuthPolicy g] w of
           (Some e, w1) \<Rightarrow> (Some e, w1)
         | (None, w1) \<Rightarrow> publishProfiles ps w1)"

definition ensureDir :: "string \<Rightarrow> world \<Rightarrow> world" where
  "ensureDir path w =
     (case osStat (Name path) w of
        (r, w1) \<Rightarrow> if r = Inl ErrNotExist then snd (osMkdirAll path w1) else w1)"

definition NewGNSICertzServer :: "certzConfig \<Rightarrow> (nat \<Rightarrow> nat) \<Rightarrow> string \<Rightarrow> world \<Rightarrow> goerr option \<times> certzServer" where
  "NewGNSICertzServer cfg clock manifest w =
     (let srv0 = \<lparr>cz_profiles = [], cz_config = cfg,
            cz_integrityManifestFile = (if zc_IntManFile cfg \<noteq> [] then zc_IntManFile cfg else manifest),
            cz_certzMu = False, cz_crashed = False, cz_clock = clock, cz_reads = 0, cz_world = w\<rparr>
      in case loadCertzMetadata (zc_CertzMetaFile cfg) w of
           (Inl e, w1) \<Rightarrow> (Some e, srv0\<lparr>cz_crashed := True, cz_world := w1\<rparr>)
         | (Inr ps, w1) \<Rightarrow>
             let (srv1, w2) =
                   (if gm_get ps defaultProfile = None then
                      (case nowNano (srv0\<lparr>cz_profiles := ps\<rparr>) of
                         (t, s) \<Rightarrow> (case bootstrapDefaultProfile cfg t w1 of
                                     (p, v) \<Rightarrow> (setProfile defaultProfile p s, v)))
                    else (srv0\<lparr>cz_profiles := ps\<rparr>, w1))
             in (case publishProfiles (cz_profiles srv1) w2 of
                   (Some e, w3) \<Rightarrow> (Some e, srv1\<lparr>cz_crashed := True, cz_world := w3\<rparr>)
                 | (None, w3) \<Rightarrow>
                     let w4 = snd (saveCertzMetadata (zc_CertzMetaFile cfg) (cz_profiles srv1) w3);
                         w5 = ensureDir (JoinPath [zc_CertCRLConfig cfg, crlDefault]) w4;
                         w6 = ensureDir (JoinPath [zc_CertCRLConfig cfg, crlDefault @ crlFlush]) w5
                     in (None, srv1\<lparr>cz_world := w6\<rparr>)))"

section \<open>Revert and finalize\<close>

text \<open>Both handle the four entities in turn, on the profile and on the world. The value of a nil entity is
  dereferenced; the first panic ends it.\<close>

type_synonym profStep = "profile \<times> world \<Rightarrow> goerr option \<times> profile \<times> world"

definition andThen :: "profStep \<Rightarrow> profStep \<Rightarrow> profStep" where
  "andThen f g x = (case f x of (Some e, y) \<Rightarrow> (Some e, y) | (None, y) \<Rightarrow> g y)"

text \<open>The rollback of one entity: \<open>undo\<close> brings the files of the last entity back (its errors are logged),
  \<open>cleanup\<close> removes those of the active one.\<close>

definition rollback ::
    "certzType \<Rightarrow> string \<Rightarrow> (genericEntity \<Rightarrow> genericEntity \<Rightarrow> world \<Rightarrow> world) \<Rightarrow> (genericEntity \<Rightarrow> world \<Rightarrow> world) \<Rightarrow> profStep" where
  "rollback t pid undo cleanup x =
     (case x of
        (p, w) \<Rightarrow>
          (case activeOf t (pf_ActiveEntities p) of
             None \<Rightarrow> (Some (Panic nilDeref), p, w)
           | Some a \<Rightarrow>
               if ge_Final a then (None, p, w)
               else (case activeOf t (pf_LastEntities p) of
                       None \<Rightarrow> (Some (Panic nilDeref), p, w)
                     | Some l \<Rightarrow>
                         (None, p\<lparr>pf_ActiveEntities := setEntity t (Some l) (pf_ActiveEntities p)\<rparr>,
                          cleanup a (writeEntityFreshness pid l (undo a l w))))))"

definition revertSteps :: "certz_env \<Rightarrow> certzConfig \<Rightarrow> string \<Rightarrow> profStep" where
  "revertSteps en cfg pid =
     andThen (rollback certType pid
        (\<lambda>a l w. snd (atomicSetSrvCertKeyPair (ce_cwd en) cfg (ge_CertPath l) (ge_KeyPath l) w)) removeEntityFiles)
     (andThen (rollback tbType pid (\<lambda>a l w. snd (atomicSetCACert (ce_cwd en) cfg (ge_CertPath l) w)) removeEntityFiles)
     (andThen (rollback crlType pid
        (\<lambda>a l w. copyCRLBundle (crlPathOf cfg pid @ crlFlush) (crlPathOf cfg pid) w) (\<lambda>a w. w))
     (rollback apType pid
        (\<lambda>a l w. snd (osRename (Name (ge_CertPath a @ backupExt)) (Name (ge_CertPath a)) w)) (\<lambda>a w. w))))"

definition runSteps :: "profStep \<Rightarrow> string \<Rightarrow> profile \<Rightarrow> certzServer \<Rightarrow> goerr option \<times> certzServer" where
  "runSteps f pid p srv =
     (case f (p, cz_world srv) of
        (e, p', w) \<Rightarrow> markCrash (e, setProfile pid p' (srv\<lparr>cz_world := w\<rparr>)))"

definition revertProfile :: "certz_env \<Rightarrow> string \<Rightarrow> certzServer \<Rightarrow> certzServer" where
  "revertProfile en pid0 srv =
     (let pid = (if pid0 = [] then defaultProfile else pid0)
      in case gm_get (cz_profiles srv) pid of
           None \<Rightarrow> srv
         | Some p \<Rightarrow> snd (runSteps (revertSteps en (cz_config srv) pid) pid p srv))"

text \<open>One entity made final: \<open>commit\<close> works on the last entity and the active one. Revocation lists keep their last
  entity when there was nothing to finalize; the other three always take over the active one.\<close>

definition finalizeOne ::
    "certzType \<Rightarrow> (genericEntity \<Rightarrow> genericEntity option \<Rightarrow> world \<Rightarrow> goerr option \<times> world) \<Rightarrow> profStep" where
  "finalizeOne t commit x =
     (case x of
        (p, w) \<Rightarrow>
          (case activeOf t (pf_ActiveEntities p) of
             None \<Rightarrow> (Some (Panic nilDeref), p, w)
           | Some a \<Rightarrow>
               (let a' = a\<lparr>ge_Final := True\<rparr>;
                    p' = p\<lparr>pf_ActiveEntities := setEntity t (Some a') (pf_ActiveEntities p),
                           pf_LastEntities := setEntity t (Some a') (pf_LastEntities p)\<rparr>
                in if ge_Final a then (None, if t = crlType then p else p', w)
                   else (case commit a (activeOf t (pf_LastEntities p)) w of
                           (Some e, w1) \<Rightarrow> (Some e, p, w1)
                         | (None, w1) \<Rightarrow> (None, p', w1)))))"

definition removeLast :: "genericEntity option \<Rightarrow> world \<Rightarrow> goerr option \<times> world" where
  "removeLast l w = (case l of None \<Rightarrow> (Some (Panic nilDeref), w) | Some e \<Rightarrow> (None, removeEntityFiles e w))"

definition finalizeSteps :: "certzConfig \<Rightarrow> string \<Rightarrow> profStep" where
  "finalizeSteps cfg pid =
     andThen (finalizeOne certType (\<lambda>a l. removeLast l))
     (andThen (finalizeOne tbType (\<lambda>a l. removeLast l))
     (andThen (finalizeOne crlType
        (\<lambda>a l w. (None, copyCRLBundle (crlPathOf cfg pid) (crlPathOf cfg pid @ crlFlush) w)))
     (finalizeOne apType (\<lambda>a l w. (None, snd (osRemove (Name (ge_CertPath a @ backupExt)) w))))))"

definition finalizeProfile :: "string \<Rightarrow> certzServer \<Rightarrow> goerr option \<times> certzServer" where
  "finalizeProfile pid srv =
     (case gm_get (cz_profiles srv) pid of
        None \<Rightarrow> (Some (Status InvalidArgument (''Finalize requested with invalid ssl_profile_id: '' @ pid)), srv)
      | Some p \<Rightarrow>
          (case runSteps (finalizeSteps (cz_config srv) pid) pid p srv of
             (Some e, srv1) \<Rightarrow> (Some e, srv1)
           | (None, srv1) \<Rightarrow>
               onWorld (saveCertzMetadata (zc_CertzMetaFile (cz_config srv1)) (cz_profiles srv1)) srv1))"

section \<open>Rotate\<close>

datatype rotateRequest = GenerateCsr "csrParams option" | Certificates "entityMsg list" | FinalizeRotation | OtherRequest

record certzRequest =
  rq_SslProfileId :: string
  rq_ForceOverwrite :: bool
  rq_RotateRequest :: rotateRequest

definition isFinalize :: "certzRequest \<Rightarrow> bool" where
  "isFinalize r \<longleftrightarrow> rq_RotateRequest r = FinalizeRotation"

definition processRotateRequest :: "certz_env \<Rightarrow> string \<Rightarrow> certzRequest \<Rightarrow> certzServer \<Rightarrow> goerr option \<times> certzServer" where
  "processRotateRequest en pid req srv =
     (if gm_get (cz_profiles srv) pid = None
      then (Some (Status InvalidArgument (''Rotate requested with invalid ssl_profile_id: '' @ pid)), srv)
      else (case rq_RotateRequest req of
              GenerateCsr po \<Rightarrow>
                (case doGenerateCsr en pid po srv of (Inl e, srv1) \<Rightarrow> (Some e, srv1) | (Inr csr, srv1) \<Rightarrow> (None, srv1))
            | Certificates msgs \<Rightarrow> doUpload en msgs (rq_ForceOverwrite req) pid srv
            | _ \<Rightarrow> (Some (Status Aborted ''Invalid RotateRequest''), srv)))"

text \<open>The loop carries the profile of the rotation, chosen by the first request. After a panic nothing is
  reverted: the process is gone.\<close>

type_synonym rotState = "string \<times> certzServer"

definition pickProfile :: "string \<Rightarrow> certzRequest \<Rightarrow> string" where
  "pickProfile pid req =
     (if pid = [] then (if rq_SslProfileId req \<noteq> [] then rq_SslProfileId req else defaultProfile) else pid)"

definition rotStep :: "certz_env \<Rightarrow> rotState \<Rightarrow> certzRequest \<Rightarrow> goerr option \<times> rotState" where
  "rotStep en s req =
     (let pid = pickProfile (fst s) req
      in case processRotateRequest en pid req (snd s) of (e, srv1) \<Rightarrow> (e, pid, srv1))"

definition rotRevert :: "certz_env \<Rightarrow> rotState \<Rightarrow> rotState" where
  "rotRevert en s = (if cz_crashed (snd s) then s else (fst s, revertProfile en (fst s) (snd s)))"

definition rotFinal :: "rotState \<Rightarrow> goerr option \<times> rotState" where
  "rotFinal s =
     (case finalizeProfile (fst s) (snd s) of
        (None, srv1) \<Rightarrow> (None, fst s, srv1)
      | (Some e, srv1) \<Rightarrow> (Some (Status Unknown (''Failed to remove the old credentials: '' @ errText e)), fst s, srv1))"

fun rotateLoop :: "certz_env \<Rightarrow> rotState \<Rightarrow> certzRequest event list \<Rightarrow> goerr option \<times> rotState" where
  "rotateLoop en s [] = (Some (Status Aborted ''No Finalize message''), rotRevert en s)"
| "rotateLoop en s (RecvErr e # es) = (Some (Status Aborted (''Stream recv err: '' @ errText e)), rotRevert en s)"
| "rotateLoop en s (Recv req sent # es) =
     (if isFinalize req then rotFinal s
      else (case rotStep en s req of
              (Some e, s1) \<Rightarrow> (Some (Status Aborted (''Process err: '' @ errText e)), rotRevert en s1)
            | (None, s1) \<Rightarrow>
                (case sent of
                   Some e \<Rightarrow> (Some (Status Aborted (''Stream send err: '' @ errText e)), rotRevert en s1)
                 | None \<Rightarrow> rotateLoop en s1 es)))"

definition Rotate :: "certz_env \<Rightarrow> goerr option \<Rightarrow> certzServer \<Rightarrow> certzRequest event list \<Rightarrow> goerr option \<times> certzServer" where
  "Rotate en authErr srv es =
     (case authErr of
        Some e \<Rightarrow> (Some e, srv)
      | None \<Rightarrow>
          if cz_certzMu srv then (Some (Status Aborted ''concurrent certz.Rotate RPCs are not allowed''), srv)
          else (case rotateLoop en ([], srv\<lparr>cz_certzMu := True\<rparr>) es of
                  (e, _, srv1) \<Rightarrow> (e, srv1\<lparr>cz_certzMu := False\<rparr>)))"

definition CanGenerateCSR :: "csrParams option \<Rightarrow> bool" where
  "CanGenerateCSR po \<longleftrightarrow> (case po of Some ps \<Rightarrow> sp_CommonName ps \<noteq> [] | None \<Rightarrow> False)"

definition AddProfile :: goerr where
  "AddProfile = Status Unimplemented ''method AddProfile not implemented''"

definition DeleteProfile :: goerr where
  "DeleteProfile = Status Unimplemented ''method DeleteProfile not implemented''"

definition GetProfileList :: goerr where
  "GetProfileList = Status Unimplemented ''method GetProfileList not implemented''"

section \<open>Links are set as a pair\<close>

text \<open>A later world of the same run, and a run with at most one fault to come.\<close>

definition later :: "world \<Rightarrow> world \<Rightarrow> bool" where
  "later w w' \<longleftrightarrow> w_fault w' = w_fault w \<and> w_tick w \<le> w_tick w'"

definition oneFault :: "world \<Rightarrow> bool" where
  "oneFault w \<longleftrightarrow> (\<exists>k. \<forall>n. w_tick w \<le> n \<and> n \<noteq> k \<longrightarrow> w_fault w n = None)"

lemma later_oneFault: "oneFault w \<Longrightarrow> later w w' \<Longrightarrow> oneFault w'"
  by (auto simp: oneFault_def later_def intro: le_trans)

lemma fault_over:
  assumes "oneFault w" "later w w'" "w_tick w \<le> n" "n < w_tick w'" "w_fault w n \<noteq> None"
  shows "quiet w'"
proof -
  from assms(1) obtain k where k: "\<And>m. w_tick w \<le> m \<Longrightarrow> m \<noteq> k \<Longrightarrow> w_fault w m = None" by (auto simp: oneFault_def)
  with assms(3,5) have "n = k" by (metis not_None_eq)
  with k assms(2,4) show ?thesis by (fastforce simp: quiet_def later_def)
qed

lemma rmSymlink_cases:
  assumes "rmSymlink p w = (r, w')"
  shows "later w w'" "w_db w' = w_db w"
    and "r = Inr old \<Longrightarrow> names w' = (names w)(p := None) \<and> (names w p = None \<and> old = [] \<or> names w p = Some (Symlink old))"
    and "r = Inl e \<Longrightarrow> names w' = names w"
  using assms
  by (auto simp: rmSymlink_def osLstat_def osReadlink_def osRemove_def later_def ErrIO_def ErrNotExist_def names_def
      fun_eq_iff split: if_splits option.splits inode.splits)

lemma rmSymlink_fault:
  assumes "names w p = Some (Symlink t)" "oneFault w" "rmSymlink p w = (Inl e, w')"
  shows "quiet w'"
proof -
  have "w_fault w (w_tick w) \<noteq> None \<or> w_fault w (Suc (w_tick w)) \<noteq> None \<or> w_fault w (Suc (Suc (w_tick w))) \<noteq> None"
    "w_tick w' = Suc (Suc (w_tick w)) \<and> w_fault w (Suc (w_tick w)) \<noteq> None \<or>
     w_tick w' = Suc (Suc (Suc (w_tick w))) \<and> w_fault w (Suc (Suc (w_tick w))) \<noteq> None"
    using assms(1,3)
    by (auto simp: rmSymlink_def osLstat_def osReadlink_def osRemove_def ErrIO_def ErrNotExist_def names_def
        split: if_splits option.splits inode.splits)
  then obtain n where "w_tick w \<le> n" "n < w_tick w'" "w_fault w n \<noteq> None" by (metis Suc_n_not_le_n le_SucI lessI nat_le_linear)
  with fault_over [OF assms(2) rmSymlink_cases(1) [OF assms(3)]] show ?thesis by blast
qed

lemma rmSymlink_quiet:
  assumes "quiet w" "names w p = None \<or> (\<exists>t. names w p = Some (Symlink t))"
  shows "\<exists>old w'. rmSymlink p w = (Inr old, w') \<and> quiet w' \<and> names w' = (names w)(p := None)"
  using assms
  by (auto simp: rmSymlink_def osLstat_def osReadlink_def osRemove_def ErrNotExist_def names_def fun_eq_iff)

lemma osSymlink_cases:
  assumes "osSymlink t (Name p) w = (r, w')"
  shows "later w w'" "w_db w' = w_db w" "r = None \<Longrightarrow> names w' = (names w)(p \<mapsto> Symlink t)" "r = Some e \<Longrightarrow> names w' = names w"
    and "names w p = None \<Longrightarrow> oneFault w \<Longrightarrow> r = Some e \<Longrightarrow> quiet w'"
proof -
  show l: "later w w'" "w_db w' = w_db w" "r = None \<Longrightarrow> names w' = (names w)(p \<mapsto> Symlink t)"
    "r = Some e \<Longrightarrow> names w' = names w"
    using assms by (auto simp: osSymlink_def later_def split: if_splits)
  assume "names w p = None" "oneFault w" "r = Some e"
  with assms have "w_fault w (w_tick w) \<noteq> None" "w_tick w < w_tick w'"
    by (auto simp: osSymlink_def names_def split: if_splits)
  with fault_over [OF \<open>oneFault w\<close> l(1)] show "quiet w'" by blast
qed

lemma osSymlink_quiet:
  "quiet w \<Longrightarrow> names w p = None \<Longrightarrow> \<exists>w'. osSymlink t (Name p) w = (None, w') \<and> quiet w' \<and> names w' = (names w)(p \<mapsto> Symlink t)"
  by (simp add: osSymlink_def names_def [of w p, symmetric] fun_eq_iff)

lemma restoreSymlink_quiet:
  assumes "quiet w" "old \<noteq> []" "names w old = Some (Regular c)"
    and "names w p = None \<or> (\<exists>t. names w p = Some (Symlink t))"
  shows "\<exists>w'. restoreSymlink old p w = (None, w') \<and> quiet w' \<and> names w' = (names w)(p \<mapsto> Symlink old)"
proof -
  have q: "quiet (step w)" using assms(1) by simp
  have st: "osStat (Name old) w = (Inr (Regular c), step w)" using assms(1,3) by (simp add: osStat_plain)
  from rmSymlink_quiet [OF q, of p] assms(4) obtain o1 w1 where
    w1: "rmSymlink p (step w) = (Inr o1, w1)" "quiet w1" "names w1 = (names w)(p := None)" by auto
  from osSymlink_quiet [OF w1(2), of p old] w1(3) obtain w2 where
    w2: "osSymlink old (Name p) w1 = (None, w2)" "quiet w2" "names w2 = (names w1)(p \<mapsto> Symlink old)" by auto
  show ?thesis
    using st w1 w2 assms(2) by (intro exI [of _ w2]) (simp add: restoreSymlink_def)
qed

lemma restorePair_quiet:
  assumes "quiet w" "oc \<noteq> []" "ok \<noteq> []" "names w oc = Some (Regular c)" "names w ok = Some (Regular k)" "cl \<noteq> kl"
    and "names w cl = None \<or> (\<exists>t. names w cl = Some (Symlink t))"
    and "names w kl = None \<or> (\<exists>t. names w kl = Some (Symlink t))"
  shows "names (snd (restoreSymlink ok kl (snd (restoreSymlink oc cl w)))) = (names w)(cl \<mapsto> Symlink oc, kl \<mapsto> Symlink ok)"
proof -
  from restoreSymlink_quiet [OF assms(1,2,4,7)] obtain w1 where
    w1: "restoreSymlink oc cl w = (None, w1)" "quiet w1" "names w1 = (names w)(cl \<mapsto> Symlink oc)" by blast
  have "names w1 ok = Some (Regular k)" "names w1 kl = None \<or> (\<exists>t. names w1 kl = Some (Symlink t))"
    using w1(3) assms(5-8) by auto
  from restoreSymlink_quiet [OF w1(2) assms(3) this] w1 show ?thesis by auto
qed

lemma setLinkPair_ok:
  assumes "setLinkPair cl kl cert key w = (None, w')" "cl \<noteq> kl"
  shows "names w' = (names w)(cl \<mapsto> Symlink cert, kl \<mapsto> Symlink key)" "w_db w' = w_db w"
proof -
  obtain r1 w1 where a: "rmSymlink cl w = (r1, w1)" by fastforce
  obtain oc where r1: "r1 = Inr oc" using a assms(1) by (cases r1) (auto simp: setLinkPair_def)
  obtain r2 w2 where b: "rmSymlink kl w1 = (r2, w2)" by fastforce
  obtain ok where r2: "r2 = Inr ok" using a b r1 assms(1) by (cases r2) (auto simp: setLinkPair_def)
  obtain r3 w3 where c: "osSymlink cert (Name cl) w2 = (r3, w3)" by fastforce
  obtain r4 w4 where d: "osSymlink key (Name kl) w3 = (r4, w4)" by fastforce
  have r: "r3 = None" "r4 = None" "w4 = w'"
    using a b c d r1 r2 assms(1) by (auto simp: setLinkPair_def split: option.splits)
  have "names w1 = (names w)(cl := None)" "w_db w1 = w_db w" using rmSymlink_cases(2,3) [OF a] r1 by auto
  moreover have "names w2 = (names w1)(kl := None)" "w_db w2 = w_db w1" using rmSymlink_cases(2,3) [OF b] r2 by auto
  moreover have "names w3 = (names w2)(cl \<mapsto> Symlink cert)" "w_db w3 = w_db w2" using osSymlink_cases(2,3) [OF c] r by auto
  moreover have "names w4 = (names w3)(kl \<mapsto> Symlink key)" "w_db w4 = w_db w3" using osSymlink_cases(2,3) [OF d] r by auto
  ultimately show "names w' = (names w)(cl \<mapsto> Symlink cert, kl \<mapsto> Symlink key)" "w_db w' = w_db w"
    using assms(2) r(3) by (auto simp: fun_eq_iff)
qed

lemma setLinkPair_failed:
  assumes "setLinkPair cl kl cert key w = (Some e, w')" "cl \<noteq> kl" "oneFault w"
    and old: "names w cl = Some (Symlink oc)" "names w kl = Some (Symlink ok)" "oc \<noteq> []" "ok \<noteq> []"
      "names w oc = Some (Regular c)" "names w ok = Some (Regular k)"
  shows "names w' = names w"
proof -
  obtain r1 w1 where a: "rmSymlink cl w = (r1, w1)" by fastforce
  show ?thesis
  proof (cases r1)
    case (Inl x)
    with a assms(1) rmSymlink_cases(4) [OF a] show ?thesis by (simp add: setLinkPair_def)
  next
    case r1: (Inr oc')
    have n1: "names w1 = (names w)(cl := None)" and oc: "oc' = oc" using rmSymlink_cases(3) [OF a r1] old by auto
    note f1 = later_oneFault [OF assms(3) rmSymlink_cases(1) [OF a]]
    have k1: "names w1 kl = Some (Symlink ok)" using n1 old assms(2) by simp
    obtain r2 w2 where b: "rmSymlink kl w1 = (r2, w2)" by fastforce
    show ?thesis
    proof (cases r2)
      case (Inl x)
      have q: "quiet w2" by (rule rmSymlink_fault [OF k1 f1 b [unfolded Inl]])
      have n2: "names w2 = (names w)(cl := None)" using rmSymlink_cases(4) [OF b Inl] n1 by simp
      have w': "w' = snd (restoreSymlink oc cl w2)" using a b r1 Inl oc assms(1) by (auto simp: setLinkPair_def)
      have "names w2 oc = Some (Regular c)" using n2 old by auto
      from restoreSymlink_quiet [OF q old(3) this, of cl] n2 old show ?thesis by (auto simp: w' fun_eq_iff)
    next
      case r2: (Inr ok')
      have n2: "names w2 = (names w1)(kl := None)" and ok: "ok' = ok" using rmSymlink_cases(3) [OF b r2] k1 by auto
      note f2 = later_oneFault [OF f1 rmSymlink_cases(1) [OF b]]
      have n2': "names w2 = (names w)(cl := None, kl := None)" using n1 n2 by simp
      obtain r3 w3 where c: "osSymlink cert (Name cl) w2 = (r3, w3)" by fastforce
      have fresh: "names w2 cl = None" "names w2 kl = None" using n2' by simp_all
      have restored: "names (snd (restoreSymlink ok kl (snd (restoreSymlink oc cl v)))) = names w"
        if "quiet v" "names v = (names w)(cl := n, kl := None)" "n = None \<or> (\<exists>t. n = Some (Symlink t))" for v n
        using that old assms(2) by (subst restorePair_quiet [where c = c and k = k]) (auto simp: fun_eq_iff)
      show ?thesis
      proof (cases r3)
        case (Some x)
        have q: "quiet w3" "names w3 = names w2"
          using osSymlink_cases(5) [OF c fresh(1) f2] osSymlink_cases(4) [OF c] Some by auto
        have "w' = snd (restoreSymlink ok kl (snd (restoreSymlink oc cl w3)))"
          using a b c r1 r2 Some oc ok assms(1) by (auto simp: setLinkPair_def)
        then show ?thesis using restored [OF q(1), of None] q(2) n2' by simp
      next
        case r3: None
        note f3 = later_oneFault [OF f2 osSymlink_cases(1) [OF c]]
        have n3: "names w3 = (names w)(cl \<mapsto> Symlink cert, kl := None)"
          using osSymlink_cases(3) [OF c r3] n2' assms(2) by (auto simp: fun_eq_iff)
        obtain r4 w4 where d: "osSymlink key (Name kl) w3 = (r4, w4)" by fastforce
        obtain x where r4: "r4 = Some x" using a b c d r1 r2 r3 assms(1) by (cases r4) (auto simp: setLinkPair_def)
        have q: "quiet w4" "names w4 = names w3"
          using osSymlink_cases(5) [OF d _ f3] osSymlink_cases(4) [OF d] r4 n3 by auto
        have "w' = snd (restoreSymlink ok kl (snd (restoreSymlink oc cl w4)))"
          using a b c d r1 r2 r3 r4 oc ok assms(1) by (auto simp: setLinkPair_def)
        then show ?thesis using restored [OF q(1), of "Some (Symlink cert)"] q(2) n3 by simp
      qed
    qed
  qed
qed


definition demoCertzConfig :: certzConfig where
  "demoCertzConfig = \<lparr>zc_SrvCertLnk = ''/c/cert.lnk'', zc_SrvCertFile = ''/c/cert'', zc_SrvKeyLnk = ''/c/key.lnk'',
     zc_SrvKeyFile = ''/c/key'', zc_CaCertLnk = ''/c/ca.lnk'', zc_CaCertFile = ''/c/ca'', zc_CertCRLConfig = ''/crl'',
     zc_FedPolicyFile = ''/c/fed'', zc_CertzMetaFile = ''/c/meta'', zc_IntManFile = []\<rparr>"

definition demoCertzWorld :: "(nat \<Rightarrow> nat option) \<Rightarrow> world" where
  "demoCertzWorld flt = \<lparr>w_files = [(Name ''/c/cert.lnk'', Symlink ''/c/cert''), (Name ''/c/key.lnk'', Symlink ''/c/key''),
       (Name ''/c/ca.lnk'', Symlink ''/c/ca''), (Name ''/c/cert'', Regular ''C1''), (Name ''/c/key'', Regular ''K1''),
       (Name ''/c/ca'', Regular ''A1''), (Name ''/c/fed'', Regular ''F1''), (Name ''/crl/crl'', Directory)],
     w_db = [], w_tick = 0, w_fault = flt\<rparr>"

lemma demoCertz_names [simp]:
  "names (demoCertzWorld flt) ''/c/cert.lnk'' = Some (Symlink ''/c/cert'')"
  "names (demoCertzWorld flt) ''/c/key.lnk'' = Some (Symlink ''/c/key'')"
  "names (demoCertzWorld flt) ''/c/cert'' = Some (Regular ''C1'')"
  "names (demoCertzWorld flt) ''/c/key'' = Some (Regular ''K1'')"
  "zc_SrvCertLnk demoCertzConfig = ''/c/cert.lnk''" "zc_SrvKeyLnk demoCertzConfig = ''/c/key.lnk''"
  by (simp_all add: demoCertzWorld_def demoCertzConfig_def names_def)



section \<open>Uploads become active\<close>

lemma writeEntityFreshness_world [simp]:
  "names (writeEntityFreshness pid e w) = names w"
proof -
  obtain v c where f: "freshnessFields (ge_EType e) = (v, c)" by fastforce
  let ?k = "FormatNat (unat (ge_CreatedOn e)) @ ''000000000''"
  obtain r1 w1 where a: "writeCredentialsMetadataToDB ''CERT'' pid c ?k w = (r1, w1)" by fastforce
  obtain r2 w2 where b: "writeCredentialsMetadataToDB ''CERT'' pid v (ge_Version e) w1 = (r2, w2)" by fastforce
  show ?thesis
    using writeCredentials_world(2) [OF a] writeCredentials_world(2) [OF b] a b f
    by (simp add: writeEntityFreshness_def)
qed

lemma onWorld_split: "onWorld f srv = (r, srv') \<longleftrightarrow> (\<exists>w. f (cz_world srv) = (r, w) \<and> srv' = srv\<lparr>cz_world := w\<rparr>)"
  by (auto simp: onWorld_def split: prod.splits)

lemma markCrash_None [simp]: "markCrash r = (None, srv) \<longleftrightarrow> r = (None, srv)"
  by (auto simp: markCrash_def split: prod.splits option.splits goerr.splits)

lemma newGenericEntity_sel:
  assumes "newGenericEntity t pid msg srv = (e, srv1)"
  shows "ge_EType e = t" "ge_Final e = False" "srv1 = srv\<lparr>cz_reads := cz_reads srv + 1\<rparr>"
    "ge_Version e = em_Version msg" "ge_CreatedOn e = em_CreatedOn msg"
  using assms by (auto simp: newGenericEntity_def nowNano_def Let_def split: prod.splits)

lemma uploadEntity_ok:
  assumes "uploadEntity en ov pid msg srv = (None, srv')"
  obtains t e srv1 srv2 where "entityType (em_Entity msg) = Some t" "newGenericEntity t pid msg srv = (e, srv1)"
    "saveEntities en pid msg e srv1 = (None, srv2)" "activateEntity en pid e srv2 = (None, srv')"
proof -
  from assms obtain t where t: "entityType (em_Entity msg) = Some t"
    by (auto simp: uploadEntity_def split: if_splits option.splits)
  obtain e srv1 where n: "newGenericEntity t pid msg srv = (e, srv1)" by fastforce
  obtain r2 srv2 where sv: "saveEntities en pid msg e srv1 = (r2, srv2)" by fastforce
  have r2: "r2 = None" and ac: "activateEntity en pid e srv2 = (None, srv')"
    using assms t n sv
    by (auto simp: uploadEntity_def split: if_splits option.splits goerr.splits prod.splits)
  from that [OF t n sv [unfolded r2] ac] show thesis .
qed

text \<open>C16. An accepted certificate is the active one: the key file holds the key of the message or, without one,
  the key generated by the last signing request of the profile; the certificate file holds the chain; the
  two links point to these files; and the profile records them as active but not yet final.\<close>

theorem uploaded_certificate_is_active:
  assumes "uploadEntity en overwrite pid msg srv = (None, srv')" and "em_Entity msg = CertificateChain chain"
    and "gm_get (cz_profiles srv) pid = Some p" and "zc_SrvCertLnk (cz_config srv) \<noteq> zc_SrvKeyLnk (cz_config srv)"
    and "fst (newGenericEntity certType pid msg srv) = e"
    and "ge_CertPath e \<noteq> ge_KeyPath e"
    and "plainFile (cz_world srv) (ge_CertPath e)" and "plainFile (cz_world srv) (ge_KeyPath e)"
    and "{ge_CertPath e, ge_KeyPath e} \<inter> {zc_SrvCertLnk (cz_config srv), zc_SrvKeyLnk (cz_config srv)} = {}"
  shows "\<exists>cert key certAbs keyAbs. readCertChain (pf_generatedKey p) chain = Inr (cert, key) \<and>
     AbsPath (ce_cwd en) (ge_CertPath e) = Inr certAbs \<and> AbsPath (ce_cwd en) (ge_KeyPath e) = Inr keyAbs \<and>
     names (cz_world srv') (ge_CertPath e) = Some (Regular cert) \<and>
     names (cz_world srv') (ge_KeyPath e) = Some (Regular key) \<and>
     names (cz_world srv') (zc_SrvCertLnk (cz_config srv)) = Some (Symlink certAbs) \<and>
     names (cz_world srv') (zc_SrvKeyLnk (cz_config srv)) = Some (Symlink keyAbs) \<and>
     map_option (eg_Cert \<circ> pf_ActiveEntities) (gm_get (cz_profiles srv') pid) = Some (Some e) \<and> \<not> ge_Final e"
proof -
  from uploadEntity_ok [OF assms(1)] assms(2,5) obtain srv1 srv2 where
    n: "newGenericEntity certType pid msg srv = (e, srv1)" and
    sv: "saveEntities en pid msg e srv1 = (None, srv2)" and ac: "activateEntity en pid e srv2 = (None, srv')"
    by (metis entityType.simps(1) fst_conv option.inject)
  note e = newGenericEntity_sel [OF n]
  have gk: "generatedKeyOf srv1 pid = pf_generatedKey p" using e(3) assms(3) by (simp add: generatedKeyOf_def)
  from sv assms(2) gk obtain w2 where sc: "saveCertKey (pf_generatedKey p) chain e (cz_world srv) = (None, w2)"
    and srv2: "srv2 = srv1\<lparr>cz_world := w2\<rparr>" using e(3) by (auto simp: saveEntities_def onWorld_split)
  from sc obtain cert key w1 where rd: "readCertChain (pf_generatedKey p) chain = Inr (cert, key)"
    and k: "attemptWrite (ge_KeyPath e) key (cz_world srv) = (None, w1)"
    and c: "attemptWrite (ge_CertPath e) cert w1 = (None, w2)"
    by (auto simp: saveCertKey_def split: sum.splits prod.splits option.splits)
  note wk = attemptWrite_cases(1) [OF assms(8) k]
  have "plainFile w1 (ge_CertPath e)" using wk assms(6,7) by (simp add: plainFile_def)
  note wc = attemptWrite_cases(1) [OF this c]
  have cfg: "cz_config srv2 = cz_config srv" "gm_get (cz_profiles srv2) pid = Some p" using srv2 e(3) assms(3) by simp_all
  from ac cfg e(1) obtain w3 where
    sl: "atomicSetSrvCertKeyPair (ce_cwd en) (cz_config srv) (ge_CertPath e) (ge_KeyPath e) w2 = (None, w3)"
    and srv': "srv' = (setProfile pid (activateIn e p) (srv2\<lparr>cz_world := w3\<rparr>))
        \<lparr>cz_world := writeEntityFreshness pid e w3\<rparr>"
    using srv2 by (auto simp: activateEntity_def setLinks_def onWorld_split setProfile_def Let_def split: prod.splits option.splits)
  from sl obtain ca ka where abs: "AbsPath (ce_cwd en) (ge_CertPath e) = Inr ca" "AbsPath (ce_cwd en) (ge_KeyPath e) = Inr ka"
    and pair: "setLinkPair (zc_SrvCertLnk (cz_config srv)) (zc_SrvKeyLnk (cz_config srv)) ca ka w2 = (None, w3)"
    by (auto simp: atomicSetSrvCertKeyPair_def split: sum.splits)
  note n3 = setLinkPair_ok(1) [OF pair assms(4)]
  have w': "names (cz_world srv') = names w3" by (simp add: srv')
  have prof: "gm_get (cz_profiles srv') pid = Some (activateIn e p)" by (simp add: srv' setProfile_def update_conv')
  have "eg_Cert (pf_ActiveEntities (activateIn e p)) = Some e" using e(1) by (simp add: activateIn_def Let_def)
  then show ?thesis using rd abs prof e(2) n3 wk wc assms(4,6,9) unfolding w' by auto
qed

definition demoEntity :: "certzType \<Rightarrow> string \<Rightarrow> string \<Rightarrow> genericEntity" where
  "demoEntity t c k = \<lparr>ge_EType = t, ge_CreatedOn = 1, ge_Version = ''V1'', ge_CertPath = c, ge_KeyPath = k, ge_Final = True\<rparr>"

definition demoProfile :: profile where
  "demoProfile = \<lparr>pf_ID = ''gnxi'', pf_ActiveEntities = \<lparr>eg_Cert = Some (demoEntity certType ''/c/cert'' ''/c/key''),
      eg_TrustBundle = Some (demoEntity tbType ''/c/ca'' []), eg_CrlBundle = Some (demoEntity crlType ''/crl'' []),
      eg_AuthPolicy = Some (demoEntity apType ''/c/fed'' [])\<rparr>,
     pf_LastEntities = noEntities, pf_generatedKey = Some ''GK''\<rparr>"

definition demoCertz :: certzServer where
  "demoCertz = \<lparr>cz_profiles = [(''gnxi'', demoProfile)], cz_config = demoCertzConfig, cz_integrityManifestFile = [],
     cz_certzMu = False, cz_crashed = False, cz_clock = (\<lambda>n. n), cz_reads = 5, cz_world = demoCertzWorld (\<lambda>_. None)\<rparr>"

definition demoCertzEnv :: certz_env where
  "demoCertzEnv = \<lparr>ce_cwd = Inr ''/'', ce_generateKey = (\<lambda>_. Inr ''K''), ce_createCsr = (\<lambda>_ _ _. Inr ''R''),
     ce_marshalKey = (\<lambda>k. k), ce_pemEncode = (\<lambda>t b. b), ce_pemDecode = (\<lambda>t. Some t), ce_parseCrl = (\<lambda>_. None)\<rparr>"

definition demoChain :: certChain where
  "demoChain = CertChain (Some \<lparr>cm_Type = X509, cm_Encoding = PEM, cm_Certificate = Some ''C2'', cm_PrivateKey = None\<rparr>) None"

definition demoCertMsg :: entityMsg where
  "demoCertMsg = \<lparr>em_CreatedOn = 7, em_Version = ''V2'', em_Entity = CertificateChain demoChain\<rparr>"

lemma demoCertz_entity:
  "fst (newGenericEntity certType ''gnxi'' demoCertMsg demoCertz) =
     \<lparr>ge_EType = certType, ge_CreatedOn = 7, ge_Version = ''V2'', ge_CertPath = ''/c/gnxi_V2_5_cert.pem'',
      ge_KeyPath = ''/c/gnxi_V2_5_key.pem'', ge_Final = False\<rparr>"
  by code_simp

lemma demoCertz_mu: "demoCertz = demoCertz\<lparr>cz_certzMu := False\<rparr>"
  by (simp add: demoCertz_def)

lemma demoCertz_upload:
  "case uploadEntity demoCertzEnv False ''gnxi'' demoCertMsg (demoCertz\<lparr>cz_certzMu := b\<rparr>) of (r, srv') \<Rightarrow> r = None \<and> \<not> cz_crashed srv'"
  by code_simp


theorem uploaded_certificate_is_active_witness:
  "\<exists>srv'. uploadEntity demoCertzEnv False ''gnxi'' demoCertMsg demoCertz = (None, srv') \<and>
     names (cz_world srv') ''/c/gnxi_V2_5_key.pem'' = Some (Regular ''GK'') \<and>
     names (cz_world srv') ''/c/key.lnk'' = Some (Symlink ''/c/gnxi_V2_5_key.pem'')"
proof -
  obtain srv' where R: "uploadEntity demoCertzEnv False ''gnxi'' demoCertMsg demoCertz = (None, srv')"
    using demoCertz_upload [of False, folded demoCertz_mu] by (auto split: prod.splits)
  have m: "em_Entity demoCertMsg = CertificateChain demoChain" by (simp add: demoCertMsg_def)
  have p: "gm_get (cz_profiles demoCertz) ''gnxi'' = Some demoProfile" by (simp add: demoCertz_def)
  have l: "zc_SrvCertLnk (cz_config demoCertz) \<noteq> zc_SrvKeyLnk (cz_config demoCertz)" by (simp add: demoCertz_def)
  have abs: "AbsPath (ce_cwd demoCertzEnv) ''/c/gnxi_V2_5_key.pem'' = Inr ''/c/gnxi_V2_5_key.pem''" by code_simp
  have k: "readCertChain (pf_generatedKey demoProfile) demoChain = Inr ([CHR ''C'', CHR ''2'', CHR 0x0A], ''GK'')" by code_simp
  from uploaded_certificate_is_active [OF R m p l demoCertz_entity] R abs k show ?thesis
    by (auto simp: demoCertz_def demoCertzWorld_def plainFile_def names_def)
qed

section \<open>Rotations and their profiles\<close>

text \<open>A settled profile has four final entities, and no other kind of change is under way.\<close>

definition kinds :: "certzType set" where
  "kinds = {certType, tbType, crlType, apType}"

definition settled :: "profile \<Rightarrow> bool" where
  "settled p \<longleftrightarrow> (\<forall>t \<in> kinds. \<exists>a. activeOf t (pf_ActiveEntities p) = Some a \<and> ge_Final a)"

text \<open>During a rotation an entity is the one from the start, or a new one that is not final while the one from
  the start is remembered.\<close>

definition pending :: "profile \<Rightarrow> profile \<Rightarrow> certzType \<Rightarrow> bool" where
  "pending p0 p t \<longleftrightarrow> activeOf t (pf_ActiveEntities p) = activeOf t (pf_ActiveEntities p0) \<or>
     (\<exists>a. activeOf t (pf_ActiveEntities p) = Some a \<and> \<not> ge_Final a) \<and>
     activeOf t (pf_LastEntities p) = activeOf t (pf_ActiveEntities p0)"

definition inProgress :: "profile \<Rightarrow> profile \<Rightarrow> bool" where
  "inProgress p0 p \<longleftrightarrow> (\<forall>t \<in> kinds. pending p0 p t)"

lemma activeOf_setEntity: "t \<in> kinds \<Longrightarrow> activeOf t' (setEntity t e g) = (if t' = t then e else activeOf t' g)"
  by (cases t; cases t') (auto simp: kinds_def)

lemma group_eqI: "(\<And>t. t \<in> kinds \<Longrightarrow> activeOf t g = activeOf t h) \<Longrightarrow> g = (h :: entityGroup)"
proof -
  assume a: "\<And>t. t \<in> kinds \<Longrightarrow> activeOf t g = activeOf t h"
  from a [of certType] a [of tbType] a [of crlType] a [of apType] show ?thesis
    by (cases g; cases h) (simp add: kinds_def)
qed

lemma activateIn_inProgress:
  assumes "settled p0" "inProgress p0 p" "ge_EType e \<in> kinds" "\<not> ge_Final e"
  shows "inProgress p0 (activateIn e p)"
proof -
  let ?t = "ge_EType e"
  from assms(1,3) obtain a0 where a0: "activeOf ?t (pf_ActiveEntities p0) = Some a0" "ge_Final a0"
    by (auto simp: settled_def)
  have "pending p0 (activateIn e p) t" if "t \<in> kinds" for t
  proof (cases "t = ?t")
    case True
    have "pending p0 p ?t" using assms(2,3) by (simp add: inProgress_def)
    with a0 True assms(3,4) show ?thesis
      by (auto simp: pending_def activateIn_def activeOf_setEntity Let_def split: option.splits)
  next
    case False
    have "pending p0 p t" using assms(2) that by (simp add: inProgress_def)
    with False assms(3) show ?thesis
      by (auto simp: pending_def activateIn_def activeOf_setEntity Let_def split: option.splits)
  qed
  then show ?thesis by (simp add: inProgress_def)
qed

text \<open>The state of a rotation: only the profile of the rotation is in progress.\<close>

definition savedCertz :: "(string, profile) gomap \<Rightarrow> rotState \<Rightarrow> bool" where
  "savedCertz P0 s \<longleftrightarrow> (\<forall>k p0. gm_get P0 k = Some p0 \<longrightarrow> settled p0) \<and>
     (\<forall>k. k \<noteq> fst s \<longrightarrow> gm_get (cz_profiles (snd s)) k = gm_get P0 k) \<and>
     (case gm_get P0 (fst s) of
        None \<Rightarrow> gm_get (cz_profiles (snd s)) (fst s) = None
      | Some p0 \<Rightarrow> \<exists>p. gm_get (cz_profiles (snd s)) (fst s) = Some p \<and> inProgress p0 p)"

text \<open>What a request may do to the profiles: nothing, a new key, or the activation of a new entity.\<close>

inductive profChange :: "profile \<Rightarrow> profile \<Rightarrow> bool" where
  pc_refl: "profChange p p"
| pc_key: "profChange p q \<Longrightarrow> profChange p (q\<lparr>pf_generatedKey := k\<rparr>)"
| pc_activate: "profChange p q \<Longrightarrow> ge_EType e \<in> kinds \<Longrightarrow> \<not> ge_Final e \<Longrightarrow> profChange p (activateIn e q)"

lemma profChange_inProgress: "profChange p q \<Longrightarrow> settled p0 \<Longrightarrow> inProgress p0 p \<Longrightarrow> inProgress p0 q"
  by (induction rule: profChange.induct) (auto simp: activateIn_inProgress, auto simp: inProgress_def pending_def)

lemma profChange_trans: "profChange q r \<Longrightarrow> profChange p q \<Longrightarrow> profChange p r"
  by (induction rule: profChange.induct) (auto intro: profChange.intros)

definition changes :: "string \<Rightarrow> certzServer \<Rightarrow> certzServer \<Rightarrow> bool" where
  "changes pid srv srv' \<longleftrightarrow> (\<forall>k. k \<noteq> pid \<longrightarrow> gm_get (cz_profiles srv') k = gm_get (cz_profiles srv) k) \<and>
     (case gm_get (cz_profiles srv) pid of
        None \<Rightarrow> gm_get (cz_profiles srv') pid = None
      | Some p \<Rightarrow> \<exists>q. gm_get (cz_profiles srv') pid = Some q \<and> profChange p q)"

lemma changes_same: "cz_profiles srv' = cz_profiles srv \<Longrightarrow> changes pid srv srv'"
  by (auto simp: changes_def intro: pc_refl split: option.splits)

lemma changes_trans: "changes pid a b \<Longrightarrow> changes pid b c \<Longrightarrow> changes pid a c"
  by (fastforce simp: changes_def intro: profChange_trans split: option.splits)

lemma markCrash_profiles [simp]: "cz_profiles (snd (markCrash r)) = cz_profiles (snd r)"
  by (auto simp: markCrash_def split: prod.splits option.splits goerr.splits)

lemma onWorld_profiles [simp]: "cz_profiles (snd (onWorld f srv)) = cz_profiles srv"
  by (auto simp: onWorld_def split: prod.splits)

lemma saveEntities_profiles:
  assumes "saveEntities en pid msg e srv = (r, srv')"
  shows "cz_profiles srv' = cz_profiles srv"
proof -
  have w: "onWorld f srv = (x, srv1) \<Longrightarrow> cz_profiles srv1 = cz_profiles srv" for f :: "world \<Rightarrow> goerr option \<times> world" and x srv1
    using onWorld_profiles [of f srv] by simp
  have "cz_profiles (snd (saveEntities en pid msg e srv)) = cz_profiles srv"
    by (auto simp: saveEntities_def split: entityOneof.splits prod.splits option.splits goerr.splits dest!: w)
  with assms show ?thesis by simp
qed


lemma activateEntity_changes:
  assumes "activateEntity en pid e srv = (r, srv')" "ge_EType e \<in> kinds" "\<not> ge_Final e"
  shows "changes pid srv srv'"
proof (cases "gm_get (cz_profiles srv) pid")
  case None
  with assms(1) show ?thesis by (auto simp: activateEntity_def intro: changes_same)
next
  case (Some p)
  obtain r1 srv1 where o: "onWorld (setLinks en (cz_config srv) e) srv = (r1, srv1)" by fastforce
  then have s1: "cz_profiles srv1 = cz_profiles srv" using onWorld_profiles by (metis snd_conv)
  show ?thesis
  proof (cases r1)
    case None
    with assms(1) Some o have "cz_profiles srv' = gm_set pid (activateIn e p) (cz_profiles srv)"
      by (auto simp: activateEntity_def setProfile_def s1 Let_def)
    with Some assms(2,3) show ?thesis by (auto simp: changes_def update_conv' intro!: pc_activate pc_refl)
  next
    case (Some x)
    with assms(1) \<open>gm_get _ _ = Some p\<close> o s1 show ?thesis by (auto simp: activateEntity_def intro: changes_same)
  qed
qed

lemma entityType_kinds: "entityType x = Some t \<Longrightarrow> t \<in> kinds"
  by (cases x) (auto simp: kinds_def)

lemma uploadEntity_changes:
  assumes "uploadEntity en ov pid msg srv = (r, srv')"
  shows "changes pid srv srv'"
proof (cases "entityType (em_Entity msg)")
  case None
  with assms show ?thesis by (auto simp: uploadEntity_def intro: changes_same split: if_splits)
next
  case (Some t)
  obtain e srv1 where n: "newGenericEntity t pid msg srv = (e, srv1)" by fastforce
  note e = newGenericEntity_sel [OF n]
  obtain r2 srv2 where sv: "saveEntities en pid msg e srv1 = (r2, srv2)" by fastforce
  obtain r3 srv3 where ac: "activateEntity en pid e srv2 = (r3, srv3)" by fastforce
  have s1: "cz_profiles srv1 = cz_profiles srv" using e(3) by simp
  have s2: "cz_profiles srv2 = cz_profiles srv" using saveEntities_profiles [OF sv] s1 by simp
  have s3: "changes pid srv srv3"
    using changes_trans [OF changes_same [OF s2] activateEntity_changes [OF ac]] e entityType_kinds [OF Some] by simp
  have "srv' = srv \<or> cz_profiles srv' = cz_profiles srv1 \<or> srv' = srv2 \<or> srv' = srv3"
    using assms Some n sv ac markCrash_profiles [of "(_, srv1)"]
    by (auto simp: uploadEntity_def markCrash_def split: if_splits option.splits goerr.splits prod.splits)
  with s1 s2 s3 show ?thesis by (auto intro: changes_same)
qed

lemma uploadAll_changes: "uploadAll en ov pid ms srv = (r, srv') \<Longrightarrow> changes pid srv srv'"
proof (induction ms arbitrary: srv)
  case Nil
  then show ?case by (simp add: changes_same)
next
  case (Cons m ms)
  obtain r1 srv1 where u: "uploadEntity en ov pid m srv = (r1, srv1)" by fastforce
  with Cons show ?case
    by (cases r1) (auto intro: changes_trans [OF uploadEntity_changes [OF u]] uploadEntity_changes)
qed

lemma doGenerateCsr_changes:
  assumes "doGenerateCsr en pid po srv = (r, srv')"
  shows "changes pid srv srv'"
proof -
  have "cz_profiles srv' = cz_profiles srv \<or>
    (\<exists>p k. gm_get (cz_profiles srv) pid = Some p \<and> cz_profiles srv' = gm_set pid (p\<lparr>pf_generatedKey := k\<rparr>) (cz_profiles srv))"
    using assms
    by (auto simp: doGenerateCsr_def setProfile_def Let_def split: option.splits prod.splits sum.splits)
  then show ?thesis
    by (auto simp: changes_def update_conv' intro: changes_same pc_key [OF pc_refl] pc_refl split: option.splits)
qed

lemma processRotateRequest_changes:
  "processRotateRequest en pid req srv = (r, srv') \<Longrightarrow> changes pid srv srv'"
  by (auto simp: processRotateRequest_def doUpload_def intro: changes_same uploadAll_changes doGenerateCsr_changes
      split: if_splits rotateRequest.splits prod.splits sum.splits)

lemma inProgress_refl: "inProgress p p"
  by (simp add: inProgress_def pending_def)

text \<open>As long as no profile is chosen, nothing has changed; the empty name denotes no profile.\<close>

definition certzInv :: "(string, profile) gomap \<Rightarrow> rotState \<Rightarrow> bool" where
  "certzInv P0 s \<longleftrightarrow> savedCertz P0 s \<and> (fst s = [] \<longrightarrow> (\<forall>k. gm_get (cz_profiles (snd s)) k = gm_get P0 k))"

lemma rotStep_saved:
  assumes "certzInv P0 s" "rotStep en s req = (r, s')"
  shows "certzInv P0 s'"
proof -
  let ?pid = "pickProfile (fst s) req"
  obtain srv' where p: "processRotateRequest en ?pid req (snd s) = (r, srv')" and s': "s' = (?pid, srv')"
    using assms(2) by (auto simp: rotStep_def Let_def split: prod.splits)
  have pid: "?pid \<noteq> []" by (simp add: pickProfile_def defaultProfile_def)
  note ch = processRotateRequest_changes [OF p]
  have st: "\<forall>k p0. gm_get P0 k = Some p0 \<longrightarrow> settled p0" using assms(1) by (simp add: certzInv_def savedCertz_def)
  have now: "case gm_get P0 ?pid of None \<Rightarrow> gm_get (cz_profiles (snd s)) ?pid = None
      | Some p0 \<Rightarrow> \<exists>p. gm_get (cz_profiles (snd s)) ?pid = Some p \<and> inProgress p0 p"
    and others: "\<forall>k. k \<noteq> ?pid \<longrightarrow> gm_get (cz_profiles (snd s)) k = gm_get P0 k"
    using assms(1) by (auto simp: certzInv_def savedCertz_def pickProfile_def intro: inProgress_refl split: option.splits)
  have "case gm_get P0 ?pid of None \<Rightarrow> gm_get (cz_profiles srv') ?pid = None
      | Some p0 \<Rightarrow> \<exists>p. gm_get (cz_profiles srv') ?pid = Some p \<and> inProgress p0 p"
  proof (cases "gm_get P0 ?pid")
    case None
    with now ch show ?thesis by (simp add: changes_def)
  next
    case (Some p0)
    with now obtain p where q: "gm_get (cz_profiles (snd s)) ?pid = Some p" "inProgress p0 p" by auto
    with ch obtain q where "gm_get (cz_profiles srv') ?pid = Some q" "profChange p q" by (auto simp: changes_def)
    with profChange_inProgress [OF this(2)] st Some q(2) show ?thesis by auto
  qed
  with st others ch pid show ?thesis by (auto simp: certzInv_def savedCertz_def s' changes_def split: option.splits)
qed

interpretation czr: rotation "rotateLoop en" isFinalize "rotStep en" "rotRevert en" rotFinal certzInv for en
  by unfold_locales (auto intro: rotStep_saved)


text \<open>A rollback brings back the entity from the start, step by step.\<close>

definition broughtBack :: "profile \<Rightarrow> certzType set \<Rightarrow> profile \<Rightarrow> bool" where
  "broughtBack p0 T p \<longleftrightarrow> inProgress p0 p \<and> (\<forall>t \<in> T. activeOf t (pf_ActiveEntities p) = activeOf t (pf_ActiveEntities p0))"

lemma rollback_step:
  assumes "settled p0" "broughtBack p0 T p" "t \<in> kinds"
  shows "\<exists>p' w'. rollback t pid undo cleanup (p, w) = (None, p', w') \<and> broughtBack p0 (insert t T) p'"
proof -
  from assms(1,3) obtain a0 where a0: "activeOf t (pf_ActiveEntities p0) = Some a0" "ge_Final a0" by (auto simp: settled_def)
  have pen: "pending p0 p t" using assms(2,3) by (simp add: broughtBack_def inProgress_def)
  show ?thesis
  proof (cases "activeOf t (pf_ActiveEntities p) = Some a0")
    case True
    with a0 assms(2) show ?thesis by (simp add: rollback_def broughtBack_def)
  next
    case False
    with pen a0 obtain a where a: "activeOf t (pf_ActiveEntities p) = Some a" "\<not> ge_Final a"
      "activeOf t (pf_LastEntities p) = Some a0" by (auto simp: pending_def)
    let ?p = "p\<lparr>pf_ActiveEntities := setEntity t (Some a0) (pf_ActiveEntities p)\<rparr>"
    have "broughtBack p0 (insert t T) ?p"
      using assms(2,3) a0 by (auto simp: broughtBack_def inProgress_def pending_def activeOf_setEntity)
    with a show ?thesis by (simp add: rollback_def)
  qed
qed

lemma andThen_None: "f x = (None, y) \<Longrightarrow> andThen f g x = g y"
  by (simp add: andThen_def)

lemma revertSteps_restores:
  assumes "settled p0" "inProgress p0 p"
  shows "\<exists>p' w'. revertSteps en cfg pid (p, w) = (None, p', w') \<and> pf_ActiveEntities p' = pf_ActiveEntities p0"
proof -
  have b: "broughtBack p0 {} p" using assms(2) by (simp add: broughtBack_def)
  note step' = rollback_step [OF assms(1)]
  define f1 where "f1 = rollback certType pid
    (\<lambda>a l w. snd (atomicSetSrvCertKeyPair (ce_cwd en) cfg (ge_CertPath l) (ge_KeyPath l) w)) removeEntityFiles"
  define f2 where "f2 = rollback tbType pid (\<lambda>a l w. snd (atomicSetCACert (ce_cwd en) cfg (ge_CertPath l) w)) removeEntityFiles"
  define f3 where "f3 = rollback crlType pid
    (\<lambda>a l w. copyCRLBundle (crlPathOf cfg pid @ crlFlush) (crlPathOf cfg pid) w) (\<lambda>a w. w)"
  define f4 where "f4 = rollback apType pid
    (\<lambda>a l w. snd (osRename (Name (ge_CertPath a @ backupExt)) (Name (ge_CertPath a)) w)) (\<lambda>a w. w)"
  from step' [OF b, of certType] obtain p1 w1 where 1: "f1 (p, w) = (None, p1, w1)" "broughtBack p0 {certType} p1"
    unfolding f1_def by (fastforce simp: kinds_def)
  from step' [OF 1(2), of tbType] obtain p2 w2 where 2: "f2 (p1, w1) = (None, p2, w2)" "broughtBack p0 {tbType, certType} p2"
    unfolding f2_def by (fastforce simp: kinds_def)
  from step' [OF 2(2), of crlType] obtain p3 w3 where 3: "f3 (p2, w2) = (None, p3, w3)" "broughtBack p0 {crlType, tbType, certType} p3"
    unfolding f3_def by (fastforce simp: kinds_def)
  from step' [OF 3(2), of apType] obtain p4 w4 where 4: "f4 (p3, w3) = (None, p4, w4)" "broughtBack p0 {apType, crlType, tbType, certType} p4"
    unfolding f4_def by (fastforce simp: kinds_def)
  have "revertSteps en cfg pid (p, w) = (None, p4, w4)"
    using 1 2 3 4 by (simp add: revertSteps_def f1_def f2_def f3_def f4_def andThen_None)
  moreover have "pf_ActiveEntities p4 = pf_ActiveEntities p0"
    by (rule group_eqI) (use 4(2) in \<open>auto simp: broughtBack_def kinds_def\<close>)
  ultimately show ?thesis by blast
qed

lemma revertProfile_restores:
  assumes "certzInv P0 (pid, srv)"
  shows "map_option pf_ActiveEntities (gm_get (cz_profiles (revertProfile en pid srv)) k) =
         map_option pf_ActiveEntities (gm_get P0 k)"
proof -
  let ?pid = "if pid = [] then defaultProfile else pid"
  have st: "gm_get P0 k = Some p0 \<Longrightarrow> settled p0" for k p0 using assms by (auto simp: certzInv_def savedCertz_def)
  have now: "case gm_get P0 ?pid of None \<Rightarrow> gm_get (cz_profiles srv) ?pid = None
      | Some p0 \<Rightarrow> \<exists>p. gm_get (cz_profiles srv) ?pid = Some p \<and> inProgress p0 p"
    and others: "k \<noteq> ?pid \<Longrightarrow> gm_get (cz_profiles srv) k = gm_get P0 k"
    using assms by (auto simp: certzInv_def savedCertz_def intro: inProgress_refl split: option.splits)
  show ?thesis
  proof (cases "gm_get P0 ?pid")
    case None
    then have "revertProfile en pid srv = srv" using now by (simp add: revertProfile_def Let_def)
    with None now others show ?thesis by (cases "k = ?pid") simp_all
  next
    case (Some p0)
    with now obtain p where p: "gm_get (cz_profiles srv) ?pid = Some p" "inProgress p0 p" by auto
    from revertSteps_restores [OF st [OF Some] p(2), of en "cz_config srv" ?pid "cz_world srv"] obtain p' w' where
      r: "revertSteps en (cz_config srv) ?pid (p, cz_world srv) = (None, p', w')" "pf_ActiveEntities p' = pf_ActiveEntities p0" by blast
    have "revertProfile en pid srv = setProfile ?pid p' (srv\<lparr>cz_world := w'\<rparr>)"
      using p(1) r(1) by (simp add: revertProfile_def runSteps_def markCrash_def Let_def)
    with r(2) Some others show ?thesis by (auto simp: setProfile_def update_conv')
  qed
qed

lemma revertProfile_alive:
  assumes "certzInv P0 (pid, srv)"
  shows "cz_crashed (revertProfile en pid srv) = cz_crashed srv"
proof -
  let ?pid = "if pid = [] then defaultProfile else pid"
  show ?thesis
  proof (cases "gm_get (cz_profiles srv) ?pid")
    case None
    then show ?thesis by (simp add: revertProfile_def Let_def)
  next
    case (Some p)
    with assms obtain p0 where "gm_get P0 ?pid = Some p0" "inProgress p0 p"
      by (cases "pid = []") (auto simp: certzInv_def savedCertz_def intro: inProgress_refl split: option.splits)
    with assms revertSteps_restores [of p0 p en "cz_config srv" ?pid "cz_world srv"] Some show ?thesis
      by (auto simp: revertProfile_def runSteps_def markCrash_def setProfile_def Let_def certzInv_def savedCertz_def)
  qed
qed

text \<open>Finalizing makes one entity after another final.\<close>

definition finalUpTo :: "certzType set \<Rightarrow> profile \<Rightarrow> bool" where
  "finalUpTo T p \<longleftrightarrow>
     (\<forall>t \<in> kinds. \<exists>a. activeOf t (pf_ActiveEntities p) = Some a \<and> (ge_Final a \<or> activeOf t (pf_LastEntities p) \<noteq> None)) \<and>
     (\<forall>t \<in> T. \<exists>a. activeOf t (pf_ActiveEntities p) = Some a \<and> ge_Final a)"

lemma finalizeOne_step:
  assumes "finalUpTo T p" "t \<in> kinds" "\<And>a l v. fst (commit a (Some l) v) = None"
  shows "\<exists>p' w'. finalizeOne t commit (p, w) = (None, p', w') \<and> finalUpTo (insert t T) p'"
proof -
  from assms(1,2) obtain a where a: "activeOf t (pf_ActiveEntities p) = Some a"
    "ge_Final a \<or> activeOf t (pf_LastEntities p) \<noteq> None" by (auto simp: finalUpTo_def)
  let ?p = "p\<lparr>pf_ActiveEntities := setEntity t (Some (a\<lparr>ge_Final := True\<rparr>)) (pf_ActiveEntities p),
      pf_LastEntities := setEntity t (Some (a\<lparr>ge_Final := True\<rparr>)) (pf_LastEntities p)\<rparr>"
  have p': "finalUpTo (insert t T) ?p" using assms(1,2) by (auto simp: finalUpTo_def activeOf_setEntity)
  show ?thesis
  proof (cases "ge_Final a")
    case True
    with assms(1) a have "finalUpTo (insert t T) p" by (simp add: finalUpTo_def)
    with p' True a show ?thesis by (auto simp: finalizeOne_def Let_def)
  next
    case False
    with a obtain l where l: "activeOf t (pf_LastEntities p) = Some l" by auto
    obtain w1 where "commit a (Some l) w = (None, w1)" using assms(3) by (metis prod.collapse)
    with False a l p' show ?thesis by (simp add: finalizeOne_def Let_def)
  qed
qed

lemma finalizeSteps_settled:
  assumes "finalUpTo {} p"
  shows "\<exists>p' w'. finalizeSteps cfg pid (p, w) = (None, p', w') \<and> settled p'"
proof -
  note step' = finalizeOne_step
  from step' [OF assms, of certType "\<lambda>a l. removeLast l"] obtain p1 w1 where
    1: "finalizeOne certType (\<lambda>a l. removeLast l) (p, w) = (None, p1, w1)" "finalUpTo {certType} p1"
    by (fastforce simp: kinds_def removeLast_def)
  from step' [OF 1(2), of tbType "\<lambda>a l. removeLast l"] obtain p2 w2 where
    2: "finalizeOne tbType (\<lambda>a l. removeLast l) (p1, w1) = (None, p2, w2)" "finalUpTo {tbType, certType} p2"
    by (fastforce simp: kinds_def removeLast_def)
  let ?c3 = "\<lambda>a l w. (None, copyCRLBundle (crlPathOf cfg pid) (crlPathOf cfg pid @ crlFlush) w)"
  from step' [OF 2(2), of crlType ?c3] obtain p3 w3 where
    3: "finalizeOne crlType ?c3 (p2, w2) = (None, p3, w3)" "finalUpTo {crlType, tbType, certType} p3"
    by (fastforce simp: kinds_def)
  let ?c4 = "\<lambda>a l w. (None, snd (osRemove (Name (ge_CertPath a @ backupExt)) w))"
  from step' [OF 3(2), of apType ?c4] obtain p4 w4 where
    4: "finalizeOne apType ?c4 (p3, w3) = (None, p4, w4)" "finalUpTo {apType, crlType, tbType, certType} p4"
    by (fastforce simp: kinds_def)
  have "finalizeSteps cfg pid (p, w) = (None, p4, w4)"
    using 1 2 3 4 by (simp add: finalizeSteps_def andThen_None)
  moreover have "settled p4" using 4(2) by (auto simp: finalUpTo_def settled_def kinds_def)
  ultimately show ?thesis by blast
qed


lemma inProgress_finalUpTo: "settled p0 \<Longrightarrow> inProgress p0 p \<Longrightarrow> finalUpTo {} p"
  by (fastforce simp: settled_def inProgress_def pending_def finalUpTo_def)

lemma finalizeProfile_settled:
  assumes "certzInv P0 (pid, srv)" "finalizeProfile pid srv = (r, srv')" "gm_get (cz_profiles srv') k = Some q"
  shows "settled q"
proof -
  have st: "gm_get P0 k = Some p0 \<Longrightarrow> settled p0" for k p0 using assms(1) by (auto simp: certzInv_def savedCertz_def)
  have others: "k \<noteq> pid \<Longrightarrow> gm_get (cz_profiles srv) k = gm_get P0 k" using assms(1) by (auto simp: certzInv_def savedCertz_def)
  show ?thesis
  proof (cases "gm_get (cz_profiles srv) pid")
    case None
    with assms(2,3) others st show ?thesis by (cases "k = pid") (auto simp: finalizeProfile_def)
  next
    case (Some p)
    with assms(1) obtain p0 where p0: "gm_get P0 pid = Some p0" "inProgress p0 p"
      by (auto simp: certzInv_def savedCertz_def split: option.splits)
    from finalizeSteps_settled [OF inProgress_finalUpTo [OF st [OF p0(1)] p0(2)]] obtain p' w' where
      f: "finalizeSteps (cz_config srv) pid (p, cz_world srv) = (None, p', w')" "settled p'" by blast
    have "cz_profiles srv' = gm_set pid p' (cz_profiles srv)"
      using assms(2) Some f(1) by (auto simp: finalizeProfile_def runSteps_def markCrash_def onWorld_split setProfile_def)
    with assms(3) f(2) others st show ?thesis by (auto simp: update_conv' split: if_splits)
  qed
qed

definition allSettled :: "certzServer \<Rightarrow> bool" where
  "allSettled srv \<longleftrightarrow> (\<forall>k p. gm_get (cz_profiles srv) k = Some p \<longrightarrow> settled p)"

lemma certzInv_start: "allSettled srv \<Longrightarrow> certzInv (cz_profiles srv) ([], srv\<lparr>cz_certzMu := b\<rparr>)"
  by (auto simp: certzInv_def savedCertz_def allSettled_def intro: inProgress_refl split: option.splits)

lemma Rotate_runs:
  assumes "Rotate en authErr srv es = (r, srv')"
  obtains "srv' = srv" "r \<noteq> None"
  | pid srv1 where "rotateLoop en ([], srv\<lparr>cz_certzMu := True\<rparr>) es = (r, pid, srv1)" "srv' = srv1\<lparr>cz_certzMu := False\<rparr>"
  using assms by (auto simp: Rotate_def split: option.splits if_splits prod.splits)

lemma settled_cong: "pf_ActiveEntities p = pf_ActiveEntities q \<Longrightarrow> settled p = settled q"
  by (simp add: settled_def)

section \<open>Properties of rotations\<close>

text \<open>C17. A rotation that the client does not finalize leaves every profile with the active entities it had
  before, whatever was uploaded or generated and whichever system calls failed, unless the process
  panicked.\<close>

theorem unfinished_rotation_restores_entities:
  assumes "allSettled srv" and "list_all (\<lambda>ev. \<not> finalizes isFinalize ev) es"
    and "Rotate en authErr srv es = (r, srv')"
  shows "r \<noteq> None \<and> (cz_crashed srv' \<or>
    (\<forall>k. map_option pf_ActiveEntities (gm_get (cz_profiles srv') k) = map_option pf_ActiveEntities (gm_get (cz_profiles srv) k)))"
  using assms(3)
proof (cases rule: Rotate_runs)
  case (2 pid srv1)
  from czr.loop_unfinished [OF certzInv_start [OF assms(1)] assms(2)] obtain s e where
    s: "certzInv (cz_profiles srv) s" "rotateLoop en ([], srv\<lparr>cz_certzMu := True\<rparr>) es = (Some e, rotRevert en s)" by blast
  with 2 have r: "r = Some e" "(pid, srv1) = rotRevert en s" by auto
  show ?thesis
  proof (cases "cz_crashed (snd s)")
    case True
    with r 2 show ?thesis by (auto simp: rotRevert_def)
  next
    case False
    with r have "srv1 = revertProfile en (fst s) (snd s)" by (simp add: rotRevert_def)
    with revertProfile_restores [of "cz_profiles srv" "fst s" "snd s" en] s(1) 2 r show ?thesis by simp
  qed
qed auto

definition demoCertzUpload :: certzRequest where
  "demoCertzUpload = \<lparr>rq_SslProfileId = [], rq_ForceOverwrite = False, rq_RotateRequest = Certificates [demoCertMsg]\<rparr>"

lemma demoCertz_settled: "allSettled demoCertz"
  by (simp add: allSettled_def demoCertz_def settled_def kinds_def demoProfile_def demoEntity_def)

lemma demoCertz_alive: "\<not> cz_crashed (snd (Rotate demoCertzEnv None demoCertz [Recv demoCertzUpload None]))"
proof -
  let ?srv = "demoCertz\<lparr>cz_certzMu := True\<rparr>"
  obtain r srv1 where u: "uploadEntity demoCertzEnv False ''gnxi'' demoCertMsg ?srv = (r, srv1)" by fastforce
  have ok: "r = None" "\<not> cz_crashed srv1" using demoCertz_upload [of True] u by simp_all
  have st: "rotStep demoCertzEnv ([], ?srv) demoCertzUpload = (None, ''gnxi'', srv1)"
    using u ok by (simp add: rotStep_def pickProfile_def demoCertzUpload_def defaultProfile_def processRotateRequest_def
        doUpload_def demoCertz_def)
  have "\<not> cz_crashed (revertProfile demoCertzEnv ''gnxi'' srv1)"
    using revertProfile_alive [OF rotStep_saved [OF certzInv_start [OF demoCertz_settled] st]] ok(2) by simp
  with st ok show ?thesis
    by (simp add: Rotate_def demoCertz_def isFinalize_def demoCertzUpload_def rotRevert_def)
qed

theorem unfinished_rotation_restores_entities_witness:
  "\<exists>r srv'. Rotate demoCertzEnv None demoCertz [Recv demoCertzUpload None] = (r, srv') \<and> r \<noteq> None \<and>
     map_option pf_ActiveEntities (gm_get (cz_profiles srv') ''gnxi'') = Some (pf_ActiveEntities demoProfile)"
proof -
  obtain r srv' where R: "Rotate demoCertzEnv None demoCertz [Recv demoCertzUpload None] = (r, srv')" by fastforce
  have nf: "list_all (\<lambda>ev. \<not> finalizes isFinalize ev) [Recv demoCertzUpload None]"
    by (simp add: isFinalize_def demoCertzUpload_def)
  have "\<not> cz_crashed srv'" using demoCertz_alive R by simp
  moreover have "gm_get (cz_profiles demoCertz) ''gnxi'' = Some demoProfile" by (simp add: demoCertz_def)
  ultimately show ?thesis
    using unfinished_rotation_restores_entities [OF demoCertz_settled nf R] R by (metis option.map(2))
qed

text \<open>C18. Every rotation ends with all profiles settled again: each has its four entities, all of them final, so
  the next rotation starts from a state it can return to. This holds for rotations that succeed, fail or
  are abandoned, with any faults of the host, unless the process panicked.\<close>

theorem rotation_keeps_profiles_settled:
  assumes "allSettled srv" and "Rotate en authErr srv es = (r, srv')"
  shows "cz_crashed srv' \<or> allSettled srv'"
  using assms(2)
proof (cases rule: Rotate_runs)
  case (2 pid srv1)
  from czr.loop_ends [OF certzInv_start [OF assms(1)], of en True es] obtain s where s: "certzInv (cz_profiles srv) s" and
    "(\<exists>e. rotateLoop en ([], srv\<lparr>cz_certzMu := True\<rparr>) es = (Some e, rotRevert en s)) \<or>
     rotateLoop en ([], srv\<lparr>cz_certzMu := True\<rparr>) es = rotFinal s" by blast
  with 2 consider (rev) "(pid, srv1) = rotRevert en s" | (fin) "(r, pid, srv1) = rotFinal s" by auto
  then show ?thesis
  proof cases
    case rev
    show ?thesis
    proof (cases "cz_crashed (snd s)")
      case True
      with rev 2 show ?thesis by (auto simp: rotRevert_def)
    next
      case False
      with rev have srv1: "srv1 = revertProfile en (fst s) (snd s)" by (simp add: rotRevert_def)
      have "settled q" if "gm_get (cz_profiles srv1) k = Some q" for k q
      proof -
        have "map_option pf_ActiveEntities (gm_get (cz_profiles srv) k) = Some (pf_ActiveEntities q)"
          using that s revertProfile_restores [of "cz_profiles srv" "fst s" "snd s" en k] srv1 by simp
        then obtain p where p: "gm_get (cz_profiles srv) k = Some p" "pf_ActiveEntities p = pf_ActiveEntities q" by auto
        from p(1) assms(1) settled_cong [OF p(2)] show ?thesis by (simp add: allSettled_def)
      qed
      with 2(2) show ?thesis by (simp add: allSettled_def)
    qed
  next
    case fin
    then obtain r' where "finalizeProfile (fst s) (snd s) = (r', srv1)"
      by (auto simp: rotFinal_def split: prod.splits option.splits)
    with finalizeProfile_settled [of "cz_profiles srv" "fst s" "snd s"] s 2(2) show ?thesis by (auto simp: allSettled_def)
  qed
qed (use assms(1) in simp)

theorem rotation_keeps_profiles_settled_witness:
  "\<exists>r srv'. Rotate demoCertzEnv None demoCertz [Recv demoCertzUpload None] = (r, srv') \<and> allSettled srv'"
proof -
  obtain r srv' where R: "Rotate demoCertzEnv None demoCertz [Recv demoCertzUpload None] = (r, srv')" by fastforce
  have "\<not> cz_crashed srv'" using demoCertz_alive R by simp
  with rotation_keeps_profiles_settled [OF demoCertz_settled R] R show ?thesis by blast
qed


text \<open>A rejected revocation list stays behind: when the second list of a bundle is not acceptable, the request
  fails and the rotation is reverted, but the first list is already in the directory of the active lists.
  \<^verbatim>\<open>rotateCRLBundle\<close> writes each list while it checks them, and \<^verbatim>\<open>revertProfile\<close> restores the directory only
  when the new bundle was activated.\<close>

theorem rejected_crl_bundle_leaves_list:
  assumes "allSettled srv" and "gm_get (cz_profiles srv) defaultProfile = Some p" and "quiet (cz_world srv)"
    and "\<not> cz_certzMu srv" "\<not> cz_crashed srv" and "zc_CertCRLConfig (cz_config srv) \<noteq> []"
    and "path = JoinPath [crlPathOf (cz_config srv) defaultProfile, cr_Id c1]" and "plainFile (cz_world srv) path"
    and "cr_Type c1 = X509" "cr_Encoding c1 = PEM" "cr_CertificateRevocationList c1 \<noteq> []"
    and "ce_pemDecode en (cr_CertificateRevocationList c1) = Some der" "ce_parseCrl en der = None"
    and "cr_Type c2 \<noteq> X509" and "created \<noteq> 0" "version \<noteq> []"
  shows "\<exists>e srv'. Rotate en None srv
      [Recv \<lparr>rq_SslProfileId = [], rq_ForceOverwrite = True, rq_RotateRequest = Certificates
         [\<lparr>em_CreatedOn = created, em_Version = version, em_Entity = CertificateRevocationListBundle [c1, c2]\<rparr>]\<rparr> None] =
        (Some e, srv') \<and>
      names (cz_world srv') path = Some (Regular (cr_CertificateRevocationList c1)) \<and>
      map_option pf_ActiveEntities (gm_get (cz_profiles srv') defaultProfile) = Some (pf_ActiveEntities p)"
proof -
  let ?msg = "\<lparr>em_CreatedOn = created, em_Version = version, em_Entity = CertificateRevocationListBundle [c1, c2]\<rparr>"
  let ?req = "\<lparr>rq_SslProfileId = [], rq_ForceOverwrite = True, rq_RotateRequest = Certificates [?msg]\<rparr>"
  let ?srv = "srv\<lparr>cz_certzMu := True\<rparr>"
  obtain e srv1 where n: "newGenericEntity crlType defaultProfile ?msg ?srv = (e, srv1)" by fastforce
  note sel = newGenericEntity_sel [OF n]
  have path: "ge_CertPath e = crlPathOf (cz_config srv) defaultProfile"
    using n by (auto simp: newGenericEntity_def nowNano_def Let_def)
  have wr: "attemptWrite path (cr_CertificateRevocationList c1) (cz_world srv) =
      (None, putNode (Name path) (Regular (cr_CertificateRevocationList c1)) (step (cz_world srv)))" (is "_ = (None, ?w)")
    using assms(3,8) by (simp add: attemptWrite_def osWriteFile_def plainFile_target plainFile_not_dir)
  have rot: "rotateCRLBundle en [c1, c2] (ge_CertPath e) (cz_world srv) =
      (Some (Status InvalidArgument ''CRL type has to be X.509''), ?w)"
    using wr assms(7,9-14) by (simp add: rotateCRLBundle_def path)
  let ?srv2 = "srv1\<lparr>cz_world := ?w\<rparr>"
  have "\<exists>er. uploadEntity en True defaultProfile ?msg ?srv = (Some er, ?srv2)"
    using rot n sel(3) assms(6,15,16) by (simp add: uploadEntity_def saveEntities_def onWorld_def markCrash_def)
  then have st: "\<exists>er. rotStep en ([], ?srv) ?req = (Some er, defaultProfile, ?srv2)"
    using assms(2) by (auto simp: rotStep_def pickProfile_def processRotateRequest_def doUpload_def)
  then obtain er where step': "rotStep en ([], ?srv) ?req = (Some er, defaultProfile, ?srv2)" by blast
  have nf: "\<not> isFinalize ?req" by (simp add: isFinalize_def)
  have alive: "\<not> cz_crashed ?srv2" using sel(3) assms(5) by simp
  have prof: "gm_get (cz_profiles ?srv2) defaultProfile = Some p" using sel(3) assms(2) by simp
  have set: "settled p" using assms(1,2) by (auto simp: allSettled_def)
  have rev: "revertSteps en (cz_config ?srv2) defaultProfile (p, ?w) = (None, p, ?w)"
    using set by (auto simp: revertSteps_def andThen_def rollback_def settled_def kinds_def)
  have "revertProfile en defaultProfile ?srv2 = setProfile defaultProfile p ?srv2"
    using prof rev by (simp add: revertProfile_def runSteps_def markCrash_def Let_def)
  then show ?thesis
    using step' nf alive assms(4) by (simp add: Rotate_def rotRevert_def setProfile_def update_conv')
qed

definition demoCrl :: "certificateType \<Rightarrow> crlMsg" where
  "demoCrl t = \<lparr>cr_Type = t, cr_Encoding = PEM, cr_Id = ''a'', cr_CertificateRevocationList = ''L''\<rparr>"

theorem rejected_crl_bundle_leaves_list_witness:
  "\<exists>e srv'. Rotate demoCertzEnv None demoCertz
      [Recv \<lparr>rq_SslProfileId = [], rq_ForceOverwrite = True, rq_RotateRequest = Certificates
         [\<lparr>em_CreatedOn = 3, em_Version = ''V3'', em_Entity = CertificateRevocationListBundle [demoCrl X509, demoCrl OtherCertType]\<rparr>]\<rparr> None] =
        (Some e, srv') \<and> names (cz_world srv') ''/crl/crl/a'' = Some (Regular ''L'')"
proof -
  have path: "''/crl/crl/a'' = JoinPath [crlPathOf (cz_config demoCertz) defaultProfile, cr_Id (demoCrl X509)]" by code_simp
  have "quiet (cz_world demoCertz)" "plainFile (cz_world demoCertz) ''/crl/crl/a''"
    by (simp_all add: demoCertz_def demoCertzWorld_def quiet_def plainFile_def names_def)
  from rejected_crl_bundle_leaves_list [OF demoCertz_settled _ this(1) _ _ _ path this(2),
      of demoProfile demoCertzEnv "''L''" "demoCrl OtherCertType" 3 "''V3''"]
  show ?thesis by (auto simp: demoCertz_def defaultProfile_def demoCertzConfig_def demoCrl_def demoCertzEnv_def)
qed

text \<open>The key size and the length of the hash that the name of a suite promises, and the hash of a signature
  algorithm.\<close>

definition suiteKeySize :: "csrSuite \<Rightarrow> nat" where
  "suiteKeySize s =
     (if s \<in> {RSA_2048_SHA_256, RSA_2048_SHA_384, RSA_2048_SHA_512} then 2048
      else if s \<in> {RSA_3072_SHA_256, RSA_3072_SHA_384, RSA_3072_SHA_512} then 3072
      else if s \<in> {RSA_4096_SHA_256, RSA_4096_SHA_384, RSA_4096_SHA_512} then 4096
      else if s \<in> {ECDSA_PRIME256V1_SHA_256, ECDSA_PRIME256V1_SHA_384, ECDSA_PRIME256V1_SHA_512, EDDSA_ED25519} then 256
      else if s \<in> {ECDSA_SECP384R1_SHA_256, ECDSA_SECP384R1_SHA_384, ECDSA_SECP384R1_SHA_512} then 384
      else if s \<in> {ECDSA_SECP521R1_SHA_256, ECDSA_SECP521R1_SHA_384, ECDSA_SECP521R1_SHA_512} then 521 else 0)"

definition suiteHash :: "csrSuite \<Rightarrow> nat" where
  "suiteHash s =
     (if s \<in> {RSA_2048_SHA_256, RSA_3072_SHA_256, RSA_4096_SHA_256, ECDSA_PRIME256V1_SHA_256, ECDSA_SECP384R1_SHA_256,
              ECDSA_SECP521R1_SHA_256} then 256
      else if s \<in> {RSA_2048_SHA_384, RSA_3072_SHA_384, RSA_4096_SHA_384, ECDSA_PRIME256V1_SHA_384, ECDSA_SECP384R1_SHA_384,
              ECDSA_SECP521R1_SHA_384} then 384
      else if s \<in> {EDDSA_ED25519, CIPHER_UNSPECIFIED} then 0 else 512)"

fun algoHash :: "sigAlgo \<Rightarrow> nat" where
  "algoHash SHA256WithRSA = 256" | "algoHash SHA384WithRSA = 384" | "algoHash SHA512WithRSA = 512"
| "algoHash ECDSAWithSHA256 = 256" | "algoHash ECDSAWithSHA384 = 384" | "algoHash ECDSAWithSHA512 = 512"
| "algoHash PureEd25519 = 0" | "algoHash UnknownSignatureAlgorithm = 0"

text \<open>Signing requests: every suite is mapped to the key size of its name, and to the hash of its name except
  RSA 3072 and RSA 4096 with SHA-256, for which the request is signed with SHA-512. A key is generated for
  exactly the RSA and ECDSA suites.\<close>

theorem csr_suite_hash:
  "fst (parseCSRSuite s) = suiteKeySize s \<and>
   (algoHash (snd (parseCSRSuite s)) = suiteHash s \<longleftrightarrow> s \<notin> {RSA_3072_SHA_256, RSA_4096_SHA_256}) \<and>
   ((\<exists>k. keyFor (snd (parseCSRSuite s)) (fst (parseCSRSuite s)) = Inr k) \<longleftrightarrow> s \<notin> {EDDSA_ED25519, CIPHER_UNSPECIFIED})"
  by (cases s) (simp_all add: suiteKeySize_def suiteHash_def keyFor_def)

end
