(* ===== verification/Dbus_Client.thy ===== *)
theory Dbus_Client
  imports Prelude
begin

text \<open>
  The client of the host service, \<^verbatim>\<open>sonic_service_client/dbus_client.go\<close>: one method per D-Bus call, the
  interpretation of the replies (\<^verbatim>\<open>DbusApi\<close>), and the event counters of \<^verbatim>\<open>common_utils/context.go\<close> that
  it keeps. The bus and the service behind it are an argument: a function that takes a call and the state
  of the host, and gives the outcome of the call and the new state.
\<close>

section \<open>Counters\<close>

datatype counterType =
    GNMI_GET | GNMI_GET_FAIL | GNMI_SET | GNMI_SET_FAIL | GNMI_SET_BYPASS | GNOI_REBOOT
  | GNOI_FACTORY_RESET | GNOI_OS_INSTALL | GNOI_HEALTHZ_ACK | GNOI_HEALTHZ_CHECK
  | GNOI_HEALTHZ_COLLECT | GNSI_CREDZ_SET | GNSI_CREDZ_CHECKPOINT | DBUS | DBUS_FAIL
  | DBUS_APPLY_PATCH_DB | DBUS_APPLY_PATCH_YANG | DBUS_CREATE_CHECKPOINT | DBUS_DELETE_CHECKPOINT
  | DBUS_CONFIG_SAVE | DBUS_CONFIG_RELOAD | DBUS_STOP_SERVICE | DBUS_RESTART_SERVICE | DBUS_FILE_STAT
  | DBUS_FILE_DOWNLOAD | DBUS_FILE_REMOVE | DBUS_IMAGE_DOWNLOAD | DBUS_IMAGE_INSTALL
  | DBUS_IMAGE_LIST | DBUS_IMAGE_ACTIVATE | DBUS_DOCKER_LOAD | DBUS_CONFIG_REPLACE

fun counterString :: "counterType \<Rightarrow> string" where
  "counterString GNMI_GET = ''GNMI get''"
| "counterString GNMI_GET_FAIL = ''GNMI get fail''"
| "counterString GNMI_SET = ''GNMI set''"
| "counterString GNMI_SET_FAIL = ''GNMI set fail''"
| "counterString GNMI_SET_BYPASS = ''GNMI set bypass''"
| "counterString GNOI_REBOOT = ''GNOI reboot''"
| "counterString GNOI_FACTORY_RESET = ''GNOI Factory Reset''"
| "counterString GNOI_OS_INSTALL = ''GNOI OS Install''"
| "counterString GNOI_HEALTHZ_ACK = ''GNOI Healthz Ack''"
| "counterString GNOI_HEALTHZ_CHECK = ''GNOI Healthz Check''"
| "counterString GNOI_HEALTHZ_COLLECT = ''GNOI Healthz Collect''"
| "counterString GNSI_CREDZ_SET = ''GNSI Credz Set''"
| "counterString GNSI_CREDZ_CHECKPOINT = ''GNSI Credz Checkpoint''"
| "counterString DBUS = ''DBUS''"
| "counterString DBUS_FAIL = ''DBUS fail''"
| "counterString DBUS_APPLY_PATCH_DB = ''DBUS apply patch db''"
| "counterString DBUS_APPLY_PATCH_YANG = ''DBUS apply patch yang''"
| "counterString DBUS_CREATE_CHECKPOINT = ''DBUS create checkpoint''"
| "counterString DBUS_DELETE_CHECKPOINT = ''DBUS delete checkpoint''"
| "counterString DBUS_CONFIG_SAVE = ''DBUS config save''"
| "counterString DBUS_CONFIG_RELOAD = ''DBUS config reload''"
| "counterString DBUS_STOP_SERVICE = ''DBUS stop service''"
| "counterString DBUS_RESTART_SERVICE = ''DBUS restart service''"
| "counterString DBUS_FILE_STAT = ''DBUS file stat''"
| "counterString DBUS_FILE_DOWNLOAD = ''DBUS file download''"
| "counterString DBUS_FILE_REMOVE = ''DBUS file remove''"
| "counterString DBUS_IMAGE_DOWNLOAD = ''DBUS image download''"
| "counterString DBUS_IMAGE_INSTALL = ''DBUS image install''"
| "counterString DBUS_IMAGE_LIST = ''DBUS image list''"
| "counterString DBUS_IMAGE_ACTIVATE = ''DBUS image activate''"
| "counterString DBUS_DOCKER_LOAD = ''DBUS docker load''"
| "counterString DBUS_CONFIG_REPLACE = ''DBUS config replace''"

type_synonym counters = "counterType \<Rightarrow> 64 word"

definition InitCounters :: "counters \<Rightarrow> counters" where
  "InitCounters c = (\<lambda>_. 0)"

definition IncCounter :: "counterType \<Rightarrow> counters \<Rightarrow> counters" where
  "IncCounter n c = c(n := c n + 1)"

section \<open>The bus\<close>

datatype dbusVal = DInt32 int | DString string | DMap "(string, string) gomap" | DOther string

record dbusCall =
  dc_busName :: string
  dc_busPath :: string
  dc_intName :: string
  dc_timeout :: int
  dc_args :: "string list"

text \<open>What can come of a call: no connection, an error, a reply, or no reply in time.\<close>

datatype dbusOutcome = NoBus goerr | CallErr goerr | Body "dbusVal list" | TimedOut

type_synonym 'h bus = "dbusCall \<Rightarrow> 'h \<Rightarrow> dbusOutcome \<times> 'h"

record 'h hostState =
  hs_host :: 'h
  hs_counters :: counters

definition count :: "counterType \<Rightarrow> 'h hostState \<Rightarrow> 'h hostState" where
  "count n s = s\<lparr>hs_counters := IncCounter n (hs_counters s)\<rparr>"

definition mapText :: "(string, string) gomap \<Rightarrow> string \<Rightarrow> string" where
  "mapText m k = (case gm_get m k of Some v \<Rightarrow> v | None \<Rightarrow> [])"

text \<open>The reply is a status and a value. A status other than zero comes with a message.\<close>

fun dbusReply :: "dbusVal list \<Rightarrow> goerr + dbusVal" where
  "dbusReply [] = Inl (Plain ''Dbus result is empty'')"
| "dbusReply (DInt32 ret # rest) =
     (case rest of
        [v] \<Rightarrow>
          if ret = 0 then Inr v
          else (case v of
                  DString msg \<Rightarrow> Inl (Plain msg)
                | DMap m \<Rightarrow> Inl (Plain (mapText m ''error''))
                | _ \<Rightarrow> Inl (Plain ''Invalid result message type''))
      | _ \<Rightarrow> Inl (Plain ''Dbus result is invalid''))"
| "dbusReply (v # rest) = Inl (Plain ''Invalid result type'')"

definition dbusResult :: "int \<Rightarrow> dbusOutcome \<Rightarrow> goerr + dbusVal" where
  "dbusResult timeout out =
     (case out of
        NoBus e \<Rightarrow> Inl e
      | CallErr e \<Rightarrow> Inl e
      | Body vs \<Rightarrow> dbusReply vs
      | TimedOut \<Rightarrow> Inl (Plain (''Timeout '' @ FormatInt timeout)))"

definition DbusApi ::
    "'h bus \<Rightarrow> string \<Rightarrow> string \<Rightarrow> string \<Rightarrow> int \<Rightarrow> string list \<Rightarrow> 'h hostState \<Rightarrow> (goerr + dbusVal) \<times> 'h hostState" where
  "DbusApi bus busName busPath intName timeout args s0 =
     (let s = count DBUS s0
      in case bus \<lparr>dc_busName = busName, dc_busPath = busPath, dc_intName = intName, dc_timeout = timeout, dc_args = args\<rparr>
                (hs_host s) of
           (out, h) \<Rightarrow>
             (let s' = s\<lparr>hs_host := h\<rparr>
              in case dbusResult timeout out of
                   Inl e \<Rightarrow> (Inl e, count DBUS_FAIL s')
                 | Inr v \<Rightarrow> (Inr v, s')))"

section \<open>The methods\<close>

definition busNamePrefix :: string where
  "busNamePrefix = ''org.SONiC.HostService.''"

definition busPathPrefix :: string where
  "busPathPrefix = ''/org/SONiC/HostService/''"

definition intNamePrefix :: string where
  "intNamePrefix = ''org.SONiC.HostService.''"

text \<open>The common part of the methods: the names are built from the module and the method.\<close>

definition callModule ::
    "'h bus \<Rightarrow> string \<Rightarrow> string \<Rightarrow> int \<Rightarrow> string list \<Rightarrow> 'h hostState \<Rightarrow> (goerr + dbusVal) \<times> 'h hostState" where
  "callModule bus modName method timeout args s =
     DbusApi bus (busNamePrefix @ modName) (busPathPrefix @ modName) (intNamePrefix @ modName @ method) timeout args s"

definition errOnly :: "(goerr + 'a) \<times> 's \<Rightarrow> goerr option \<times> 's" where
  "errOnly r = (case r of (Inl e, s) \<Rightarrow> (Some e, s) | (Inr _, s) \<Rightarrow> (None, s))"

definition strResult :: "(goerr + dbusVal) \<times> 's \<Rightarrow> (goerr + string) \<times> 's" where
  "strResult r =
     (case r of
        (Inl e, s) \<Rightarrow> (Inl e, s)
      | (Inr (DString t), s) \<Rightarrow> (Inr t, s)
      | (Inr _, s) \<Rightarrow> (Inl (Plain ''Invalid result type''), s))"

definition ConfigReload :: "'h bus \<Rightarrow> string \<Rightarrow> 'h hostState \<Rightarrow> goerr option \<times> 'h hostState" where
  "ConfigReload bus config s = errOnly (callModule bus ''config'' ''.reload'' 60 [config] (count DBUS_CONFIG_RELOAD s))"

definition ConfigReplace :: "'h bus \<Rightarrow> string \<Rightarrow> 'h hostState \<Rightarrow> goerr option \<times> 'h hostState" where
  "ConfigReplace bus config s = errOnly (callModule bus ''gcu'' ''.replace_db'' 600 [config] (count DBUS_CONFIG_REPLACE s))"

definition ConfigSave :: "'h bus \<Rightarrow> string \<Rightarrow> 'h hostState \<Rightarrow> goerr option \<times> 'h hostState" where
  "ConfigSave bus fileName s = errOnly (callModule bus ''config'' ''.save'' 60 [fileName] (count DBUS_CONFIG_SAVE s))"

definition ApplyPatchYang :: "'h bus \<Rightarrow> string \<Rightarrow> 'h hostState \<Rightarrow> goerr option \<times> 'h hostState" where
  "ApplyPatchYang bus patch s = errOnly (callModule bus ''gcu'' ''.apply_patch_yang'' 600 [patch] (count DBUS_APPLY_PATCH_YANG s))"

definition ApplyPatchDb :: "'h bus \<Rightarrow> string \<Rightarrow> 'h hostState \<Rightarrow> goerr option \<times> 'h hostState" where
  "ApplyPatchDb bus patch s = errOnly (callModule bus ''gcu'' ''.apply_patch_db'' 600 [patch] (count DBUS_APPLY_PATCH_DB s))"

definition CreateCheckPoint :: "'h bus \<Rightarrow> string \<Rightarrow> 'h hostState \<Rightarrow> goerr option \<times> 'h hostState" where
  "CreateCheckPoint bus fileName s = errOnly (callModule bus ''gcu'' ''.create_checkpoint'' 60 [fileName] (count DBUS_CREATE_CHECKPOINT s))"

definition DeleteCheckPoint :: "'h bus \<Rightarrow> string \<Rightarrow> 'h hostState \<Rightarrow> goerr option \<times> 'h hostState" where
  "DeleteCheckPoint bus fileName s = errOnly (callModule bus ''gcu'' ''.delete_checkpoint'' 60 [fileName] (count DBUS_DELETE_CHECKPOINT s))"

definition StopService :: "'h bus \<Rightarrow> string \<Rightarrow> 'h hostState \<Rightarrow> goerr option \<times> 'h hostState" where
  "StopService bus service s = errOnly (callModule bus ''systemd'' ''.stop_service'' 240 [service] (count DBUS_STOP_SERVICE s))"

definition RestartService :: "'h bus \<Rightarrow> string \<Rightarrow> 'h hostState \<Rightarrow> goerr option \<times> 'h hostState" where
  "RestartService bus service s = errOnly (callModule bus ''systemd'' ''.restart_service'' 240 [service] (count DBUS_RESTART_SERVICE s))"

definition DownloadFile :: "'h bus \<Rightarrow> string \<Rightarrow> string \<Rightarrow> string \<Rightarrow> string \<Rightarrow> string \<Rightarrow> string \<Rightarrow> 'h hostState \<Rightarrow> goerr option \<times> 'h hostState" where
  "DownloadFile bus hostname username password remotePath localPath protocol s = errOnly (callModule bus ''file'' ''.download'' 900 [hostname, username, password, remotePath, localPath, protocol] (count DBUS_FILE_DOWNLOAD s))"

definition RemoveFile :: "'h bus \<Rightarrow> string \<Rightarrow> 'h hostState \<Rightarrow> goerr option \<times> 'h hostState" where
  "RemoveFile bus path s = errOnly (callModule bus ''file'' ''.remove'' 60 [path] (count DBUS_FILE_REMOVE s))"

definition DownloadImage :: "'h bus \<Rightarrow> string \<Rightarrow> string \<Rightarrow> 'h hostState \<Rightarrow> goerr option \<times> 'h hostState" where
  "DownloadImage bus url saveAs s = errOnly (callModule bus ''image_service'' ''.download'' 900 [url, saveAs] (count DBUS_IMAGE_DOWNLOAD s))"

definition InstallImage :: "'h bus \<Rightarrow> string \<Rightarrow> 'h hostState \<Rightarrow> goerr option \<times> 'h hostState" where
  "InstallImage bus whereTo s = errOnly (callModule bus ''image_service'' ''.install'' 900 [whereTo] (count DBUS_IMAGE_INSTALL s))"

definition ActivateImage :: "'h bus \<Rightarrow> string \<Rightarrow> 'h hostState \<Rightarrow> goerr option \<times> 'h hostState" where
  "ActivateImage bus img s = errOnly (callModule bus ''image_service'' ''.set_next_boot'' 60 [img] (count DBUS_IMAGE_ACTIVATE s))"

definition LoadDockerImage :: "'h bus \<Rightarrow> string \<Rightarrow> 'h hostState \<Rightarrow> goerr option \<times> 'h hostState" where
  "LoadDockerImage bus img s = errOnly (callModule bus ''docker_service'' ''.load'' 180 [img] (count DBUS_DOCKER_LOAD s))"

definition ConsoleSet :: "'h bus \<Rightarrow> string \<Rightarrow> 'h hostState \<Rightarrow> goerr option \<times> 'h hostState" where
  "ConsoleSet bus cmd s = errOnly (callModule bus ''gnsi_console'' ''.set'' 10 [cmd] (count GNSI_CREDZ_SET s))"

definition SSHMgmtSet :: "'h bus \<Rightarrow> string \<Rightarrow> 'h hostState \<Rightarrow> goerr option \<times> 'h hostState" where
  "SSHMgmtSet bus cmd s = errOnly (callModule bus ''ssh_mgmt'' ''.set'' 10 [cmd] (count GNSI_CREDZ_SET s))"

definition ListImages :: "'h bus \<Rightarrow> 'h hostState \<Rightarrow> (goerr + string) \<times> 'h hostState" where
  "ListImages bus s = strResult (callModule bus ''image_service'' ''.list_images'' 60 [] (count DBUS_IMAGE_LIST s))"

definition FactoryReset :: "'h bus \<Rightarrow> string \<Rightarrow> 'h hostState \<Rightarrow> (goerr + string) \<times> 'h hostState" where
  "FactoryReset bus cmd s = strResult (callModule bus ''gnoi_reset'' ''.issue_reset'' 10 [cmd] (count GNOI_FACTORY_RESET s))"

definition HealthzCheck :: "'h bus \<Rightarrow> string \<Rightarrow> 'h hostState \<Rightarrow> (goerr + string) \<times> 'h hostState" where
  "HealthzCheck bus req s = strResult (callModule bus ''debug_info'' ''.check'' 10 [req] (count GNOI_HEALTHZ_CHECK s))"

definition HealthzCollect :: "'h bus \<Rightarrow> string \<Rightarrow> 'h hostState \<Rightarrow> (goerr + string) \<times> 'h hostState" where
  "HealthzCollect bus req s = strResult (callModule bus ''debug_info'' ''.collect'' 10 [req] (count GNOI_HEALTHZ_COLLECT s))"

definition HealthzAck :: "'h bus \<Rightarrow> string \<Rightarrow> 'h hostState \<Rightarrow> (goerr + string) \<times> 'h hostState" where
  "HealthzAck bus req s = strResult (callModule bus ''debug_info'' ''.ack'' 10 [req] (count GNOI_HEALTHZ_ACK s))"

definition GetFileStat :: "'h bus \<Rightarrow> string \<Rightarrow> 'h hostState \<Rightarrow> (goerr + (string, string) gomap) \<times> 'h hostState" where
  "GetFileStat bus path s =
     (case callModule bus ''file'' ''.get_file_stat'' 60 [path] (count DBUS_FILE_STAT s) of
        (Inl e, s') \<Rightarrow> (Inl e, s')
      | (Inr (DMap m), s') \<Rightarrow> (Inr m, s')
      | (Inr _, s') \<Rightarrow> (Inr [], s'))"

definition InstallOS :: "'h bus \<Rightarrow> string \<Rightarrow> 'h hostState \<Rightarrow> (goerr + string) \<times> 'h hostState" where
  "InstallOS bus req s =
     (case callModule bus ''image_service'' ''.gnoi_install_os'' 60 [req] (count GNOI_OS_INSTALL s) of
        (Inl e, s') \<Rightarrow>
          (Inl (if Contains (errText e) ''ERROR_UNIMPLEMENTED'' then Status Unimplemented (errText e) else e), s')
      | (Inr (DString t), s') \<Rightarrow>
          (if Contains t ''ERROR_UNIMPLEMENTED'' then Inl (Status Unimplemented t) else Inr t, s')
      | (Inr _, s') \<Rightarrow> (Inl (Plain ''Invalid result type''), s'))"

datatype credzCheckpointAction = CredzCPCreate | CredzCPDelete | CredzCPRestore | CredzGlomePushConfig

fun actionMethod :: "credzCheckpointAction \<Rightarrow> string" where
  "actionMethod CredzCPCreate = ''.create_checkpoint''"
| "actionMethod CredzCPDelete = ''.delete_checkpoint''"
| "actionMethod CredzCPRestore = ''.restore_checkpoint''"
| "actionMethod CredzGlomePushConfig = ''.push_config''"

definition ConsoleCheckpoint :: "'h bus \<Rightarrow> credzCheckpointAction \<Rightarrow> 'h hostState \<Rightarrow> goerr option \<times> 'h hostState" where
  "ConsoleCheckpoint bus action s =
     errOnly (callModule bus ''gnsi_console'' (actionMethod action) 10 [[]] (count GNSI_CREDZ_CHECKPOINT s))"

definition SSHCheckpoint :: "'h bus \<Rightarrow> credzCheckpointAction \<Rightarrow> 'h hostState \<Rightarrow> goerr option \<times> 'h hostState" where
  "SSHCheckpoint bus action s =
     errOnly (callModule bus ''ssh_mgmt'' (actionMethod action) 10 [[]] (count GNSI_CREDZ_CHECKPOINT s))"

text \<open>The time that the context leaves, in nanoseconds; \<^term>\<open>None\<close> without a deadline. A call gets whole seconds, at
  most ten.\<close>

definition timeoutFor :: "int \<Rightarrow> int option \<Rightarrow> goerr + int" where
  "timeoutFor dflt remaining =
     (case remaining of
        None \<Rightarrow> Inr dflt
      | Some r \<Rightarrow> if r \<le> 0 then Inl (Plain ''context deadline exceeded'') else Inr (min 10 (r div 1000000000)))"

definition GLOMEConfigSet :: "'h bus \<Rightarrow> int option \<Rightarrow> string \<Rightarrow> 'h hostState \<Rightarrow> goerr option \<times> 'h hostState" where
  "GLOMEConfigSet bus remaining cmd s0 =
     (let s = count GNSI_CREDZ_SET s0
      in case timeoutFor 10 remaining of
           Inl e \<Rightarrow> (Some e, s)
         | Inr t \<Rightarrow> errOnly (callModule bus ''glome'' (actionMethod CredzGlomePushConfig) t [cmd] s))"

definition GLOMERestoreCheckpoint :: "'h bus \<Rightarrow> int option \<Rightarrow> 'h hostState \<Rightarrow> goerr option \<times> 'h hostState" where
  "GLOMERestoreCheckpoint bus remaining s0 =
     (let s = count GNSI_CREDZ_CHECKPOINT s0
      in case timeoutFor 300 remaining of
           Inl e \<Rightarrow> (Some e, s)
         | Inr t \<Rightarrow> errOnly (callModule bus ''glome'' (actionMethod CredzCPRestore) t [] s))"

section \<open>Properties\<close>

lemma dbusReply_ok: "dbusReply vs = Inr v \<longleftrightarrow> vs = [DInt32 0, v]"
  by (cases vs rule: dbusReply.cases) (auto split: list.splits dbusVal.splits)

lemma count_sel [simp]: "hs_host (count n s) = hs_host s" "hs_counters (count n s) m = hs_counters s m + (if m = n then 1 else 0)"
  by (simp_all add: count_def IncCounter_def)

text \<open>A call of the host succeeds exactly when the bus delivers the status zero with one value, and then it
  gives that value. Every call counts once as a call, and once as a failure exactly when it returns an
  error; the counters wrap around at 64 bits. The host sees one call, with the names of the module.\<close>

theorem DbusApi_outcome:
  "\<exists>out h. bus \<lparr>dc_busName = busName, dc_busPath = busPath, dc_intName = intName, dc_timeout = timeout, dc_args = args\<rparr>
       (hs_host s) = (out, h) \<and>
   (case DbusApi bus busName busPath intName timeout args s of
      (r, s') \<Rightarrow> (\<forall>v. r = Inr v \<longleftrightarrow> out = Body [DInt32 0, v]) \<and> hs_host s' = h \<and>
        hs_counters s' DBUS = hs_counters s DBUS + 1 \<and>
        hs_counters s' DBUS_FAIL = hs_counters s DBUS_FAIL + (if \<exists>v. out = Body [DInt32 0, v] then 0 else 1))"
proof -
  let ?call = "\<lparr>dc_busName = busName, dc_busPath = busPath, dc_intName = intName, dc_timeout = timeout, dc_args = args\<rparr>"
  obtain out h where b: "bus ?call (hs_host s) = (out, h)" by fastforce
  have ok: "dbusResult timeout out = Inr v \<longleftrightarrow> out = Body [DInt32 0, v]" for v
    by (auto simp: dbusResult_def dbusReply_ok split: dbusOutcome.splits)
  show ?thesis
  proof (cases "dbusResult timeout out")
    case (Inl e)
    then have "out \<noteq> Body [DInt32 0, v]" for v using ok [of v] by simp
    with b Inl show ?thesis by (simp add: DbusApi_def Let_def)
  next
    case (Inr v)
    with ok have "out = Body [DInt32 0, v]" by blast
    with b Inr show ?thesis by (auto simp: DbusApi_def Let_def)
  qed
qed

end
