(* ===== verification/Gnsi_Credentialz.thy ===== *)
theory Gnsi_Credentialz
  imports Gnsi_Rotation Dbus_Client
begin

text \<open>
  The gNSI credentialz service, \<^verbatim>\<open>gnmi_server/gnsi_credentialz.go\<close>: rotation of the ssh keys, ssh users and
  console passwords of accounts, of the ssh CA keys and of the GLOME configuration. The credentials
  themselves live in the host, behind the D-Bus client; the service keeps their versions, in memory, in
  STATE_DB and in two files.

  The account maps of the metadata and of its checkpoint copy are the same Go map (the copy of the struct
  copies the reference), so there is one field for both. A loop over a map goes through it in the order of the
  association list. Three error texts that print a whole message or its Go type are cut before it. URL parsing and the JSON encoding of the GLOME
  message are arguments (\<open>credz_env\<close>).
\<close>

section \<open>The service\<close>

record sshAccountVersion =
  sa_KeysVersion :: string
  sa_KeysCreatedOn :: string
  sa_UsersVersion :: string
  sa_UsersCreatedOn :: string

record sshHostVersion =
  sh_CaKeysVersion :: string
  sh_CaKeysCreatedOn :: string

record consoleAccountVersion =
  ca_PasswordVersion :: string
  ca_PasswordCreatedOn :: string

record glomeConfigMetadata =
  gc_Enabled :: bool
  gc_KeyVersion :: "32 word"
  gc_LastUpdated :: "64 word"

text \<open>\<open>cr_sshAccounts\<close> is the map behind both \<^verbatim>\<open>sshCredMetadata.Accounts\<close> and \<^verbatim>\<open>sshCredMetadataCopy.Accounts\<close>
  (\<^term>\<open>None\<close> the nil map), and \<open>cr_consoleAccounts\<close> likewise.\<close>

record 'h credzServer =
  cr_sshAccounts :: "(string, sshAccountVersion) gomap option"
  cr_sshHost :: sshHostVersion
  cr_sshHostCopy :: sshHostVersion
  cr_consoleAccounts :: "(string, consoleAccountVersion) gomap option"
  cr_glomeConfigMetadata :: "glomeConfigMetadata option"
  cr_stateDbClient :: bool
  cr_SshCredMetaFile :: string
  cr_ConsoleCredMetaFile :: string
  cr_credzMu :: bool
  cr_crashed :: bool
  cr_world :: world
  cr_host :: "'h hostState"

datatype cpType = consoleCP | sshCP

definition sshAccountTbl :: string where "sshAccountTbl = ''SSH_ACCOUNT''"
definition sshHostTbl :: string where "sshHostTbl = ''SSH_HOST''"
definition consoleAccountTbl :: string where "consoleAccountTbl = ''CONSOLE_ACCOUNT''"
definition sshKeysVersionFld :: string where "sshKeysVersionFld = ''keys_version''"
definition sshKeysCreatedOnFld :: string where "sshKeysCreatedOnFld = ''keys_created_on''"
definition sshPrincipalsVersionFld :: string where "sshPrincipalsVersionFld = ''principals_version''"
definition sshPrincipalsCreatedOnFld :: string where "sshPrincipalsCreatedOnFld = ''principals_created_on''"
definition sshCaKeysVersionFld :: string where "sshCaKeysVersionFld = ''ca_keys_version''"
definition sshCaKeysCreatedOnFld :: string where "sshCaKeysCreatedOnFld = ''ca_keys_created_on''"
definition consolePasswordVersionFld :: string where "consolePasswordVersionFld = ''password_version''"
definition consolePasswordCreatedOnFld :: string where "consolePasswordCreatedOnFld = ''password_created_on''"

definition onHost :: "('h hostState \<Rightarrow> 'a \<times> 'h hostState) \<Rightarrow> 'h credzServer \<Rightarrow> 'a \<times> 'h credzServer" where
  "onHost f srv = (case f (cr_host srv) of (r, h) \<Rightarrow> (r, srv\<lparr>cr_host := h\<rparr>))"

definition crash :: "string \<Rightarrow> 'h credzServer \<Rightarrow> goerr option \<times> 'h credzServer" where
  "crash msg srv = (Some (Panic msg), srv\<lparr>cr_crashed := True\<rparr>)"

section \<open>Versions in memory and in STATE_DB\<close>

definition newSshAccount :: sshAccountVersion where
  "newSshAccount = \<lparr>sa_KeysVersion = ''unknown'', sa_KeysCreatedOn = ''0'', sa_UsersVersion = ''unknown'', sa_UsersCreatedOn = ''0''\<rparr>"

definition setSshField :: "string \<Rightarrow> string \<Rightarrow> sshAccountVersion \<Rightarrow> sshAccountVersion" where
  "setSshField fld val m =
     (if fld = sshKeysVersionFld then m\<lparr>sa_KeysVersion := val\<rparr>
      else if fld = sshKeysCreatedOnFld then m\<lparr>sa_KeysCreatedOn := val\<rparr>
      else if fld = sshPrincipalsVersionFld then m\<lparr>sa_UsersVersion := val\<rparr>
      else if fld = sshPrincipalsCreatedOnFld then m\<lparr>sa_UsersCreatedOn := val\<rparr> else m)"

definition accountOr :: "'v \<Rightarrow> (string, 'v) gomap \<Rightarrow> string \<Rightarrow> 'v" where
  "accountOr d m a = (case gm_get m a of Some v \<Rightarrow> v | None \<Rightarrow> d)"

definition writeSshAccountCredentialsMetadataToDB ::
    "string \<Rightarrow> string \<Rightarrow> string \<Rightarrow> 'h credzServer \<Rightarrow> goerr option \<times> 'h credzServer" where
  "writeSshAccountCredentialsMetadataToDB account fld val srv =
     (case writeCredentialsMetadataToDB sshAccountTbl account fld val (cr_world srv) of
        (Some e, w) \<Rightarrow> (Some e, srv\<lparr>cr_world := w\<rparr>)
      | (None, w) \<Rightarrow>
          (case cr_sshAccounts srv of
             None \<Rightarrow> crash ''assignment to entry in nil map'' (srv\<lparr>cr_world := w\<rparr>)
           | Some m \<Rightarrow>
               (None, srv\<lparr>cr_world := w,
                  cr_sshAccounts := Some (gm_set account (setSshField fld val (accountOr newSshAccount m account)) m)\<rparr>)))"

definition setHostField :: "string \<Rightarrow> string \<Rightarrow> sshHostVersion \<Rightarrow> sshHostVersion" where
  "setHostField fld val m =
     (if fld = sshCaKeysVersionFld then m\<lparr>sh_CaKeysVersion := val\<rparr>
      else if fld = sshCaKeysCreatedOnFld then m\<lparr>sh_CaKeysCreatedOn := val\<rparr> else m)"

definition writeSshHostCredentialsMetadataToDB ::
    "string \<Rightarrow> string \<Rightarrow> 'h credzServer \<Rightarrow> goerr option \<times> 'h credzServer" where
  "writeSshHostCredentialsMetadataToDB fld val srv =
     (case writeCredentialsMetadataToDB sshHostTbl [] fld val (cr_world srv) of
        (Some e, w) \<Rightarrow> (Some e, srv\<lparr>cr_world := w\<rparr>)
      | (None, w) \<Rightarrow> (None, srv\<lparr>cr_world := w, cr_sshHost := setHostField fld val (cr_sshHost srv)\<rparr>))"

definition newConsoleAccount :: consoleAccountVersion where
  "newConsoleAccount = \<lparr>ca_PasswordVersion = ''unknown'', ca_PasswordCreatedOn = ''0''\<rparr>"

definition setConsoleField :: "string \<Rightarrow> string \<Rightarrow> consoleAccountVersion \<Rightarrow> consoleAccountVersion" where
  "setConsoleField fld val m =
     (if fld = consolePasswordVersionFld then m\<lparr>ca_PasswordVersion := val\<rparr>
      else if fld = consolePasswordCreatedOnFld then m\<lparr>ca_PasswordCreatedOn := val\<rparr> else m)"

definition writeConsoleAccountCredentialsMetadataToDB ::
    "string \<Rightarrow> string \<Rightarrow> string \<Rightarrow> 'h credzServer \<Rightarrow> goerr option \<times> 'h credzServer" where
  "writeConsoleAccountCredentialsMetadataToDB account fld val srv =
     (case writeCredentialsMetadataToDB consoleAccountTbl account fld val (cr_world srv) of
        (Some e, w) \<Rightarrow> (Some e, srv\<lparr>cr_world := w\<rparr>)
      | (None, w) \<Rightarrow>
          (case cr_consoleAccounts srv of
             None \<Rightarrow> crash ''assignment to entry in nil map'' (srv\<lparr>cr_world := w\<rparr>)
           | Some m \<Rightarrow>
               (None, srv\<lparr>cr_world := w,
                  cr_consoleAccounts := Some (gm_set account (setConsoleField fld val (accountOr newConsoleAccount m account)) m)\<rparr>)))"

text \<open>A call whose error is dropped, unless the process is gone.\<close>

definition quietly :: "('h credzServer \<Rightarrow> goerr option \<times> 'h credzServer) \<Rightarrow> 'h credzServer \<Rightarrow> 'h credzServer" where
  "quietly f srv = (if cr_crashed srv then srv else snd (f srv))"

definition checkpointSshCredentialFreshness :: "'h credzServer \<Rightarrow> 'h credzServer" where
  "checkpointSshCredentialFreshness srv = srv\<lparr>cr_sshHostCopy := cr_sshHost srv\<rparr>"

definition writeSshAccount :: "string \<times> sshAccountVersion \<Rightarrow> 'h credzServer \<Rightarrow> 'h credzServer" where
  "writeSshAccount au srv =
     (case au of
        (a, u) \<Rightarrow>
          quietly (writeSshAccountCredentialsMetadataToDB a sshPrincipalsCreatedOnFld (sa_UsersCreatedOn u))
            (quietly (writeSshAccountCredentialsMetadataToDB a sshPrincipalsVersionFld (sa_UsersVersion u))
              (quietly (writeSshAccountCredentialsMetadataToDB a sshKeysCreatedOnFld (sa_KeysCreatedOn u))
                (quietly (writeSshAccountCredentialsMetadataToDB a sshKeysVersionFld (sa_KeysVersion u)) srv))))"

text \<open>The entries of the map that a loop goes through; the loop writes to the map it reads, but only to keys it has
  already read.\<close>

definition entriesOf :: "('k, 'v) gomap option \<Rightarrow> ('k \<times> 'v) list" where
  "entriesOf m = (case m of None \<Rightarrow> [] | Some xs \<Rightarrow> xs)"

definition writeSshHost :: "sshHostVersion \<Rightarrow> 'h credzServer \<Rightarrow> 'h credzServer" where
  "writeSshHost v srv =
     quietly (writeSshHostCredentialsMetadataToDB sshCaKeysCreatedOnFld (sh_CaKeysCreatedOn v))
       (quietly (writeSshHostCredentialsMetadataToDB sshCaKeysVersionFld (sh_CaKeysVersion v)) srv)"

definition revertSshCredentialFreshness :: "'h credzServer \<Rightarrow> 'h credzServer" where
  "revertSshCredentialFreshness srv =
     (let srv1 = writeSshHost (cr_sshHostCopy srv) srv
      in fold writeSshAccount (entriesOf (cr_sshAccounts srv1)) srv1)"

text \<open>The copy of the console metadata is the shared map alone, so its checkpoint has nothing to remember.\<close>

definition checkpointConsoleFreshness :: "'h credzServer \<Rightarrow> 'h credzServer" where
  "checkpointConsoleFreshness srv = srv"

definition writeConsoleAccount :: "string \<times> consoleAccountVersion \<Rightarrow> 'h credzServer \<Rightarrow> 'h credzServer" where
  "writeConsoleAccount au srv =
     (case au of
        (a, u) \<Rightarrow>
          quietly (writeConsoleAccountCredentialsMetadataToDB a consolePasswordCreatedOnFld (ca_PasswordCreatedOn u))
            (quietly (writeConsoleAccountCredentialsMetadataToDB a consolePasswordVersionFld (ca_PasswordVersion u)) srv))"

definition revertConsoleCredentialFreshness :: "'h credzServer \<Rightarrow> 'h credzServer" where
  "revertConsoleCredentialFreshness srv = fold writeConsoleAccount (entriesOf (cr_consoleAccounts srv)) srv"

section \<open>Versions in files\<close>

definition sshAccountJson :: "sshAccountVersion \<Rightarrow> json" where
  "sshAccountJson u = JObj [(''keys_version'', JStr (sa_KeysVersion u)), (''keys_created_on'', JStr (sa_KeysCreatedOn u)),
     (''users_version'', JStr (sa_UsersVersion u)), (''users_created_on'', JStr (sa_UsersCreatedOn u))]"

definition mapJson :: "('v \<Rightarrow> json) \<Rightarrow> (string, 'v) gomap option \<Rightarrow> json" where
  "mapJson f m = (case m of None \<Rightarrow> JNull | Some xs \<Rightarrow> JObj (map (\<lambda>(k, v). (k, f v)) (sort_key fst xs)))"

definition saveCredentialsFreshness :: "'h credzServer \<Rightarrow> 'h credzServer" where
  "saveCredentialsFreshness srv =
     (let v = JObj [(''accounts'', mapJson sshAccountJson (cr_sshAccounts srv)),
            (''host'', JObj [(''ca_public_keys_version'', JStr (sh_CaKeysVersion (cr_sshHost srv))),
                           (''ca_public_keys_created_on'', JStr (sh_CaKeysCreatedOn (cr_sshHost srv)))])]
      in srv\<lparr>cr_world := snd (osWriteFile (Name (cr_SshCredMetaFile srv)) (encodeLine v) (cr_world srv))\<rparr>)"

definition saveConsoleCredentialsFreshness :: "'h credzServer \<Rightarrow> 'h credzServer" where
  "saveConsoleCredentialsFreshness srv =
     (let v = JObj [(''accounts'', mapJson (\<lambda>u. JObj [(''password_version'', JStr (ca_PasswordVersion u)),
            (''password_created_on'', JStr (ca_PasswordCreatedOn u))]) (cr_consoleAccounts srv))]
      in srv\<lparr>cr_world := snd (osWriteFile (Name (cr_ConsoleCredMetaFile srv)) (encodeLine v) (cr_world srv))\<rparr>)"

definition decodeSshAccount :: "json \<Rightarrow> sshAccountVersion" where
  "decodeSshAccount v =
     (let z = \<lparr>sa_KeysVersion = [], sa_KeysCreatedOn = [], sa_UsersVersion = [], sa_UsersCreatedOn = []\<rparr>
      in case v of
           JObj ms \<Rightarrow> \<lparr>sa_KeysVersion = strField ''keys_version'' ms [], sa_KeysCreatedOn = strField ''keys_created_on'' ms [],
                       sa_UsersVersion = strField ''users_version'' ms [], sa_UsersCreatedOn = strField ''users_created_on'' ms []\<rparr>
         | _ \<Rightarrow> z)"

definition decodeConsoleAccount :: "json \<Rightarrow> consoleAccountVersion" where
  "decodeConsoleAccount v =
     (case v of
        JObj ms \<Rightarrow> \<lparr>ca_PasswordVersion = strField ''password_version'' ms [],
                    ca_PasswordCreatedOn = strField ''password_created_on'' ms []\<rparr>
      | _ \<Rightarrow> \<lparr>ca_PasswordVersion = [], ca_PasswordCreatedOn = []\<rparr>)"

text \<open>Decoding into a map: null makes it nil, an object adds its members. Errors are only logged by the caller.\<close>

definition decodeMap :: "(json \<Rightarrow> 'v) \<Rightarrow> json \<Rightarrow> (string, 'v) gomap option \<Rightarrow> (string, 'v) gomap option" where
  "decodeMap f v m =
     (case v of
        JNull \<Rightarrow> None
      | JObj ms \<Rightarrow> Some (fold (\<lambda>(k, x) acc. gm_set k (f x) acc) ms (entriesOf m))
      | _ \<Rightarrow> m)"

definition decodeHost :: "json \<Rightarrow> sshHostVersion \<Rightarrow> sshHostVersion" where
  "decodeHost v h =
     (case v of
        JObj ms \<Rightarrow> \<lparr>sh_CaKeysVersion = strField ''ca_public_keys_version'' ms (sh_CaKeysVersion h),
                    sh_CaKeysCreatedOn = strField ''ca_public_keys_created_on'' ms (sh_CaKeysCreatedOn h)\<rparr>
      | _ \<Rightarrow> h)"

definition loadCredentialFreshness :: "'h credzServer \<Rightarrow> 'h credzServer" where
  "loadCredentialFreshness srv =
     (case osReadFile (Name (cr_SshCredMetaFile srv)) (cr_world srv) of
        (Inl _, w) \<Rightarrow> srv\<lparr>cr_world := w\<rparr>
      | (Inr c, w) \<Rightarrow>
          (case parseJson c of
             Some (JObj ms) \<Rightarrow>
               fold (\<lambda>(k, v) s. if k = ''accounts'' then s\<lparr>cr_sshAccounts := decodeMap decodeSshAccount v (cr_sshAccounts s)\<rparr>
                                 else if k = ''host'' then s\<lparr>cr_sshHost := decodeHost v (cr_sshHost s)\<rparr> else s)
                 ms (srv\<lparr>cr_world := w\<rparr>)
           | _ \<Rightarrow> srv\<lparr>cr_world := w\<rparr>))"

definition loadConsoleCredentialFreshness :: "'h credzServer \<Rightarrow> 'h credzServer" where
  "loadConsoleCredentialFreshness srv =
     (case osReadFile (Name (cr_ConsoleCredMetaFile srv)) (cr_world srv) of
        (Inl _, w) \<Rightarrow> srv\<lparr>cr_world := w\<rparr>
      | (Inr c, w) \<Rightarrow>
          (case parseJson c of
             Some (JObj ms) \<Rightarrow>
               fold (\<lambda>(k, v) s. if k = ''accounts''
                                 then s\<lparr>cr_consoleAccounts := decodeMap decodeConsoleAccount v (cr_consoleAccounts s)\<rparr> else s)
                 ms (srv\<lparr>cr_world := w\<rparr>)
           | _ \<Rightarrow> srv\<lparr>cr_world := w\<rparr>))"

section \<open>GLOME metadata in STATE_DB\<close>

definition defaultGlomeConfigMetadata :: glomeConfigMetadata where
  "defaultGlomeConfigMetadata = \<lparr>gc_Enabled = False, gc_KeyVersion = 0, gc_LastUpdated = 0\<rparr>"

definition glomeKey :: string where
  "glomeKey = GetKey [credentialsTbl, ''GLOME_CONFIG'']"

text \<open>The redis client writes a bool as 1 or 0 and an integer in decimal.\<close>

definition glomeFields :: "glomeConfigMetadata \<Rightarrow> (string \<times> string) list" where
  "glomeFields m = [(''enabled'', if gc_Enabled m then ''1'' else ''0''),
     (''key_version'', FormatInt (sint (gc_KeyVersion m))), (''last_updated'', FormatInt (sint (gc_LastUpdated m)))]"

definition fieldText :: "(string, string) gomap \<Rightarrow> string \<Rightarrow> string" where
  "fieldText m k = (case gm_get m k of Some v \<Rightarrow> v | None \<Rightarrow> [])"

text \<open>A result of \<open>Inr None\<close> is the pointer to the default metadata. The call on a nil client is a panic.\<close>

definition readGlomeConfigMetadataFromStateDB ::
    "'h credzServer \<Rightarrow> (goerr + glomeConfigMetadata option) \<times> 'h credzServer" where
  "readGlomeConfigMetadataFromStateDB srv =
     (if \<not> cr_stateDbClient srv then (Inl (Panic ''invalid memory address or nil pointer dereference''), srv\<lparr>cr_crashed := True\<rparr>)
      else (case HGetAll glomeKey (cr_world srv) of
        (Inl e, w) \<Rightarrow> (Inl (Plain (''failed to get GLOME config metadata from STATE_DB: '' @ errText e)), srv\<lparr>cr_world := w\<rparr>)
      | (Inr r, w) \<Rightarrow>
          (if r = [] then Inr None
           else (case ParseBool (fieldText r ''enabled'') of
                   None \<Rightarrow> Inl (Plain ''failed to parse 'enabled' field in GLOME config metadata from STATE_DB'')
                 | Some b \<Rightarrow>
                     (case ParseInt 32 (fieldText r ''key_version'') of
                        None \<Rightarrow> Inl (Plain ''failed to parse 'key_version' field in GLOME config metadata from STATE_DB'')
                      | Some kv \<Rightarrow>
                          (case ParseInt 64 (fieldText r ''last_updated'') of
                             None \<Rightarrow> Inl (Plain ''failed to parse 'last_updated' field in GLOME config metadata from STATE_DB'')
                           | Some lu \<Rightarrow>
                               Inr (Some \<lparr>gc_Enabled = b, gc_KeyVersion = word_of_int kv, gc_LastUpdated = word_of_int lu\<rparr>)))),
           srv\<lparr>cr_world := w\<rparr>)))"

definition writeGlomeConfigMetadataToStateDB ::
    "glomeConfigMetadata option \<Rightarrow> 'h credzServer \<Rightarrow> goerr option \<times> 'h credzServer" where
  "writeGlomeConfigMetadataToStateDB mo srv =
     (case mo of
        None \<Rightarrow> (Some (Plain ''newGlomeConfigMetadata is nil''), srv)
      | Some m \<Rightarrow>
          if \<not> cr_stateDbClient srv then crash ''invalid memory address or nil pointer dereference'' srv
          else (case HSetAll glomeKey (glomeFields m) (cr_world srv) of
                  (Some e, w) \<Rightarrow> (Some (Plain (''failed to write GLOME config metdata to STATE_DB: '' @ errText e)), srv\<lparr>cr_world := w\<rparr>)
                | (None, w) \<Rightarrow> (None, srv\<lparr>cr_world := w\<rparr>)))"

definition metaOrDefault :: "glomeConfigMetadata option \<Rightarrow> glomeConfigMetadata" where
  "metaOrDefault m = (case m of None \<Rightarrow> defaultGlomeConfigMetadata | Some x \<Rightarrow> x)"

definition updateGlomeState :: "glomeConfigMetadata \<Rightarrow> 'h credzServer \<Rightarrow> goerr option \<times> 'h credzServer" where
  "updateGlomeState m srv =
     (case readGlomeConfigMetadataFromStateDB srv of
        (Inl (Panic p), srv1) \<Rightarrow> (Some (Panic p), srv1)
      | (Inl e, srv1) \<Rightarrow> (Some (Plain (''failed to create STATE_DB checkpoint for GLOME: '' @ errText e)), srv1)
      | (Inr cur, srv1) \<Rightarrow>
          writeGlomeConfigMetadataToStateDB (Some m) (srv1\<lparr>cr_glomeConfigMetadata := Some (metaOrDefault cur)\<rparr>))"

definition InitGlomeConfigMetadata :: "'h credzServer \<Rightarrow> 'h credzServer" where
  "InitGlomeConfigMetadata srv =
     (case readGlomeConfigMetadataFromStateDB srv of
        (Inl (Panic p), srv1) \<Rightarrow> srv1
      | (Inl e, srv1) \<Rightarrow> srv1\<lparr>cr_glomeConfigMetadata := None\<rparr>
      | (Inr None, srv1) \<Rightarrow>
          (snd (writeGlomeConfigMetadataToStateDB (Some defaultGlomeConfigMetadata) srv1))
            \<lparr>cr_glomeConfigMetadata := Some defaultGlomeConfigMetadata\<rparr>
      | (Inr (Some m), srv1) \<Rightarrow> srv1\<lparr>cr_glomeConfigMetadata := Some m\<rparr>)"

section \<open>Messages to the host\<close>

text \<open>\<^verbatim>\<open>base64.StdEncoding\<close>.\<close>

definition b64char :: "nat \<Rightarrow> char" where
  "b64char n =
     (if n < 26 then char_of (65 + n) else if n < 52 then char_of (71 + n)
      else if n < 62 then char_of (n - 4) else if n = 62 then CHR ''+'' else CHR ''/'')"

fun b64 :: "string \<Rightarrow> string" where
  "b64 [] = []"
| "b64 [a] = (let n = of_char a :: nat in [b64char (n div 4), b64char (n mod 4 * 16), CHR ''='', CHR ''=''])"
| "b64 [a, b] =
     (let n = of_char a * 256 + of_char b :: nat
      in [b64char (n div 1024), b64char (n div 16 mod 64), b64char (n mod 16 * 4), CHR ''=''])"
| "b64 (a # b # c # s) =
     (let n = (of_char a * 256 + of_char b) * 256 + of_char c :: nat
      in [b64char (n div 262144), b64char (n div 4096 mod 64), b64char (n div 64 mod 64), b64char (n mod 64)] @ b64 s)"

datatype keyType = KEY_TYPE_UNSPECIFIED | KEY_TYPE_ECDSA_P_256 | KEY_TYPE_ECDSA_P_521 | KEY_TYPE_ED25519
  | KEY_TYPE_RSA_2048 | KEY_TYPE_RSA_4096 | KEY_TYPE_OTHER

fun sshKeyTypePrefix :: "keyType \<Rightarrow> string" where
  "sshKeyTypePrefix KEY_TYPE_UNSPECIFIED = ''unspecified''"
| "sshKeyTypePrefix KEY_TYPE_ECDSA_P_256 = ''ecdsa-sha2-nistp256''"
| "sshKeyTypePrefix KEY_TYPE_ECDSA_P_521 = ''ecdsa-sha2-nistp521''"
| "sshKeyTypePrefix KEY_TYPE_ED25519 = ''ssh-ed25519''"
| "sshKeyTypePrefix KEY_TYPE_RSA_2048 = ''ssh-rsa''"
| "sshKeyTypePrefix KEY_TYPE_RSA_4096 = ''ssh-rsa''"
| "sshKeyTypePrefix KEY_TYPE_OTHER = []"

record authorizedKey =
  ak_KeyType :: keyType
  ak_AuthorizedKey :: string
  ak_Description :: string
  ak_Options :: "(string \<times> string) list"

record accountCredentials =
  ac_Account :: string
  ac_Version :: string
  ac_CreatedOn :: "64 word"
  ac_AuthorizedKeys :: "authorizedKey list"

record principal =
  pr_AuthorizedUser :: string
  pr_Options :: "(string \<times> string) list"

record userPolicy =
  up_Account :: string
  up_Version :: string
  up_CreatedOn :: "64 word"
  up_AuthorizedPrincipals :: "principal list"

text \<open>A password is absent, or has a plain text (empty when it is a hash).\<close>

record passwordAccount =
  pa_Account :: string
  pa_Version :: string
  pa_CreatedOn :: "64 word"
  pa_Password :: "string option"

record caKey =
  ck_KeyType :: keyType
  ck_PublicKey :: string
  ck_Description :: string

record caRequest =
  cq_SshCaPublicKeys :: "caKey list"
  cq_Version :: string
  cq_CreatedOn :: "64 word"

record glomeRequest =
  gr_Enabled :: bool
  gr_Key :: string
  gr_KeyVersion :: "32 word"
  gr_UrlPrefix :: string

text \<open>A double quote.\<close>

abbreviation qt :: string where
  "qt \<equiv> [CHR 0x22]"

definition optionText :: "string \<times> string \<Rightarrow> string" where
  "optionText o1 = '' { '' @ qt @ ''name'' @ qt @ '' : '' @ qt @ fst o1 @ qt @ '', '' @ qt @ ''value'' @ qt @ '': '' @ qt @ snd o1 @ qt @ '' }''"

definition keyText :: "authorizedKey \<Rightarrow> string" where
  "keyText k = '' { '' @ qt @ ''key'' @ qt @ '' : '' @ qt @ sshKeyTypePrefix (ak_KeyType k) @ '' '' @ b64 (ak_AuthorizedKey k) @ '' '' @
     ak_Description k @ qt @ '', '' @ qt @ ''options'' @ qt @ '' : ['' @ join '','' (map optionText (ak_Options k)) @ '' ] }''"

definition credText :: "accountCredentials \<Rightarrow> string" where
  "credText c = ''{ '' @ qt @ ''account'' @ qt @ '': '' @ qt @ ac_Account c @ qt @ '', '' @ qt @ ''keys'' @ qt @ '': ['' @
     join '','' (map keyText (ac_AuthorizedKeys c)) @ '' ] }''"

definition sshKeysMessage :: "accountCredentials list \<Rightarrow> string" where
  "sshKeysMessage cs = ''{ '' @ qt @ ''SshAccountKeys'' @ qt @ '': [ '' @ join '','' (map credText cs) @ '' ] }''"

definition principalText :: "principal \<Rightarrow> string" where
  "principalText p = '' { '' @ qt @ ''name'' @ qt @ '' : '' @ qt @ pr_AuthorizedUser p @ qt @ '', '' @ qt @ ''options'' @ qt @ '' : ['' @
     join '','' (map optionText (pr_Options p)) @ '' ] }''"

definition policyText :: "userPolicy \<Rightarrow> string" where
  "policyText u = '' { '' @ qt @ ''account'' @ qt @ '': '' @ qt @ up_Account u @ qt @ '', '' @ qt @ ''users'' @ qt @ '': ['' @
     join '','' (map principalText (up_AuthorizedPrincipals u)) @ '' ] }''"

definition sshUsersMessage :: "userPolicy list \<Rightarrow> string" where
  "sshUsersMessage us = ''{ '' @ qt @ ''SshAccountUsers'' @ qt @ '': ['' @ join '','' (map policyText us) @ '' ] }''"

definition passwordText :: "passwordAccount \<Rightarrow> string" where
  "passwordText p = ''{ '' @ qt @ ''name'' @ qt @ '': '' @ qt @ pa_Account p @ qt @ '', '' @ qt @ ''password'' @ qt @ '' : '' @ qt @
     (case pa_Password p of Some t \<Rightarrow> t | None \<Rightarrow> []) @ qt @ '' }''"

definition consoleMessage :: "passwordAccount list \<Rightarrow> string" where
  "consoleMessage ps = ''{ '' @ qt @ ''ConsolePasswords'' @ qt @ '': [ '' @ join '','' (map passwordText ps) @ '' ] }''"

definition caKeyText :: "caKey \<Rightarrow> string" where
  "caKeyText k = '' '' @ qt @ sshKeyTypePrefix (ck_KeyType k) @ '' '' @ b64 (ck_PublicKey k) @ '' '' @ ck_Description k @ qt"

definition caMessage :: "caKey list \<Rightarrow> string" where
  "caMessage ks = ''{ '' @ qt @ ''SshCaPublicKey'' @ qt @ '': ['' @ join '','' (map caKeyText ks) @ '' ] }''"


section \<open>Requests\<close>

fun firstErr :: "('a \<Rightarrow> goerr option) \<Rightarrow> 'a list \<Rightarrow> goerr option" where
  "firstErr f [] = None"
| "firstErr f (x # xs) = (case f x of Some e \<Rightarrow> Some e | None \<Rightarrow> firstErr f xs)"

definition checkCred :: "accountCredentials \<Rightarrow> goerr option" where
  "checkCred c =
     (if ac_Version c = [] then Some (Plain ''version cannot be empty'')
      else if ac_CreatedOn c = 0 then Some (Plain ''created_on cannot be empty'')
      else if ac_Account c = [] then Some (Plain ''account cannot be empty'')
      else if ac_AuthorizedKeys c = [] then Some (Plain ''authorized_keys cannot be empty'') else None)"

definition checkPolicy :: "userPolicy \<Rightarrow> goerr option" where
  "checkPolicy u =
     (if up_Version u = [] then Some (Plain ''version cannot be empty'')
      else if up_CreatedOn u = 0 then Some (Plain ''created_on cannot be empty'')
      else if up_Account u = [] then Some (Plain ''account cannot be empty'')
      else if up_AuthorizedPrincipals u = [] then Some (Plain ''authorized_principals cannot be empty'') else None)"

definition checkPassword :: "passwordAccount \<Rightarrow> goerr option" where
  "checkPassword p =
     (if pa_Version p = [] then Some (Plain ''version cannot be empty'')
      else if pa_CreatedOn p = 0 then Some (Plain ''created_on cannot be empty'')
      else if pa_Account p = [] then Some (Plain ''name cannot be empty'')
      else (case pa_Password p of
              None \<Rightarrow> Some (Plain ''password cannot be empty'')
            | Some t \<Rightarrow> if t = [] then Some (Plain ''password must be plaintext; CryptoHash unimplemented'') else None))"

text \<open>The two versions of each account of a request, up to the first error.\<close>

fun writeVersions ::
    "(string \<Rightarrow> string \<Rightarrow> string \<Rightarrow> 'h credzServer \<Rightarrow> goerr option \<times> 'h credzServer) \<Rightarrow> string \<Rightarrow> string \<Rightarrow>
     (string \<times> string \<times> 64 word) list \<Rightarrow> 'h credzServer \<Rightarrow> goerr option \<times> 'h credzServer" where
  "writeVersions wr vFld cFld [] srv = (None, srv)"
| "writeVersions wr vFld cFld ((a, v, c) # xs) srv =
     (case wr a vFld v srv of
        (Some e, srv1) \<Rightarrow> (Some e, srv1)
      | (None, srv1) \<Rightarrow>
          (case wr a cFld (FormatNat (unat c)) srv1 of
             (Some e, srv2) \<Rightarrow> (Some e, srv2)
           | (None, srv2) \<Rightarrow> writeVersions wr vFld cFld xs srv2))"

definition processSshCred :: "'h bus \<Rightarrow> accountCredentials list \<Rightarrow> 'h credzServer \<Rightarrow> goerr option \<times> 'h credzServer" where
  "processSshCred bus cs srv =
     (if cs = [] then (Some (Plain ''credentials cannot be empty''), srv)
      else (case firstErr checkCred cs of
              Some e \<Rightarrow> (Some e, srv)
            | None \<Rightarrow>
                (case onHost (SSHMgmtSet bus (sshKeysMessage cs)) srv of
                   (Some e, srv1) \<Rightarrow> (Some e, srv1)
                 | (None, srv1) \<Rightarrow>
                     writeVersions writeSshAccountCredentialsMetadataToDB sshKeysVersionFld sshKeysCreatedOnFld
                       (map (\<lambda>c. (ac_Account c, ac_Version c, ac_CreatedOn c)) cs) srv1)))"

definition processSshUser :: "'h bus \<Rightarrow> userPolicy list \<Rightarrow> 'h credzServer \<Rightarrow> goerr option \<times> 'h credzServer" where
  "processSshUser bus us srv =
     (if us = [] then (Some (Plain ''policies cannot be empty''), srv)
      else (case firstErr checkPolicy us of
              Some e \<Rightarrow> (Some e, srv)
            | None \<Rightarrow>
                (case onHost (SSHMgmtSet bus (sshUsersMessage us)) srv of
                   (Some e, srv1) \<Rightarrow> (Some e, srv1)
                 | (None, srv1) \<Rightarrow>
                     writeVersions writeSshAccountCredentialsMetadataToDB sshPrincipalsVersionFld sshPrincipalsCreatedOnFld
                       (map (\<lambda>u. (up_Account u, up_Version u, up_CreatedOn u)) us) srv1)))"

definition processConsolePassword :: "'h bus \<Rightarrow> passwordAccount list \<Rightarrow> 'h credzServer \<Rightarrow> goerr option \<times> 'h credzServer" where
  "processConsolePassword bus ps srv =
     (if ps = [] then (Some (Plain ''list of username/password pairs cannot be empty''), srv)
      else (case firstErr checkPassword ps of
              Some e \<Rightarrow> (Some e, srv)
            | None \<Rightarrow>
                (case onHost (ConsoleSet bus (consoleMessage ps)) srv of
                   (Some e, srv1) \<Rightarrow> (Some e, srv1)
                 | (None, srv1) \<Rightarrow>
                     writeVersions writeConsoleAccountCredentialsMetadataToDB consolePasswordVersionFld consolePasswordCreatedOnFld
                       (map (\<lambda>p. (pa_Account p, pa_Version p, pa_CreatedOn p)) ps) srv1)))"

definition checkCaRequest :: "caRequest \<Rightarrow> goerr option" where
  "checkCaRequest q =
     (if cq_SshCaPublicKeys q = [] then Some (Plain ''CA keys cannot be empty'')
      else if cq_Version q = [] then Some (Plain ''version cannot be empty'')
      else if cq_CreatedOn q = 0 then Some (Plain ''created_on cannot be empty'')
      else firstErr (\<lambda>k. if ck_PublicKey k = [] then Some (Plain ''CA public key cannot be empty'') else None) (cq_SshCaPublicKeys q))"

definition processSshCaPublicKey :: "'h bus \<Rightarrow> caRequest option \<Rightarrow> 'h credzServer \<Rightarrow> goerr option \<times> 'h credzServer" where
  "processSshCaPublicKey bus qo srv =
     (case qo of
        None \<Rightarrow> (Some (Plain ''Unknown request''), srv)
      | Some q \<Rightarrow>
          (case checkCaRequest q of
             Some e \<Rightarrow> (Some e, srv)
           | None \<Rightarrow>
               (case onHost (SSHMgmtSet bus (caMessage (cq_SshCaPublicKeys q))) srv of
                  (Some e, srv1) \<Rightarrow> (Some e, srv1)
                | (None, srv1) \<Rightarrow>
                    (case writeSshHostCredentialsMetadataToDB sshCaKeysVersionFld (cq_Version q) srv1 of
                       (Some e, srv2) \<Rightarrow> (Some e, srv2)
                     | (None, srv2) \<Rightarrow>
                         writeSshHostCredentialsMetadataToDB sshCaKeysCreatedOnFld (FormatNat (unat (cq_CreatedOn q))) srv2))))"

record credz_env =
  cn_urlParse :: "string \<Rightarrow> goerr option"
  cn_protojson :: "glomeRequest \<Rightarrow> goerr + string"

definition isValidURLPrefix :: "credz_env \<Rightarrow> string \<Rightarrow> goerr option" where
  "isValidURLPrefix en prefix =
     (if prefix = [] then Some (Plain ''GLOME URL prefix is empty'') else cn_urlParse en prefix)"

definition validateGlomeRequest :: "credz_env \<Rightarrow> glomeRequest \<Rightarrow> goerr option" where
  "validateGlomeRequest en r =
     (if gr_Enabled r then
        (if gr_Key r = [] then Some (Plain ''GLOME key is empty'')
         else if sint (gr_KeyVersion r) \<le> 0 then Some (Plain ''GLOME key version is not valid'')
         else (case isValidURLPrefix en (gr_UrlPrefix r) of
                 Some e \<Rightarrow> Some (Plain (''GLOME URL prefix is not valid: '' @ errText e))
               | None \<Rightarrow> None))
      else if gr_Key r \<noteq> [] \<or> gr_KeyVersion r \<noteq> 0 \<or> gr_UrlPrefix r \<noteq> []
      then Some (Plain ''GLOME key, key_version, and url_prefix cannot be set if GLOME is disabled'')
      else None)"

definition processGlomeConfig ::
    "'h bus \<Rightarrow> credz_env \<Rightarrow> int option \<Rightarrow> glomeRequest option \<Rightarrow> 64 word \<Rightarrow> 'h credzServer \<Rightarrow> goerr option \<times> 'h credzServer" where
  "processGlomeConfig bus en remaining ro lastUpdated srv =
     (case ro of
        None \<Rightarrow> (Some (Plain ''no glome request found''), srv)
      | Some r \<Rightarrow>
          (case validateGlomeRequest en r of
             Some e \<Rightarrow> (Some e, srv)
           | None \<Rightarrow>
               (case cn_protojson en r of
                  Inl e \<Rightarrow> (Some (Plain (''failed to marshal Glome request: '' @ errText e)), srv)
                | Inr msg \<Rightarrow>
                    (case onHost (GLOMEConfigSet bus remaining msg) srv of
                       (Some e, srv1) \<Rightarrow> (Some e, srv1)
                     | (None, srv1) \<Rightarrow>
                         updateGlomeState \<lparr>gc_Enabled = gr_Enabled r, gc_KeyVersion = gr_KeyVersion r,
                           gc_LastUpdated = lastUpdated\<rparr> srv1))))"

section \<open>Checkpoints\<close>

definition checkpointCreate :: "'h bus \<Rightarrow> cpType \<Rightarrow> 'h credzServer \<Rightarrow> goerr option \<times> 'h credzServer" where
  "checkpointCreate bus source srv =
     (case source of
        sshCP \<Rightarrow>
          (case onHost (SSHCheckpoint bus CredzCPCreate) srv of
             (Some e, srv1) \<Rightarrow> (Some (Status Internal (''Cannot start the ssh transaction:'' @ errText e)), srv1)
           | (None, srv1) \<Rightarrow> (None, checkpointSshCredentialFreshness srv1))
      | consoleCP \<Rightarrow>
          (case onHost (ConsoleCheckpoint bus CredzCPCreate) srv of
             (Some e, srv1) \<Rightarrow> (Some (Status Internal (''Cannot start the console transaction:'' @ errText e)), srv1)
           | (None, srv1) \<Rightarrow> (None, checkpointConsoleFreshness srv1)))"

definition checkpointRestore :: "'h bus \<Rightarrow> cpType \<Rightarrow> 'h credzServer \<Rightarrow> 'h credzServer" where
  "checkpointRestore bus source srv =
     (case source of
        sshCP \<Rightarrow> revertSshCredentialFreshness (snd (onHost (SSHCheckpoint bus CredzCPRestore) srv))
      | consoleCP \<Rightarrow> revertConsoleCredentialFreshness (snd (onHost (ConsoleCheckpoint bus CredzCPRestore) srv)))"

definition checkpointDelete :: "'h bus \<Rightarrow> cpType \<Rightarrow> 'h credzServer \<Rightarrow> 'h credzServer" where
  "checkpointDelete bus source srv =
     (case source of
        sshCP \<Rightarrow> snd (onHost (SSHCheckpoint bus CredzCPDelete) srv)
      | consoleCP \<Rightarrow> snd (onHost (ConsoleCheckpoint bus CredzCPDelete) srv))"

definition glomeCheckpointRestore :: "'h bus \<Rightarrow> int option \<Rightarrow> 'h credzServer \<Rightarrow> 'h credzServer" where
  "glomeCheckpointRestore bus remaining srv =
     (let srv1 = snd (onHost (GLOMERestoreCheckpoint bus remaining) srv)
      in snd (writeGlomeConfigMetadataToStateDB (cr_glomeConfigMetadata srv1) srv1))"

section \<open>RotateAccountCredentials\<close>

text \<open>The error of a handler becomes an Aborted status; a panic stays one.\<close>

fun abortWith :: "goerr \<Rightarrow> goerr" where
  "abortWith (Panic p) = Panic p"
| "abortWith e = Status Aborted (errText e)"

text \<open>\<open>AFinalizeNil\<close> is a Finalize without a message, \<open>AOther\<close> a request that is not set.\<close>

datatype acctRequest = AFinalize | AFinalizeNil | APassword "passwordAccount list" | ACredential "accountCredentials list"
  | AUser "userPolicy list" | AOther

text \<open>The local variables of the loop: \<^verbatim>\<open>sshBackup\<close>, \<^verbatim>\<open>consoleBackup\<close>, and the deferred calls, the last one first.\<close>

record acctVars =
  av_sshBackup :: bool
  av_consoleBackup :: bool
  av_defers :: "cpType list"

text \<open>A panic skips everything but the deferred calls.\<close>

definition restoreBackups :: "'h bus \<Rightarrow> acctVars \<Rightarrow> 'h credzServer \<Rightarrow> 'h credzServer" where
  "restoreBackups bus v srv =
     (let srv1 = (if av_sshBackup v \<and> \<not> cr_crashed srv then checkpointRestore bus sshCP srv else srv)
      in if av_consoleBackup v \<and> \<not> cr_crashed srv1 then checkpointRestore bus consoleCP srv1 else srv1)"

definition deleteBackups :: "'h bus \<Rightarrow> acctVars \<Rightarrow> 'h credzServer \<Rightarrow> 'h credzServer" where
  "deleteBackups bus v srv =
     (let srv1 = (if av_sshBackup v then checkpointDelete bus sshCP srv else srv)
      in if av_consoleBackup v then checkpointDelete bus consoleCP srv1 else srv1)"

text \<open>The first request of a kind makes a checkpoint. When that fails the call returns at once.\<close>

definition ensureSsh :: "'h bus \<Rightarrow> acctVars \<Rightarrow> 'h credzServer \<Rightarrow> goerr option \<times> acctVars \<times> 'h credzServer" where
  "ensureSsh bus v srv =
     (if av_sshBackup v then (None, v, srv)
      else (case checkpointCreate bus sshCP srv of
              (Some e, srv1) \<Rightarrow> (Some e, v\<lparr>av_sshBackup := True\<rparr>, srv1)
            | (None, srv1) \<Rightarrow> (None, v\<lparr>av_sshBackup := True, av_defers := sshCP # av_defers v\<rparr>, srv1)))"

definition ensureConsole :: "'h bus \<Rightarrow> acctVars \<Rightarrow> 'h credzServer \<Rightarrow> goerr option \<times> acctVars \<times> 'h credzServer" where
  "ensureConsole bus v srv =
     (if av_consoleBackup v then (None, v, srv)
      else (case checkpointCreate bus consoleCP srv of
              (Some e, srv1) \<Rightarrow> (Some e, v\<lparr>av_consoleBackup := True\<rparr>, srv1)
            | (None, srv1) \<Rightarrow> (None, v\<lparr>av_consoleBackup := True, av_defers := consoleCP # av_defers v\<rparr>, srv1)))"

text \<open>One request: an error to return at once (\<open>Inl\<close>), or the outcome of its processing.\<close>

definition acctStep ::
    "'h bus \<Rightarrow> acctVars \<Rightarrow> acctRequest \<Rightarrow> 'h credzServer \<Rightarrow> (goerr + goerr option) \<times> acctVars \<times> 'h credzServer" where
  "acctStep bus v req srv =
     (case req of
        APassword ps \<Rightarrow>
          (case ensureConsole bus v srv of
             (Some e, v1, srv1) \<Rightarrow> (Inl e, v1, srv1)
           | (None, v1, srv1) \<Rightarrow> (case processConsolePassword bus ps srv1 of (r, srv2) \<Rightarrow> (Inr r, v1, srv2)))
      | ACredential cs \<Rightarrow>
          (case ensureSsh bus v srv of
             (Some e, v1, srv1) \<Rightarrow> (Inl e, v1, srv1)
           | (None, v1, srv1) \<Rightarrow> (case processSshCred bus cs srv1 of (r, srv2) \<Rightarrow> (Inr r, v1, srv2)))
      | AUser us \<Rightarrow>
          (case ensureSsh bus v srv of
             (Some e, v1, srv1) \<Rightarrow> (Inl e, v1, srv1)
           | (None, v1, srv1) \<Rightarrow> (case processSshUser bus us srv1 of (r, srv2) \<Rightarrow> (Inr r, v1, srv2)))
      | AFinalizeNil \<Rightarrow> (Inl (Status Aborted ''<nil>''), v, srv)
      | _ \<Rightarrow> (Inl (Status Aborted ''Unknown Request: <nil>''), v, srv))"

fun accountLoop :: "'h bus \<Rightarrow> acctVars \<Rightarrow> 'h credzServer \<Rightarrow> acctRequest event list \<Rightarrow> goerr option \<times> acctVars \<times> 'h credzServer" where
  "accountLoop bus v srv [] = (Some (Status Aborted ''EOF''), v, restoreBackups bus v srv)"
| "accountLoop bus v srv (RecvErr e # es) = (Some (Status Aborted (errText e)), v, restoreBackups bus v srv)"
| "accountLoop bus v srv (Recv req sent # es) =
     (if req = AFinalize then (None, v, deleteBackups bus v srv)
      else (case acctStep bus v req srv of
              (Inl e, v1, srv1) \<Rightarrow> (Some e, v1, srv1)
            | (Inr (Some e), v1, srv1) \<Rightarrow> (Some (abortWith e), v1, restoreBackups bus v1 srv1)
            | (Inr None, v1, srv1) \<Rightarrow>
                (case sent of
                   Some e \<Rightarrow> (Some (Status Aborted (errText e)), v1, restoreBackups bus v1 srv1)
                 | None \<Rightarrow> accountLoop bus v1 srv1 es)))"

fun runDefer :: "cpType \<Rightarrow> 'h credzServer \<Rightarrow> 'h credzServer" where
  "runDefer sshCP srv = saveCredentialsFreshness srv"
| "runDefer consoleCP srv = saveConsoleCredentialsFreshness srv"

definition RotateAccountCredentials ::
    "'h bus \<Rightarrow> goerr option \<Rightarrow> 'h credzServer \<Rightarrow> acctRequest event list \<Rightarrow> goerr option \<times> 'h credzServer" where
  "RotateAccountCredentials bus authErr srv es =
     (case authErr of
        Some e \<Rightarrow> (Some e, srv)
      | None \<Rightarrow>
          if cr_credzMu srv then (Some (Status Aborted ''Concurrent Rotate{Account|Host} RPCs are not allowed.''), srv)
          else (case accountLoop bus \<lparr>av_sshBackup = False, av_consoleBackup = False, av_defers = []\<rparr> (srv\<lparr>cr_credzMu := True\<rparr>) es of
                  (e, v, srv1) \<Rightarrow> (e, (fold runDefer (av_defers v) srv1)\<lparr>cr_credzMu := False\<rparr>)))"

section \<open>RotateHostParameters\<close>

datatype hostRequest = HSshCaPublicKey "caRequest option" | HGlome "glomeRequest option" | HServerKeys | HGenerateKeys
  | HAuthenticationAllowed | HAuthorizedPrincipalCheck | HFinalize | HOther

text \<open>The end that both handlers share: the answer is sent, then a Finalize must come; otherwise \<open>undo\<close> runs.\<close>

fun expectFinalize ::
    "('h credzServer \<Rightarrow> 'h credzServer) \<Rightarrow> goerr option \<Rightarrow> hostRequest event list \<Rightarrow> 'h credzServer \<Rightarrow>
     goerr option \<times> 'h credzServer" where
  "expectFinalize undo (Some e) es srv = (Some (Status Aborted (errText e)), undo srv)"
| "expectFinalize undo None [] srv = (Some (Status Aborted ''EOF''), undo srv)"
| "expectFinalize undo None (RecvErr e # es) srv = (Some (Status Aborted (errText e)), undo srv)"
| "expectFinalize undo None (Recv req sent # es) srv =
     (if req = HFinalize then (None, srv)
      else (Some (Status Aborted ''Expected Finalize message, but received another''), undo srv))"

text \<open>The undo of a handler, which a panic skips.\<close>

definition unlessCrashed :: "('h credzServer \<Rightarrow> 'h credzServer) \<Rightarrow> 'h credzServer \<Rightarrow> 'h credzServer" where
  "unlessCrashed f srv = (if cr_crashed srv then srv else f srv)"

definition handleSshCaPublicKey ::
    "'h bus \<Rightarrow> caRequest option \<Rightarrow> goerr option \<Rightarrow> hostRequest event list \<Rightarrow> 'h credzServer \<Rightarrow> goerr option \<times> 'h credzServer" where
  "handleSshCaPublicKey bus q sent es srv =
     (case checkpointCreate bus sshCP srv of
        (Some e, srv1) \<Rightarrow> (Some e, srv1)
      | (None, srv1) \<Rightarrow>
          (let (r, srv2) =
             (case processSshCaPublicKey bus q srv1 of
                (Some e, srv2) \<Rightarrow> (Some (abortWith e), unlessCrashed (checkpointRestore bus sshCP) srv2)
              | (None, srv2) \<Rightarrow>
                  (case expectFinalize (checkpointRestore bus sshCP) sent es srv2 of
                     (Some e, srv3) \<Rightarrow> (Some e, srv3)
                   | (None, srv3) \<Rightarrow> (None, checkpointDelete bus sshCP srv3)))
           in (r, saveCredentialsFreshness srv2)))"

definition handleGlome ::
    "'h bus \<Rightarrow> credz_env \<Rightarrow> int option \<Rightarrow> 64 word \<Rightarrow> glomeRequest option \<Rightarrow> goerr option \<Rightarrow> hostRequest event list \<Rightarrow>
     'h credzServer \<Rightarrow> goerr option \<times> 'h credzServer" where
  "handleGlome bus en remaining now q sent es srv =
     (case processGlomeConfig bus en remaining q now srv of
        (Some e, srv1) \<Rightarrow> (Some (abortWith e), unlessCrashed (glomeCheckpointRestore bus remaining) srv1)
      | (None, srv1) \<Rightarrow> expectFinalize (glomeCheckpointRestore bus remaining) sent es srv1)"

text \<open>The first message decides, and its handler is the last thing the loop does.\<close>

fun hostLoop ::
    "'h bus \<Rightarrow> credz_env \<Rightarrow> int option \<Rightarrow> 64 word \<Rightarrow> hostRequest event list \<Rightarrow> 'h credzServer \<Rightarrow> goerr option \<times> 'h credzServer" where
  "hostLoop bus en remaining now [] srv = (Some (Status Aborted ''EOF''), srv)"
| "hostLoop bus en remaining now (RecvErr e # es) srv = (Some (Status Aborted (errText e)), srv)"
| "hostLoop bus en remaining now (Recv req sent # es) srv =
     (case req of
        HSshCaPublicKey q \<Rightarrow> handleSshCaPublicKey bus q sent es srv
      | HGlome q \<Rightarrow> handleGlome bus en remaining now q sent es srv
      | HServerKeys \<Rightarrow> (Some (Status Unimplemented ''ServerKeys Unimplemented''), srv)
      | HGenerateKeys \<Rightarrow> (Some (Status Unimplemented ''GenerateKeys Unimplemented''), srv)
      | HAuthenticationAllowed \<Rightarrow> (Some (Status Unimplemented ''AuthenticationAllowed Unimplemented''), srv)
      | HAuthorizedPrincipalCheck \<Rightarrow> (Some (Status Unimplemented ''AuthorizedPrincipalCheck Unimplemented''), srv)
      | HFinalize \<Rightarrow> (Some (Status Aborted ''Finalize cannot be the first message in a transaction.''), srv)
      | HOther \<Rightarrow> (Some (Status Aborted ''Unknown Request: <nil>''), srv))"

definition RotateHostParameters ::
    "'h bus \<Rightarrow> credz_env \<Rightarrow> int option \<Rightarrow> 64 word \<Rightarrow> goerr option \<Rightarrow> 'h credzServer \<Rightarrow> hostRequest event list \<Rightarrow>
     goerr option \<times> 'h credzServer" where
  "RotateHostParameters bus en remaining now authErr srv es =
     (case authErr of
        Some e \<Rightarrow> (Some e, srv)
      | None \<Rightarrow>
          if cr_credzMu srv then (Some (Status Aborted ''Concurrent Mutate{Account|Host}Credentials RPCs are not allowed.''), srv)
          else (case hostLoop bus en remaining now es (srv\<lparr>cr_credzMu := True\<rparr>) of
                  (e, srv1) \<Rightarrow> (e, srv1\<lparr>cr_credzMu := False\<rparr>)))"

section \<open>Start\<close>

definition NewGNSICredentialzServer :: "string \<Rightarrow> string \<Rightarrow> world \<Rightarrow> 'h hostState \<Rightarrow> 'h credzServer" where
  "NewGNSICredentialzServer sshFile consoleFile w h =
     (case GetRedisDBClient w of
        (err, w1) \<Rightarrow>
          let srv0 = \<lparr>cr_sshAccounts = Some [], cr_sshHost = \<lparr>sh_CaKeysVersion = ''unknown'', sh_CaKeysCreatedOn = ''0''\<rparr>,
                cr_sshHostCopy = \<lparr>sh_CaKeysVersion = [], sh_CaKeysCreatedOn = []\<rparr>, cr_consoleAccounts = Some [],
                cr_glomeConfigMetadata = None, cr_stateDbClient = (err = None), cr_SshCredMetaFile = sshFile,
                cr_ConsoleCredMetaFile = consoleFile, cr_credzMu = False, cr_crashed = False, cr_world = w1, cr_host = h\<rparr>;
              srv1 = loadConsoleCredentialFreshness (loadCredentialFreshness srv0);
              srv2 = checkpointSshCredentialFreshness srv1;
              srv3 = writeSshHost (cr_sshHost srv2) srv2;
              srv4 = fold writeSshAccount (entriesOf (cr_sshAccounts srv3)) srv3;
              srv5 = fold writeConsoleAccount (entriesOf (cr_consoleAccounts srv4)) srv4
          in (if cr_crashed srv5 then srv5 else InitGlomeConfigMetadata srv5))"

definition CanGenerateKey :: goerr where
  "CanGenerateKey = Status Unimplemented ''method CanGenerateKey not implemented''"

definition GetPublicKeys :: goerr where
  "GetPublicKeys = Status Unimplemented ''method GetPublicKeys not implemented''"


section \<open>What the version writes keep\<close>

named_theorems credz

lemma writeSsh_keeps [simp, credz]:
  "cr_host (snd (writeSshAccountCredentialsMetadataToDB a f x srv)) = cr_host srv"
  "cr_host (snd (writeSshHostCredentialsMetadataToDB f x srv)) = cr_host srv"
  "cr_host (snd (writeConsoleAccountCredentialsMetadataToDB a f x srv)) = cr_host srv"
  "cr_sshAccounts (snd (writeSshHostCredentialsMetadataToDB f x srv)) = cr_sshAccounts srv"
  "cr_sshAccounts (snd (writeConsoleAccountCredentialsMetadataToDB a f x srv)) = cr_sshAccounts srv"
  by (simp_all add: writeSshAccountCredentialsMetadataToDB_def writeSshHostCredentialsMetadataToDB_def
      writeConsoleAccountCredentialsMetadataToDB_def crash_def split: prod.splits option.splits)

lemma quietly_keeps: "(\<And>s. g (snd (f s)) = g s) \<Longrightarrow> g (quietly f srv) = g srv"
  by (simp add: quietly_def)

lemma quietly_crashed [simp, credz]: "cr_crashed srv \<Longrightarrow> quietly f srv = srv"
  by (simp add: quietly_def)

lemma revert_keeps [simp, credz]:
  "cr_host (writeSshAccount au srv) = cr_host srv" "cr_host (writeSshHost v srv) = cr_host srv"
  "cr_host (writeConsoleAccount cu srv) = cr_host srv" "cr_sshAccounts (writeSshHost v srv) = cr_sshAccounts srv"
  "cr_sshAccounts (writeConsoleAccount cu srv) = cr_sshAccounts srv"
  by (simp_all add: writeSshAccount_def writeSshHost_def writeConsoleAccount_def quietly_keeps split: prod.splits)

lemma fold_keeps: "(\<And>x s. g (f x s) = g s) \<Longrightarrow> g (fold f xs s) = g s"
  by (induction xs arbitrary: s) simp_all

lemma revertFreshness_host [simp, credz]:
  "cr_host (revertSshCredentialFreshness srv) = cr_host srv"
  "cr_host (revertConsoleCredentialFreshness srv) = cr_host srv"
  "cr_sshAccounts (revertConsoleCredentialFreshness srv) = cr_sshAccounts srv"
  by (simp_all add: revertSshCredentialFreshness_def revertConsoleCredentialFreshness_def Let_def
      fold_keeps [where g = cr_host] fold_keeps [where g = cr_sshAccounts])

lemma onHost_sel [simp, credz]:
  "cr_host (snd (onHost f srv)) = snd (f (cr_host srv))" "fst (onHost f srv) = fst (f (cr_host srv))"
  "cr_sshAccounts (snd (onHost f srv)) = cr_sshAccounts srv" "cr_crashed (snd (onHost f srv)) = cr_crashed srv"
  "cr_world (snd (onHost f srv)) = cr_world srv"
  by (simp_all add: onHost_def split: prod.splits)

lemma runDefer_write: "\<exists>f c. runDefer d srv = srv\<lparr>cr_world := snd (osWriteFile (Name f) c (cr_world srv))\<rparr>"
proof (cases d)
  case consoleCP
  then show ?thesis unfolding consoleCP runDefer.simps saveConsoleCredentialsFreshness_def Let_def by blast
next
  case sshCP
  then show ?thesis unfolding sshCP runDefer.simps saveCredentialsFreshness_def Let_def by blast
qed

lemma save_keeps [simp, credz]:
  "cr_host (runDefer d srv) = cr_host srv" "cr_crashed (runDefer d srv) = cr_crashed srv"
  "cr_sshAccounts (runDefer d srv) = cr_sshAccounts srv" "w_db (cr_world (runDefer d srv)) = w_db (cr_world srv)"
proof -
  obtain f c where d: "runDefer d srv = srv\<lparr>cr_world := snd (osWriteFile (Name f) c (cr_world srv))\<rparr>"
    using runDefer_write by blast
  have "w_db (snd (osWriteFile (Name f) c w)) = w_db w" for w
    by (simp add: osWriteFile_def split: option.splits nat.splits)
  with d show "cr_host (runDefer d srv) = cr_host srv" "cr_crashed (runDefer d srv) = cr_crashed srv"
      "cr_sshAccounts (runDefer d srv) = cr_sshAccounts srv" "w_db (cr_world (runDefer d srv)) = w_db (cr_world srv)"
    by simp_all
qed

declare runDefer.simps [simp del]

lemma defers_keep [simp, credz]:
  "cr_host (fold runDefer ds srv) = cr_host srv" "cr_crashed (fold runDefer ds srv) = cr_crashed srv"
  "cr_sshAccounts (fold runDefer ds srv) = cr_sshAccounts srv" "w_db (cr_world (fold runDefer ds srv)) = w_db (cr_world srv)"
  by (simp_all add: fold_keeps [where g = cr_host] fold_keeps [where g = cr_crashed] fold_keeps [where g = cr_sshAccounts]
      fold_keeps [where g = "\<lambda>s. w_db (cr_world s)"])

lemma writeVersions_host:
  assumes "\<And>a f x s. cr_host (snd (wr a f x s)) = cr_host s"
  shows "cr_host (snd (writeVersions wr vf cf xs srv)) = cr_host srv"
proof (induction xs arbitrary: srv)
  case (Cons x xs)
  have wr: "cr_host s' = cr_host s" if "wr a f y s = (r, s')" for a f y s r s'
    using assms [of a f y s] that by simp
  show ?case
    by (cases x) (simp add: Cons.IH wr split: prod.splits option.splits)
qed simp

text \<open>A request reaches the host through one call at most.\<close>

lemma process_host:
  "cr_host (snd (processSshCred bus cs srv)) \<in> insert (cr_host srv) (range (\<lambda>m. snd (SSHMgmtSet bus m (cr_host srv))))"
  "cr_host (snd (processSshUser bus us srv)) \<in> insert (cr_host srv) (range (\<lambda>m. snd (SSHMgmtSet bus m (cr_host srv))))"
  "cr_host (snd (processConsolePassword bus ps srv)) \<in> insert (cr_host srv) (range (\<lambda>m. snd (ConsoleSet bus m (cr_host srv))))"
  by (auto simp: processSshCred_def processSshUser_def processConsolePassword_def onHost_def writeVersions_host
      split: option.splits prod.splits) (metis rangeI snd_conv)+


section \<open>Abandoned rotations\<close>

text \<open>What the host services promise about their checkpoints: creating one succeeds and saves the live credentials,
  restoring brings the saved ones back, setting credentials keeps the saved ones, and nothing touches what
  \<open>other\<close> sees.\<close>

definition checkpointContract ::
    "('h hostState \<Rightarrow> goerr option \<times> 'h hostState) \<Rightarrow> ('h hostState \<Rightarrow> goerr option \<times> 'h hostState) \<Rightarrow>
     (string \<Rightarrow> 'h hostState \<Rightarrow> goerr option \<times> 'h hostState) \<Rightarrow> ('h \<Rightarrow> 'c) \<Rightarrow> ('h \<Rightarrow> 'c option) \<Rightarrow> ('h \<Rightarrow> 'd) \<Rightarrow> bool" where
  "checkpointContract create restore put live saved other \<longleftrightarrow>
     (\<forall>s. fst (create s) = None \<and> live (hs_host (snd (create s))) = live (hs_host s) \<and>
          saved (hs_host (snd (create s))) = Some (live (hs_host s)) \<and> other (hs_host (snd (create s))) = other (hs_host s)) \<and>
     (\<forall>s c. saved (hs_host s) = Some c \<longrightarrow> live (hs_host (snd (restore s))) = c) \<and>
     (\<forall>s. other (hs_host (snd (restore s))) = other (hs_host s)) \<and>
     (\<forall>m s. saved (hs_host (snd (put m s))) = saved (hs_host s) \<and> other (hs_host (snd (put m s))) = other (hs_host s))"

definition sshContract :: "'h bus \<Rightarrow> ('h \<Rightarrow> 'c) \<Rightarrow> ('h \<Rightarrow> 'c option) \<Rightarrow> ('h \<Rightarrow> 'd) \<Rightarrow> bool" where
  "sshContract bus = checkpointContract (SSHCheckpoint bus CredzCPCreate) (SSHCheckpoint bus CredzCPRestore) (SSHMgmtSet bus)"

definition consoleContract :: "'h bus \<Rightarrow> ('h \<Rightarrow> 'c) \<Rightarrow> ('h \<Rightarrow> 'c option) \<Rightarrow> ('h \<Rightarrow> 'd) \<Rightarrow> bool" where
  "consoleContract bus = checkpointContract (ConsoleCheckpoint bus CredzCPCreate) (ConsoleCheckpoint bus CredzCPRestore) (ConsoleSet bus)"

definition recoverable :: "bool \<Rightarrow> 'c \<Rightarrow> 'c option \<Rightarrow> 'c \<Rightarrow> bool" where
  "recoverable b live saved c \<longleftrightarrow> (if b then saved = Some c else live = c)"

definition hostRecoverable ::
    "('h \<Rightarrow> 'c) \<Rightarrow> ('h \<Rightarrow> 'c option) \<Rightarrow> ('h \<Rightarrow> 'd) \<Rightarrow> ('h \<Rightarrow> 'd option) \<Rightarrow> 'c \<Rightarrow> 'd \<Rightarrow> acctVars \<Rightarrow> 'h credzServer \<Rightarrow> bool" where
  "hostRecoverable sl ss cl cs c d v srv \<longleftrightarrow>
     recoverable (av_sshBackup v) (sl (hs_host (cr_host srv))) (ss (hs_host (cr_host srv))) c \<and>
     recoverable (av_consoleBackup v) (cl (hs_host (cr_host srv))) (cs (hs_host (cr_host srv))) d"

lemma ensureSsh_recoverable:
  assumes "sshContract bus sl ss (\<lambda>h. (cl h, cs h))" "hostRecoverable sl ss cl cs c d v srv"
  obtains v' srv' where "ensureSsh bus v srv = (None, v', srv')" "hostRecoverable sl ss cl cs c d v' srv'" "av_sshBackup v'"
proof (cases "av_sshBackup v")
  case True
  then show thesis using assms(2) by (intro that [of v srv]) (simp_all add: ensureSsh_def)
next
  case False
  obtain h where h: "SSHCheckpoint bus CredzCPCreate (cr_host srv) = (None, h)"
    using assms(1) unfolding sshContract_def checkpointContract_def by (metis prod.collapse)
  have "hostRecoverable sl ss cl cs c d (v\<lparr>av_sshBackup := True, av_defers := sshCP # av_defers v\<rparr>)
      (checkpointSshCredentialFreshness (srv\<lparr>cr_host := h\<rparr>))"
    using assms False spec [of _ "cr_host srv"] h
    by (simp add: hostRecoverable_def recoverable_def sshContract_def checkpointContract_def checkpointSshCredentialFreshness_def) (metis prod.inject snd_conv)
  then show thesis
    using False h
    by (intro that [of "v\<lparr>av_sshBackup := True, av_defers := sshCP # av_defers v\<rparr>" "checkpointSshCredentialFreshness (srv\<lparr>cr_host := h\<rparr>)"])
      (simp_all add: ensureSsh_def checkpointCreate_def onHost_def)
qed

lemma ensureConsole_recoverable:
  assumes "consoleContract bus cl cs (\<lambda>h. (sl h, ss h))" "hostRecoverable sl ss cl cs c d v srv"
  obtains v' srv' where "ensureConsole bus v srv = (None, v', srv')" "hostRecoverable sl ss cl cs c d v' srv'" "av_consoleBackup v'"
proof (cases "av_consoleBackup v")
  case True
  then show thesis using assms(2) by (intro that [of v srv]) (simp_all add: ensureConsole_def)
next
  case False
  obtain h where h: "ConsoleCheckpoint bus CredzCPCreate (cr_host srv) = (None, h)"
    using assms(1) unfolding consoleContract_def checkpointContract_def by (metis prod.collapse)
  have "hostRecoverable sl ss cl cs c d (v\<lparr>av_consoleBackup := True, av_defers := consoleCP # av_defers v\<rparr>)
      (checkpointConsoleFreshness (srv\<lparr>cr_host := h\<rparr>))"
    using assms False spec [of _ "cr_host srv"] h
    by (simp add: hostRecoverable_def recoverable_def consoleContract_def checkpointContract_def checkpointConsoleFreshness_def) (metis prod.inject snd_conv)
  then show thesis
    using False h
    by (intro that [of "v\<lparr>av_consoleBackup := True, av_defers := consoleCP # av_defers v\<rparr>" "checkpointConsoleFreshness (srv\<lparr>cr_host := h\<rparr>)"])
      (simp_all add: ensureConsole_def checkpointCreate_def onHost_def)
qed

lemma set_recoverable:
  assumes "hostRecoverable sl ss cl cs c d v srv"
  shows "sshContract bus sl ss (\<lambda>h. (cl h, cs h)) \<Longrightarrow> av_sshBackup v \<Longrightarrow>
      cr_host srv' \<in> insert (cr_host srv) (range (\<lambda>m. snd (SSHMgmtSet bus m (cr_host srv)))) \<Longrightarrow>
      hostRecoverable sl ss cl cs c d v srv'"
    and "consoleContract bus cl cs (\<lambda>h. (sl h, ss h)) \<Longrightarrow> av_consoleBackup v \<Longrightarrow>
      cr_host srv' \<in> insert (cr_host srv) (range (\<lambda>m. snd (ConsoleSet bus m (cr_host srv)))) \<Longrightarrow>
      hostRecoverable sl ss cl cs c d v srv'"
  using assms
  by (auto simp: hostRecoverable_def recoverable_def sshContract_def consoleContract_def checkpointContract_def)

text \<open>A request of a known kind passes its checkpoint and keeps the host recoverable.\<close>

lemma acctStep_recoverable:
  assumes ssh: "sshContract bus sl ss (\<lambda>h. (cl h, cs h))" and con: "consoleContract bus cl cs (\<lambda>h. (sl h, ss h))"
    and inv: "hostRecoverable sl ss cl cs c d v srv" and req: "req \<notin> {AFinalize, AFinalizeNil, AOther}"
  obtains r v' srv' where "acctStep bus v req srv = (Inr r, v', srv')" "hostRecoverable sl ss cl cs c d v' srv'"
proof (cases req)
  case (APassword ps)
  obtain v' s where e: "ensureConsole bus v srv = (None, v', s)" "hostRecoverable sl ss cl cs c d v' s" "av_consoleBackup v'"
    using ensureConsole_recoverable [OF con inv] .
  obtain r s2 where p: "processConsolePassword bus ps s = (r, s2)" by fastforce
  show thesis
    by (rule that [of r v' s2]) (use set_recoverable(2) [OF e(2) con e(3) process_host(3) [of bus ps s]] in \<open>simp_all add: acctStep_def APassword e(1) p\<close>)
next
  case (ACredential ks)
  obtain v' s where e: "ensureSsh bus v srv = (None, v', s)" "hostRecoverable sl ss cl cs c d v' s" "av_sshBackup v'"
    using ensureSsh_recoverable [OF ssh inv] .
  obtain r s2 where p: "processSshCred bus ks s = (r, s2)" by fastforce
  show thesis
    by (rule that [of r v' s2]) (use set_recoverable(1) [OF e(2) ssh e(3) process_host(1) [of bus ks s]] in \<open>simp_all add: acctStep_def ACredential e(1) p\<close>)
next
  case (AUser us)
  obtain v' s where e: "ensureSsh bus v srv = (None, v', s)" "hostRecoverable sl ss cl cs c d v' s" "av_sshBackup v'"
    using ensureSsh_recoverable [OF ssh inv] .
  obtain r s2 where p: "processSshUser bus us s = (r, s2)" by fastforce
  show thesis
    by (rule that [of r v' s2]) (use set_recoverable(1) [OF e(2) ssh e(3) process_host(2) [of bus us s]] in \<open>simp_all add: acctStep_def AUser e(1) p\<close>)
qed (use req in auto)

lemma checkpointRestore_ssh:
  assumes "sshContract bus sl ss other"
  shows "ss (hs_host (cr_host srv)) = Some c \<Longrightarrow> sl (hs_host (cr_host (checkpointRestore bus sshCP srv))) = c"
    and "other (hs_host (cr_host (checkpointRestore bus sshCP srv))) = other (hs_host (cr_host srv))"
  using assms by (simp_all add: checkpointRestore_def sshContract_def checkpointContract_def)

lemma checkpointRestore_console:
  assumes "consoleContract bus cl cs other"
  shows "cs (hs_host (cr_host srv)) = Some c \<Longrightarrow> cl (hs_host (cr_host (checkpointRestore bus consoleCP srv))) = c"
    and "other (hs_host (cr_host (checkpointRestore bus consoleCP srv))) = other (hs_host (cr_host srv))"
  using assms by (simp_all add: checkpointRestore_def consoleContract_def checkpointContract_def)

lemma restoreBackups_restores:
  assumes ssh: "sshContract bus sl ss (\<lambda>h. (cl h, cs h))" and con: "consoleContract bus cl cs (\<lambda>h. (sl h, ss h))"
    and inv: "hostRecoverable sl ss cl cs c d v srv" and alive: "\<not> cr_crashed (restoreBackups bus v srv)"
  shows "sl (hs_host (cr_host (restoreBackups bus v srv))) = c \<and> cl (hs_host (cr_host (restoreBackups bus v srv))) = d"
proof -
  define s1 where "s1 = (if av_sshBackup v \<and> \<not> cr_crashed srv then checkpointRestore bus sshCP srv else srv)"
  have r: "restoreBackups bus v srv = (if av_consoleBackup v \<and> \<not> cr_crashed s1 then checkpointRestore bus consoleCP s1 else s1)"
    by (simp add: restoreBackups_def s1_def Let_def)
  have a1: "\<not> cr_crashed s1"
    using alive r by (auto split: if_splits)
  then have "\<not> cr_crashed srv"
    by (auto simp: s1_def split: if_splits)
  then have 1: "sl (hs_host (cr_host s1)) = c" "cl (hs_host (cr_host s1)) = cl (hs_host (cr_host srv))"
      "cs (hs_host (cr_host s1)) = cs (hs_host (cr_host srv))"
    using inv checkpointRestore_ssh [OF ssh, of srv] by (simp_all add: s1_def hostRecoverable_def recoverable_def)
  show ?thesis
    using inv 1 a1 checkpointRestore_console [OF con, of s1] by (simp add: r hostRecoverable_def recoverable_def)
qed

lemma accountLoop_restores:
  assumes ssh: "sshContract bus sl ss (\<lambda>h. (cl h, cs h))" and con: "consoleContract bus cl cs (\<lambda>h. (sl h, ss h))"
  shows "hostRecoverable sl ss cl cs c d v srv \<Longrightarrow> \<forall>req sent. Recv req sent \<in> set es \<longrightarrow> req \<notin> {AFinalizeNil, AOther} \<Longrightarrow>
    accountLoop bus v srv es = (Some e, v', srv') \<Longrightarrow> \<not> cr_crashed srv' \<Longrightarrow>
    sl (hs_host (cr_host srv')) = c \<and> cl (hs_host (cr_host srv')) = d"
proof (induction es arbitrary: v srv)
  case Nil
  then show ?case by (auto dest: restoreBackups_restores [OF ssh con])
next
  case (Cons ev es)
  note restores = restoreBackups_restores [OF ssh con]
  show ?case
  proof (cases ev)
    case (RecvErr x)
    then show ?thesis using Cons.prems by (auto dest: restores)
  next
    case (Recv req sent)
    have nf: "req \<noteq> AFinalize"
      using Cons.prems(3) Recv by auto
    have "req \<notin> {AFinalizeNil, AOther}"
      using Cons.prems(2) Recv by simp
    with nf have "req \<notin> {AFinalize, AFinalizeNil, AOther}"
      by blast
    then obtain r v1 s1 where s: "acctStep bus v req srv = (Inr r, v1, s1)" "hostRecoverable sl ss cl cs c d v1 s1"
      using acctStep_recoverable [OF ssh con Cons.prems(1)] by blast
    have rest: "\<forall>req sent. Recv req sent \<in> set es \<longrightarrow> req \<notin> {AFinalizeNil, AOther}"
      using Cons.prems(2) by simp
    have run: "accountLoop bus v srv (Recv req sent # es) = (Some e, v', srv')"
      using Cons.prems(3) Recv by simp
    show ?thesis
    proof (cases "r = None \<and> sent = None")
      case True
      then show ?thesis using Cons.IH [OF s(2) rest _ Cons.prems(4)] run nf s(1) by simp
    next
      case False
      then have "srv' = restoreBackups bus v1 s1" using run nf s(1) by (auto split: option.splits)
      then show ?thesis using restores [OF s(2)] Cons.prems(4) by simp
    qed
  qed
qed


text \<open>A host that keeps the contract: it has live and saved credentials of both kinds, the last message being the
  credentials.\<close>

record modelHost =
  mh_ssh :: string
  mh_sshSaved :: "string option"
  mh_console :: string
  mh_consoleSaved :: "string option"

definition modelBus :: "modelHost bus" where
  "modelBus c h =
     (let isSsh = dc_busName c = busNamePrefix @ ''ssh_mgmt''; m = dc_intName c;
          reply = Body [DInt32 0, DString []]
      in if m = intNamePrefix @ ''ssh_mgmt'' @ actionMethod CredzCPCreate then (reply, h\<lparr>mh_sshSaved := Some (mh_ssh h)\<rparr>)
         else if m = intNamePrefix @ ''ssh_mgmt'' @ actionMethod CredzCPRestore
              then (reply, (case mh_sshSaved h of None \<Rightarrow> h | Some x \<Rightarrow> h\<lparr>mh_ssh := x\<rparr>))
         else if m = intNamePrefix @ ''gnsi_console'' @ actionMethod CredzCPCreate
              then (reply, h\<lparr>mh_consoleSaved := Some (mh_console h)\<rparr>)
         else if m = intNamePrefix @ ''gnsi_console'' @ actionMethod CredzCPRestore
              then (reply, (case mh_consoleSaved h of None \<Rightarrow> h | Some x \<Rightarrow> h\<lparr>mh_console := x\<rparr>))
         else if isSsh then (reply, h\<lparr>mh_ssh := concat (dc_args c)\<rparr>) else (reply, h\<lparr>mh_console := concat (dc_args c)\<rparr>))"


lemma modelBus_ops:
  "SSHCheckpoint modelBus CredzCPCreate s =
     (None, (count DBUS (count GNSI_CREDZ_CHECKPOINT s))\<lparr>hs_host := (hs_host s)\<lparr>mh_sshSaved := Some (mh_ssh (hs_host s))\<rparr>\<rparr>)"
  "SSHCheckpoint modelBus CredzCPRestore s =
     (None, (count DBUS (count GNSI_CREDZ_CHECKPOINT s))\<lparr>hs_host :=
        (case mh_sshSaved (hs_host s) of None \<Rightarrow> hs_host s | Some x \<Rightarrow> (hs_host s)\<lparr>mh_ssh := x\<rparr>)\<rparr>)"
  "ConsoleCheckpoint modelBus CredzCPCreate s =
     (None, (count DBUS (count GNSI_CREDZ_CHECKPOINT s))\<lparr>hs_host := (hs_host s)\<lparr>mh_consoleSaved := Some (mh_console (hs_host s))\<rparr>\<rparr>)"
  "ConsoleCheckpoint modelBus CredzCPRestore s =
     (None, (count DBUS (count GNSI_CREDZ_CHECKPOINT s))\<lparr>hs_host :=
        (case mh_consoleSaved (hs_host s) of None \<Rightarrow> hs_host s | Some x \<Rightarrow> (hs_host s)\<lparr>mh_console := x\<rparr>)\<rparr>)"
  "SSHMgmtSet modelBus m s = (None, (count DBUS (count GNSI_CREDZ_SET s))\<lparr>hs_host := (hs_host s)\<lparr>mh_ssh := m\<rparr>\<rparr>)"
  "ConsoleSet modelBus m s = (None, (count DBUS (count GNSI_CREDZ_SET s))\<lparr>hs_host := (hs_host s)\<lparr>mh_console := m\<rparr>\<rparr>)"
  by (simp_all add: SSHCheckpoint_def ConsoleCheckpoint_def SSHMgmtSet_def ConsoleSet_def callModule_def DbusApi_def
      modelBus_def dbusResult_def errOnly_def count_def busNamePrefix_def intNamePrefix_def Let_def split: option.splits)

lemma modelBus_contract:
  "sshContract modelBus mh_ssh mh_sshSaved (\<lambda>h. (mh_console h, mh_consoleSaved h))"
  "consoleContract modelBus mh_console mh_consoleSaved (\<lambda>h. (mh_ssh h, mh_sshSaved h))"
  by (simp_all add: sshContract_def consoleContract_def checkpointContract_def modelBus_ops count_def split: option.splits)

definition exampleServer :: "modelHost credzServer" where
  "exampleServer = \<lparr>cr_sshAccounts = Some [], cr_sshHost = \<lparr>sh_CaKeysVersion = ''v0'', sh_CaKeysCreatedOn = ''1''\<rparr>,
     cr_sshHostCopy = \<lparr>sh_CaKeysVersion = [], sh_CaKeysCreatedOn = []\<rparr>, cr_consoleAccounts = Some [],
     cr_glomeConfigMetadata = None, cr_stateDbClient = True, cr_SshCredMetaFile = ''/s'', cr_ConsoleCredMetaFile = ''/c'',
     cr_credzMu = False, cr_crashed = False,
     cr_world = \<lparr>w_files = [], w_db = [], w_tick = 0, w_fault = (\<lambda>_. None)\<rparr>,
     cr_host = \<lparr>hs_host = \<lparr>mh_ssh = ''old'', mh_sshSaved = None, mh_console = ''pw'', mh_consoleSaved = None\<rparr>,
       hs_counters = (\<lambda>_. 0)\<rparr>\<rparr>"

definition exampleCred :: accountCredentials where
  "exampleCred = \<lparr>ac_Account = ''admin'', ac_Version = ''v1'', ac_CreatedOn = 5, ac_AuthorizedKeys =
     [\<lparr>ak_KeyType = KEY_TYPE_ED25519, ak_AuthorizedKey = ''k'', ak_Description = ''d'', ak_Options = []\<rparr>]\<rparr>"


lemma RotateAccountCredentials_eq:
  assumes "\<not> cr_credzMu srv"
    "accountLoop bus \<lparr>av_sshBackup = False, av_consoleBackup = False, av_defers = []\<rparr> (srv\<lparr>cr_credzMu := True\<rparr>) es = (r, v, s)"
  shows "RotateAccountCredentials bus None srv es = (r, (fold runDefer (av_defers v) s)\<lparr>cr_credzMu := False\<rparr>)"
  using assms by (simp add: RotateAccountCredentials_def)

lemma example_loop:
  "(case accountLoop modelBus \<lparr>av_sshBackup = False, av_consoleBackup = False, av_defers = []\<rparr>
       (exampleServer\<lparr>cr_credzMu := True\<rparr>) [Recv (ACredential [exampleCred]) None] of
     (r, v, s) \<Rightarrow> r = Some (Status Aborted ''EOF'') \<and> \<not> cr_crashed s)"
  by code_simp



section \<open>Versions after an abandoned rotation\<close>

lemma gm_set_same: "gm_get m a = Some u \<Longrightarrow> gm_set a u m = m"
  by (induction m) (auto split: if_splits)

lemma gm_get_in: "distinct (map fst m) \<Longrightarrow> (a, u) \<in> set m \<Longrightarrow> gm_get m a = Some u"
  by simp

lemma rewrite_keeps:
  assumes "cr_sshAccounts srv = Some m" "gm_get m a = Some u"
    and "setSshField f x u = u"
  shows "cr_sshAccounts (quietly (writeSshAccountCredentialsMetadataToDB a f x) srv) = Some m"
  using assms
  by (simp add: quietly_def writeSshAccountCredentialsMetadataToDB_def accountOr_def gm_set_same split: prod.splits option.splits)

lemma setSshField_same:
  "setSshField sshKeysVersionFld (sa_KeysVersion u) u = u" "setSshField sshKeysCreatedOnFld (sa_KeysCreatedOn u) u = u"
  "setSshField sshPrincipalsVersionFld (sa_UsersVersion u) u = u"
  "setSshField sshPrincipalsCreatedOnFld (sa_UsersCreatedOn u) u = u"
  by (simp_all add: setSshField_def sshKeysVersionFld_def sshKeysCreatedOnFld_def sshPrincipalsVersionFld_def
      sshPrincipalsCreatedOnFld_def)

lemma writeSshAccount_same:
  "cr_sshAccounts srv = Some m \<Longrightarrow> gm_get m a = Some u \<Longrightarrow> cr_sshAccounts (writeSshAccount (a, u) srv) = Some m"
  by (simp add: writeSshAccount_def rewrite_keeps setSshField_same)

lemma writeSshAccounts_same:
  "cr_sshAccounts srv = Some m \<Longrightarrow> \<forall>(a, u) \<in> set xs. gm_get m a = Some u \<Longrightarrow>
   cr_sshAccounts (fold writeSshAccount xs srv) = Some m"
  by (induction xs arbitrary: srv) (auto simp: writeSshAccount_same)

text \<open>The checkpoint copy is the live map, so a restore writes the new versions over themselves.\<close>

lemma checkpointRestore_keeps_versions:
  assumes "cr_sshAccounts srv = Some m" "distinct (map fst m)"
  shows "cr_sshAccounts (checkpointRestore bus sshCP srv) = Some m"
proof -
  let ?s = "writeSshHost (cr_sshHostCopy (snd (onHost (SSHCheckpoint bus CredzCPRestore) srv))) (snd (onHost (SSHCheckpoint bus CredzCPRestore) srv))"
  have "cr_sshAccounts ?s = Some m"
    using assms(1) by simp
  then have "cr_sshAccounts (fold writeSshAccount m ?s) = Some m"
    using writeSshAccounts_same [of ?s m m] gm_get_in [OF assms(2)] by fastforce
  then show ?thesis
    using assms(1) by (simp add: checkpointRestore_def revertSshCredentialFreshness_def Let_def entriesOf_def)
qed

lemma processSshCred_versions:
  assumes "processSshCred bus [c] srv = (None, srv')" "cr_sshAccounts srv = Some m" "distinct (map fst m)"
  shows "\<exists>m' u. cr_sshAccounts srv' = Some m' \<and> distinct (map fst m') \<and> gm_get m' (ac_Account c) = Some u \<and>
    sa_KeysVersion u = ac_Version c \<and> sa_KeysCreatedOn u = FormatNat (unat (ac_CreatedOn c))"
  using assms
  by (auto simp: processSshCred_def onHost_def writeSshAccountCredentialsMetadataToDB_def setSshField_def accountOr_def
      sshKeysVersionFld_def sshKeysCreatedOnFld_def distinct_update update_conv' split: prod.splits option.splits)



lemma example_accepted:
  "fst (checkpointCreate modelBus sshCP (exampleServer\<lparr>cr_credzMu := True\<rparr>)) = None"
  "fst (processSshCred modelBus [exampleCred] (snd (checkpointCreate modelBus sshCP (exampleServer\<lparr>cr_credzMu := True\<rparr>)))) = None"
  by code_simp+


section \<open>Console passwords\<close>

text \<open>C21. The text of a password is put into the message as it is: a password for one account that ends its own string
  makes the host receive the very call that a request for two accounts makes, so a request that names only the first
  account sets the password of the second one as well.\<close>

theorem console_password_injection:
  assumes "firstErr checkPassword [p, q] = None" "pa_Password p = Some x" "pa_Password q = Some y"
  shows "cr_host (snd (processConsolePassword bus [p\<lparr>pa_Password := Some (x @ qt @ '' },{ '' @ qt @ ''name'' @ qt @ '': '' @ qt @
      pa_Account q @ qt @ '', '' @ qt @ ''password'' @ qt @ '' : '' @ qt @ y)\<rparr>] srv)) =
    cr_host (snd (processConsolePassword bus [p, q] srv))"
proof -
  let ?p = "p\<lparr>pa_Password := Some (x @ qt @ '' },{ '' @ qt @ ''name'' @ qt @ '': '' @ qt @
      pa_Account q @ qt @ '', '' @ qt @ ''password'' @ qt @ '' : '' @ qt @ y)\<rparr>"
  have m: "consoleMessage [?p] = consoleMessage [p, q]"
    using assms(2,3) by (simp add: consoleMessage_def passwordText_def)
  have c: "firstErr checkPassword [?p] = None"
    using assms by (auto simp: checkPassword_def split: option.splits if_splits)
  show ?thesis
    unfolding processConsolePassword_def assms(1) c m
    by (simp add: onHost_def writeVersions_host del: writeVersions.simps split: prod.splits option.splits)
qed

theorem console_password_injection_witness:
  "cr_host (snd (processConsolePassword modelBus [\<lparr>pa_Account = ''guest'', pa_Version = ''1'', pa_CreatedOn = 1,
      pa_Password = Some (''a'' @ qt @ '' },{ '' @ qt @ ''name'' @ qt @ '': '' @ qt @ ''root'' @ qt @ '', '' @ qt @ ''password'' @ qt @
        '' : '' @ qt @ ''b'')\<rparr>] exampleServer)) =
   cr_host (snd (processConsolePassword modelBus
     [\<lparr>pa_Account = ''guest'', pa_Version = ''1'', pa_CreatedOn = 1, pa_Password = Some ''a''\<rparr>,
      \<lparr>pa_Account = ''root'', pa_Version = ''1'', pa_CreatedOn = 1, pa_Password = Some ''b''\<rparr>] exampleServer))"
  using console_password_injection [of "\<lparr>pa_Account = ''guest'', pa_Version = ''1'', pa_CreatedOn = 1, pa_Password = Some ''a''\<rparr>"
      "\<lparr>pa_Account = ''root'', pa_Version = ''1'', pa_CreatedOn = 1, pa_Password = Some ''b''\<rparr>" "''a''" "''b''" modelBus exampleServer]
  by (simp add: checkPassword_def)

section \<open>GLOME metadata\<close>

lemma HGetAll_get: "gm_get (map (\<lambda>((k, f), v). (f, v)) (filter (\<lambda>((k, f), v). k = key) db)) fld = gm_get db (key, fld)"
  by (induction db) auto

lemma FormatInt_sint:
  "ParseInt 32 (FormatInt (sint (w :: 32 word))) = Some (sint w)" "ParseInt 64 (FormatInt (sint (v :: 64 word))) = Some (sint v)"
  using sint_ge [of w] sint_lt [of w] sint_ge [of v] sint_lt [of v] by (simp_all add: ParseInt_FormatInt)

definition glomeStored :: "world \<Rightarrow> glomeConfigMetadata \<Rightarrow> bool" where
  "glomeStored w m \<longleftrightarrow> (\<forall>(f, v) \<in> set (glomeFields m). gm_get (w_db w) (glomeKey, f) = Some v)"

lemma writeGlome_stores:
  "writeGlomeConfigMetadataToStateDB (Some m) srv = (None, srv') \<Longrightarrow> glomeStored (cr_world srv') m"
  by (auto simp: writeGlomeConfigMetadataToStateDB_def HSetAll_def glomeStored_def glomeFields_def crash_def update_conv'
      split: if_splits)

lemma readGlome_stored:
  assumes "glomeStored (cr_world srv) m" "cr_stateDbClient srv" "fate (cr_world srv) = None"
  shows "fst (readGlomeConfigMetadataFromStateDB srv) = Inr (Some m)"
proof -
  let ?r = "map (\<lambda>((k, f), v). (f, v)) (filter (\<lambda>((k, f), v). k = glomeKey) (w_db (cr_world srv)))"
  have f: "fieldText ?r ''enabled'' = (if gc_Enabled m then ''1'' else ''0'')"
    "fieldText ?r ''key_version'' = FormatInt (sint (gc_KeyVersion m))"
    "fieldText ?r ''last_updated'' = FormatInt (sint (gc_LastUpdated m))"
    using assms(1) by (simp_all add: fieldText_def HGetAll_get glomeStored_def glomeFields_def)
  then have "?r \<noteq> []"
    by (auto simp: fieldText_def split: if_splits)
  then show ?thesis
    using assms(2,3) f
    by (simp add: readGlomeConfigMetadataFromStateDB_def HGetAll_def FormatInt_sint ParseBool_def)
qed


text \<open>What \<^verbatim>\<open>writeGlomeConfigMetadataToStateDB\<close> has written, \<^verbatim>\<open>readGlomeConfigMetadataFromStateDB\<close> reads back: the
  flag and both signed integers survive the way through the database's strings.\<close>

theorem glome_metadata_roundtrip:
  assumes "writeGlomeConfigMetadataToStateDB (Some m) srv = (None, srv')" "fate (cr_world srv') = None"
  shows "fst (readGlomeConfigMetadataFromStateDB srv') = Inr (Some m)"
proof -
  have "cr_stateDbClient srv'"
    using assms(1) by (auto simp: writeGlomeConfigMetadataToStateDB_def crash_def split: if_splits prod.splits option.splits)
  then show ?thesis
    by (rule readGlome_stored [OF writeGlome_stores [OF assms(1)] _ assms(2)])
qed

lemma example_glome_write:
  "fst (writeGlomeConfigMetadataToStateDB (Some \<lparr>gc_Enabled = True, gc_KeyVersion = -1, gc_LastUpdated = 7\<rparr>) exampleServer) = None"
  "fate (cr_world (snd (writeGlomeConfigMetadataToStateDB (Some \<lparr>gc_Enabled = True, gc_KeyVersion = -1, gc_LastUpdated = 7\<rparr>)
     exampleServer))) = None"
  by (simp_all add: writeGlomeConfigMetadataToStateDB_def exampleServer_def HSetAll_def)

theorem glome_metadata_roundtrip_witness:
  "fst (readGlomeConfigMetadataFromStateDB (snd (writeGlomeConfigMetadataToStateDB
     (Some \<lparr>gc_Enabled = True, gc_KeyVersion = -1, gc_LastUpdated = 7\<rparr>) exampleServer))) =
   Inr (Some \<lparr>gc_Enabled = True, gc_KeyVersion = -1, gc_LastUpdated = 7\<rparr>)"
  using glome_metadata_roundtrip [OF prod_eqI [where q = "(None, s)" for s] example_glome_write(2)] example_glome_write(1)
  by simp

text \<open>A finished GLOME rotation leaves the new metadata in STATE_DB and the previous ones as the rollback copy.\<close>

lemma glome_accepted:
  assumes "processGlomeConfig bus en remaining (Some r) now srv = (None, srv')"
  obtains m0 where "fst (readGlomeConfigMetadataFromStateDB srv) = Inr m0" "cr_glomeConfigMetadata srv' = Some (metaOrDefault m0)"
    "cr_stateDbClient srv'" "quiet (cr_world srv) \<Longrightarrow> quiet (cr_world srv')"
proof -
  obtain h s where h: "s = srv\<lparr>cr_host := h\<rparr>"
    "updateGlomeState \<lparr>gc_Enabled = gr_Enabled r, gc_KeyVersion = gr_KeyVersion r, gc_LastUpdated = now\<rparr> s = (None, srv')"
    using assms by (auto simp: processGlomeConfig_def onHost_def split: option.splits sum.splits prod.splits)
  have read: "fst (readGlomeConfigMetadataFromStateDB s) = fst (readGlomeConfigMetadataFromStateDB srv)"
    by (simp add: h(1) readGlomeConfigMetadataFromStateDB_def split: prod.splits sum.splits)
  have rw: "cr_stateDbClient s' = cr_stateDbClient s" "quiet (cr_world s) \<Longrightarrow> quiet (cr_world s')"
    if "readGlomeConfigMetadataFromStateDB s = (x, s')" for x s'
    using that by (auto simp: readGlomeConfigMetadataFromStateDB_def HGetAll_def split: if_splits)
  obtain m0 s1 where 1: "readGlomeConfigMetadataFromStateDB s = (Inr m0, s1)"
    "writeGlomeConfigMetadataToStateDB (Some \<lparr>gc_Enabled = gr_Enabled r, gc_KeyVersion = gr_KeyVersion r, gc_LastUpdated = now\<rparr>)
      (s1\<lparr>cr_glomeConfigMetadata := Some (metaOrDefault m0)\<rparr>) = (None, srv')"
    using h(2) by (auto simp: updateGlomeState_def split: prod.splits sum.splits goerr.splits)
  show thesis
    by (rule that [of m0])
      (use 1 rw [OF 1(1)] read h(1) in \<open>auto simp: writeGlomeConfigMetadataToStateDB_def HSetAll_def crash_def quiet_def split: if_splits\<close>)
qed

lemma glomeCheckpointRestore_stores:
  assumes "cr_glomeConfigMetadata srv = Some m" "cr_stateDbClient srv" "quiet (cr_world srv)"
  shows "glomeStored (cr_world (glomeCheckpointRestore bus remaining srv)) m"
    "cr_stateDbClient (glomeCheckpointRestore bus remaining srv)" "quiet (cr_world (glomeCheckpointRestore bus remaining srv))"
proof -
  obtain h where h: "snd (onHost (GLOMERestoreCheckpoint bus remaining) srv) = srv\<lparr>cr_host := h\<rparr>"
    by (cases "GLOMERestoreCheckpoint bus remaining (cr_host srv)") (simp add: onHost_def)
  obtain s where s: "writeGlomeConfigMetadataToStateDB (Some m) (srv\<lparr>cr_host := h\<rparr>) = (None, s)" "cr_stateDbClient s" "quiet (cr_world s)"
    using assms(2,3) by (auto simp: writeGlomeConfigMetadataToStateDB_def HSetAll_def quiet_def)
  then show "glomeStored (cr_world (glomeCheckpointRestore bus remaining srv)) m"
    "cr_stateDbClient (glomeCheckpointRestore bus remaining srv)" "quiet (cr_world (glomeCheckpointRestore bus remaining srv))"
    using writeGlome_stores [OF s(1)] assms(1) by (simp_all add: glomeCheckpointRestore_def h)
qed

text \<open>C22. After a finished GLOME rotation a later request that fails its checks, before anything was changed, writes the
  rollback copy of the finished rotation: STATE_DB has again the metadata from before that rotation.\<close>

theorem rejected_glome_request_undoes_finished_rotation:
  assumes "RotateHostParameters bus en remaining now None srv [Recv (HGlome (Some r1)) None, Recv HFinalize None] = (None, srv1)"
    and "RotateHostParameters bus en remaining now' None srv1 [Recv (HGlome (Some r2)) sent] = (res, srv2)"
    and "fst (readGlomeConfigMetadataFromStateDB srv) = Inr (Some m0)" "validateGlomeRequest en r2 = Some e"
    and "quiet (cr_world srv)" "\<not> cr_crashed srv1"
  shows "res \<noteq> None \<and> fst (readGlomeConfigMetadataFromStateDB srv2) = Inr (Some m0)"
proof -
  obtain s where s: "processGlomeConfig bus en remaining (Some r1) now (srv\<lparr>cr_credzMu := True\<rparr>) = (None, s)"
    "srv1 = s\<lparr>cr_credzMu := False\<rparr>"
    using assms(1) by (auto simp: RotateHostParameters_def handleGlome_def split: if_splits prod.splits option.splits)
  have "fst (readGlomeConfigMetadataFromStateDB (srv\<lparr>cr_credzMu := True\<rparr>)) = Inr (Some m0)"
    using assms(3) by (simp add: readGlomeConfigMetadataFromStateDB_def split: if_splits prod.splits sum.splits)
  with s assms(5) have 1: "cr_glomeConfigMetadata srv1 = Some m0" "cr_stateDbClient srv1" "quiet (cr_world srv1)" "\<not> cr_credzMu srv1"
    using glome_accepted [OF s(1)] by (auto simp: metaOrDefault_def)
  have 2: "srv2 = (glomeCheckpointRestore bus remaining (srv1\<lparr>cr_credzMu := True\<rparr>))\<lparr>cr_credzMu := False\<rparr>" "res \<noteq> None"
    using assms(2,4,6) 1(4) by (auto simp: RotateHostParameters_def handleGlome_def processGlomeConfig_def unlessCrashed_def)
  have "glomeStored (cr_world srv2) m0" "cr_stateDbClient srv2" "quiet (cr_world srv2)"
    using glomeCheckpointRestore_stores [of "srv1\<lparr>cr_credzMu := True\<rparr>" m0 bus remaining] 1 by (simp_all add: 2(1))
  then show ?thesis
    using readGlome_stored [of srv2 m0] 2(2) by simp
qed


definition exampleEnv :: credz_env where
  "exampleEnv = \<lparr>cn_urlParse = (\<lambda>_. None), cn_protojson = (\<lambda>r. Inr (gr_UrlPrefix r))\<rparr>"

definition glomeServer :: "modelHost credzServer" where
  "glomeServer = exampleServer\<lparr>cr_world := (cr_world exampleServer)\<lparr>w_db :=
     [((glomeKey, ''enabled''), ''0''), ((glomeKey, ''key_version''), ''3''), ((glomeKey, ''last_updated''), ''9'')]\<rparr>\<rparr>"

definition glomeOn :: glomeRequest where
  "glomeOn = \<lparr>gr_Enabled = True, gr_Key = ''k'', gr_KeyVersion = 4, gr_UrlPrefix = ''u''\<rparr>"

lemma glome_example:
  "fst (RotateHostParameters modelBus exampleEnv None 11 None glomeServer [Recv (HGlome (Some glomeOn)) None, Recv HFinalize None]) = None"
  "cr_crashed (snd (RotateHostParameters modelBus exampleEnv None 11 None glomeServer
     [Recv (HGlome (Some glomeOn)) None, Recv HFinalize None])) = False"
  "fst (readGlomeConfigMetadataFromStateDB glomeServer) = Inr (Some \<lparr>gc_Enabled = False, gc_KeyVersion = 3, gc_LastUpdated = 9\<rparr>)"
  by code_simp+

theorem rejected_glome_request_undoes_finished_rotation_witness:
  "fst (readGlomeConfigMetadataFromStateDB (snd (RotateHostParameters modelBus exampleEnv None 12 None
     (snd (RotateHostParameters modelBus exampleEnv None 11 None glomeServer [Recv (HGlome (Some glomeOn)) None, Recv HFinalize None]))
     [Recv (HGlome (Some (glomeOn\<lparr>gr_Key := []\<rparr>))) None]))) = Inr (Some \<lparr>gc_Enabled = False, gc_KeyVersion = 3, gc_LastUpdated = 9\<rparr>)"
proof -
  have "quiet (cr_world glomeServer)" "validateGlomeRequest exampleEnv (glomeOn\<lparr>gr_Key := []\<rparr>) = Some (Plain ''GLOME key is empty'')"
    by (simp_all add: glomeServer_def exampleServer_def quiet_def validateGlomeRequest_def glomeOn_def)
  then show ?thesis
    using rejected_glome_request_undoes_finished_rotation
      [of modelBus exampleEnv None 11 glomeServer glomeOn "snd (RotateHostParameters modelBus exampleEnv None 11 None glomeServer
         [Recv (HGlome (Some glomeOn)) None, Recv HFinalize None])" 12 "glomeOn\<lparr>gr_Key := []\<rparr>" None]
      glome_example by (metis prod.collapse)
qed

end
