(* ===== verification/Bypass.thy ===== *)
theory Bypass
  imports Server_Auth Os_World Json
begin

text \<open>
  The fast path of gNMI Set, \<^verbatim>\<open>pkg/bypass/bypass.go\<close>: direct writes to CONFIG_DB, without validation, for
  requests that carry a header, on some hardware, to some tables.

  The database of the \<^typ>\<open>world\<close> is CONFIG_DB here. A number of a JSON text is a Go float64; \<open>num\<close> is the
  argument that gives the \<^verbatim>\<open>%v\<close> text of the float of a literal, \<^term>\<open>None\<close> when it is out of range.
\<close>

section \<open>Requests\<close>

datatype typedValue = JsonIetfVal string | ProtoBytes string | StringVal string | IntVal "64 word" | UintVal "64 word" | OtherVal

record update =
  u_Path :: "gpath option"
  u_Val :: "typedValue option"

datatype updateOp = OpDelete | OpReplace | OpUpdate

record updateResult =
  ur_Path :: "gpath option"
  ur_Op :: updateOp

record setResponse =
  sr_Prefix :: "gpath option"
  sr_Response :: "updateResult list"

text \<open>The generated getters: the zero value unless the oneof has that kind.\<close>

definition GetJsonIetfVal :: "typedValue option \<Rightarrow> string" where
  "GetJsonIetfVal v = (case v of Some (JsonIetfVal s) \<Rightarrow> s | _ \<Rightarrow> [])"

definition GetStringVal :: "typedValue option \<Rightarrow> string" where
  "GetStringVal v = (case v of Some (StringVal s) \<Rightarrow> s | _ \<Rightarrow> [])"

definition GetIntVal :: "typedValue option \<Rightarrow> 64 word" where
  "GetIntVal v = (case v of Some (IntVal i) \<Rightarrow> i | _ \<Rightarrow> 0)"

definition GetUintVal :: "typedValue option \<Rightarrow> 64 word" where
  "GetUintVal v = (case v of Some (UintVal i) \<Rightarrow> i | _ \<Rightarrow> 0)"

section \<open>CONFIG_DB\<close>

definition HGet :: "string \<Rightarrow> string \<Rightarrow> world \<Rightarrow> (goerr + string) \<times> world" where
  "HGet key fld w =
     (if fate w \<noteq> None then (Inl ErrIO, step w)
      else (case gm_get (w_db w) (key, fld) of
              None \<Rightarrow> (Inl (Plain ''redis: nil''), step w)
            | Some v \<Rightarrow> (Inr v, step w)))"

definition Del :: "string \<Rightarrow> world \<Rightarrow> goerr option \<times> world" where
  "Del key w =
     (if fate w \<noteq> None then (Some ErrIO, step w)
      else (None, (step w)\<lparr>w_db := filter (\<lambda>((k, f), v). k \<noteq> key) (w_db w)\<rparr>))"

definition defaultRedisSocket :: string where
  "defaultRedisSocket = ''/var/run/redis/redis.sock''"

definition defaultRedisTCP :: string where
  "defaultRedisTCP = ''127.0.0.1:6379''"

text \<open>The network and the address of the client; making the client never fails.\<close>

definition getConfigDbClientDefault :: "string \<Rightarrow> bool \<Rightarrow> string \<times> string" where
  "getConfigDbClientDefault env socketThere =
     (if env \<noteq> [] then (if HasPrefix env ''/'' then (''unix'', env) else (''tcp'', env))
      else if socketThere then (''unix'', defaultRedisSocket) else (''tcp'', defaultRedisTCP))"

section \<open>Conditions\<close>

definition AllowedTables :: "string list" where
  "AllowedTables = [''VNET'', ''VNET_ROUTE_TUNNEL'', ''VLAN_SUB_INTERFACE'', ''ACL_RULE'', ''BGP_PEER_RANGE'', ''BGP_NEIGHBOR'',
     ''PREFIX_LIST'']"

definition AllowedSKUPrefixes :: "string list" where
  "AllowedSKUPrefixes = [''Cisco-8102'', ''Cisco-8101'', ''Cisco-8223'']"

definition hasBypassHeader :: "ctx \<Rightarrow> bool" where
  "hasBypassHeader cx =
     (case cx_md cx of
        None \<Rightarrow> False
      | Some md \<Rightarrow> (case gm_get md ''x-sonic-ss-bypass-validation'' of Some (v # vs) \<Rightarrow> v = ''true'' | _ \<Rightarrow> False))"

definition checkSKU :: "world \<Rightarrow> bool \<times> world" where
  "checkSKU w =
     (case HGet ''DEVICE_METADATA|localhost'' ''hwsku'' w of
        (Inl e, w1) \<Rightarrow> (False, w1)
      | (Inr hwsku, w1) \<Rightarrow> (list_ex (HasPrefix hwsku) AllowedSKUPrefixes, w1))"

definition skipped :: "string \<Rightarrow> bool" where
  "skipped name \<longleftrightarrow> name = ''CONFIG_DB'' \<or> name = ''localhost''"

text \<open>The names of both paths without the skipped ones, in order.\<close>

definition parts :: "gpath option \<Rightarrow> gpath option \<Rightarrow> string list" where
  "parts pre path = filter (\<lambda>n. \<not> skipped n) (map pe_name (GetElem pre @ GetElem path))"

fun firstTable :: "path_elem list \<Rightarrow> string" where
  "firstTable [] = []"
| "firstTable (e # es) = (if skipped (pe_name e) then firstTable es else pe_name e)"

definition extractTable :: "gpath option \<Rightarrow> gpath option \<Rightarrow> string" where
  "extractTable pre path = firstTable (GetElem pre @ GetElem path)"

definition allowedPath :: "gpath option \<Rightarrow> gpath option \<Rightarrow> bool" where
  "allowedPath pre path \<longleftrightarrow> extractTable pre path \<noteq> [] \<and> extractTable pre path \<in> set AllowedTables"

definition checkAllowedTables :: "gpath option \<Rightarrow> update list \<Rightarrow> bool" where
  "checkAllowedTables pre us = list_all (\<lambda>u. allowedPath pre (u_Path u)) us"

definition checkAllowedDeletePaths :: "gpath option \<Rightarrow> gpath option list \<Rightarrow> bool" where
  "checkAllowedDeletePaths pre ds = list_all (allowedPath pre) ds"

definition ShouldBypass :: "ctx \<Rightarrow> gpath option \<Rightarrow> update list \<Rightarrow> world \<Rightarrow> bool \<times> world" where
  "ShouldBypass cx pre us w =
     (if \<not> hasBypassHeader cx then (False, w)
      else (case checkSKU w of (ok, w1) \<Rightarrow> (ok \<and> checkAllowedTables pre us, w1)))"

definition ShouldBypassDelete :: "ctx \<Rightarrow> gpath option \<Rightarrow> gpath option list \<Rightarrow> world \<Rightarrow> bool \<times> world" where
  "ShouldBypassDelete cx pre ds w =
     (if \<not> hasBypassHeader cx then (False, w)
      else (case checkSKU w of (ok, w1) \<Rightarrow> (ok \<and> checkAllowedDeletePaths pre ds, w1)))"

section \<open>Paths and values\<close>

definition decodeJsonPointer :: "string \<Rightarrow> string" where
  "decodeJsonPointer s = replace2 CHR ''~'' CHR ''0'' ''~'' (replace2 CHR ''~'' CHR ''1'' ''/'' s)"

definition parsePath :: "gpath option \<Rightarrow> gpath option \<Rightarrow> string \<times> string \<times> string" where
  "parsePath pre path =
     (case parts pre path of
        [] \<Rightarrow> ([], [], [])
      | [t] \<Rightarrow> (t, [], [])
      | [t, k] \<Rightarrow> (t, decodeJsonPointer k, [])
      | t # k # f # _ \<Rightarrow> (t, decodeJsonPointer k, f))"

definition convertToRedisFields :: "(string \<Rightarrow> string option) \<Rightarrow> (string, json) gomap \<Rightarrow> (string, string) gomap" where
  "convertToRedisFields num data =
     fold (\<lambda>(k, v) flds.
        case v of
          JArr vs \<Rightarrow> gm_set (k @ ''@'') (join '','' (map (goText num) vs)) flds
        | _ \<Rightarrow> gm_set k (goText num v) flds) data []"

text \<open>\<^verbatim>\<open>json.Unmarshal\<close> into \<^verbatim>\<open>map[string]interface{}\<close>, and into a map of such maps.\<close>

definition unmarshalMap :: "(string \<Rightarrow> string option) \<Rightarrow> string \<Rightarrow> (string, json) gomap option" where
  "unmarshalMap num s =
     (case parseJson s of
        None \<Rightarrow> None
      | Some v \<Rightarrow> if numsOk num v then asMap v else None)"

definition unmarshalBulk :: "(string \<Rightarrow> string option) \<Rightarrow> string \<Rightarrow> (string, (string, json) gomap) gomap option" where
  "unmarshalBulk num s =
     (case unmarshalMap num s of
        None \<Rightarrow> None
      | Some _ \<Rightarrow>
          (case parseJson s of
             Some (JObj ms) \<Rightarrow>
               if list_all (\<lambda>(k, v). asMap v \<noteq> None) ms then Some (goMembers (map (\<lambda>(k, v). (k, the (asMap v))) ms)) else None
           | _ \<Rightarrow> Some []))"

section \<open>Operations\<close>

definition orNull :: "(string, string) gomap \<Rightarrow> (string, string) gomap" where
  "orNull flds = (if flds = [] then [(''NULL'', ''NULL'')] else flds)"

fun applyBulk :: "(string \<Rightarrow> string option) \<Rightarrow> string \<Rightarrow> (string \<times> (string, json) gomap) list \<Rightarrow> world \<Rightarrow> goerr option \<times> world" where
  "applyBulk num table [] w = (None, w)"
| "applyBulk num table ((entryKey, entryFields) # es) w =
     (let redisKey = table @ ''|'' @ entryKey
      in case HSetAll redisKey (orNull (convertToRedisFields num entryFields)) w of
           (Some e, w1) \<Rightarrow> (Some (Plain (''bypass: HSet failed for '' @ redisKey @ '': '' @ errText e)), w1)
         | (None, w1) \<Rightarrow> applyBulk num table es w1)"

definition scalarText :: "typedValue option \<Rightarrow> string" where
  "scalarText v =
     (if GetStringVal v \<noteq> [] then GetStringVal v
      else if GetIntVal v \<noteq> 0 then FormatInt (sint (GetIntVal v))
      else if GetUintVal v \<noteq> 0 then FormatNat (unat (GetUintVal v)) else [])"

definition applyOne :: "(string \<Rightarrow> string option) \<Rightarrow> gpath option \<Rightarrow> update \<Rightarrow> world \<Rightarrow> goerr option \<times> world" where
  "applyOne num pre u w =
     (case parsePath pre (u_Path u) of
        (table, key, field) \<Rightarrow>
          if table = [] then (Some (Plain ''bypass: invalid path, cannot extract table''), w)
          else
            let jsonVal = GetJsonIetfVal (u_Val u); redisKey = table @ ''|'' @ key
            in if key = [] then
                 (if jsonVal = [] then (Some (Plain ''bypass: bulk update requires JSON value''), w)
                  else (case unmarshalBulk num jsonVal of
                          None \<Rightarrow> (Some (Plain ''bypass: failed to unmarshal bulk JSON''), w)
                        | Some bulk \<Rightarrow> applyBulk num table bulk w))
               else if jsonVal \<noteq> [] then
                 (case unmarshalMap num jsonVal of
                    None \<Rightarrow> (Some (Plain ''bypass: failed to unmarshal JSON''), w)
                  | Some data \<Rightarrow>
                      (case HSetAll redisKey (orNull (convertToRedisFields num data)) w of
                         (Some e, w1) \<Rightarrow> (Some (Plain (''bypass: HSet failed for '' @ redisKey @ '': '' @ errText e)), w1)
                       | (None, w1) \<Rightarrow> (None, w1)))
               else if field \<noteq> [] then
                 (case HSet redisKey field (scalarText (u_Val u)) w of
                    (Some e, w1) \<Rightarrow> (Some (Plain (''bypass: HSet failed for '' @ redisKey @ ''.'' @ field @ '': '' @ errText e)), w1)
                  | (None, w1) \<Rightarrow> (None, w1))
               else (None, w))"

fun Apply :: "(string \<Rightarrow> string option) \<Rightarrow> gpath option \<Rightarrow> update list \<Rightarrow> world \<Rightarrow> goerr option \<times> world" where
  "Apply num pre [] w = (None, w)"
| "Apply num pre (u # us) w =
     (case applyOne num pre u w of (Some e, w1) \<Rightarrow> (Some e, w1) | (None, w1) \<Rightarrow> Apply num pre us w1)"

fun Delete :: "gpath option \<Rightarrow> gpath option list \<Rightarrow> world \<Rightarrow> goerr option \<times> world" where
  "Delete pre [] w = (None, w)"
| "Delete pre (d # ds) w =
     (case parsePath pre d of
        (table, key, _) \<Rightarrow>
          if table = [] \<or> key = [] then (Some (Plain ''bypass: invalid delete path, cannot extract table/key''), w)
          else (case Del (table @ ''|'' @ key) w of
                  (Some e, w1) \<Rightarrow> (Some (Plain (''bypass: Del failed for '' @ table @ ''|'' @ key @ '': '' @ errText e)), w1)
                | (None, w1) \<Rightarrow> Delete pre ds w1))"

definition deleteResults :: "gpath option list \<Rightarrow> updateResult list" where
  "deleteResults ds = map (\<lambda>d. \<lparr>ur_Path = d, ur_Op = OpDelete\<rparr>) ds"

definition updateResults :: "updateOp \<Rightarrow> update list \<Rightarrow> updateResult list" where
  "updateResults op us = map (\<lambda>u. \<lparr>ur_Path = u_Path u, ur_Op = op\<rparr>) us"

text \<open>The conditions of \<^verbatim>\<open>TrySet\<close>; each of the two checks reads the SKU.\<close>

definition conditions :: "ctx \<Rightarrow> gpath option \<Rightarrow> gpath option list \<Rightarrow> update list \<Rightarrow> world \<Rightarrow> bool \<times> world" where
  "conditions cx pre ds us w =
     (if us = [] \<and> ds = [] then (False, w)
      else (case (if us = [] then (True, w) else ShouldBypass cx pre us w) of
              (False, w1) \<Rightarrow> (False, w1)
            | (True, w1) \<Rightarrow> (if ds = [] then (True, w1) else ShouldBypassDelete cx pre ds w1)))"

text \<open>\<open>None\<close>: the bypass was not used. Otherwise it was, and failed or gave a response. A delete or an update of
  nothing is skipped, as their loops do nothing on the empty list.\<close>

definition TrySet ::
    "(string \<Rightarrow> string option) \<Rightarrow> ctx \<Rightarrow> gpath option \<Rightarrow> gpath option list \<Rightarrow> update list \<Rightarrow> world \<Rightarrow>
     (goerr + setResponse) option \<times> world" where
  "TrySet num cx pre ds us w =
     (case conditions cx pre ds us w of
        (False, w1) \<Rightarrow> (None, w1)
      | (True, w1) \<Rightarrow>
          (case Delete pre ds w1 of
             (Some e, w2) \<Rightarrow> (Some (Inl e), w2)
           | (None, w2) \<Rightarrow>
               (case Apply num pre us w2 of
                  (Some e, w3) \<Rightarrow> (Some (Inl e), w3)
                | (None, w3) \<Rightarrow>
                    (Some (Inr \<lparr>sr_Prefix = pre, sr_Response = deleteResults ds @ updateResults OpUpdate us\<rparr>), w3))))"


section \<open>What the bypass touches\<close>

lemma firstTable_filter: "firstTable es = (case filter (\<lambda>n. \<not> skipped n) (map pe_name es) of [] \<Rightarrow> [] | n # _ \<Rightarrow> n)"
  by (induction es) auto

lemma parsePath_table: "fst (parsePath pre path) = extractTable pre path"
  by (auto simp: parsePath_def extractTable_def firstTable_filter parts_def split: list.splits)

definition allowedKey :: "string \<Rightarrow> bool" where
  "allowedKey k \<longleftrightarrow> (\<exists>t x. t \<in> set AllowedTables \<and> k = t @ ''|'' @ x)"

definition touchesAllowed :: "world \<Rightarrow> world \<Rightarrow> bool" where
  "touchesAllowed w w' \<longleftrightarrow> (\<forall>k f. gm_get (w_db w') (k, f) = gm_get (w_db w) (k, f) \<or> allowedKey k)"

lemma touches_refl [simp]: "touchesAllowed w w"
  by (simp add: touchesAllowed_def)

lemma touches_trans: "touchesAllowed w1 w2 \<Longrightarrow> touchesAllowed w2 w3 \<Longrightarrow> touchesAllowed w1 w3"
  unfolding touchesAllowed_def by metis

lemma touches_step [simp]: "touchesAllowed w (step w)"
  by (simp add: touchesAllowed_def)

lemma HSet_touches: "HSet k f v w = (r, w') \<Longrightarrow> allowedKey k \<Longrightarrow> touchesAllowed w w'"
  by (auto simp: HSet_def touchesAllowed_def update_conv' split: if_splits)

lemma HSetAll_get: "k' \<noteq> k \<Longrightarrow> gm_get (fold (\<lambda>(f, v). gm_set (k, f) v) fvs db) (k', g) = gm_get db (k', g)"
  by (induction fvs arbitrary: db) (auto simp: update_conv')

lemma HSetAll_touches: "HSetAll k fvs w = (r, w') \<Longrightarrow> allowedKey k \<Longrightarrow> touchesAllowed w w'"
  by (auto simp: HSetAll_def touchesAllowed_def split: if_splits) (metis HSetAll_get)

lemma filter_get: "k' \<noteq> k \<Longrightarrow> gm_get (filter (\<lambda>((a, f), v). a \<noteq> k) db) (k', g) = gm_get db (k', g)"
  "gm_get (filter (\<lambda>((a, f), v). a \<noteq> k) db) (k, g) = None"
  by (induction db) auto

lemma Del_touches: "Del k w = (r, w') \<Longrightarrow> allowedKey k \<Longrightarrow> touchesAllowed w w'"
  by (auto simp: Del_def touchesAllowed_def split: if_splits) (metis filter_get(1))

lemma allowedKeyI: "allowedPath pre p \<Longrightarrow> parsePath pre p = (t, k, f) \<Longrightarrow> allowedKey (t @ ''|'' @ x)"
  using parsePath_table [of pre p] by (auto simp: allowedPath_def allowedKey_def)

lemma applyBulk_touches:
  "applyBulk num t es w = (r, w') \<Longrightarrow> (\<And>x. allowedKey (t @ ''|'' @ x)) \<Longrightarrow> touchesAllowed w w'"
proof (induction num t es w rule: applyBulk.induct)
  case (2 num t k v es w)
  obtain r1 w1 where h: "HSetAll (t @ ''|'' @ k) (orNull (convertToRedisFields num v)) w = (r1, w1)" by fastforce
  have "touchesAllowed w w1" using HSetAll_touches [OF h 2(3)] .
  then show ?case
    using 2 h by (auto simp: Let_def split: option.splits intro: touches_trans)
qed simp

lemma applyOne_touches:
  assumes "applyOne num pre u w = (r, w')" "allowedPath pre (u_Path u)"
  shows "touchesAllowed w w'"
proof -
  obtain t k f where p: "parsePath pre (u_Path u) = (t, k, f)" by (cases "parsePath pre (u_Path u)")
  note a = allowedKeyI [OF assms(2) p]
  show ?thesis
    using assms(1) a
    by (auto simp: applyOne_def p Let_def split: if_splits option.splits prod.splits
        intro: applyBulk_touches HSetAll_touches HSet_touches)
qed

lemma Apply_touches:
  "Apply num pre us w = (r, w') \<Longrightarrow> checkAllowedTables pre us \<Longrightarrow> touchesAllowed w w'"
  by (induction num pre us w rule: Apply.induct)
    (auto simp: checkAllowedTables_def split: prod.splits option.splits intro: touches_trans applyOne_touches)

lemma Delete_touches:
  "Delete pre ds w = (r, w') \<Longrightarrow> checkAllowedDeletePaths pre ds \<Longrightarrow> touchesAllowed w w'"
proof (induction pre ds w rule: Delete.induct)
  case (2 pre d ds w)
  obtain t k f where p: "parsePath pre d = (t, k, f)" by (cases "parsePath pre d")
  have a: "allowedKey (t @ ''|'' @ k)" using allowedKeyI [OF _ p] 2(3) by (simp add: checkAllowedDeletePaths_def)
  obtain r1 w1 where d: "Del (t @ ''|'' @ k) w = (r1, w1)" by fastforce
  have t: "touchesAllowed w w1" using Del_touches [OF d a] .
  show ?case
    using 2(1) [OF p [symmetric] refl _ d [symmetric]] 2(2,3) p d t
    by (auto simp: checkAllowedDeletePaths_def split: if_splits option.splits intro: touches_trans)
qed simp

lemma checkSKU_ok:
  "checkSKU w = (b, w') \<Longrightarrow> w_db w' = w_db w"
  "checkSKU w = (True, w') \<Longrightarrow> \<exists>sku. gm_get (w_db w) (''DEVICE_METADATA|localhost'', ''hwsku'') = Some sku \<and>
     list_ex (HasPrefix sku) AllowedSKUPrefixes"
  by (auto simp: checkSKU_def HGet_def split: if_splits option.splits)

lemma conditions_db: "conditions cx pre ds us w = (b, w') \<Longrightarrow> w_db w' = w_db w"
  by (auto simp: conditions_def ShouldBypass_def ShouldBypassDelete_def split: if_splits prod.splits bool.splits
      dest!: checkSKU_ok(1))

lemma conditions_ok:
  assumes "conditions cx pre ds us w = (True, w')"
  shows "hasBypassHeader cx \<and> checkAllowedTables pre us \<and> checkAllowedDeletePaths pre ds \<and>
    (\<exists>sku. gm_get (w_db w) (''DEVICE_METADATA|localhost'', ''hwsku'') = Some sku \<and> list_ex (HasPrefix sku) AllowedSKUPrefixes)"
  using assms
  by (auto simp: conditions_def ShouldBypass_def ShouldBypassDelete_def checkAllowedTables_def checkAllowedDeletePaths_def
      split: if_splits prod.splits bool.splits dest: checkSKU_ok)

text \<open>C23. The fast path changes an entry of CONFIG_DB only for a request with the bypass header, on hardware of an allowed
  kind, and only an entry of an allowed table. This holds for every request, also one that fails half way.\<close>

theorem bypass_touches_allowed_tables:
  assumes "TrySet num cx pre ds us w = (r, w')" "gm_get (w_db w') (k, f) \<noteq> gm_get (w_db w) (k, f)"
  shows "hasBypassHeader cx \<and> (\<exists>t x. t \<in> set AllowedTables \<and> k = t @ ''|'' @ x) \<and>
    (\<exists>sku. gm_get (w_db w) (''DEVICE_METADATA|localhost'', ''hwsku'') = Some sku \<and> list_ex (HasPrefix sku) AllowedSKUPrefixes)"
proof -
  obtain b w1 where c: "conditions cx pre ds us w = (b, w1)" by fastforce
  have db: "w_db w1 = w_db w" using conditions_db [OF c] .
  have b using assms db c by (cases b) (auto simp: TrySet_def)
  then have ok: "conditions cx pre ds us w = (True, w1)" using c by simp
  note c' = conditions_ok [OF ok]
  obtain r2 w2 where d: "Delete pre ds w1 = (r2, w2)" by fastforce
  obtain r3 w3 where a: "Apply num pre us w2 = (r3, w3)" by fastforce
  have t: "touchesAllowed w1 w2" "touchesAllowed w2 w3"
    using Delete_touches [OF d] Apply_touches [OF a] c' by blast+
  have "w' = w2 \<or> w' = w3"
    using assms(1) ok d a by (auto simp: TrySet_def split: option.splits)
  then have "touchesAllowed w1 w'" using t touches_trans by blast
  then have "allowedKey k" using assms(2) db by (auto simp: touchesAllowed_def)
  then show ?thesis using c' by (simp add: allowedKey_def)
qed


definition exPath :: "string list \<Rightarrow> gpath option" where
  "exPath ns = Some \<lparr>p_origin = ''sonic-db'', p_target = [], p_elem = map (\<lambda>n. \<lparr>pe_name = n, pe_key = []\<rparr>) ns\<rparr>"

definition exCtx :: ctx where
  "exCtx = \<lparr>cx_peer = None, cx_md = Some [(''x-sonic-ss-bypass-validation'', [''true''])], cx_rc = None, cx_requestCounter = 0\<rparr>"

definition exConfigDb :: world where
  "exConfigDb = \<lparr>w_files = [], w_db = [((''DEVICE_METADATA|localhost'', ''hwsku''), ''Cisco-8102-C64''),
     ((''VNET|Vnet1'', ''vni''), ''10''), ((''VNET|Vnet1'', ''scope''), ''default'')], w_tick = 0, w_fault = (\<lambda>_. None)\<rparr>"

definition exDelete :: "gpath option list" where
  "exDelete = [exPath [''CONFIG_DB'', ''localhost'', ''VNET'', ''Vnet1'', ''vni'']]"

lemma exDelete_run: "w_db (snd (TrySet Some exCtx None exDelete [] exConfigDb)) = [((''DEVICE_METADATA|localhost'', ''hwsku''), ''Cisco-8102-C64'')]"
  by code_simp

theorem bypass_touches_allowed_tables_witness:
  "gm_get (w_db (snd (TrySet Some exCtx None exDelete [] exConfigDb))) (''VNET|Vnet1'', ''vni'') = None \<and> hasBypassHeader exCtx"
proof -
  have "gm_get (w_db (snd (TrySet Some exCtx None exDelete [] exConfigDb))) (''VNET|Vnet1'', ''vni'') = None"
    by (simp add: exDelete_run)
  moreover have "gm_get (w_db exConfigDb) (''VNET|Vnet1'', ''vni'') = Some ''10''"
    by (simp add: exConfigDb_def)
  ultimately show ?thesis
    using bypass_touches_allowed_tables [of Some exCtx None exDelete "[]" exConfigDb
        "fst (TrySet Some exCtx None exDelete [] exConfigDb)" "snd (TrySet Some exCtx None exDelete [] exConfigDb)" "''VNET|Vnet1''" "''vni''"]
    by simp
qed

text \<open>An integer that is zero is stored as the empty string.\<close>

lemma zero_is_empty: "scalarText (Some (IntVal 0)) = []" "scalarText (Some (UintVal 0)) = []"
  by (simp_all add: scalarText_def GetStringVal_def GetIntVal_def GetUintVal_def)

text \<open>Deleting one field of an entry through the fast path deletes the entry: after a successful delete of a path that
  names a table, a key and a field, the entry has no field left, and the other entries are as before.\<close>

theorem bypass_field_delete_drops_entry:
  assumes "parsePath pre d = (table, key, field)" "field \<noteq> []" "Delete pre [d] w = (None, w')"
  shows "gm_get (w_db w') (table @ ''|'' @ key, g) = None \<and>
    (k \<noteq> table @ ''|'' @ key \<longrightarrow> gm_get (w_db w') (k, g) = gm_get (w_db w) (k, g))"
  using assms by (auto simp: Del_def filter_get split: if_splits)

theorem bypass_field_delete_drops_entry_witness:
  "gm_get (w_db (snd (Delete None exDelete exConfigDb))) (''VNET|Vnet1'', ''scope'') = None"
proof -
  have p: "parsePath None (exPath [''CONFIG_DB'', ''localhost'', ''VNET'', ''Vnet1'', ''vni'']) = (''VNET'', ''Vnet1'', ''vni'')"
    by code_simp
  have "fst (Delete None exDelete exConfigDb) = None"
    by code_simp
  then have d: "Delete None [exPath [''CONFIG_DB'', ''localhost'', ''VNET'', ''Vnet1'', ''vni'']] exConfigDb =
      (None, snd (Delete None exDelete exConfigDb))"
    by (simp add: exDelete_def prod_eq_iff)
  show ?thesis
    using bypass_field_delete_drops_entry [OF p _ d, of "''scope''"] by simp
qed

end
