(* ===== verification/Gnmi_Server.thy ===== *)
theory Gnmi_Server
  imports Bypass Dbus_Client Pathz_Authorizer
begin

text \<open>
  The gNMI service proper, \<^verbatim>\<open>gnmi_server/server.go\<close>: Get, Set, Capabilities, master arbitration, the name of the user
  behind a certificate, saving the configuration after a Set.

  The data clients (\<^verbatim>\<open>sonic_data_client\<close>) and the operational handler are reached through the record \<open>dataEnv\<close>:
  making a client, its Get and its Set are functions on the data plane \<open>'d\<close>. The text of the error messages that
  print an enum value or an election id is cut before it.
\<close>

section \<open>Messages\<close>

datatype dataType = GetRequest_ALL | GetRequest_CONFIG | GetRequest_STATE | GetRequest_OPERATIONAL

fun dataTypeName :: "dataType \<Rightarrow> string" where
  "dataTypeName GetRequest_ALL = ''ALL''"
| "dataTypeName GetRequest_CONFIG = ''CONFIG''"
| "dataTypeName GetRequest_STATE = ''STATE''"
| "dataTypeName GetRequest_OPERATIONAL = ''OPERATIONAL''"

datatype encoding = JSON | BYTES | PROTO | ASCII | JSON_IETF

fun encodingName :: "encoding \<Rightarrow> string" where
  "encodingName JSON = ''JSON''"
| "encodingName BYTES = ''BYTES''"
| "encodingName PROTO = ''PROTO''"
| "encodingName ASCII = ''ASCII''"
| "encodingName JSON_IETF = ''JSON_IETF''"

definition supportedEncodings :: "encoding list" where
  "supportedEncodings = [JSON, JSON_IETF, PROTO]"

record uint128 =
  High :: "64 word"
  Low :: "64 word"

record masterArbitration =
  ma_ElectionId :: "uint128 option"
  ma_Role :: "string option"

datatype extension = MasterArbitration masterArbitration | OtherExtension

record getRequest =
  gq_Type :: dataType
  gq_Prefix :: "gpath option"
  gq_Path :: "gpath option list"
  gq_Encoding :: encoding
  gq_Extension :: "extension list"

record setRequest =
  sq_Prefix :: "gpath option"
  sq_Delete :: "gpath option list"
  sq_Replace :: "update list"
  sq_Update :: "update list"
  sq_Extension :: "extension list"

record dataValue =
  dv_Timestamp :: "64 word"
  dv_Path :: "gpath option"
  dv_Val :: "typedValue option"

record notification =
  no_Timestamp :: "64 word"
  no_Prefix :: "gpath option"
  no_Update :: update

section \<open>The data plane\<close>

text \<open>The five kinds of client. A database client knows its database; the mixed client reports one when it is made.\<close>

datatype clientKind = NonDbClient | ShowClient | DbClient | MixedDbClient | TranslClient

record 'd dataEnv =
  de_IsTargetDb :: "string \<Rightarrow> string option"
  de_New :: "clientKind \<Rightarrow> gpath option list \<Rightarrow> gpath option \<Rightarrow> 'd \<Rightarrow> (goerr + string) \<times> 'd"
  de_ValidatePaths :: "gpath option list \<Rightarrow> gpath option \<Rightarrow> 'd \<Rightarrow> goerr option \<times> 'd"
  de_Get :: "clientKind \<Rightarrow> gpath option list \<Rightarrow> gpath option \<Rightarrow> 'd \<Rightarrow> (goerr + dataValue list) \<times> 'd"
  de_Set :: "clientKind \<Rightarrow> gpath option \<Rightarrow> gpath option list \<Rightarrow> update list \<Rightarrow> update list \<Rightarrow> 'd \<Rightarrow> goerr option \<times> 'd"
  de_OperationalGet :: "gpath option list \<Rightarrow> gpath option \<Rightarrow> 'd \<Rightarrow> (goerr + (goerr + dataValue list)) \<times> 'd"
  de_floatText :: "string \<Rightarrow> string option"

record serverConfig =
  sc_auth :: authConfig
  sc_EnableTranslibWrite :: bool
  sc_EnableNativeWrite :: bool
  sc_PathzPolicy :: bool

text \<open>\<open>sv_masterArbitration\<close> and \<open>sv_saveOnSet\<close> say which of the two functions the fields \<^verbatim>\<open>ReqFromMaster\<close> and
  \<^verbatim>\<open>SaveStartupConfig\<close> point to.\<close>

record ('d, 'h) server =
  sv_config :: serverConfig
  sv_masterArbitration :: bool
  sv_saveOnSet :: bool
  sv_masterEID :: uint128
  sv_pathz :: processor
  sv_crl :: crlState
  sv_configDb :: world
  sv_data :: 'd
  sv_host :: "'h hostState"

definition inc :: "counterType \<Rightarrow> ('d, 'h) server \<Rightarrow> ('d, 'h) server" where
  "inc c s = s\<lparr>sv_host := count c (sv_host s)\<rparr>"

definition onData :: "('d \<Rightarrow> 'a \<times> 'd) \<Rightarrow> ('d, 'h) server \<Rightarrow> 'a \<times> ('d, 'h) server" where
  "onData f s = (case f (sv_data s) of (r, d) \<Rightarrow> (r, s\<lparr>sv_data := d\<rparr>))"

definition authenticateOn ::
    "authn_env \<Rightarrow> ctx \<Rightarrow> string \<Rightarrow> bool \<Rightarrow> ('d, 'h) server \<Rightarrow> goerr option \<times> ('d, 'h) server" where
  "authenticateOn en cx tgt writeAccess s =
     (case authenticate (sc_auth (sv_config s)) en cx tgt writeAccess (sv_crl s) of
        ((cx', e), st) \<Rightarrow> (e, s\<lparr>sv_crl := st\<rparr>))"

section \<open>Master arbitration\<close>

definition Compare :: "uint128 \<Rightarrow> uint128 option \<Rightarrow> int" where
  "Compare lh rh0 =
     (let rh = (case rh0 of None \<Rightarrow> \<lparr>High = 0, Low = 0\<rparr> | Some r \<Rightarrow> r)
      in if High lh > High rh then 1 else if High lh < High rh then -1
         else if Low lh > Low rh then 1 else if Low lh < Low rh then -1 else 0)"

text \<open>The loop over the extensions: the election id of the last one, or an early return.\<close>

fun electionId :: "extension list \<Rightarrow> bool \<Rightarrow> uint128 \<Rightarrow> goerr + (bool \<times> uint128)" where
  "electionId [] hasMaExt reqEID = Inr (hasMaExt, reqEID)"
| "electionId (OtherExtension # es) hasMaExt reqEID = electionId es hasMaExt reqEID"
| "electionId (MasterArbitration ma # es) hasMaExt reqEID =
     (case ma_ElectionId ma of
        None \<Rightarrow> Inl (Status InvalidArgument ''MA: ElectionId missing'')
      | Some eid \<Rightarrow>
          if ma_Role ma \<noteq> None then Inl (Status Unimplemented ''MA: Role is not implemented'')
          else electionId es True eid)"

definition ReqFromMasterEnabledMA :: "extension list \<Rightarrow> uint128 \<Rightarrow> goerr option \<times> uint128" where
  "ReqFromMasterEnabledMA exts masterEID =
     (case electionId exts False \<lparr>High = 0, Low = 0\<rparr> of
        Inl e \<Rightarrow> (Some e, masterEID)
      | Inr (False, _) \<Rightarrow> (None, masterEID)
      | Inr (True, reqEID) \<Rightarrow>
          (let c = Compare masterEID (Some reqEID)
           in if c = 1 then (Some (Status PermissionDenied ''Election ID is smaller than the current master. Rejected.''), masterEID)
              else if c = -1 then (None, reqEID) else (None, masterEID)))"

definition ReqFromMasterDisabledMA :: "extension list \<Rightarrow> uint128 \<Rightarrow> goerr option \<times> uint128" where
  "ReqFromMasterDisabledMA exts masterEID = (None, masterEID)"

definition ReqFromMaster :: "bool \<Rightarrow> extension list \<Rightarrow> uint128 \<Rightarrow> goerr option \<times> uint128" where
  "ReqFromMaster enabled = (if enabled then ReqFromMasterEnabledMA else ReqFromMasterDisabledMA)"

section \<open>Helpers\<close>

text \<open>The part of a text after its last slash, if it has one.\<close>

definition afterLastSlash :: "string \<Rightarrow> string option" where
  "afterLastSlash s = (if CHR ''/'' \<in> set s then Some (last (split_char CHR ''/'' s)) else None)"

definition getUsername :: "ctx \<Rightarrow> goerr + string" where
  "getUsername cx =
     (case cx_peer cx of
        None \<Rightarrow> Inl (Status Unauthenticated ''failed to get peer from ctx'')
      | Some pr \<Rightarrow>
          (case pi_TLS pr of
             None \<Rightarrow> Inl (Status Unauthenticated ''no tls info was found'')
           | Some tls \<Rightarrow>
               (case tls_SPIFFEID tls of
                  None \<Rightarrow> Inl (Status Unauthenticated ''failed to get SPIFFE ID'')
                | Some path \<Rightarrow>
                    (case afterLastSlash path of
                       None \<Rightarrow> Inl (Status Unauthenticated (''failed to get username from SPIFFE ID: '' @ path))
                     | Some u \<Rightarrow> Inr u))))"

definition checkEncodingAndModel :: "encoding \<Rightarrow> goerr option" where
  "checkEncodingAndModel enc =
     (if enc \<in> set supportedEncodings then None else Some (Plain (''unsupported encoding: '' @ encodingName enc)))"

text \<open>The origin of a path is read through the pointer, so a missing path is a nil dereference.\<close>

fun sameOrigin :: "string \<Rightarrow> gpath option list \<Rightarrow> goerr + string" where
  "sameOrigin o1 [] = Inr o1"
| "sameOrigin o1 (None # ps) = Inl (Panic ''invalid memory address or nil pointer dereference'')"
| "sameOrigin o1 (Some p # ps) =
     (if o1 \<noteq> p_origin p then Inl (Status Unimplemented ''Origin conflict in path'') else sameOrigin o1 ps)"

definition ParseOrigin :: "gpath option list \<Rightarrow> goerr + string" where
  "ParseOrigin paths =
     (case paths of
        [] \<Rightarrow> Inr []
      | None # ps \<Rightarrow> Inl (Panic ''invalid memory address or nil pointer dereference'')
      | Some p # ps \<Rightarrow> sameOrigin (p_origin p) ps)"

definition IsNativeOrigin :: "string \<Rightarrow> bool" where
  "IsNativeOrigin origin \<longleftrightarrow> origin = ''sonic-db''"

definition originOf :: "gpath option \<Rightarrow> gpath option list \<Rightarrow> goerr + string" where
  "originOf pre paths = (if GetOrigin pre = [] then ParseOrigin paths else Inr (GetOrigin pre))"

definition toNotification :: "gpath option \<Rightarrow> dataValue \<Rightarrow> notification" where
  "toNotification pre v =
     \<lparr>no_Timestamp = dv_Timestamp v, no_Prefix = pre, no_Update = \<lparr>u_Path = dv_Path v, u_Val = dv_Val v\<rparr>\<rparr>"

section \<open>Get\<close>

definition failGet :: "goerr \<Rightarrow> ('d, 'h) server \<Rightarrow> (goerr + notification list) \<times> ('d, 'h) server" where
  "failGet e s = (Inl e, inc GNMI_GET_FAIL s)"

definition handleOperationalGet ::
    "'d dataEnv \<Rightarrow> authn_env \<Rightarrow> ctx \<Rightarrow> gpath option list \<Rightarrow> gpath option \<Rightarrow> ('d, 'h) server \<Rightarrow>
     (goerr + notification list) \<times> ('d, 'h) server" where
  "handleOperationalGet de en cx paths pre s =
     (case authenticateOn en cx ''gnoi'' False s of
        (Some e, s1) \<Rightarrow> failGet e s1
      | (None, s1) \<Rightarrow>
          (case onData (de_OperationalGet de paths pre) s1 of
             (Inl e, s2) \<Rightarrow> failGet (Status NotFound (errText e)) s2
           | (Inr (Inl e), s2) \<Rightarrow> failGet e s2
           | (Inr (Inr vs), s2) \<Rightarrow> (Inr (map (toNotification pre) vs), s2)))"

text \<open>The client for the target of a Get and the target of the authentication. \<open>Inl\<close> is a return without the counter.\<close>

definition getClient ::
    "'d dataEnv \<Rightarrow> gpath option list \<Rightarrow> gpath option \<Rightarrow> ('d, 'h) server \<Rightarrow>
     (goerr + (goerr option \<times> clientKind \<times> string)) \<times> ('d, 'h) server" where
  "getClient de paths pre s =
     (let tgt = GetTarget pre;
          made = (\<lambda>k. case onData (de_New de k paths pre) s of
                        (Inl e, s1) \<Rightarrow> (Some e, [], s1)
                      | (Inr db, s1) \<Rightarrow> (None, db, s1))
      in if tgt = ''OTHERS'' then
           (case made NonDbClient of (e, _, s1) \<Rightarrow> (Inr (e, NonDbClient, ''gnmi_other''), s1))
         else if tgt = ''SHOW'' then
           (case made ShowClient of (e, _, s1) \<Rightarrow> (Inr (e, ShowClient, ''gnmi_show''), s1))
         else (case de_IsTargetDb de tgt of
                 Some db \<Rightarrow>
                   (case made DbClient of
                      (Some e, _, s1) \<Rightarrow> (Inr (Some e, DbClient, ''gnmi_'' @ db), s1)
                    | (None, _, s1) \<Rightarrow>
                        (case onData (de_ValidatePaths de paths pre) s1 of
                           (e, s2) \<Rightarrow> (Inr (e, DbClient, ''gnmi_'' @ db), s2)))
               | None \<Rightarrow>
                   (case originOf pre paths of
                      Inl e \<Rightarrow> (Inl e, s)
                    | Inr origin \<Rightarrow>
                        if IsNativeOrigin origin
                        then (case made MixedDbClient of (e, db, s1) \<Rightarrow> (Inr (e, MixedDbClient, ''gnmi_'' @ db), s1))
                        else (case made TranslClient of (e, _, s1) \<Rightarrow> (Inr (e, TranslClient, ''gnmi''), s1)))))"

fun getError :: "goerr \<Rightarrow> goerr" where
  "getError (Status c m) = Status c m"
| "getError e = Status NotFound (errText e)"

text \<open>Get from the check of the encoding on, for the paths that are left.\<close>

definition getPaths ::
    "'d dataEnv \<Rightarrow> authn_env \<Rightarrow> ctx \<Rightarrow> getRequest \<Rightarrow> gpath option list \<Rightarrow> ('d, 'h) server \<Rightarrow>
     (goerr + notification list) \<times> ('d, 'h) server" where
  "getPaths de en cx req paths s =
     (let pre = gq_Prefix req
      in case checkEncodingAndModel (gq_Encoding req) of
           Some e \<Rightarrow> failGet (Status Unimplemented (errText e)) s
         | None \<Rightarrow>
             if GetTarget pre = ''OPERATIONAL'' then handleOperationalGet de en cx paths pre s
             else (case getClient de paths pre s of
                (Inl e, s1) \<Rightarrow> (Inl e, s1)
              | (Inr (Some e, _), s1) \<Rightarrow> failGet (Status NotFound (errText e)) s1
              | (Inr (None, k, authTarget), s1) \<Rightarrow>
                  (case authenticateOn en cx authTarget False s1 of
                     (Some e, s2) \<Rightarrow> failGet e s2
                   | (None, s2) \<Rightarrow>
                       (case onData (de_Get de k paths pre) s2 of
                          (Inl e, s3) \<Rightarrow> failGet (getError e) s3
                        | (Inr vs, s3) \<Rightarrow> (Inr (map (toNotification pre) vs), s3)))))"

text \<open>The loop over the paths asks the policy and does nothing with the answers: \<open>newPaths\<close> stays as it was made.\<close>

definition askAll :: "processor \<Rightarrow> string \<Rightarrow> gpath option \<Rightarrow> mode \<Rightarrow> gpath option list \<Rightarrow> (goerr + result) list" where
  "askAll pr user pre m paths = map (\<lambda>p. AuthorizeWithPrefix pr user pre p m) paths"

definition Get ::
    "'d dataEnv \<Rightarrow> authn_env \<Rightarrow> ctx \<Rightarrow> getRequest \<Rightarrow> ('d, 'h) server \<Rightarrow> (goerr + notification list) \<times> ('d, 'h) server" where
  "Get de en cx req s0 =
     (let s = inc GNMI_GET s0
      in if gq_Type req \<noteq> GetRequest_ALL then
           failGet (Status Unimplemented (''unsupported request type: '' @ dataTypeName (gq_Type req))) s
         else if sc_PathzPolicy (sv_config s) \<and> gq_Path req \<noteq> [] then
           (let newPaths = []
            in case getUsername cx of
                 Inl e \<Rightarrow> (Inl e, s)
               | Inr user \<Rightarrow>
                   (let answers = askAll (sv_pathz s) user (gq_Prefix req) MODE_READ (gq_Path req)
                    in if newPaths = [] then (Inl (Status PermissionDenied ''Unauthorized request. Rejected by pathz policy.''), s)
                       else getPaths de en cx req newPaths s))
         else getPaths de en cx req (gq_Path req) s)"

section \<open>Set\<close>

text \<open>Saving goes through the host service; its error is only logged by the callee and dropped by Set.\<close>

definition SaveOnSetEnabled :: "'h bus \<Rightarrow> ('d, 'h) server \<Rightarrow> goerr option \<times> ('d, 'h) server" where
  "SaveOnSetEnabled bus s =
     (case ConfigSave bus ''/etc/sonic/config_db.json'' (sv_host s) of (e, h) \<Rightarrow> (e, s\<lparr>sv_host := h\<rparr>))"

definition saveOnSetDisabled :: "('d, 'h) server \<Rightarrow> goerr option \<times> ('d, 'h) server" where
  "saveOnSetDisabled s = (None, s)"

definition SaveStartupConfig :: "'h bus \<Rightarrow> ('d, 'h) server \<Rightarrow> goerr option \<times> ('d, 'h) server" where
  "SaveStartupConfig bus s = (if sv_saveOnSet s then SaveOnSetEnabled bus s else saveOnSetDisabled s)"

definition failSet :: "goerr \<Rightarrow> ('d, 'h) server \<Rightarrow> (goerr + setResponse) \<times> ('d, 'h) server" where
  "failSet e s = (Inl e, inc GNMI_SET_FAIL s)"

definition setPaths :: "setRequest \<Rightarrow> gpath option list" where
  "setPaths req = sq_Delete req @ map u_Path (sq_Replace req) @ map u_Path (sq_Update req)"

definition setResults :: "setRequest \<Rightarrow> updateResult list" where
  "setResults req = deleteResults (sq_Delete req) @ updateResults OpReplace (sq_Replace req) @ updateResults OpUpdate (sq_Update req)"

text \<open>Set from the authentication on, with the client that was made. An error of the client's Set comes with the
  response, which gRPC then drops.\<close>

definition setWith ::
    "'d dataEnv \<Rightarrow> 'h bus \<Rightarrow> authn_env \<Rightarrow> ctx \<Rightarrow> setRequest \<Rightarrow> clientKind \<Rightarrow> string \<Rightarrow> ('d, 'h) server \<Rightarrow>
     (goerr + setResponse) \<times> ('d, 'h) server" where
  "setWith de bus en cx req k authTarget s =
     (case authenticateOn en cx authTarget True s of
        (Some e, s1) \<Rightarrow> failSet e s1
      | (None, s1) \<Rightarrow>
          (case onData (de_Set de k (sq_Prefix req) (sq_Delete req) (sq_Replace req) (sq_Update req)) s1 of
             (Some e, s2) \<Rightarrow> failSet e s2
           | (None, s2) \<Rightarrow> (Inr \<lparr>sr_Prefix = sq_Prefix req, sr_Response = setResults req\<rparr>, snd (SaveStartupConfig bus s2))))"

definition setNative ::
    "'d dataEnv \<Rightarrow> 'h bus \<Rightarrow> authn_env \<Rightarrow> ctx \<Rightarrow> setRequest \<Rightarrow> ('d, 'h) server \<Rightarrow> (goerr + setResponse) \<times> ('d, 'h) server" where
  "setNative de bus en cx req s =
     (if \<not> sc_EnableNativeWrite (sv_config s) then failSet (Status Unimplemented ''GNMI native write is disabled'') s
      else (case TrySet (de_floatText de) cx (sq_Prefix req) (sq_Delete req) (sq_Replace req @ sq_Update req) (sv_configDb s) of
              (Some (Inl e), w) \<Rightarrow> failSet (Status Internal (errText e)) (s\<lparr>sv_configDb := w\<rparr>)
            | (Some (Inr resp), w) \<Rightarrow> (Inr resp, inc GNMI_SET_BYPASS (s\<lparr>sv_configDb := w\<rparr>))
            | (None, w) \<Rightarrow>
                (case onData (de_New de MixedDbClient (setPaths req) (sq_Prefix req)) (s\<lparr>sv_configDb := w\<rparr>) of
                   (Inl e, s1) \<Rightarrow> failSet (Status NotFound (errText e)) s1
                 | (Inr db, s1) \<Rightarrow> setWith de bus en cx req MixedDbClient (''gnmi_'' @ db) s1)))"

definition setTransl ::
    "'d dataEnv \<Rightarrow> 'h bus \<Rightarrow> authn_env \<Rightarrow> ctx \<Rightarrow> setRequest \<Rightarrow> ('d, 'h) server \<Rightarrow> (goerr + setResponse) \<times> ('d, 'h) server" where
  "setTransl de bus en cx req s =
     (if \<not> sc_EnableTranslibWrite (sv_config s) then failSet (Status Unimplemented ''Translib write is disabled'') s
      else (case onData (de_New de TranslClient [] (sq_Prefix req)) s of
              (Inl e, s1) \<Rightarrow> failSet (Status NotFound (errText e)) s1
            | (Inr _, s1) \<Rightarrow> setWith de bus en cx req TranslClient ''gnmi'' s1))"

text \<open>The check against the path policy: \<open>permitted\<close> is set before the loops and by nothing else.\<close>

definition pathzSet :: "ctx \<Rightarrow> setRequest \<Rightarrow> ('d, 'h) server \<Rightarrow> goerr option" where
  "pathzSet cx req s =
     (if sc_PathzPolicy (sv_config s) then
        (case getUsername cx of
           Inl e \<Rightarrow> Some e
         | Inr user \<Rightarrow>
             (let permitted = True;
                  answers = askAll (sv_pathz s) user (sq_Prefix req) MODE_WRITE (setPaths req)
              in if \<not> permitted then Some (Status PermissionDenied ''Unauthorized request. Rejected by pathz policy.'') else None))
      else None)"

definition Set ::
    "'d dataEnv \<Rightarrow> 'h bus \<Rightarrow> authn_env \<Rightarrow> ctx \<Rightarrow> setRequest \<Rightarrow> ('d, 'h) server \<Rightarrow> (goerr + setResponse) \<times> ('d, 'h) server" where
  "Set de bus en cx req s0 =
     (case ReqFromMaster (sv_masterArbitration s0) (sq_Extension req) (sv_masterEID s0) of
        (Some e, eid) \<Rightarrow> (Inl e, s0\<lparr>sv_masterEID := eid\<rparr>)
      | (None, eid) \<Rightarrow>
          (let s = inc GNMI_SET (s0\<lparr>sv_masterEID := eid\<rparr>)
           in if \<not> sc_EnableTranslibWrite (sv_config s) \<and> \<not> sc_EnableNativeWrite (sv_config s)
              then failSet (Status Unimplemented ''GNMI is in read-only mode'') s
              else (case pathzSet cx req s of
                 Some e \<Rightarrow> (Inl e, s)
               | None \<Rightarrow>
                   (case originOf (sq_Prefix req) (setPaths req) of
                      Inl e \<Rightarrow> (Inl e, s)
                    | Inr origin \<Rightarrow>
                        if IsNativeOrigin origin then setNative de bus en cx req s else setTransl de bus en cx req s))))"

section \<open>Capabilities\<close>

record modelData =
  md_Name :: string
  md_Organization :: string
  md_Version :: string

record capabilityResponse =
  cap_SupportedModels :: "modelData list"
  cap_SupportedEncodings :: "encoding list"
  cap_GNMIVersion :: string
  cap_Versions :: "string \<times> string"

text \<open>The models of the two clients and the bundle versions of the translation library are arguments.\<close>

definition Capabilities ::
    "modelData list \<Rightarrow> modelData list \<Rightarrow> string \<times> string \<Rightarrow> authn_env \<Rightarrow> ctx \<Rightarrow> ('d, 'h) server \<Rightarrow>
     (goerr + capabilityResponse) \<times> ('d, 'h) server" where
  "Capabilities translModels mixedModels versions en cx s =
     (case authenticateOn en cx ''gnmi'' False s of
        (Some e, s1) \<Rightarrow> (Inl e, s1)
      | (None, s1) \<Rightarrow>
          (Inr \<lparr>cap_SupportedModels = translModels @ mixedModels, cap_SupportedEncodings = supportedEncodings,
                cap_GNMIVersion = ''0.7.0'', cap_Versions = versions\<rparr>, s1))"


section \<open>Election ids\<close>

text \<open>The number that the two halves stand for.\<close>

definition eidVal :: "uint128 \<Rightarrow> nat" where
  "eidVal e = unat (High e) * 2 ^ 64 + unat (Low e)"

lemma half_bound: "unat (w :: 64 word) < 18446744073709551616"
  using unsigned_less [of w] by simp

lemma Compare_eidVal:
  "Compare a (Some b) = (if eidVal b < eidVal a then 1 else if eidVal a < eidVal b then -1 else 0)"
  using half_bound [of "Low a"] half_bound [of "Low b"]
  by (simp add: Compare_def eidVal_def word_less_nat_alt)

lemma ReqFromMasterEnabledMA_mono: "ReqFromMasterEnabledMA exts eid = (r, eid') \<Longrightarrow> eidVal eid \<le> eidVal eid'"
  by (auto simp: ReqFromMasterEnabledMA_def Compare_eidVal Let_def split: sum.splits prod.splits bool.splits if_splits)

lemma ReqFromMasterEnabledMA_accepts:
  "ReqFromMasterEnabledMA exts eid = (None, eid') \<Longrightarrow> electionId exts False \<lparr>High = 0, Low = 0\<rparr> = Inr (True, a) \<Longrightarrow>
   eidVal a \<le> eidVal eid'"
  by (auto simp: ReqFromMasterEnabledMA_def Compare_eidVal Let_def split: if_splits)

section \<open>What the operations keep\<close>

lemma inc_keeps [simp]:
  "sv_masterEID (inc c s) = sv_masterEID s" "sv_masterArbitration (inc c s) = sv_masterArbitration s"
  "sv_config (inc c s) = sv_config s" "sv_configDb (inc c s) = sv_configDb s" "sv_pathz (inc c s) = sv_pathz s"
  by (simp_all add: inc_def)

lemma onData_keeps: "onData f s = (r, s') \<Longrightarrow> sv_masterEID s' = sv_masterEID s \<and> sv_masterArbitration s' = sv_masterArbitration s"
  by (auto simp: onData_def split: prod.splits)

lemma authenticateOn_keeps:
  "authenticateOn en cx t b s = (r, s') \<Longrightarrow> sv_masterEID s' = sv_masterEID s \<and> sv_masterArbitration s' = sv_masterArbitration s"
  by (auto simp: authenticateOn_def split: prod.splits)

lemma SaveStartupConfig_keeps [simp]:
  "sv_masterEID (snd (SaveStartupConfig bus s)) = sv_masterEID s"
  "sv_masterArbitration (snd (SaveStartupConfig bus s)) = sv_masterArbitration s"
  by (simp_all add: SaveStartupConfig_def SaveOnSetEnabled_def saveOnSetDisabled_def split: prod.splits)

lemma setWith_keeps:
  "setWith de bus en cx req k t s = (r, s') \<Longrightarrow> sv_masterEID s' = sv_masterEID s \<and> sv_masterArbitration s' = sv_masterArbitration s"
  by (auto simp: setWith_def failSet_def split: prod.splits option.splits dest!: onData_keeps authenticateOn_keeps)

lemma setNative_keeps:
  "setNative de bus en cx req s = (r, s') \<Longrightarrow> sv_masterEID s' = sv_masterEID s \<and> sv_masterArbitration s' = sv_masterArbitration s"
  by (auto simp: setNative_def failSet_def split: if_splits prod.splits option.splits sum.splits dest!: onData_keeps setWith_keeps)

lemma setTransl_keeps:
  "setTransl de bus en cx req s = (r, s') \<Longrightarrow> sv_masterEID s' = sv_masterEID s \<and> sv_masterArbitration s' = sv_masterArbitration s"
  by (auto simp: setTransl_def failSet_def split: if_splits prod.splits option.splits sum.splits dest!: onData_keeps setWith_keeps)

lemma Set_master:
  assumes "Set de bus en cx req s = (r, s')"
  shows "sv_masterEID s' = snd (ReqFromMaster (sv_masterArbitration s) (sq_Extension req) (sv_masterEID s)) \<and>
    sv_masterArbitration s' = sv_masterArbitration s"
  using assms
  by (auto simp: Set_def failSet_def Let_def split: prod.splits option.splits sum.splits if_splits
      dest!: setNative_keeps setTransl_keeps)

text \<open>The server after a sequence of Set requests.\<close>

fun setAfter ::
    "'d dataEnv \<Rightarrow> 'h bus \<Rightarrow> authn_env \<Rightarrow> (ctx \<times> setRequest) list \<Rightarrow> ('d, 'h) server \<Rightarrow> ('d, 'h) server" where
  "setAfter de bus en [] s = s"
| "setAfter de bus en ((cx, req) # xs) s = setAfter de bus en xs (snd (Set de bus en cx req s))"

lemma setAfter_master:
  "sv_masterArbitration s \<Longrightarrow>
   eidVal (sv_masterEID s) \<le> eidVal (sv_masterEID (setAfter de bus en xs s)) \<and> sv_masterArbitration (setAfter de bus en xs s)"
proof (induction xs arbitrary: s)
  case (Cons x xs)
  obtain cx req where x: "x = (cx, req)" by (cases x)
  obtain r s1 where s1: "Set de bus en cx req s = (r, s1)" by fastforce
  have "eidVal (sv_masterEID s) \<le> eidVal (sv_masterEID s1)" "sv_masterArbitration s1"
    using Set_master [OF s1] ReqFromMasterEnabledMA_mono [of "sq_Extension req" "sv_masterEID s"] Cons.prems
    by (auto simp: ReqFromMaster_def) (metis prod.collapse)
  then show ?case
    using Cons.IH [of s1] by (auto simp: x s1)
qed simp



text \<open>A data plane that counts its writes, for the examples.\<close>

definition exEnv :: "nat dataEnv" where
  "exEnv = \<lparr>de_IsTargetDb = (\<lambda>t. if t = ''CONFIG_DB'' then Some t else None), de_New = (\<lambda>k ps pre d. (Inr ''CONFIG_DB'', d)),
     de_ValidatePaths = (\<lambda>ps pre d. (None, d)), de_Get = (\<lambda>k ps pre d. (Inr [], d)), de_Set = (\<lambda>k pre ds rs us d. (None, Suc d)),
     de_OperationalGet = (\<lambda>ps pre d. (Inr (Inr []), d)), de_floatText = Some\<rparr>"

definition exServer :: "(nat, unit) server" where
  "exServer = \<lparr>sv_config = \<lparr>sc_auth = \<lparr>ac_UserAuth = [(''cert'', True)], ac_ConfigTableName = ''T'', ac_EnableCrl = False\<rparr>,
       sc_EnableTranslibWrite = True, sc_EnableNativeWrite = True, sc_PathzPolicy = False\<rparr>,
     sv_masterArbitration = True, sv_saveOnSet = False, sv_masterEID = \<lparr>High = 0, Low = 0\<rparr>,
     sv_pathz = \<lparr>pr_groups = (\<lambda>_. None), pr_root = None, pr_policy = None\<rparr>,
     sv_crl = \<lparr>cs_CrlCache = None, cs_CrlDxpireDuration = 0, cs_now = 0\<rparr>, sv_configDb = exConfigDb, sv_data = 0,
     sv_host = \<lparr>hs_host = (), hs_counters = (\<lambda>_. 0)\<rparr>\<rparr>"

definition exAuthn :: authn_env where
  "exAuthn = \<lparr>en_lookup = (\<lambda>_. Inl (Plain [])), en_group = (\<lambda>_. Inl (Plain [])), en_ssh = (\<lambda>_ _. Some (Plain [])),
     en_jwt = (\<lambda>_. Inl (Plain [])), en_entry = (\<lambda>_ _. []), en_http = (\<lambda>_. Inl (Plain [])), en_revoked = (\<lambda>_ _. None),
     en_clock = (\<lambda>_. 0)\<rparr>"

definition exBus :: "unit bus" where
  "exBus c h = (TimedOut, h)"

definition elect :: "64 word \<Rightarrow> setRequest" where
  "elect n = \<lparr>sq_Prefix = None, sq_Delete = [], sq_Replace = [], sq_Update = [],
     sq_Extension = [MasterArbitration \<lparr>ma_ElectionId = Some \<lparr>High = 0, Low = n\<rparr>, ma_Role = None\<rparr>]\<rparr>"


section \<open>Authorization\<close>

text \<open>C25. A native Set that the fast path takes is answered without authentication: for every state of the authentication
  mechanisms, also one that refuses the caller, the write is done and the response is sent.\<close>

theorem bypass_set_is_not_authenticated:
  assumes "sc_EnableNativeWrite (sv_config s)" "\<not> sc_PathzPolicy (sv_config s)" "\<not> sv_masterArbitration s"
    and "originOf (sq_Prefix req) (setPaths req) = Inr ''sonic-db''"
    and "TrySet (de_floatText de) cx (sq_Prefix req) (sq_Delete req) (sq_Replace req @ sq_Update req) (sv_configDb s) = (Some (Inr resp), w)"
    and "fst (authenticateOn en cx (''gnmi_'' @ db) True s) = Some e"
  shows "\<exists>s'. Set de bus en cx req s = (Inr resp, s') \<and> sv_configDb s' = w"
  using assms(1-5)
  by (simp add: Set_def ReqFromMaster_def ReqFromMasterDisabledMA_def pathzSet_def IsNativeOrigin_def setNative_def)

definition exBypassRequest :: setRequest where
  "exBypassRequest = \<lparr>sq_Prefix = None, sq_Delete = exDelete, sq_Replace = [], sq_Update = [], sq_Extension = []\<rparr>"

lemma exBypass_run:
  "fst (TrySet Some exCtx None exDelete [] exConfigDb) = Some (Inr \<lparr>sr_Prefix = None, sr_Response = deleteResults exDelete\<rparr>)"
  "fst (authenticateOn exAuthn exCtx ''gnmi_CONFIG_DB'' True (exServer\<lparr>sv_masterArbitration := False\<rparr>)) =
     Some (Status Unauthenticated ''Unauthenticated'')"
  by code_simp+

theorem bypass_set_is_not_authenticated_witness:
  "\<exists>s'. Set exEnv exBus exAuthn exCtx exBypassRequest (exServer\<lparr>sv_masterArbitration := False\<rparr>) =
      (Inr \<lparr>sr_Prefix = None, sr_Response = deleteResults exDelete\<rparr>, s') \<and>
    gm_get (w_db (sv_configDb s')) (''VNET|Vnet1'', ''vni'') = None"
proof -
  let ?s = "exServer\<lparr>sv_masterArbitration := False\<rparr>"
  have o: "originOf (sq_Prefix exBypassRequest) (setPaths exBypassRequest) = Inr ''sonic-db''"
    by code_simp
  have t: "TrySet (de_floatText exEnv) exCtx (sq_Prefix exBypassRequest) (sq_Delete exBypassRequest)
      (sq_Replace exBypassRequest @ sq_Update exBypassRequest) (sv_configDb ?s) =
      (Some (Inr \<lparr>sr_Prefix = None, sr_Response = deleteResults exDelete\<rparr>), snd (TrySet Some exCtx None exDelete [] exConfigDb))"
    using exBypass_run(1) by (simp add: exEnv_def exBypassRequest_def exServer_def prod_eq_iff)
  have a: "fst (authenticateOn exAuthn exCtx (''gnmi_'' @ ''CONFIG_DB'') True ?s) = Some (Status Unauthenticated ''Unauthenticated'')"
    using exBypass_run(2) by simp
  show ?thesis
    using bypass_set_is_not_authenticated [OF _ _ _ o t a, of exBus] exDelete_run by (fastforce simp: exServer_def)
qed


text \<open>The operations behind Set do not look at the path policy.\<close>

abbreviation withPolicy :: "processor \<Rightarrow> 'a \<times> ('d, 'h) server \<Rightarrow> 'a \<times> ('d, 'h) server" where
  "withPolicy p \<equiv> apsnd (\<lambda>s. s\<lparr>sv_pathz := p\<rparr>)"

lemma inc_policy: "inc c (s\<lparr>sv_pathz := p\<rparr>) = (inc c s)\<lparr>sv_pathz := p\<rparr>"
  by (simp add: inc_def)

lemma onData_policy: "onData f (s\<lparr>sv_pathz := p\<rparr>) = withPolicy p (onData f s)"
  by (simp add: onData_def split: prod.splits)

lemma authenticateOn_policy: "authenticateOn en cx t b (s\<lparr>sv_pathz := p\<rparr>) = withPolicy p (authenticateOn en cx t b s)"
  by (simp add: authenticateOn_def split: prod.splits)

lemma save_policy: "SaveStartupConfig bus (s\<lparr>sv_pathz := p\<rparr>) = withPolicy p (SaveStartupConfig bus s)"
  by (simp add: SaveStartupConfig_def SaveOnSetEnabled_def saveOnSetDisabled_def split: prod.splits)

lemma setWith_policy: "setWith de bus en cx req k t (s\<lparr>sv_pathz := p\<rparr>) = withPolicy p (setWith de bus en cx req k t s)"
  by (simp add: setWith_def failSet_def authenticateOn_policy onData_policy save_policy inc_policy split: prod.splits option.splits)

lemma setTransl_policy: "setTransl de bus en cx req (s\<lparr>sv_pathz := p\<rparr>) = withPolicy p (setTransl de bus en cx req s)"
  by (simp add: setTransl_def failSet_def onData_policy setWith_policy inc_policy split: prod.splits sum.splits)

lemma setNative_policy: "setNative de bus en cx req (s\<lparr>sv_pathz := p\<rparr>) = withPolicy p (setNative de bus en cx req s)"
proof -
  have w: "s\<lparr>sv_pathz := p, sv_configDb := w\<rparr> = (s\<lparr>sv_configDb := w\<rparr>)\<lparr>sv_pathz := p\<rparr>" for w
    by simp
  show ?thesis
    unfolding setNative_def failSet_def w
    by (simp add: onData_policy setWith_policy inc_policy del: server.update_convs split: prod.splits sum.splits option.splits)
qed

lemma pathzSet_policy: "pathzSet cx req (s\<lparr>sv_pathz := p\<rparr>) = pathzSet cx req s"
  by (simp add: pathzSet_def Let_def split: sum.splits)

text \<open>C26. The path policy has no say in either operation. A Set has the same answer and the same effect under every policy,
  so a policy that denies everything denies no write; and with the policy check enabled every Get that names a path
  fails, also under a policy that permits everything.\<close>

theorem pathz_policy_has_no_say:
  "Set de bus en cx req (s\<lparr>sv_pathz := p\<rparr>) = apsnd (\<lambda>s'. s'\<lparr>sv_pathz := p\<rparr>) (Set de bus en cx req s) \<and>
   (sc_PathzPolicy (sv_config s) \<and> gq_Path greq \<noteq> [] \<longrightarrow> (\<exists>e. fst (Get de en cx greq (s\<lparr>sv_pathz := p\<rparr>)) = Inl e))"
proof
  have w: "s\<lparr>sv_pathz := p, sv_masterEID := x\<rparr> = (s\<lparr>sv_masterEID := x\<rparr>)\<lparr>sv_pathz := p\<rparr>" for x
    by simp
  show "Set de bus en cx req (s\<lparr>sv_pathz := p\<rparr>) = withPolicy p (Set de bus en cx req s)"
    unfolding Set_def failSet_def w
    by (simp add: setNative_policy setTransl_policy pathzSet_policy inc_policy Let_def del: server.update_convs
        split: prod.splits sum.splits option.splits)
  show "sc_PathzPolicy (sv_config s) \<and> gq_Path greq \<noteq> [] \<longrightarrow> (\<exists>e. fst (Get de en cx greq (s\<lparr>sv_pathz := p\<rparr>)) = Inl e)"
    by (simp add: Get_def failGet_def Let_def split: sum.splits)
qed

definition exGet :: getRequest where
  "exGet = \<lparr>gq_Type = GetRequest_ALL, gq_Prefix = None, gq_Path = [exPath [''system'']], gq_Encoding = JSON_IETF, gq_Extension = []\<rparr>"

theorem pathz_policy_has_no_say_witness:
  "\<exists>e. fst (Get exEnv exAuthn exCtx exGet (exServer\<lparr>sv_config := (sv_config exServer)\<lparr>sc_PathzPolicy := True\<rparr>, sv_pathz := newProcessor\<rparr>)) = Inl e"
  using pathz_policy_has_no_say [of exEnv exBus exAuthn exCtx exBypassRequest
      newProcessor "exServer\<lparr>sv_config := (sv_config exServer)\<lparr>sc_PathzPolicy := True\<rparr>\<rparr>" exGet]
  by (simp add: exGet_def)

text \<open>One update without a path, in a Set whose prefix has no origin, is a nil dereference, which ends the process: before
  the authentication, and as soon as either kind of write is enabled.\<close>

theorem set_without_path_panics:
  assumes "sc_EnableNativeWrite (sv_config s) \<or> sc_EnableTranslibWrite (sv_config s)"
    and "\<not> sc_PathzPolicy (sv_config s)" "\<not> sv_masterArbitration s"
    and "GetOrigin (sq_Prefix req) = []" "sq_Delete req = []" "sq_Replace req = []" "u \<in> set (sq_Update req)" "u_Path u = None"
    and "\<forall>v \<in> set (sq_Update req). \<forall>p. u_Path v = Some p \<longrightarrow> p_origin p = x"
  shows "\<exists>msg s'. Set de bus en cx req s = (Inl (Panic msg), s')"
proof -
  have so: "\<exists>msg. sameOrigin x ps = Inl (Panic msg)" if "None \<in> set ps" "\<forall>p. Some p \<in> set ps \<longrightarrow> p_origin p = x" for ps
    using that by (induction x ps rule: sameOrigin.induct) auto
  have "\<exists>msg. ParseOrigin ps = Inl (Panic msg)" if "None \<in> set ps" "\<forall>p. Some p \<in> set ps \<longrightarrow> p_origin p = x" for ps
    using that so [of "tl ps"] by (auto simp: ParseOrigin_def split: list.splits option.splits)
  moreover have "setPaths req = map u_Path (sq_Update req)"
    using assms(5,6) by (simp add: setPaths_def)
  moreover have "None \<in> set (map u_Path (sq_Update req))"
    using assms(7,8) by force
  moreover have "\<forall>p. Some p \<in> set (map u_Path (sq_Update req)) \<longrightarrow> p_origin p = x"
    using assms(9) by auto
  ultimately obtain msg where "originOf (sq_Prefix req) (setPaths req) = Inl (Panic msg)"
    using assms(4) by (metis originOf_def)
  then show ?thesis
    using assms(1-3) by (auto simp: Set_def ReqFromMaster_def ReqFromMasterDisabledMA_def pathzSet_def Let_def)
qed

theorem set_without_path_panics_witness:
  "\<exists>msg s'. Set exEnv exBus exAuthn exCtx \<lparr>sq_Prefix = None, sq_Delete = [], sq_Replace = [],
       sq_Update = [\<lparr>u_Path = None, u_Val = Some (StringVal ''x'')\<rparr>], sq_Extension = []\<rparr>
     (exServer\<lparr>sv_masterArbitration := False\<rparr>) = (Inl (Panic msg), s')"
  by (rule set_without_path_panics [where u = "\<lparr>u_Path = None, u_Val = Some (StringVal ''x'')\<rparr>" and x = "[]"])
    (simp_all add: exServer_def GetOrigin_def)

end
