(* ===== verification/Gnmi_Subscribe.thy ===== *)
theory Gnmi_Subscribe
  imports Gnmi_Server
begin

text \<open>
  The Subscribe RPC: the connection manager (\<^verbatim>\<open>gnmi_server/connection_manager.go\<close>), the client of one stream
  (\<^verbatim>\<open>gnmi_server/client_subscribe.go\<close>) and the registry of clients in \<^verbatim>\<open>Server.Subscribe\<close>.

  The operations that take a lock in two regions are split there, so that the step relations \<open>connStep\<close> and
  \<open>clientStep\<close> can interleave the regions of any number of RPCs. Peer addresses, the text of the query and the time
  are arguments.
\<close>

section \<open>Connection keys\<close>

definition keyChar :: "char \<Rightarrow> bool" where
  "keyChar c \<longleftrightarrow> (let n = of_char c :: nat in (97 \<le> n \<and> n \<le> 122) \<or> (65 \<le> n \<and> n \<le> 90) \<or> (48 \<le> n \<and> n \<le> 57))
     \<or> c = CHR ''-'' \<or> c = CHR ''_'' \<or> c = CHR ''*''"

text \<open>A match of the regular expression at the front of a text: its group and the rest.\<close>

definition matchField :: "string \<Rightarrow> string \<Rightarrow> (string \<times> string) option" where
  "matchField name s =
     (if HasPrefix s (name @ '':'' @ [CHR 0x22]) then
        (let r = drop (length name + 2) s; v = takeWhile keyChar r
         in case drop (length v) r of
              c # t \<Rightarrow> if c = CHR 0x22 then Some (v, t) else None
            | [] \<Rightarrow> None)
      else None)"

definition matchHere :: "string \<Rightarrow> (string \<times> string) option" where
  "matchHere s = (case matchField ''target'' s of Some m \<Rightarrow> Some m | None \<Rightarrow> matchField ''element'' s)"

lemma drop_Cons_shorter: "drop n s = c # t \<Longrightarrow> length t < length s"
proof -
  assume "drop n s = c # t"
  then have "length s - n = Suc (length t)"
    by (metis length_Cons length_drop)
  then show ?thesis by simp
qed

lemma matchField_shorter: "matchField n s = Some (v, t) \<Longrightarrow> length t < length s"
  by (auto simp: matchField_def Let_def split: if_splits list.splits dest!: drop_Cons_shorter)

lemma matchHere_shorter: "matchHere s = Some (v, t) \<Longrightarrow> length t < length s"
  by (auto simp: matchHere_def matchField_shorter split: option.splits)

function findAll :: "string \<Rightarrow> string list" where
  "findAll s =
     (case s of
        [] \<Rightarrow> []
      | c # r \<Rightarrow> (case matchHere s of Some (v, t) \<Rightarrow> v # findAll t | None \<Rightarrow> findAll r))"
  by pat_completeness auto

termination
  by (relation "measure length") (auto dest: matchHere_shorter)

declare findAll.simps [simp del]

definition createKey :: "string \<Rightarrow> string \<Rightarrow> string \<Rightarrow> string" where
  "createKey addr query now = addr @ ''|'' @ concat (map (\<lambda>m. m @ ''|'') (findAll query)) @ now"

section \<open>The connection manager\<close>

record connectionManager =
  cm_connections :: "(string, unit) gomap"
  cm_threshold :: int

text \<open>The globals: the manager, the redis client, and the database behind it.\<close>

record connState =
  ct_manager :: "connectionManager option"
  ct_rclient :: bool
  ct_world :: world

definition connTable :: string where
  "connTable = ''TELEMETRY_CONNECTIONS''"

definition HDel :: "string \<Rightarrow> string \<Rightarrow> world \<Rightarrow> world" where
  "HDel key fld w = (if fate w \<noteq> None then step w else (step w)\<lparr>w_db := gm_del (key, fld) (w_db w)\<rparr>)"

text \<open>\<open>lookup\<close>: whether the address and the number of STATE_DB could be read.\<close>

definition PrepareRedis :: "bool \<Rightarrow> connState \<Rightarrow> connState" where
  "PrepareRedis dbKnown st =
     (if \<not> dbKnown then st
      else (case HGetAll connTable (ct_world st) of
              (Inl e, w) \<Rightarrow> st\<lparr>ct_rclient := True, ct_world := w\<rparr>
            | (Inr res, w) \<Rightarrow> st\<lparr>ct_rclient := True, ct_world := fold (\<lambda>(k, v). HDel connTable k) res w\<rparr>))"

definition storeKeyRedis :: "string \<Rightarrow> connState \<Rightarrow> connState" where
  "storeKeyRedis key st =
     (if \<not> ct_rclient st then st else st\<lparr>ct_world := snd (HSet connTable key ''active'' (ct_world st))\<rparr>)"

definition deleteKeyRedis :: "string \<Rightarrow> connState \<Rightarrow> connState" where
  "deleteKeyRedis key st = (if \<not> ct_rclient st then st else st\<lparr>ct_world := HDel connTable key (ct_world st)\<rparr>)"

text \<open>The two lock regions of Add, and of Remove.\<close>

definition addCheck :: "connectionManager \<Rightarrow> bool" where
  "addCheck cm \<longleftrightarrow> \<not> (int (length (cm_connections cm)) \<ge> cm_threshold cm \<and> cm_threshold cm \<noteq> 0)"

definition addInsert :: "string \<Rightarrow> connectionManager \<Rightarrow> connectionManager" where
  "addInsert key cm = cm\<lparr>cm_connections := gm_set key () (cm_connections cm)\<rparr>"

definition removeCheck :: "string \<Rightarrow> connectionManager \<Rightarrow> bool" where
  "removeCheck key cm \<longleftrightarrow> gm_get (cm_connections cm) key \<noteq> None"

definition removeDelete :: "string \<Rightarrow> connectionManager \<Rightarrow> connectionManager" where
  "removeDelete key cm = cm\<lparr>cm_connections := gm_del key (cm_connections cm)\<rparr>"

definition onManager :: "(connectionManager \<Rightarrow> connectionManager) \<Rightarrow> connState \<Rightarrow> connState" where
  "onManager f st = st\<lparr>ct_manager := map_option f (ct_manager st)\<rparr>"

definition Add :: "string \<Rightarrow> string \<Rightarrow> string \<Rightarrow> connState \<Rightarrow> (goerr + (string \<times> bool)) \<times> connState" where
  "Add addr query now st =
     (case ct_manager st of
        None \<Rightarrow> (Inl (Panic ''invalid memory address or nil pointer dereference''), st)
      | Some cm \<Rightarrow>
          if \<not> addCheck cm then (Inr ([], False), st)
          else (let key = createKey addr query now in (Inr (key, True), storeKeyRedis key (onManager (addInsert key) st))))"

definition Remove :: "string \<Rightarrow> connState \<Rightarrow> (goerr + bool) \<times> connState" where
  "Remove key st =
     (case ct_manager st of
        None \<Rightarrow> (Inl (Panic ''invalid memory address or nil pointer dereference''), st)
      | Some cm \<Rightarrow>
          (let there = removeCheck key cm
           in (Inr there, deleteKeyRedis key (if there then onManager (removeDelete key) st else st))))"

definition GetThreshold :: "connectionManager \<Rightarrow> int" where
  "GetThreshold cm = cm_threshold cm"

definition setConnectionManager :: "bool \<Rightarrow> int \<Rightarrow> connState \<Rightarrow> connState" where
  "setConnectionManager dbKnown threshold st =
     (case ct_manager st of
        Some cm \<Rightarrow>
          if threshold = GetThreshold cm then st
          else PrepareRedis dbKnown (st\<lparr>ct_manager := Some \<lparr>cm_connections = [], cm_threshold = threshold\<rparr>\<rparr>)
      | None \<Rightarrow> PrepareRedis dbKnown (st\<lparr>ct_manager := Some \<lparr>cm_connections = [], cm_threshold = threshold\<rparr>\<rparr>))"

section \<open>Concurrent calls of Add and Remove\<close>

text \<open>Where an RPC is: not in the manager, between the two regions of Add, holding a connection, between the two regions
  of Remove.\<close>

datatype place = Outside | Checked | Holding string | Removing string

record connSys =
  sy_manager :: connectionManager
  sy_place :: "nat \<Rightarrow> place"

definition checkedCalls :: "connSys \<Rightarrow> nat set" where
  "checkedCalls s = {i. sy_place s i = Checked}"

definition at :: "nat \<Rightarrow> place \<Rightarrow> connSys \<Rightarrow> connSys" where
  "at i p s = s\<lparr>sy_place := (sy_place s)(i := p)\<rparr>"

text \<open>The steps of calls of which at most \<open>k\<close> are between the two regions of Add at the same time.\<close>

inductive connStep :: "nat \<Rightarrow> connSys \<Rightarrow> connSys \<Rightarrow> bool" for k :: nat where
  check: "sy_place s i = Outside \<Longrightarrow> addCheck (sy_manager s) \<Longrightarrow> card (checkedCalls s) < k \<Longrightarrow> connStep k s (at i Checked s)"
| full: "sy_place s i = Outside \<Longrightarrow> \<not> addCheck (sy_manager s) \<Longrightarrow> connStep k s s"
| insert: "sy_place s i = Checked \<Longrightarrow> connStep k s ((at i (Holding key) s)\<lparr>sy_manager := addInsert key (sy_manager s)\<rparr>)"
| find: "sy_place s i = Holding key \<Longrightarrow> removeCheck key (sy_manager s) \<Longrightarrow> connStep k s (at i (Removing key) s)"
| gone: "sy_place s i = Holding key \<Longrightarrow> \<not> removeCheck key (sy_manager s) \<Longrightarrow> connStep k s (at i Outside s)"
| delete: "sy_place s i = Removing key \<Longrightarrow>
     connStep k s ((at i Outside s)\<lparr>sy_manager := removeDelete key (sy_manager s)\<rparr>)"

inductive connReach :: "nat \<Rightarrow> int \<Rightarrow> connSys \<Rightarrow> bool" for k :: nat and t :: int where
  start: "connReach k t \<lparr>sy_manager = \<lparr>cm_connections = [], cm_threshold = t\<rparr>, sy_place = (\<lambda>_. Outside)\<rparr>"
| more: "connReach k t s \<Longrightarrow> connStep k s s' \<Longrightarrow> connReach k t s'"

inductive_cases connStep_cases: "connStep k s s'"

lemma gm_set_length: "length (gm_set k v m) \<le> Suc (length m)"
  by (induction m) auto

lemma gm_del_length: "length (gm_del k m) \<le> length m"
  by (simp add: AList.delete_eq)

definition connInv :: "nat \<Rightarrow> int \<Rightarrow> connSys \<Rightarrow> bool" where
  "connInv k t s \<longleftrightarrow> cm_threshold (sy_manager s) = t \<and> finite (checkedCalls s) \<and>
     (0 < t \<longrightarrow> int (length (cm_connections (sy_manager s)) + card (checkedCalls s)) \<le> t - 1 + int k)"

lemma checkedCalls_at:
  "checkedCalls (at i p s) = (if p = Checked then insert i (checkedCalls s) else checkedCalls s - {i})"
  "checkedCalls (s\<lparr>sy_manager := cm\<rparr>) = checkedCalls s"
  by (auto simp: checkedCalls_def at_def)

lemma at_manager [simp]: "sy_manager (at i p s) = sy_manager s"
  by (simp add: at_def)


lemma manager_threshold [simp]:
  "cm_threshold (addInsert key cm) = cm_threshold cm" "cm_threshold (removeDelete key cm) = cm_threshold cm"
  by (simp_all add: addInsert_def removeDelete_def)

lemma manager_length:
  "length (cm_connections (addInsert key cm)) \<le> Suc (length (cm_connections cm))"
  "length (cm_connections (removeDelete key cm)) \<le> length (cm_connections cm)"
  by (simp_all add: addInsert_def removeDelete_def gm_set_length gm_del_length)

lemma connStep_inv:
  assumes "connStep k s s'" "connInv k t s"
  shows "connInv k t s'"
  using assms
proof (cases rule: connStep.cases)
  case (check i)
  then have "i \<notin> checkedCalls s" by (simp add: checkedCalls_def)
  then show ?thesis
    using check assms(2) by (auto simp: connInv_def checkedCalls_at addCheck_def)
next
  case (insert i key)
  then have i: "i \<in> checkedCalls s" by (simp add: checkedCalls_def)
  have f: "finite (checkedCalls s)" using assms(2) by (simp add: connInv_def)
  have "card (checkedCalls s - {i}) + 1 = card (checkedCalls s)"
    using card_Suc_Diff1 [OF f i] by simp
  then show ?thesis
    using insert assms(2) manager_length(1) [of key "sy_manager s"] by (auto simp: connInv_def checkedCalls_at)
next
  case (find i key)
  then have "i \<notin> checkedCalls s" by (simp add: checkedCalls_def)
  then show ?thesis using find assms(2) by (simp add: connInv_def checkedCalls_at)
next
  case (gone i key)
  then have "i \<notin> checkedCalls s" by (simp add: checkedCalls_def)
  then show ?thesis using gone assms(2) by (simp add: connInv_def checkedCalls_at)
next
  case (delete i key)
  then have "i \<notin> checkedCalls s" by (simp add: checkedCalls_def)
  then show ?thesis
    using delete assms(2) manager_length(2) [of key "sy_manager s"] by (auto simp: connInv_def checkedCalls_at)
qed simp

lemma connReach_inv: "connReach k t s \<Longrightarrow> connInv k t s"
proof (induction rule: connReach.induct)
  case start
  show ?case by (simp add: connInv_def checkedCalls_def)
next
  case (more s s')
  show ?case by (rule connStep_inv [OF more.hyps(2) more.IH])
qed

text \<open>The states on the way to the largest number of connections: \<open>n\<close> calls hold one each, \<open>c\<close> are past their check.\<close>

definition exKey :: "nat \<Rightarrow> string" where
  "exKey i = replicate i (CHR ''a'')"

definition crowd :: "int \<Rightarrow> nat \<Rightarrow> nat \<Rightarrow> connSys" where
  "crowd t n c = \<lparr>sy_manager = \<lparr>cm_connections = map (\<lambda>i. (exKey i, ())) [0..<n], cm_threshold = t\<rparr>,
     sy_place = (\<lambda>i. if i < n then Holding (exKey i) else if i < n + c then Checked else Outside)\<rparr>"

lemma crowd_checked: "checkedCalls (crowd t n c) = {n..<n + c}"
  by (auto simp: checkedCalls_def crowd_def split: if_splits)

lemma crowd_check:
  assumes "connReach k t (crowd t n c)" "int n < t" "c < k"
  shows "connReach k t (crowd t n (Suc c))"
proof -
  have "crowd t n (Suc c) = at (n + c) Checked (crowd t n c)"
    by (auto simp: crowd_def at_def fun_eq_iff)
  moreover have "connStep k (crowd t n c) (at (n + c) Checked (crowd t n c))"
    using assms(2,3) by (intro connStep.check) (simp_all add: crowd_checked addCheck_def, simp_all add: crowd_def)
  ultimately show ?thesis using connReach.more [OF assms(1)] by simp
qed

lemma exKey_new: "gm_get (map (\<lambda>i. (exKey i, ())) [0..<n]) (exKey n) = None"
proof -
  have "exKey i \<noteq> exKey n" if "i < n" for i
    using that by (simp add: exKey_def)
  then show ?thesis by (force simp: map_of_eq_None_iff)
qed

lemma crowd_insert:
  assumes "connReach k t (crowd t n (Suc c))"
  shows "connReach k t (crowd t (Suc n) c)"
proof -
  have "crowd t (Suc n) c = (at n (Holding (exKey n)) (crowd t n (Suc c)))\<lparr>sy_manager := addInsert (exKey n) (sy_manager (crowd t n (Suc c)))\<rparr>"
    by (auto simp: crowd_def at_def addInsert_def gm_set_new exKey_new fun_eq_iff)
  moreover have "sy_place (crowd t n (Suc c)) n = Checked"
    by (simp add: crowd_def)
  ultimately show ?thesis
    using connReach.more [OF assms connStep.insert] by simp
qed

lemma crowd_sequential:
  assumes "0 < k" "int n \<le> t - 1"
  shows "connReach k t (crowd t n 0)"
  using assms(2)
proof (induction n)
  case 0
  show ?case using connReach.start [of k t] by (simp add: crowd_def)
next
  case (Suc n)
  then have "connReach k t (crowd t n (Suc 0))"
    using crowd_check [of k t n 0] assms(1) by simp
  then show ?case by (rule crowd_insert)
qed

lemma crowd_checks: "connReach k t (crowd t n 0) \<Longrightarrow> int n < t \<Longrightarrow> c \<le> k \<Longrightarrow> connReach k t (crowd t n c)"
  by (induction c) (auto intro: crowd_check)

lemma crowd_inserts: "connReach k t (crowd t n c) \<Longrightarrow> connReach k t (crowd t (n + c) 0)"
proof (induction c arbitrary: n)
  case (Suc c)
  then show ?case using Suc.IH [OF crowd_insert [OF Suc.prems]] by simp
qed simp

text \<open>C27. With \<open>k\<close> calls of Add at most between their check and their insertion, the manager never has more than
  \<open>threshold + k - 1\<close> connections, so calls that do not overlap keep the threshold; and the bound is reached, so as soon as
  two calls overlap the threshold can be exceeded.\<close>

theorem connections_bounded:
  assumes "0 < t" "0 < k"
  shows "(\<forall>s. connReach k t s \<longrightarrow> int (length (cm_connections (sy_manager s))) \<le> t + int k - 1) \<and>
    (\<exists>s. connReach k t s \<and> int (length (cm_connections (sy_manager s))) = t + int k - 1)"
proof
  show "\<forall>s. connReach k t s \<longrightarrow> int (length (cm_connections (sy_manager s))) \<le> t + int k - 1"
    using connReach_inv assms(1) by (fastforce simp: connInv_def)
  have "connReach k t (crowd t (nat (t - 1)) 0)"
    using crowd_sequential [OF assms(2), of "nat (t - 1)" t] assms(1) by simp
  then have "connReach k t (crowd t (nat (t - 1) + k) 0)"
    using crowd_inserts [OF crowd_checks] assms(1) by simp
  moreover have "int (length (cm_connections (sy_manager (crowd t (nat (t - 1) + k) 0)))) = t + int k - 1"
    using assms(1) by (simp add: crowd_def)
  ultimately show "\<exists>s. connReach k t s \<and> int (length (cm_connections (sy_manager s))) = t + int k - 1"
    by blast
qed

theorem connections_bounded_witness:
  "\<exists>s. connReach 2 1 s \<and> int (length (cm_connections (sy_manager s))) = 2"
  using connections_bounded [of 1 2] by simp


section \<open>The client of a stream\<close>

datatype subMode = STREAM | ONCE | POLL | OTHER_MODE

record subscriptionList =
  sl_Prefix :: "gpath option"
  sl_Subscription :: "gpath option list"
  sl_Mode :: subMode

datatype subscribeRequest = SubscribeMsg subscriptionList | PollMsg | NoRequest

record clientKey =
  ck_PeerAddr :: string
  ck_StreamID :: "64 word"

text \<open>A Go channel with a buffer of one: nil, open with a number of items, closed.\<close>

datatype channel = NilChan | OpenChan nat | ClosedChan

record client =
  cl_addr :: string
  cl_id :: "64 word"
  cl_enableStreamMultiplexing :: bool
  cl_disposed :: bool
  cl_polled :: channel
  cl_stop :: channel
  cl_once :: channel

definition NewClient :: "string \<Rightarrow> 64 word \<Rightarrow> client \<times> 64 word" where
  "NewClient addr counter =
     (\<lparr>cl_addr = addr, cl_id = counter + 1, cl_enableStreamMultiplexing = False, cl_disposed = False, cl_polled = NilChan,
       cl_stop = NilChan, cl_once = NilChan\<rparr>, counter + 1)"

definition Key :: "client \<Rightarrow> clientKey" where
  "Key c = \<lparr>ck_PeerAddr = cl_addr c, ck_StreamID = (if cl_enableStreamMultiplexing c then cl_id c else 0)\<rparr>"

definition clientString :: "client \<Rightarrow> string" where
  "clientString c = cl_addr c @ ''#'' @ FormatNat (unat (cl_id c))"

definition populateDbPathSubscrition :: "subscriptionList \<Rightarrow> goerr + gpath option list" where
  "populateDbPathSubscrition sl = (if sl_Subscription sl = [] then Inl (Plain ''No Subscription'') else Inr (sl_Subscription sl))"

text \<open>Closing a closed channel is a panic; a nil channel is not closed at all.\<close>

fun closeChan :: "channel \<Rightarrow> channel option" where
  "closeChan NilChan = Some NilChan"
| "closeChan (OpenChan n) = Some ClosedChan"
| "closeChan ClosedChan = None"

definition Close :: "client \<Rightarrow> client option" where
  "Close c =
     (if cl_disposed c then Some c
      else (case (closeChan (cl_stop c), closeChan (cl_polled c), closeChan (cl_once c)) of
              (Some s, Some p, Some o1) \<Rightarrow> Some (c\<lparr>cl_disposed := True, cl_stop := s, cl_polled := p, cl_once := o1\<rparr>)
            | _ \<Rightarrow> None))"

text \<open>The switch on the mode, which makes the channel of the mode.\<close>

definition startMode :: "subMode \<Rightarrow> client \<Rightarrow> client option" where
  "startMode m c =
     (case m of
        STREAM \<Rightarrow> Some (c\<lparr>cl_stop := OpenChan 0\<rparr>)
      | POLL \<Rightarrow> Some (c\<lparr>cl_polled := OpenChan 1\<rparr>)
      | ONCE \<Rightarrow> Some (c\<lparr>cl_once := OpenChan 1\<rparr>)
      | OTHER_MODE \<Rightarrow> None)"

section \<open>Run\<close>

datatype subClient = DataClient clientKind | EventClient

text \<open>The data client for a subscription and the target of its authentication.\<close>

definition subscribeClient ::
    "'d dataEnv \<Rightarrow> (gpath option list \<Rightarrow> gpath option \<Rightarrow> 'd \<Rightarrow> goerr option \<times> 'd) \<Rightarrow> string \<Rightarrow> subscriptionList \<Rightarrow>
     gpath option list \<Rightarrow> ('d, 'h) server \<Rightarrow> (goerr + (goerr option \<times> subClient \<times> string)) \<times> ('d, 'h) server" where
  "subscribeClient de newEvents origin sl paths s =
     (let pre = sl_Prefix sl; tgt = GetTarget pre;
          made = (\<lambda>k. case onData (de_New de k paths pre) s of
                        (Inl e, s1) \<Rightarrow> (Some e, [], s1)
                      | (Inr db, s1) \<Rightarrow> (None, db, s1))
      in if origin = ''openconfig'' then
           (case made TranslClient of (e, _, s1) \<Rightarrow> (Inr (e, DataClient TranslClient, ''gnmi''), s1))
         else if IsNativeOrigin origin then
           (case made MixedDbClient of (e, db, s1) \<Rightarrow> (Inr (e, DataClient MixedDbClient, ''gnmi_'' @ db), s1))
         else if origin \<noteq> [] then (Inl (Status Unimplemented (''Unsupported origin: '' @ origin)), s)
         else if tgt = [] then (Inl (Status Unimplemented ''Empty target data not supported''), s)
         else if tgt = ''OTHERS'' then
           (case made NonDbClient of (e, _, s1) \<Rightarrow> (Inr (e, DataClient NonDbClient, ''gnmi_others''), s1))
         else if tgt = ''SHOW'' then (Inl (Status Unimplemented ''SHOW does not support subscribe operations''), s)
         else if tgt = ''EVENTS'' \<and> sl_Mode sl = STREAM then
           (case onData (newEvents paths pre) s of (e, s1) \<Rightarrow> (Inr (e, EventClient, ''gnmi_events''), s1))
         else (case de_IsTargetDb de tgt of
                 Some db \<Rightarrow> (case made DbClient of (e, _, s1) \<Rightarrow> (Inr (e, DataClient DbClient, ''gnmi_'' @ db), s1))
               | None \<Rightarrow> (case made TranslClient of (e, _, s1) \<Rightarrow> (Inr (e, DataClient TranslClient, ''gnmi''), s1))))"

text \<open>From the data client on. \<open>streaming\<close> is the rest of the RPC: it gives the error that \<^verbatim>\<open>send\<close> returned.\<close>

definition runClient ::
    "'d dataEnv \<Rightarrow> (gpath option list \<Rightarrow> gpath option \<Rightarrow> 'd \<Rightarrow> goerr option \<times> 'd) \<Rightarrow>
     (subClient \<Rightarrow> subscriptionList \<Rightarrow> 'd \<Rightarrow> goerr option \<times> 'd) \<Rightarrow> authn_env \<Rightarrow> ctx \<Rightarrow> string \<Rightarrow> subscriptionList \<Rightarrow>
     gpath option list \<Rightarrow> ('d, 'h) server \<Rightarrow> goerr \<times> ('d, 'h) server" where
  "runClient de newEvents streaming en cx origin sl paths s =
     (case subscribeClient de newEvents origin sl paths s of
        (Inl e, s1) \<Rightarrow> (e, s1)
      | (Inr (Some e, _), s1) \<Rightarrow> (Status NotFound (errText e), s1)
      | (Inr (None, k, authTarget), s1) \<Rightarrow>
          (case authenticateOn en cx authTarget False s1 of
             (Some e, s2) \<Rightarrow> (e, s2)
           | (None, s2) \<Rightarrow>
               if sl_Mode sl = OTHER_MODE then (Status InvalidArgument ''Unkown subscription mode'', s2)
               else (case onData (streaming k sl) s2 of
                       (e, s3) \<Rightarrow> (Status InvalidArgument (case e of Some x \<Rightarrow> errText x | None \<Rightarrow> ''%!s(<nil>)''), s3))))"

fun errCode :: "goerr \<Rightarrow> code" where
  "errCode (Status c m) = c"
| "errCode e = Unknown"

text \<open>The origin of the prefix and that of the paths must agree where both are given.\<close>

definition subscribeOrigin :: "gpath option \<Rightarrow> gpath option list \<Rightarrow> goerr + string" where
  "subscribeOrigin pre paths =
     (case ParseOrigin paths of
        Inl e \<Rightarrow> Inl e
      | Inr o1 \<Rightarrow>
          if GetOrigin pre = [] then Inr o1
          else if o1 \<noteq> [] \<and> o1 \<noteq> GetOrigin pre then Inl (Status InvalidArgument ''Origin conflict between prefix and paths'')
          else Inr (GetOrigin pre))"

text \<open>\<open>first\<close>: the end of the stream, an error, or the first message with its text.\<close>

datatype firstEvent = FirstEOF | FirstErr goerr | FirstMsg subscribeRequest string

definition Run ::
    "'d dataEnv \<Rightarrow> (gpath option list \<Rightarrow> gpath option \<Rightarrow> 'd \<Rightarrow> goerr option \<times> 'd) \<Rightarrow>
     (subClient \<Rightarrow> subscriptionList \<Rightarrow> 'd \<Rightarrow> goerr option \<times> 'd) \<Rightarrow> authn_env \<Rightarrow> ctx \<Rightarrow> string \<Rightarrow> string \<Rightarrow> firstEvent \<Rightarrow>
     connState \<Rightarrow> ('d, 'h) server \<Rightarrow> goerr \<times> connState \<times> ('d, 'h) server" where
  "Run de newEvents streaming en cx addr now ev st s =
     (case ev of
        FirstEOF \<Rightarrow> (Status Aborted ''stream EOF received before init'', st, s)
      | FirstErr e \<Rightarrow> (Status (errCode e) ''received error from client'', st, s)
      | FirstMsg (SubscribeMsg sl) query \<Rightarrow>
          (case populateDbPathSubscrition sl of
             Inl e \<Rightarrow> (Status NotFound (''Invalid subscription path: '' @ errText e), st, s)
           | Inr paths \<Rightarrow>
               (case subscribeOrigin (sl_Prefix sl) paths of
                  Inl e \<Rightarrow> (e, st, s)
                | Inr origin \<Rightarrow>
                    (case Add addr query now st of
                       (Inl e, st1) \<Rightarrow> (e, st1, s)
                     | (Inr (key, False), st1) \<Rightarrow> (Status Unavailable ''Server connections are at capacity.'', st1, s)
                     | (Inr (key, True), st1) \<Rightarrow>
                         (case runClient de newEvents streaming en cx origin sl paths s of
                            (e, s1) \<Rightarrow> (e, snd (Remove key st1), s1)))))
      | FirstMsg _ query \<Rightarrow> (Status InvalidArgument ''first message must be SubscriptionList'', st, s))"

definition connKeys :: "connState \<Rightarrow> string set" where
  "connKeys st = (case ct_manager st of None \<Rightarrow> {} | Some cm \<Rightarrow> fst ` set (cm_connections cm))"

lemma manager_redis [simp]:
  "ct_manager (storeKeyRedis key st) = ct_manager st" "ct_manager (deleteKeyRedis key st) = ct_manager st"
  by (simp_all add: storeKeyRedis_def deleteKeyRedis_def)

lemma gm_del_keys: "fst ` set (gm_del k m) = fst ` set m - {k}"
  by (induction m) auto

lemma Add_Remove:
  assumes "Add addr q now st = (Inr (key, True), st1)"
  shows "connKeys (snd (Remove key st1)) = connKeys st - {key}"
proof -
  obtain cm where cm: "ct_manager st = Some cm" "key = createKey addr q now"
    "st1 = storeKeyRedis key (onManager (addInsert key) st)"
    using assms by (auto simp: Add_def Let_def split: option.splits if_splits)
  have m: "ct_manager st1 = Some (addInsert key cm)"
    by (simp add: cm onManager_def)
  have "fst ` set (cm_connections (addInsert key cm)) = insert key (fst ` set (cm_connections cm))"
    by (simp add: addInsert_def AList.dom_update)
  moreover have "removeCheck key (addInsert key cm)"
    by (simp add: removeCheck_def addInsert_def update_conv')
  ultimately show ?thesis
    by (simp add: Remove_def m connKeys_def cm(1) onManager_def removeDelete_def gm_del_keys)
qed

lemma Add_cases:
  assumes "Add addr q now st = (r, st1)"
  obtains x where "r = Inl x" "st1 = st" | "r = Inr ([], False)" "st1 = st" | "r = Inr (createKey addr q now, True)"
  using assms by (auto simp: Add_def Let_def split: option.splits if_splits)

text \<open>However Run ends, the manager has the connections from before, but for the key of this call.\<close>

lemma Run_removes_connection:
  assumes "Run de newEvents streaming en cx addr now ev st s = (e, st', s')"
  shows "connKeys st' = connKeys st \<or> (\<exists>q. connKeys st' = connKeys st - {createKey addr q now})"
proof (cases "\<exists>sl q paths origin. ev = FirstMsg (SubscribeMsg sl) q \<and> populateDbPathSubscrition sl = Inr paths \<and>
    subscribeOrigin (sl_Prefix sl) paths = Inr origin")
  case True
  then obtain sl q paths origin where ev: "ev = FirstMsg (SubscribeMsg sl) q" "populateDbPathSubscrition sl = Inr paths"
    "subscribeOrigin (sl_Prefix sl) paths = Inr origin"
    by blast
  obtain r st1 where add: "Add addr q now st = (r, st1)" by fastforce
  then show ?thesis
  proof (cases rule: Add_cases)
    case 3
    then have "st' = snd (Remove (createKey addr q now) st1)"
      using assms ev add by (simp add: Run_def split: prod.splits)
    then show ?thesis using Add_Remove [OF add [unfolded 3]] by blast
  qed (use assms ev add in \<open>simp_all add: Run_def\<close>)
next
  case False
  then have "st' = st"
    using assms by (auto simp: Run_def split: firstEvent.splits subscribeRequest.splits sum.splits)
  then show ?thesis by simp
qed

section \<open>The registry of clients\<close>

text \<open>The first lock region of Subscribe: a client under the same key is closed and replaced. \<^term>\<open>None\<close> is a panic.\<close>

definition register :: "nat \<Rightarrow> (nat \<Rightarrow> client) \<Rightarrow> (clientKey, nat) gomap \<Rightarrow> ((nat \<Rightarrow> client) \<times> (clientKey, nat) gomap) option" where
  "register i cs reg =
     (let k = Key (cs i)
      in case gm_get reg k of
           Some j \<Rightarrow> map_option (\<lambda>c. (cs(j := c), gm_set k i (gm_del k reg))) (Close (cs j))
         | None \<Rightarrow> Some (cs, gm_set k i reg))"

text \<open>The second one, after Run: the key is deleted, whoever is registered under it.\<close>

definition unregister :: "client \<Rightarrow> (clientKey, nat) gomap \<Rightarrow> (clientKey, nat) gomap" where
  "unregister c reg = gm_del (Key c) reg"

text \<open>When a second stream of the same peer has taken over the key, the end of the first stream removes the second one
  from the registry, so that a third stream does not close it.\<close>

lemma old_client_unregisters_new:
  assumes "Key (cs i) = Key (cs j)" "gm_get reg (Key (cs i)) = Some j" "register i cs reg = Some (cs', reg')"
  shows "gm_get reg' (Key (cs i)) = Some i \<and> gm_get (unregister (cs j) reg') (Key (cs i)) = None"
  using assms by (auto simp: register_def unregister_def Let_def update_conv' delete_conv')

section \<open>Closing against receiving\<close>

text \<open>One client while its RPC runs: \<open>rs_receiving\<close> is the goroutine \<^verbatim>\<open>recv\<close>, \<open>rs_sending\<close> the loop \<^verbatim>\<open>send\<close>. A poll
  request is put into the channel \<^verbatim>\<open>polled\<close>, which on a closed channel is a panic.\<close>

record runState =
  rs_client :: client
  rs_mode :: subMode
  rs_receiving :: bool
  rs_sending :: bool
  rs_panicked :: bool

definition closeIn :: "runState \<Rightarrow> runState" where
  "closeIn r = (case Close (rs_client r) of Some c \<Rightarrow> r\<lparr>rs_client := c\<rparr> | None \<Rightarrow> r\<lparr>rs_panicked := True\<rparr>)"

inductive clientStep :: "runState \<Rightarrow> runState \<Rightarrow> bool" where
  polled: "\<not> rs_panicked r \<Longrightarrow> rs_receiving r \<Longrightarrow> rs_mode r = POLL \<Longrightarrow> cl_polled (rs_client r) = OpenChan 0 \<Longrightarrow>
     clientStep r (r\<lparr>rs_client := (rs_client r)\<lparr>cl_polled := OpenChan 1\<rparr>\<rparr>)"
| polledClosed: "\<not> rs_panicked r \<Longrightarrow> rs_receiving r \<Longrightarrow> rs_mode r = POLL \<Longrightarrow> cl_polled (rs_client r) = ClosedChan \<Longrightarrow>
     clientStep r (r\<lparr>rs_panicked := True\<rparr>)"
| taken: "\<not> rs_panicked r \<Longrightarrow> cl_polled (rs_client r) = OpenChan (Suc n) \<Longrightarrow>
     clientStep r (r\<lparr>rs_client := (rs_client r)\<lparr>cl_polled := OpenChan n\<rparr>\<rparr>)"
| duplicate: "\<not> rs_panicked r \<Longrightarrow> clientStep r (closeIn r)"
| received: "\<not> rs_panicked r \<Longrightarrow> rs_receiving r \<Longrightarrow> clientStep r ((closeIn r)\<lparr>rs_receiving := False\<rparr>)"
| sent: "\<not> rs_panicked r \<Longrightarrow> rs_sending r \<Longrightarrow> clientStep r ((closeIn r)\<lparr>rs_sending := False\<rparr>)"

inductive clientReach :: "runState \<Rightarrow> runState \<Rightarrow> bool" for r0 :: runState where
  here: "clientReach r0 r0"
| there: "clientReach r0 r \<Longrightarrow> clientStep r r' \<Longrightarrow> clientReach r0 r'"

definition started :: "client \<Rightarrow> subMode \<Rightarrow> runState option" where
  "started c m = map_option (\<lambda>c'. \<lparr>rs_client = c', rs_mode = m, rs_receiving = True, rs_sending = True, rs_panicked = False\<rparr>)
     (startMode m c)"

text \<open>A client whose channels are as Close expects them: closed exactly when the queue is disposed.\<close>

fun isOpen :: "channel \<Rightarrow> bool" where
  "isOpen (OpenChan n) = True"
| "isOpen ch = False"

definition channelsOk :: "client \<Rightarrow> bool" where
  "channelsOk c \<longleftrightarrow> (if cl_disposed c then \<not> isOpen (cl_stop c) \<and> \<not> isOpen (cl_polled c) \<and> \<not> isOpen (cl_once c)
     else cl_stop c \<noteq> ClosedChan \<and> cl_polled c \<noteq> ClosedChan \<and> cl_once c \<noteq> ClosedChan)"

lemma closeChan_ok: "ch \<noteq> ClosedChan \<Longrightarrow> \<exists>d. closeChan ch = Some d \<and> \<not> isOpen d"
  by (cases ch) auto

lemma Close_ok:
  assumes "channelsOk c"
  shows "\<exists>c'. Close c = Some c' \<and> channelsOk c' \<and> cl_disposed c'"
proof (cases "cl_disposed c")
  case True
  then show ?thesis using assms by (simp add: Close_def)
next
  case False
  then obtain a b d where "closeChan (cl_stop c) = Some a" "closeChan (cl_polled c) = Some b" "closeChan (cl_once c) = Some d"
    "\<not> isOpen a" "\<not> isOpen b" "\<not> isOpen d"
    using assms closeChan_ok by (metis channelsOk_def)
  then show ?thesis using False by (simp add: Close_def channelsOk_def)
qed

lemma startMode_ok: "startMode m (fst (NewClient addr n)) = Some c \<Longrightarrow> channelsOk c"
  by (auto simp: startMode_def NewClient_def channelsOk_def split: subMode.splits)

text \<open>No sequence of steps closes a channel twice.\<close>

lemma clientStep_ok:
  assumes "clientStep r r'" "channelsOk (rs_client r)"
  shows "channelsOk (rs_client r') \<and>
    (rs_panicked r' \<longrightarrow> rs_mode r = POLL \<and> cl_disposed (rs_client r) \<and> rs_receiving r)"
  using assms
proof (cases rule: clientStep.cases)
  case polledClosed
  then show ?thesis using assms(2) by (auto simp: channelsOk_def split: if_splits)
next
  case taken
  then show ?thesis using assms(2) by (auto simp: channelsOk_def split: if_splits)
next
  case polled
  then show ?thesis using assms(2) by (auto simp: channelsOk_def split: if_splits)
qed (use Close_ok [OF assms(2)] in \<open>auto simp: closeIn_def\<close>)

lemma clientReach_ok:
  "clientReach r0 r \<Longrightarrow> channelsOk (rs_client r0) \<Longrightarrow> \<not> rs_panicked r0 \<Longrightarrow>
   channelsOk (rs_client r) \<and> (rs_panicked r \<longrightarrow> rs_mode r0 = POLL) \<and> rs_mode r = rs_mode r0"
proof (induction rule: clientReach.induct)
  case (there r r')
  have "rs_mode r' = rs_mode r"
    using there.hyps(2) by (cases rule: clientStep.cases) (auto simp: closeIn_def split: option.splits)
  then show ?case using clientStep_ok [OF there.hyps(2)] there by auto
qed simp

text \<open>C28. A running subscription panics in some interleaving exactly when its mode is POLL: closing the client, which a second
  stream of the same peer does, leaves the receiver to put the next poll request into a closed channel. In the other
  modes no interleaving of receiving, sending and closing panics; in particular no channel is closed twice.\<close>

theorem subscription_panics_iff_poll:
  assumes "started (fst (NewClient addr n)) m = Some r0"
  shows "(\<exists>r. clientReach r0 r \<and> rs_panicked r) \<longleftrightarrow> m = POLL"
proof
  have r0: "channelsOk (rs_client r0)" "\<not> rs_panicked r0" "rs_mode r0 = m" "rs_receiving r0"
    using assms startMode_ok by (auto simp: started_def)
  show "m = POLL" if "\<exists>r. clientReach r0 r \<and> rs_panicked r"
    using that clientReach_ok r0 by blast
  show "\<exists>r. clientReach r0 r \<and> rs_panicked r" if "m = POLL"
  proof -
    have r0_eq: "r0 = \<lparr>rs_client = (fst (NewClient addr n))\<lparr>cl_polled := OpenChan 1\<rparr>, rs_mode = POLL, rs_receiving = True,
        rs_sending = True, rs_panicked = False\<rparr>"
      using assms that by (simp add: started_def startMode_def)
    define r1 where "r1 = closeIn r0"
    have r1: "cl_polled (rs_client r1) = ClosedChan" "rs_receiving r1" "rs_mode r1 = POLL" "\<not> rs_panicked r1"
      by (simp_all add: r1_def r0_eq closeIn_def Close_def NewClient_def)
    have "clientReach r0 r1"
      unfolding r1_def by (rule clientReach.there [OF clientReach.here clientStep.duplicate [OF r0(2)]])
    then have "clientReach r0 (r1\<lparr>rs_panicked := True\<rparr>)"
      by (rule clientReach.there [OF _ clientStep.polledClosed]) (use r1 in simp_all)
    then show ?thesis by (intro exI [of _ "r1\<lparr>rs_panicked := True\<rparr>"]) simp
  qed
qed

theorem subscription_panics_iff_poll_witness:
  "\<exists>r. clientReach (the (started (fst (NewClient ''10.0.0.1:5000'' 0)) POLL)) r \<and> rs_panicked r"
  using subscription_panics_iff_poll [of "''10.0.0.1:5000''" 0 POLL] by (simp add: started_def startMode_def)

text \<open>A client that is closed before its mode is set makes its channel afterwards, and no later Close closes it.\<close>

lemma early_close_leaves_stop_open:
  assumes "startMode STREAM c = Some c'" "cl_disposed c"
  shows "Close c' = Some c' \<and> cl_stop c' = OpenChan 0"
  using assms by (auto simp: startMode_def Close_def)

end
