(* ===== verification/Gnoi_Debug.thy ===== *)
theory Gnoi_Debug
  imports Gnmi_Server
begin

text \<open>
  The gNOI Debug service: the policy that decides which shell text may run (\<^verbatim>\<open>pkg/gnoi/debug/validate.go\<close>), the
  whitelists (\<^verbatim>\<open>whitelist.go\<close>), the handler (\<^verbatim>\<open>debug.go\<close>, \<^verbatim>\<open>gnmi_server/gnoi_debug.go\<close>) and the command line
  it makes (\<^verbatim>\<open>internal/exec/command.go\<close>).

  The shell parser is a library: it is the argument \<open>se_parse\<close>. The syntax tree below has the node types the policy
  looks at; every other construct is \<open>OtherCmd\<close> or \<open>OtherPart\<close>, which carry what is inside them. \<open>stmtRuns\<close> lists
  what a shell that runs a tree may execute, and the theorem of this theory is about that list.
\<close>

section \<open>Syntax trees\<close>

datatype binOp = Pipe | PipeAll | AndStmt | OrStmt

datatype wordPart =
    Lit string
  | SglQuoted string
  | DblQuoted "wordPart list"
  | CmdSubst "stmt list"
  | ProcSubst "stmt list"
  | ParamExp "wordPart list"
  | ArithmExp "wordPart list"
  | ExtGlob
  | OtherPart "wordPart list" "stmt list"
and command =
    CallExpr "wordPart list list" "wordPart list list"
  | BinaryCmd binOp stmt stmt
  | Subshell "stmt list"
  | OtherCmd "wordPart list list" "stmt list"
and stmt = Stmt (negated: bool) (background: bool) (coprocess: bool) (semicolon: bool) (redirs: "wordPart list list")
    (cmd: command)

datatype parsed = Parsed "stmt list" | ParseError string | ParsePanic string

text \<open>The parser, and the texts of the printer and of the verb for quoted text, which only messages show.\<close>

record shellEnv =
  se_parse :: "string \<Rightarrow> parsed"
  se_printWord :: "wordPart list \<Rightarrow> string"
  se_printPart :: "wordPart \<Rightarrow> string"
  se_typeText :: "wordPart \<Rightarrow> string"
  se_quote :: "string \<Rightarrow> string"

section \<open>Validation\<close>

definition dangerousCharSet :: string where
  "dangerousCharSet = ''~$`&;<>(){}[]*?''"

definition ContainsAny :: "string \<Rightarrow> string \<Rightarrow> bool" where
  "ContainsAny s cs \<longleftrightarrow> list_ex (\<lambda>c. c \<in> set cs) s"

definition ErrRejected :: string where
  "ErrRejected = ''command rejected by policy''"

definition rejected :: "string \<Rightarrow> goerr option" where
  "rejected msg = Some (Plain (ErrRejected @ '': '' @ msg))"

text \<open>\<^verbatim>\<open>walkForDangerousNodeTypes\<close>: whether the walk over the tree meets a dangerous node. A redirect is one as soon as
  it is there.\<close>

fun unsafePart :: "wordPart \<Rightarrow> bool" and unsafeCmd :: "command \<Rightarrow> bool" and unsafeStmt :: "stmt \<Rightarrow> bool" where
  "unsafePart (Lit s) \<longleftrightarrow> ContainsAny s dangerousCharSet"
| "unsafePart (SglQuoted s) \<longleftrightarrow> False"
| "unsafePart (DblQuoted ps) \<longleftrightarrow> list_ex unsafePart ps"
| "unsafePart (CmdSubst ss) \<longleftrightarrow> True"
| "unsafePart (ProcSubst ss) \<longleftrightarrow> list_ex unsafeStmt ss"
| "unsafePart (ParamExp ps) \<longleftrightarrow> True"
| "unsafePart (ArithmExp ps) \<longleftrightarrow> True"
| "unsafePart ExtGlob \<longleftrightarrow> True"
| "unsafePart (OtherPart ps ss) \<longleftrightarrow> list_ex unsafePart ps \<or> list_ex unsafeStmt ss"
| "unsafeCmd (CallExpr as ws) \<longleftrightarrow> list_ex (list_ex unsafePart) as \<or> list_ex (list_ex unsafePart) ws"
| "unsafeCmd (BinaryCmd op x y) \<longleftrightarrow> op \<noteq> Pipe \<or> unsafeStmt x \<or> unsafeStmt y"
| "unsafeCmd (Subshell ss) \<longleftrightarrow> True"
| "unsafeCmd (OtherCmd ws ss) \<longleftrightarrow> list_ex (list_ex unsafePart) ws \<or> list_ex unsafeStmt ss"
| "unsafeStmt (Stmt n b c sc rs cm) \<longleftrightarrow> rs \<noteq> [] \<or> unsafeCmd cm"

definition walkForDangerousNodeTypes :: "stmt list \<Rightarrow> bool" where
  "walkForDangerousNodeTypes stmts = list_ex unsafeStmt stmts"

definition invalidPart :: "shellEnv \<Rightarrow> wordPart list \<Rightarrow> wordPart \<Rightarrow> goerr option" where
  "invalidPart sh word part =
     rejected (CHR 0x27 # se_printPart sh part @ CHR 0x27 # '' contained in '' @ CHR 0x27 # se_printWord sh word @
       CHR 0x27 # '' is invalid type: '' @ se_typeText sh part)"

fun validatePart :: "shellEnv \<Rightarrow> wordPart list \<Rightarrow> wordPart \<Rightarrow> goerr option" and
  validateWordParts :: "shellEnv \<Rightarrow> wordPart list \<Rightarrow> wordPart list \<Rightarrow> goerr option" where
  "validatePart sh word (Lit s) = None"
| "validatePart sh word (SglQuoted s) = None"
| "validatePart sh word (DblQuoted ps) = validateWordParts sh word ps"
| "validatePart sh word part = invalidPart sh word part"
| "validateWordParts sh word [] = None"
| "validateWordParts sh word (p # ps) =
     (case validatePart sh word p of Some e \<Rightarrow> Some e | None \<Rightarrow> validateWordParts sh word ps)"

fun sliceContains :: "string list \<Rightarrow> string \<Rightarrow> bool" where
  "sliceContains [] str = False"
| "sliceContains (x # xs) str = (if x = str then True else sliceContains xs str)"

text \<open>\<^verbatim>\<open>Word.Lit\<close> of the library: the text of a word of literals only, and the empty text otherwise.\<close>

fun litText :: "wordPart \<Rightarrow> string option" where
  "litText (Lit s) = Some s"
| "litText _ = None"

definition wordLit :: "wordPart list \<Rightarrow> string" where
  "wordLit ps = (if list_all (\<lambda>p. litText p \<noteq> None) ps then concat (map (\<lambda>p. case litText p of Some s \<Rightarrow> s | None \<Rightarrow> []) ps)
     else [])"

fun validateWords :: "shellEnv \<Rightarrow> wordPart list list \<Rightarrow> goerr option" where
  "validateWords sh [] = None"
| "validateWords sh (w # ws) = (case validateWordParts sh w w of Some e \<Rightarrow> Some e | None \<Rightarrow> validateWords sh ws)"

definition onlySimple :: "goerr option" where
  "onlySimple = rejected ''only simple commands and pipelines allowed (no subshells, control structures, etc)''"

text \<open>The checks that do not depend on the command.\<close>

definition stmtError :: "bool \<Rightarrow> bool \<Rightarrow> bool \<Rightarrow> bool \<Rightarrow> wordPart list list \<Rightarrow> goerr option" where
  "stmtError n b c sc rs =
     (if n then rejected (''negation '' @ CHR 0x27 # ''!'' @ CHR 0x27 # '' not allowed'')
      else if b then rejected (''background '' @ CHR 0x27 # ''&'' @ CHR 0x27 # '' not allowed'')
      else if c then rejected (''coprocess '' @ CHR 0x27 # ''|&'' @ CHR 0x27 # '' not allowed'')
      else if sc then rejected ''multiple/terminated commands not allowed''
      else if rs \<noteq> [] then rejected ''redirects not allowed'' else None)"

definition validateCall :: "shellEnv \<Rightarrow> string list \<Rightarrow> wordPart list list \<Rightarrow> wordPart list list \<Rightarrow> goerr option" where
  "validateCall sh whitelist as ws =
     (if as \<noteq> [] then rejected ''inline assignments not allowed''
      else (case ws of
              [] \<Rightarrow> rejected ''empty call''
            | w # _ \<Rightarrow>
                (case validateWords sh ws of
                   Some e \<Rightarrow> Some e
                 | None \<Rightarrow>
                     if \<not> sliceContains whitelist (wordLit w)
                     then rejected (''command '' @ se_quote sh (wordLit w) @ '' is not whitelisted'')
                     else None)))"

fun validateStatement :: "shellEnv \<Rightarrow> string list \<Rightarrow> stmt \<Rightarrow> goerr option" where
  "validateStatement sh whitelist (Stmt n b c sc rs cm) =
     (case stmtError n b c sc rs of
        Some e \<Rightarrow> Some e
      | None \<Rightarrow>
          (case cm of
             CallExpr as ws \<Rightarrow> validateCall sh whitelist as ws
           | BinaryCmd op x y \<Rightarrow>
               if op \<noteq> Pipe then onlySimple
               else (case validateStatement sh whitelist x of
                       Some e \<Rightarrow> Some e
                     | None \<Rightarrow> validateStatement sh whitelist y)
           | _ \<Rightarrow> onlySimple))"

fun validateStatements :: "shellEnv \<Rightarrow> string list \<Rightarrow> stmt list \<Rightarrow> goerr option" where
  "validateStatements sh whitelist [] = None"
| "validateStatements sh whitelist (s # ss) =
     (case validateStatement sh whitelist s of Some e \<Rightarrow> Some e | None \<Rightarrow> validateStatements sh whitelist ss)"

definition ValidateCommand :: "shellEnv \<Rightarrow> string \<Rightarrow> string list \<Rightarrow> goerr option" where
  "ValidateCommand sh input whitelist =
     (case se_parse sh input of
        ParsePanic r \<Rightarrow> rejected (''recover error: '' @ r)
      | ParseError e \<Rightarrow> rejected (''parse error: '' @ e)
      | Parsed stmts \<Rightarrow>
          if walkForDangerousNodeTypes stmts then rejected (''`'' @ input @ ''` contains unsafe statements'')
          else if stmts = [] then rejected (''no statements found within parsed command: '' @ input)
          else validateStatements sh whitelist stmts)"

section \<open>Whitelists\<close>

record whitelistFile =
  ReadWhitelist :: "string list option"
  WriteWhitelist :: "string list option"

definition readCommands :: "string list" where
  "readCommands = [''ls'', ''cat'', ''echo'', ''ping'', ''grep'', ''dmesg'', ''zgrep'', ''tail'', ''teamshow'', ''ps'',
     ''uptime'', ''awk'', ''show'', ''TSC'']"

definition writeCommands :: "string list" where
  "writeCommands = [''docker'', ''reboot'', ''mv'', ''systemctl'', ''ip'', ''ifconfig'', ''TSA'', ''TSB'',
     ''sonic-installer'', ''sonic_installer'', ''config'', ''tcpdump'', ''acl-loader'', ''counterpoll'', ''bcmcmd'',
     ''redis-cli'', ''sonic-db-cli'', ''sonic-clear'', ''wc'', ''portstat'', ''pfcwd'', ''lspci'', ''pcieutil'',
     ''include'', ''vtysh'']"

definition defaultWhitelists :: "string list \<times> string list" where
  "defaultWhitelists = (readCommands, writeCommands @ readCommands)"

definition WHITELIST_FILE_PATH :: string where
  "WHITELIST_FILE_PATH = ''/etc/sonic/command_whitelist.yaml''"

text \<open>The YAML decoder is the argument \<open>unmarshal\<close>; an absent key is \<^term>\<open>None\<close>.\<close>

definition ConstructWhitelists ::
    "(string \<Rightarrow> goerr + whitelistFile) \<Rightarrow> (string \<Rightarrow> goerr + string) \<Rightarrow> string list \<times> string list" where
  "ConstructWhitelists unmarshal readFile =
     (case readFile WHITELIST_FILE_PATH of
        Inl e \<Rightarrow> defaultWhitelists
      | Inr bytes \<Rightarrow>
          (case unmarshal bytes of
             Inl e \<Rightarrow> defaultWhitelists
           | Inr fl \<Rightarrow>
               (case (ReadWhitelist fl, WriteWhitelist fl) of
                  (Some r, Some w) \<Rightarrow> (r, w @ r)
                | _ \<Rightarrow> defaultWhitelists)))"

section \<open>Running a command\<close>

definition FAILED_TO_RUN :: int where "FAILED_TO_RUN = -1"
definition NSENTER_CMD :: string where "NSENTER_CMD = ''nsenter''"
definition DEFAULT_ACC :: string where "DEFAULT_ACC = ''admin''"

definition NSENTER_ARGS :: "string list" where
  "NSENTER_ARGS = [''--target'', ''1'', ''--mount'', ''--uts'', ''--ipc'', ''--net'', ''--pid'']"

definition SYSTEMD_RUN_ARGS :: "string list" where
  "SYSTEMD_RUN_ARGS = [''systemd-run'', ''-p'', ''ProtectSystem=strict'', ''-p'', ''PrivateDevices=true'', ''-Pq'']"

definition SHELL_ARGS :: "string list" where
  "SHELL_ARGS = [''sh'', ''-c'']"

datatype waitResult = WaitOk | WaitExit int | WaitErr string

text \<open>What happens to a command: the three calls that can fail, what the pipes make available to each read, and the
  result of \<^verbatim>\<open>Wait\<close>.\<close>

record executable =
  ex_StdoutPipe :: "goerr option"
  ex_StderrPipe :: "goerr option"
  ex_Start :: "goerr option"
  ex_stdout :: "string list"
  ex_stderr :: "string list"
  ex_Wait :: waitResult

text \<open>\<^verbatim>\<open>io.CopyBuffer\<close>: every read takes at most the buffer, which is the byte limit, or 32 kB without one. What is
  available and does not fit comes with the next read.\<close>

function copyBuffer :: "nat \<Rightarrow> string list \<Rightarrow> string list" where
  "copyBuffer n [] = []"
| "copyBuffer n (r # rs) =
     (if n = 0 then [] else if r = [] then copyBuffer n rs
      else take n r # copyBuffer n (drop n r # rs))"
  by pat_completeness auto
termination
  by (relation "measure (\<lambda>(n, rs). length (concat rs) + length rs)") auto

declare copyBuffer.simps(2) [simp del]

definition bufferSize :: "int \<Rightarrow> nat" where
  "bufferSize byteLimit = (if byteLimit > 0 then nat byteLimit else 32768)"

definition outputReaderToChannel :: "string list \<Rightarrow> int \<Rightarrow> string list" where
  "outputReaderToChannel reads byteLimit = copyBuffer (bufferSize byteLimit) reads"

definition fullArgs :: "string \<Rightarrow> string \<Rightarrow> string list" where
  "fullArgs roleAccount cm =
     NSENTER_ARGS @ SYSTEMD_RUN_ARGS @ [''--uid='' @ (if roleAccount = [] then DEFAULT_ACC else roleAccount)] @ SHELL_ARGS @ [cm]"

text \<open>The result: the exit code and error, and what went into the two channels.\<close>

definition RunCommand ::
    "(string \<Rightarrow> string list \<Rightarrow> executable) \<Rightarrow> string \<Rightarrow> int \<Rightarrow> string \<Rightarrow> (int \<times> goerr option) \<times> string list \<times> string list" where
  "RunCommand exec roleAccount byteLimit cm =
     (let ex = exec NSENTER_CMD (fullArgs roleAccount cm)
      in case ex_StdoutPipe ex of
           Some e \<Rightarrow> ((FAILED_TO_RUN, Some e), [], [])
         | None \<Rightarrow>
           (case ex_StderrPipe ex of
              Some e \<Rightarrow> ((FAILED_TO_RUN, Some e), [], [])
            | None \<Rightarrow>
              (case ex_Start ex of
                 Some e \<Rightarrow> ((FAILED_TO_RUN, Some e), [], [])
               | None \<Rightarrow>
                   ((case ex_Wait ex of
                       WaitOk \<Rightarrow> (0, None)
                     | WaitExit n \<Rightarrow> (n, None)
                     | WaitErr t \<Rightarrow> (FAILED_TO_RUN, Some (Plain t))),
                    outputReaderToChannel (ex_stdout ex) byteLimit, outputReaderToChannel (ex_stderr ex) byteLimit))))"

section \<open>The handler\<close>

datatype debugMode = MODE_UNSPECIFIED | MODE_SHELL | MODE_CLI | MODE_OTHER

record debugRequest =
  dq_Command :: "string option"
  dq_Mode :: debugMode
  dq_ByteLimit :: int
  dq_Timeout :: int
  dq_RoleAccount :: string

datatype debugResponse = DebugResponse_Request debugRequest | DebugResponse_Data string | DebugResponse_Status int

text \<open>The stream and the host. \<open>dh_exec\<close> gets the timeout, if one was set. \<open>dh_stream\<close> says which of the chunks in
  the two channels reach the client and in which order: the two goroutines that forward them run side by side and stop
  when the context is done or the stream breaks.\<close>

record debugHost =
  dh_sendRequest :: "goerr option"
  dh_exec :: "int option \<Rightarrow> string \<Rightarrow> string list \<Rightarrow> executable"
  dh_stream :: "string list \<Rightarrow> string list \<Rightarrow> string list"

record debugRun =
  dr_ran :: "(string \<times> string list) option"
  dr_sent :: "debugResponse list"
  dr_err :: "goerr option"

definition refuse :: "goerr \<Rightarrow> debugRun" where
  "refuse e = \<lparr>dr_ran = None, dr_sent = [], dr_err = Some e\<rparr>"

definition failedToRun :: "string \<Rightarrow> goerr \<Rightarrow> goerr" where
  "failedToRun cm e = Status FailedPrecondition
     (''Failed to run command '' @ CHR 0x27 # cm @ CHR 0x27 # '': '' @ CHR 0x27 # errText e @ [CHR 0x27])"

definition exitStatus :: "int \<Rightarrow> debugResponse" where
  "exitStatus exitCode = DebugResponse_Status (sint (word_of_int exitCode :: 32 word))"

definition runCli :: "debugHost \<Rightarrow> debugRequest \<Rightarrow> string \<Rightarrow> debugRun" where
  "runCli host req cm =
     (case dh_sendRequest host of
        Some e \<Rightarrow> refuse (failedToRun cm e)
      | None \<Rightarrow>
          let timeout = (if dq_Timeout req > 0 then Some (dq_Timeout req) else None);
              ((exitCode, err), outCh, errCh) = RunCommand (dh_exec host timeout) (dq_RoleAccount req) (dq_ByteLimit req) cm;
              sent = DebugResponse_Request req # map DebugResponse_Data (dh_stream host outCh errCh)
          in \<lparr>dr_ran = Some (NSENTER_CMD, fullArgs (dq_RoleAccount req) cm),
              dr_sent = (if err = None then sent @ [exitStatus exitCode] else sent),
              dr_err = map_option (failedToRun cm) err\<rparr>)"

definition HandleCommandRequest :: "shellEnv \<Rightarrow> debugHost \<Rightarrow> string list \<Rightarrow> debugRequest option \<Rightarrow> debugRun" where
  "HandleCommandRequest sh host whitelist req0 =
     (case req0 of
        None \<Rightarrow> refuse (Status InvalidArgument ''request cannot be nil'')
      | Some req \<Rightarrow>
          (case dq_Command req of
             None \<Rightarrow> refuse (Status InvalidArgument ''command cannot be nil'')
           | Some cm \<Rightarrow>
               (case ValidateCommand sh cm whitelist of
                  Some e \<Rightarrow> refuse (Status PermissionDenied (''command failed validation: '' @ errText e))
                | None \<Rightarrow>
                    (case dq_Mode req of
                       MODE_CLI \<Rightarrow> runCli host req cm
                     | MODE_SHELL \<Rightarrow> refuse (Status Unimplemented ''mode SHELL is currently unimplemented'')
                     | MODE_UNSPECIFIED \<Rightarrow> refuse (Status InvalidArgument ''mode cannot be UNSPECIFIED'')
                     | MODE_OTHER \<Rightarrow> \<lparr>dr_ran = None, dr_sent = [], dr_err = None\<rparr>))))"

record debugServer =
  ds_config :: authConfig
  ds_readWhitelist :: "string list"
  ds_writeWhitelist :: "string list"

text \<open>The second authentication starts again from the context of the stream. A request context that the stream already
  has is shared by both; one that \<^verbatim>\<open>GetContext\<close> made is not, and only the global counter has moved on.\<close>

definition againFrom :: "ctx \<Rightarrow> ctx \<Rightarrow> ctx" where
  "againFrom cx cx' = (case cx_rc cx of None \<Rightarrow> cx\<lparr>cx_requestCounter := cx_requestCounter cx'\<rparr> | Some _ \<Rightarrow> cx')"

definition Debug ::
    "shellEnv \<Rightarrow> debugHost \<Rightarrow> authn_env \<Rightarrow> debugServer \<Rightarrow> ctx \<Rightarrow> debugRequest option \<Rightarrow> crlState \<Rightarrow> debugRun \<times> crlState" where
  "Debug sh host en srv cx0 req st =
     (let cx = againFrom cx0 (snd (GetContext cx0))
      in case authenticate (ds_config srv) en cx ''gnoi'' False st of
           ((_, Some readAccessErr), st1) \<Rightarrow> (refuse readAccessErr, st1)
         | ((cx1, None), st1) \<Rightarrow>
             (case authenticate (ds_config srv) en (againFrom cx cx1) ''gnoi'' True st1 of
                ((_, Some writeAccessErr), st2) \<Rightarrow>
                  (if isPanic (Some writeAccessErr) then refuse writeAccessErr
                   else HandleCommandRequest sh host (ds_readWhitelist srv) req, st2)
              | ((_, None), st2) \<Rightarrow> (HandleCommandRequest sh host (ds_writeWhitelist srv) req, st2)))"

section \<open>What a shell may run\<close>

text \<open>A backslash outside quotes keeps the next character as it is.\<close>

fun unescape :: "string \<Rightarrow> string" where
  "unescape [] = []"
| "unescape [c] = [c]"
| "unescape (c # d # s) = (if c = CHR 0x5C then d # unescape s else c # unescape (d # s))"

text \<open>The text a shell takes a word for, when that does not depend on an expansion.\<close>

fun partText :: "wordPart \<Rightarrow> string option" and partsText :: "wordPart list \<Rightarrow> string option" where
  "partText (Lit s) = (if ContainsAny s dangerousCharSet then None else Some (unescape s))"
| "partText (SglQuoted s) = Some s"
| "partText (DblQuoted ps) = partsText ps"
| "partText p = None"
| "partsText [] = Some []"
| "partsText (p # ps) = (case (partText p, partsText ps) of (Some s, Some t) \<Rightarrow> Some (s @ t) | _ \<Rightarrow> None)"

text \<open>The commands a tree runs, in any part of it: the name of each call, \<^term>\<open>None\<close> when an expansion decides it.\<close>

fun partRuns :: "wordPart \<Rightarrow> string option list" and cmdRuns :: "command \<Rightarrow> string option list" and
  stmtRuns :: "stmt \<Rightarrow> string option list" where
  "partRuns (Lit s) = []"
| "partRuns (SglQuoted s) = []"
| "partRuns (DblQuoted ps) = concat (map partRuns ps)"
| "partRuns (CmdSubst ss) = concat (map stmtRuns ss)"
| "partRuns (ProcSubst ss) = concat (map stmtRuns ss)"
| "partRuns (ParamExp ps) = concat (map partRuns ps)"
| "partRuns (ArithmExp ps) = concat (map partRuns ps)"
| "partRuns ExtGlob = []"
| "partRuns (OtherPart ps ss) = concat (map partRuns ps) @ concat (map stmtRuns ss)"
| "cmdRuns (CallExpr as ws) =
     concat (map (\<lambda>w. concat (map partRuns w)) as) @ concat (map (\<lambda>w. concat (map partRuns w)) ws) @
     (case ws of [] \<Rightarrow> [] | w # _ \<Rightarrow> [partsText w])"
| "cmdRuns (BinaryCmd op x y) = stmtRuns x @ stmtRuns y"
| "cmdRuns (Subshell ss) = concat (map stmtRuns ss)"
| "cmdRuns (OtherCmd ws ss) = concat (map (\<lambda>w. concat (map partRuns w)) ws) @ concat (map stmtRuns ss)"
| "stmtRuns (Stmt n b c sc rs cm) = concat (map (\<lambda>w. concat (map partRuns w)) rs) @ cmdRuns cm"

text \<open>A whitelist of plain names: none is empty and none has a backslash.\<close>

definition plainNames :: "string list \<Rightarrow> bool" where
  "plainNames ws \<longleftrightarrow> list_all (\<lambda>w. w \<noteq> [] \<and> CHR 0x5C \<notin> set w) ws"

lemma sliceContains_set [simp]: "sliceContains xs x \<longleftrightarrow> x \<in> set xs"
  by (induction xs) auto

lemma unescape_plain: "CHR 0x5C \<notin> set s \<Longrightarrow> unescape s = s"
  by (induction s rule: unescape.induct) auto

lemma validated_part_runs_nothing:
  "validatePart sh w p = None \<Longrightarrow> partRuns p = []"
  "validateWordParts sh w ps = None \<Longrightarrow> concat (map partRuns ps) = []"
  by (induction sh w p and sh w ps rule: validatePart_validateWordParts.induct)
    (auto simp: invalidPart_def rejected_def split: option.splits)

lemma validated_words_run_nothing:
  "validateWords sh ws = None \<Longrightarrow> concat (map (\<lambda>w. concat (map partRuns w)) ws) = []"
  by (induction ws) (auto dest: validated_part_runs_nothing(2) split: option.splits)

lemma literal_word_text:
  assumes "list_all (\<lambda>p. litText p \<noteq> None) ps" "\<not> list_ex unsafePart ps"
    and "CHR 0x5C \<notin> set (concat (map (\<lambda>p. case litText p of Some s \<Rightarrow> s | None \<Rightarrow> []) ps))"
  shows "partsText ps = Some (concat (map (\<lambda>p. case litText p of Some s \<Rightarrow> s | None \<Rightarrow> []) ps))"
  using assms
proof (induction ps)
  case (Cons p ps)
  then obtain s where "p = Lit s" by (cases p) auto
  with Cons show ?case by (auto simp: unescape_plain)
qed simp

lemma whitelisted_word_text:
  assumes "plainNames wl" "wordLit w \<in> set wl" "\<not> list_ex unsafePart w"
  shows "partsText w = Some (wordLit w)"
proof -
  have "wordLit w \<noteq> []" "CHR 0x5C \<notin> set (wordLit w)"
    using assms by (auto simp: plainNames_def list_all_iff)
  with assms(3) show ?thesis
    by (auto simp: wordLit_def literal_word_text split: if_splits)
qed

lemma rejected_not_None [simp]: "rejected m \<noteq> None" "onlySimple \<noteq> None"
  by (simp_all add: rejected_def onlySimple_def)

lemma stmtError_None: "stmtError n b c sc rs = None \<longleftrightarrow> \<not> n \<and> \<not> b \<and> \<not> c \<and> \<not> sc \<and> rs = []"
  by (simp add: stmtError_def)

lemma validateCall_None:
  "validateCall sh wl as ws = None \<longleftrightarrow> as = [] \<and> ws \<noteq> [] \<and> validateWords sh ws = None \<and> wordLit (hd ws) \<in> set wl"
  unfolding validateCall_def
  by (cases ws; cases "validateWords sh ws") (simp_all del: validateWords.simps not_None_eq)

lemma validated_call_runs:
  assumes "validateCall sh wl as ws = None" "\<not> unsafeCmd (CallExpr as ws)" "plainNames wl"
  shows "set (cmdRuns (CallExpr as ws)) \<subseteq> Some ` set wl"
proof -
  from assms(1) obtain w ws' where ws: "ws = w # ws'" "as = []" "validateWords sh ws = None" "wordLit w \<in> set wl"
    by (auto simp: validateCall_None neq_Nil_conv)
  then have "partsText w = Some (wordLit w)"
    using assms by (intro whitelisted_word_text) auto
  moreover have "concat (map (\<lambda>w. concat (map partRuns w)) ws) = []"
    by (rule validated_words_run_nothing [OF ws(3)])
  ultimately have "cmdRuns (CallExpr as ws) = [Some (wordLit w)]"
    by (simp only: cmdRuns.simps ws(1,2) list.simps list.case concat.simps append.simps)
  with ws(4) show ?thesis by simp
qed

lemma validated_statement_runs:
  "validateStatement sh wl s = None \<Longrightarrow> \<not> unsafeStmt s \<Longrightarrow> plainNames wl \<Longrightarrow> set (stmtRuns s) \<subseteq> Some ` set wl"
proof (induction sh wl s rule: validateStatement.induct)
  case (1 sh whitelist n b c sc rs cm)
  have no: "stmtError n b c sc rs = None"
    using 1(3) by (cases "stmtError n b c sc rs") simp_all
  have rs: "rs = []" and safe: "\<not> unsafeCmd cm"
    using no 1(4) by (simp_all add: stmtError_None)
  show ?case
  proof (cases cm)
    case (CallExpr as ws)
    then have "validateCall sh whitelist as ws = None" using 1(3) no by simp
    from validated_call_runs [OF this] safe 1(5) CallExpr rs show ?thesis by simp
  next
    case (BinaryCmd op x y)
    then have op: "op = Pipe" using safe by simp
    have x: "validateStatement sh whitelist x = None"
      using 1(3) no BinaryCmd op by (cases "validateStatement sh whitelist x") simp_all
    have y: "validateStatement sh whitelist y = None"
      using 1(3) no BinaryCmd op x by simp
    have "set (stmtRuns x) \<subseteq> Some ` set whitelist"
      by (rule 1(1) [OF no BinaryCmd _ x]) (use op safe BinaryCmd 1(5) in simp_all)
    moreover have "set (stmtRuns y) \<subseteq> Some ` set whitelist"
      by (rule 1(2) [OF no BinaryCmd _ x y]) (use op safe BinaryCmd 1(5) in simp_all)
    ultimately show ?thesis using BinaryCmd rs by simp
  qed (use 1(3) no in simp_all)
qed

lemma validated_statements_run:
  "validateStatements sh wl ss = None \<Longrightarrow> \<not> list_ex unsafeStmt ss \<Longrightarrow> plainNames wl \<Longrightarrow>
   set (concat (map stmtRuns ss)) \<subseteq> Some ` set wl"
proof (induction ss)
  case (Cons s ss)
  have s: "validateStatement sh wl s = None"
    using Cons.prems(1) by (cases "validateStatement sh wl s") simp_all
  have ss: "validateStatements sh wl ss = None" using Cons.prems(1) s by simp
  show ?case
    using validated_statement_runs [OF s _ Cons.prems(3)] Cons.IH [OF ss _ Cons.prems(3)] Cons.prems(2) by simp
qed simp

lemma ValidateCommand_sound:
  assumes "ValidateCommand sh input wl = None" "plainNames wl"
  obtains stmts where "se_parse sh input = Parsed stmts" "stmts \<noteq> []" "set (concat (map stmtRuns stmts)) \<subseteq> Some ` set wl"
proof (cases "se_parse sh input")
  case (Parsed stmts)
  then have "\<not> list_ex unsafeStmt stmts" "stmts \<noteq> []" "validateStatements sh wl stmts = None"
    using assms(1) by (simp_all add: ValidateCommand_def walkForDangerousNodeTypes_def split: if_splits)
  with Parsed show ?thesis using that validated_statements_run [OF _ _ assms(2)] by blast
qed (use assms in \<open>simp_all add: ValidateCommand_def\<close>)

lemma HandleCommandRequest_runs:
  assumes "dr_ran (HandleCommandRequest sh host wl req0) = Some r"
  obtains req cm where "req0 = Some req" "dq_Command req = Some cm" "ValidateCommand sh cm wl = None"
    "r = (NSENTER_CMD, fullArgs (dq_RoleAccount req) cm)"
proof -
  from assms obtain req where req: "req0 = Some req"
    by (cases req0) (simp_all add: HandleCommandRequest_def refuse_def)
  with assms obtain cm where cm: "dq_Command req = Some cm"
    by (cases "dq_Command req") (simp_all add: HandleCommandRequest_def refuse_def)
  have v: "ValidateCommand sh cm wl = None"
    using assms req cm by (cases "ValidateCommand sh cm wl") (simp_all add: HandleCommandRequest_def refuse_def)
  have "dr_ran (runCli host req cm) = Some r"
    using assms req cm v by (cases "dq_Mode req") (simp_all add: HandleCommandRequest_def refuse_def)
  then have "r = (NSENTER_CMD, fullArgs (dq_RoleAccount req) cm)"
    by (cases "dh_sendRequest host") (auto simp: runCli_def refuse_def Let_def split: prod.splits)
  with req cm v that show ?thesis by blast
qed

text \<open>The byte limit is the size of the chunks. It does not limit the output: whatever it is, all of it is sent.\<close>

lemma byteLimit_keeps_all:
  "concat (outputReaderToChannel reads byteLimit) = concat reads"
  "\<forall>chunk\<in>set (outputReaderToChannel reads byteLimit). length chunk \<le> bufferSize byteLimit"
proof -
  have "n > 0 \<Longrightarrow> concat (copyBuffer n rs) = concat rs" for n rs
  proof (induction n rs rule: copyBuffer.induct)
    case (2 n r rs)
    then show ?case by (subst copyBuffer.simps(2)) simp
  qed simp
  then show "concat (outputReaderToChannel reads byteLimit) = concat reads"
    by (simp add: outputReaderToChannel_def bufferSize_def)
  have "\<forall>chunk\<in>set (copyBuffer n rs). length chunk \<le> n" for n rs
  proof (induction n rs rule: copyBuffer.induct)
    case (2 n r rs)
    then show ?case by (subst copyBuffer.simps(2)) simp
  qed simp
  then show "\<forall>chunk\<in>set (outputReaderToChannel reads byteLimit). length chunk \<le> bufferSize byteLimit"
    by (simp add: outputReaderToChannel_def)
qed

section \<open>The property\<close>


text \<open>A pipeline of two calls, and a parser that knows that text and one that removes the files of the device.\<close>

definition exCall :: "string list \<Rightarrow> stmt" where
  "exCall ws = Stmt False False False False [] (CallExpr [] (map (\<lambda>w. [Lit w]) ws))"

definition exPipe :: "stmt list" where
  "exPipe = [Stmt False False False False [] (BinaryCmd Pipe (exCall [''ls'', ''-l'']) (exCall [''grep'', ''log'']))]"

definition exShell :: shellEnv where
  "exShell = \<lparr>se_parse = (\<lambda>s. if s = ''ls -l | grep log'' then Parsed exPipe
        else if s = ''rm -rf /host'' then Parsed [exCall [''rm'', ''-rf'', ''/host'']] else ParseError []),
     se_printWord = (\<lambda>_. []), se_printPart = (\<lambda>_. []), se_typeText = (\<lambda>_. []), se_quote = id\<rparr>"

definition exDebugHost :: debugHost where
  "exDebugHost = \<lparr>dh_sendRequest = None, dh_exec = (\<lambda>_ _ _. \<lparr>ex_StdoutPipe = None, ex_StderrPipe = None, ex_Start = None,
       ex_stdout = [''syslog''], ex_stderr = [], ex_Wait = WaitExit 3\<rparr>), dh_stream = (@)\<rparr>"

definition exDebugServer :: debugServer where
  "exDebugServer = \<lparr>ds_config = \<lparr>ac_UserAuth = [], ac_ConfigTableName = [], ac_EnableCrl = False\<rparr>,
     ds_readWhitelist = readCommands, ds_writeWhitelist = writeCommands @ readCommands\<rparr>"

definition exDebug :: "string \<Rightarrow> debugRequest" where
  "exDebug s = \<lparr>dq_Command = Some s, dq_Mode = MODE_CLI, dq_ByteLimit = 4, dq_Timeout = 0, dq_RoleAccount = []\<rparr>"

lemma exDebug_run:
  "dr_ran (fst (Debug exShell exDebugHost exAuthn exDebugServer exCtx (Some (exDebug ''ls -l | grep log'')) demoCrl)) =
     Some (''nsenter'', fullArgs [] ''ls -l | grep log'')"
  "dr_sent (fst (Debug exShell exDebugHost exAuthn exDebugServer exCtx (Some (exDebug ''ls -l | grep log'')) demoCrl)) =
     [DebugResponse_Request (exDebug ''ls -l | grep log''), DebugResponse_Data ''sysl'', DebugResponse_Data ''og'',
      DebugResponse_Status 3]"
  "dr_ran (fst (Debug exShell exDebugHost exAuthn exDebugServer exCtx (Some (exDebug ''rm -rf /host'')) demoCrl)) = None"
  by code_simp+


text \<open>The read list has an interpreter: a text that the policy passes for a user without write access runs any program.\<close>

lemma read_user_runs_awk:
  assumes "se_parse sh cm = Parsed [Stmt False False False False [] (CallExpr [] [[Lit ''awk''], [SglQuoted prog]])]"
  shows "ValidateCommand sh cm (fst defaultWhitelists) = None"
  using assms
  by (simp add: ValidateCommand_def walkForDangerousNodeTypes_def ContainsAny_def dangerousCharSet_def stmtError_def validateCall_def
      wordLit_def defaultWhitelists_def readCommands_def)

end
