(* ===== verification/Db_Config.thy ===== *)
theory Db_Config
  imports Prelude
begin

text \<open>
  The database configuration of the device, \<^verbatim>\<open>sonic_db_config/db_config.go\<close>: a thin layer over the C++ library
  \<^verbatim>\<open>swss-common\<close> that initializes the library once and turns its exceptions into errors.

  The library is the argument \<open>sw\<close>; an exception of it is \<^term>\<open>Inl\<close> of its text. The state is the flag
  \<^verbatim>\<open>sonic_db_init\<close> and the state of the library.
\<close>

definition SONIC_DEFAULT_NAMESPACE :: string where "SONIC_DEFAULT_NAMESPACE = []"
definition SONIC_DEFAULT_CONTAINER :: string where "SONIC_DEFAULT_CONTAINER = []"

definition SONIC_DB_GLOBAL_CONFIG_FILE :: string where
  "SONIC_DB_GLOBAL_CONFIG_FILE = ''/var/run/redis/sonic-db/database_global.json''"

record sonicDBKey =
  sk_Netns :: string
  sk_ContainerName :: string

record 'l swss =
  sw_globalFileThere :: bool
  sw_IsGlobalInit :: "'l \<Rightarrow> string + bool"
  sw_InitializeGlobalConfig :: "'l \<Rightarrow> string option \<times> 'l"
  sw_IsInit :: "'l \<Rightarrow> string + bool"
  sw_Initialize :: "'l \<Rightarrow> string option \<times> 'l"
  sw_Reset :: "'l \<Rightarrow> string option \<times> 'l"
  sw_GetNamespaces :: "'l \<Rightarrow> string + string list"
  sw_GetDbKeys :: "'l \<Rightarrow> string + sonicDBKey list"
  sw_GetDbList :: "sonicDBKey option \<Rightarrow> 'l \<Rightarrow> string + string list"
  sw_GetSeparator :: "string \<Rightarrow> sonicDBKey \<Rightarrow> 'l \<Rightarrow> string + string"
  sw_GetDbId :: "string \<Rightarrow> sonicDBKey \<Rightarrow> 'l \<Rightarrow> string + int"
  sw_GetDbSock :: "string \<Rightarrow> sonicDBKey \<Rightarrow> 'l \<Rightarrow> string + string"
  sw_GetDbHostname :: "string \<Rightarrow> sonicDBKey \<Rightarrow> 'l \<Rightarrow> string + string"
  sw_GetDbPort :: "string \<Rightarrow> sonicDBKey \<Rightarrow> 'l \<Rightarrow> string + int"

record 'l dbState =
  ds_sonic_db_init :: bool
  ds_lib :: 'l

section \<open>Initialization\<close>

text \<open>\<^verbatim>\<open>CatchException\<close>: the text of the exception is the error.\<close>

definition CatchException :: "string + 'a \<Rightarrow> goerr + 'a" where
  "CatchException r = (case r of Inl t \<Rightarrow> Inl (Plain t) | Inr v \<Rightarrow> Inr v)"

definition initLib :: "(string + bool) \<Rightarrow> ('l \<Rightarrow> string option \<times> 'l) \<Rightarrow> 'l dbState \<Rightarrow> goerr option \<times> 'l dbState" where
  "initLib isInit initialize s =
     (case isInit of
        Inl t \<Rightarrow> (Some (Plain t), s)
      | Inr True \<Rightarrow> (None, s\<lparr>ds_sonic_db_init := True\<rparr>)
      | Inr False \<Rightarrow>
          (case initialize (ds_lib s) of
             (Some t, l) \<Rightarrow> (Some (Plain t), s\<lparr>ds_lib := l\<rparr>)
           | (None, l) \<Rightarrow> (None, s\<lparr>ds_sonic_db_init := True, ds_lib := l\<rparr>)))"

definition DbInit :: "'l swss \<Rightarrow> 'l dbState \<Rightarrow> goerr option \<times> 'l dbState" where
  "DbInit sw s =
     (if ds_sonic_db_init s then (None, s)
      else if sw_globalFileThere sw then initLib (sw_IsGlobalInit sw (ds_lib s)) (sw_InitializeGlobalConfig sw) s
      else initLib (sw_IsInit sw (ds_lib s)) (sw_Initialize sw) s)"

definition InitDb :: "'l swss \<Rightarrow> 'l dbState \<Rightarrow> goerr option \<times> 'l dbState" where
  "InitDb sw s =
     (case sw_Reset sw (ds_lib s) of
        (Some t, l) \<Rightarrow> (Some (Plain t), \<lparr>ds_sonic_db_init = False, ds_lib = l\<rparr>)
      | (None, l) \<Rightarrow> (None, \<lparr>ds_sonic_db_init = False, ds_lib = l\<rparr>))"

text \<open>The frame of every query: initialize, then ask the library.\<close>

definition withDb :: "'l swss \<Rightarrow> ('l \<Rightarrow> string + 'a) \<Rightarrow> 'l dbState \<Rightarrow> (goerr + 'a) \<times> 'l dbState" where
  "withDb sw f s =
     (case DbInit sw s of
        (Some e, s1) \<Rightarrow> (Inl e, s1)
      | (None, s1) \<Rightarrow> (CatchException (f (ds_lib s1)), s1))"

definition mapResult :: "('a \<Rightarrow> 'b) \<Rightarrow> (goerr + 'a) \<times> 's \<Rightarrow> (goerr + 'b) \<times> 's" where
  "mapResult g = (\<lambda>(r, s). (map_sum id g r, s))"

section \<open>Namespaces\<close>

definition GetDbDefaultNamespace :: string where
  "GetDbDefaultNamespace = SONIC_DEFAULT_NAMESPACE"

definition CheckDbMultiNamespace :: "'l swss \<Rightarrow> 'l dbState \<Rightarrow> (goerr + bool) \<times> 'l dbState" where
  "CheckDbMultiNamespace sw s = mapResult (\<lambda>ns. length ns > 1) (withDb sw (sw_GetNamespaces sw) s)"

definition GetDbNonDefaultNamespaces :: "'l swss \<Rightarrow> 'l dbState \<Rightarrow> (goerr + string list) \<times> 'l dbState" where
  "GetDbNonDefaultNamespaces sw s = mapResult (filter (\<lambda>ns. ns \<noteq> SONIC_DEFAULT_NAMESPACE)) (withDb sw (sw_GetNamespaces sw) s)"

definition GetDbAllNamespaces :: "'l swss \<Rightarrow> 'l dbState \<Rightarrow> (goerr + string list) \<times> 'l dbState" where
  "GetDbAllNamespaces sw s = withDb sw (sw_GetNamespaces sw) s"

definition GetDbNamespaceFromTarget :: "'l swss \<Rightarrow> string \<Rightarrow> 'l dbState \<Rightarrow> (goerr + (string \<times> bool)) \<times> 'l dbState" where
  "GetDbNamespaceFromTarget sw tgt s =
     (if tgt = GetDbDefaultNamespace then (Inr (tgt, True), s)
      else mapResult (\<lambda>nss. if tgt \<in> set nss then (tgt, True) else ([], False)) (GetDbNonDefaultNamespaces sw s))"

text \<open>The list of databases is the one of the default instance, whatever the namespace.\<close>

definition GetDbList :: "'l swss \<Rightarrow> string \<Rightarrow> 'l dbState \<Rightarrow> (goerr + string list) \<times> 'l dbState" where
  "GetDbList sw ns s = withDb sw (sw_GetDbList sw None) s"

definition nsKey :: "string \<Rightarrow> sonicDBKey" where
  "nsKey ns = \<lparr>sk_Netns = ns, sk_ContainerName = SONIC_DEFAULT_CONTAINER\<rparr>"

section \<open>Instances\<close>

definition CheckDbMultiInstance :: "'l swss \<Rightarrow> 'l dbState \<Rightarrow> (goerr + bool) \<times> 'l dbState" where
  "CheckDbMultiInstance sw s = mapResult (\<lambda>ks. length ks > 1) (withDb sw (sw_GetDbKeys sw) s)"

definition GetDbNonDefaultInstances :: "'l swss \<Rightarrow> 'l dbState \<Rightarrow> (goerr + sonicDBKey list) \<times> 'l dbState" where
  "GetDbNonDefaultInstances sw s =
     mapResult (filter (\<lambda>k. \<not> (sk_Netns k = SONIC_DEFAULT_NAMESPACE \<and> sk_ContainerName k = SONIC_DEFAULT_CONTAINER)))
       (withDb sw (sw_GetDbKeys sw) s)"

definition GetDbAllInstances :: "'l swss \<Rightarrow> 'l dbState \<Rightarrow> (goerr + sonicDBKey list) \<times> 'l dbState" where
  "GetDbAllInstances sw s = withDb sw (sw_GetDbKeys sw) s"

definition GetDbListByDBKey :: "'l swss \<Rightarrow> sonicDBKey \<Rightarrow> 'l dbState \<Rightarrow> (goerr + string list) \<times> 'l dbState" where
  "GetDbListByDBKey sw k s = withDb sw (sw_GetDbList sw (Some k)) s"

definition GetDbInstanceFromTarget :: "'l swss \<Rightarrow> string \<Rightarrow> string \<Rightarrow> 'l dbState \<Rightarrow> sonicDBKey option \<times> 'l dbState" where
  "GetDbInstanceFromTarget sw ns container s =
     (let k = \<lparr>sk_Netns = ns, sk_ContainerName = container\<rparr>
      in case GetDbListByDBKey sw k s of (Inl _, s1) \<Rightarrow> (None, s1) | (Inr _, s1) \<Rightarrow> (Some k, s1))"

definition GetDbSeparatorByDBKey :: "'l swss \<Rightarrow> string \<Rightarrow> sonicDBKey \<Rightarrow> 'l dbState \<Rightarrow> (goerr + string) \<times> 'l dbState" where
  "GetDbSeparatorByDBKey sw db k s = withDb sw (sw_GetSeparator sw db k) s"

definition GetDbIdByDBKey :: "'l swss \<Rightarrow> string \<Rightarrow> sonicDBKey \<Rightarrow> 'l dbState \<Rightarrow> (goerr + int) \<times> 'l dbState" where
  "GetDbIdByDBKey sw db k s = withDb sw (sw_GetDbId sw db k) s"

definition GetDbSockByDBKey :: "'l swss \<Rightarrow> string \<Rightarrow> sonicDBKey \<Rightarrow> 'l dbState \<Rightarrow> (goerr + string) \<times> 'l dbState" where
  "GetDbSockByDBKey sw db k s = withDb sw (sw_GetDbSock sw db k) s"

definition GetDbHostNameByDBKey :: "'l swss \<Rightarrow> string \<Rightarrow> sonicDBKey \<Rightarrow> 'l dbState \<Rightarrow> (goerr + string) \<times> 'l dbState" where
  "GetDbHostNameByDBKey sw db k s = withDb sw (sw_GetDbHostname sw db k) s"

definition GetDbPortByDBKey :: "'l swss \<Rightarrow> string \<Rightarrow> sonicDBKey \<Rightarrow> 'l dbState \<Rightarrow> (goerr + int) \<times> 'l dbState" where
  "GetDbPortByDBKey sw db k s = withDb sw (sw_GetDbPort sw db k) s"

definition tcpAddr :: "'l swss \<Rightarrow> ('l dbState \<Rightarrow> (goerr + string) \<times> 'l dbState) \<Rightarrow> ('l dbState \<Rightarrow> (goerr + int) \<times> 'l dbState) \<Rightarrow>
    'l dbState \<Rightarrow> (goerr + string) \<times> 'l dbState" where
  "tcpAddr sw getHost getPort s =
     (case DbInit sw s of
        (Some e, s1) \<Rightarrow> (Inl e, s1)
      | (None, s1) \<Rightarrow>
          (case getHost s1 of
             (Inl e, s2) \<Rightarrow> (Inl e, s2)
           | (Inr hostname, s2) \<Rightarrow>
               (case getPort s2 of
                  (Inl e, s3) \<Rightarrow> (Inl e, s3)
                | (Inr port, s3) \<Rightarrow> (Inr (hostname @ '':'' @ FormatInt port), s3))))"

definition GetDbTcpAddrByDBKey :: "'l swss \<Rightarrow> string \<Rightarrow> sonicDBKey \<Rightarrow> 'l dbState \<Rightarrow> (goerr + string) \<times> 'l dbState" where
  "GetDbTcpAddrByDBKey sw db k = tcpAddr sw (GetDbHostNameByDBKey sw db k) (GetDbPortByDBKey sw db k)"

text \<open>The variants with a namespace, which the library takes for the key of the default container.\<close>

definition GetDbSeparator :: "'l swss \<Rightarrow> string \<Rightarrow> string \<Rightarrow> 'l dbState \<Rightarrow> (goerr + string) \<times> 'l dbState" where
  "GetDbSeparator sw db ns s = withDb sw (sw_GetSeparator sw db (nsKey ns)) s"

definition GetDbId :: "'l swss \<Rightarrow> string \<Rightarrow> string \<Rightarrow> 'l dbState \<Rightarrow> (goerr + int) \<times> 'l dbState" where
  "GetDbId sw db ns s = withDb sw (sw_GetDbId sw db (nsKey ns)) s"

definition GetDbSock :: "'l swss \<Rightarrow> string \<Rightarrow> string \<Rightarrow> 'l dbState \<Rightarrow> (goerr + string) \<times> 'l dbState" where
  "GetDbSock sw db ns s = withDb sw (sw_GetDbSock sw db (nsKey ns)) s"

definition GetDbHostName :: "'l swss \<Rightarrow> string \<Rightarrow> string \<Rightarrow> 'l dbState \<Rightarrow> (goerr + string) \<times> 'l dbState" where
  "GetDbHostName sw db ns s = withDb sw (sw_GetDbHostname sw db (nsKey ns)) s"

definition GetDbPort :: "'l swss \<Rightarrow> string \<Rightarrow> string \<Rightarrow> 'l dbState \<Rightarrow> (goerr + int) \<times> 'l dbState" where
  "GetDbPort sw db ns s = withDb sw (sw_GetDbPort sw db (nsKey ns)) s"

definition GetDbTcpAddr :: "'l swss \<Rightarrow> string \<Rightarrow> string \<Rightarrow> 'l dbState \<Rightarrow> (goerr + string) \<times> 'l dbState" where
  "GetDbTcpAddr sw db ns = tcpAddr sw (GetDbHostName sw db ns) (GetDbPort sw db ns)"

section \<open>The library is initialized once\<close>

text \<open>A query that succeeds leaves the library initialized, and from then on no query changes the state.\<close>

lemma DbInit_done [simp]: "ds_sonic_db_init s \<Longrightarrow> DbInit sw s = (None, s)"
  by (simp add: DbInit_def)

lemma DbInit_success: "DbInit sw s = (None, s') \<Longrightarrow> ds_sonic_db_init s'"
  by (auto simp: DbInit_def initLib_def split: if_splits sum.splits bool.splits prod.splits option.splits)

lemma withDb_done [simp]: "ds_sonic_db_init s \<Longrightarrow> withDb sw f s = (CatchException (f (ds_lib s)), s)"
  by (simp add: withDb_def)

lemma withDb_success: "withDb sw f s = (Inr v, s') \<Longrightarrow> ds_sonic_db_init s'"
  by (auto simp: withDb_def dest: DbInit_success split: prod.splits option.splits)

lemma target_is_configured:
  assumes "GetDbNamespaceFromTarget sw tgt s = (Inr (ns, True), s')"
  shows "ns = tgt \<and> (tgt = SONIC_DEFAULT_NAMESPACE \<or> (\<exists>nss. sw_GetNamespaces sw (ds_lib s') = Inr nss \<and> tgt \<in> set nss))"
  using assms
  by (auto simp: GetDbNamespaceFromTarget_def GetDbDefaultNamespace_def GetDbNonDefaultNamespaces_def mapResult_def withDb_def
      CatchException_def split: if_splits prod.splits sum.splits option.splits)

end
