(* ===== verification/Swss_Tables.thy ===== *)
theory Swss_Tables
  imports Db_Config
begin

text \<open>
  Writing tables of APPL_DB and DPU_APPL_DB: the first part of \<^verbatim>\<open>sonic_data_client/mixed_db_client.go\<close>. A table is
  written through one of three classes of \<^verbatim>\<open>swss-common\<close>, some of them over ZMQ; writes over ZMQ are repeated
  when the connection is broken, and a batch of writes is one message.

  The classes are the argument \<open>be\<close>, functions on an unknown state that may throw (the text of the
  exception). Sleeping is one of them, so the state sees the delays. The objects that the client keeps are not more than
  names here; a name is in at most one of the three maps.
\<close>

section \<open>The tables of a client\<close>

datatype tableKind = ProducerStateTable | ZmqProducerStateTable | PlainTable

record 's backend =
  be_Set :: "tableKind \<Rightarrow> string \<Rightarrow> string \<Rightarrow> (string, string) gomap \<Rightarrow> 's \<Rightarrow> string option \<times> 's"
  be_Delete :: "tableKind \<Rightarrow> string \<Rightarrow> string \<Rightarrow> 's \<Rightarrow> string option \<times> 's"
  be_Flush :: "string \<Rightarrow> 's \<Rightarrow> string option \<times> 's"
  be_BatchedSet :: "string \<Rightarrow> (string \<times> (string, string) gomap) list \<Rightarrow> 's \<Rightarrow> string option \<times> 's"
  be_BatchedDel :: "string \<Rightarrow> string list \<Rightarrow> 's \<Rightarrow> string option \<times> 's"
  be_Connect :: "'s \<Rightarrow> string option \<times> 's"
  be_Sleep :: "nat \<Rightarrow> 's \<Rightarrow> 's"

record 's tableState =
  tb_zmqClient :: bool
  tb_tableMap :: "string list"
  tb_zmqTableMap :: "string list"
  tb_plainTableMap :: "string list"
  tb_backend :: 's

definition DASH_TABLE_PREFIX :: string where "DASH_TABLE_PREFIX = ''DASH_''"
definition DASH_HA_TABLE_PREFIX :: string where "DASH_HA_TABLE_PREFIX = ''DASH_HA_''"

text \<open>The result \<^term>\<open>None\<close> is the nil table, which means that the table is a plain one.\<close>

definition GetTable :: "string \<Rightarrow> 's tableState \<Rightarrow> tableKind option \<times> 's tableState" where
  "GetTable table c =
     (if table \<in> set (tb_tableMap c) then (Some ProducerStateTable, c)
      else if table \<in> set (tb_zmqTableMap c) then (Some ZmqProducerStateTable, c)
      else if table \<in> set (tb_plainTableMap c) then (None, c)
      else if HasPrefix table DASH_HA_TABLE_PREFIX then (None, c\<lparr>tb_plainTableMap := table # tb_plainTableMap c\<rparr>)
      else if HasPrefix table DASH_TABLE_PREFIX \<and> tb_zmqClient c
      then (Some ZmqProducerStateTable, c\<lparr>tb_zmqTableMap := table # tb_zmqTableMap c\<rparr>)
      else (Some ProducerStateTable, c\<lparr>tb_tableMap := table # tb_tableMap c\<rparr>))"

text \<open>The wrappers turn an exception into an error.\<close>

definition wrapped :: "('s \<Rightarrow> string option \<times> 's) \<Rightarrow> 's \<Rightarrow> goerr option \<times> 's" where
  "wrapped f s = (case f s of (Some t, s1) \<Rightarrow> (Some (Plain t), s1) | (None, s1) \<Rightarrow> (None, s1))"

definition TableDeleteWrapper :: "'s backend \<Rightarrow> string \<Rightarrow> string \<Rightarrow> 's \<Rightarrow> goerr option \<times> 's" where
  "TableDeleteWrapper be table key s =
     (case wrapped (be_Delete be PlainTable table key) s of
        (Some e, s1) \<Rightarrow> (Some e, s1)
      | (None, s1) \<Rightarrow> wrapped (be_Flush be table) s1)"

section \<open>Repeating\<close>

definition MAX_RETRY_COUNT :: nat where "MAX_RETRY_COUNT = 5"
definition RETRY_DELAY_MILLISECOND :: nat where "RETRY_DELAY_MILLISECOND = 100"
definition RETRY_DELAY_FACTOR :: nat where "RETRY_DELAY_FACTOR = 2"

definition connectionError :: "goerr \<Rightarrow> bool" where
  "connectionError e \<longleftrightarrow>
     Contains (errText e) ''zmq connection break'' \<or> Contains (errText e) ''Resource temporarily unavailable''"

text \<open>The loop, from a number of repetitions and a delay on. Without a ZMQ client the call of \<^verbatim>\<open>Connect\<close> is a call on a
  nil interface; an exception of \<^verbatim>\<open>Connect\<close> is not caught either.\<close>

function retryFrom ::
    "'s backend \<Rightarrow> bool \<Rightarrow> ('s \<Rightarrow> goerr option \<times> 's) \<Rightarrow> nat \<Rightarrow> nat \<Rightarrow> 's \<Rightarrow> goerr option \<times> 's" where
  "retryFrom be zmqClient action retry delay s =
     (case action s of
        (None, s1) \<Rightarrow> (None, s1)
      | (Some e, s1) \<Rightarrow>
          if connectionError e \<and> retry \<le> MAX_RETRY_COUNT then
            if \<not> zmqClient then (Some (Panic ''invalid memory address or nil pointer dereference''), s1)
            else (case be_Connect be s1 of
                    (Some t, s2) \<Rightarrow> (Some (Panic t), s2)
                  | (None, s2) \<Rightarrow>
                      retryFrom be zmqClient action (retry + 1) (delay * RETRY_DELAY_FACTOR) (be_Sleep be delay s2))
          else (Some e, s1))"
  by pat_completeness auto
termination
  by (relation "measure (\<lambda>(be, z, a, retry, d, s). Suc MAX_RETRY_COUNT - retry)") auto

declare retryFrom.simps [simp del]

definition RetryHelper :: "'s backend \<Rightarrow> bool \<Rightarrow> ('s \<Rightarrow> goerr option \<times> 's) \<Rightarrow> 's \<Rightarrow> goerr option \<times> 's" where
  "RetryHelper be zmqClient action s = retryFrom be zmqClient action 0 RETRY_DELAY_MILLISECOND s"

section \<open>Single entries and batches\<close>

definition onBackend :: "('s \<Rightarrow> goerr option \<times> 's) \<Rightarrow> 's tableState \<Rightarrow> goerr option \<times> 's tableState" where
  "onBackend f c = (case f (tb_backend c) of (r, s) \<Rightarrow> (r, c\<lparr>tb_backend := s\<rparr>))"

definition notFound :: "string \<Rightarrow> goerr" where
  "notFound table = Plain (''table '' @ table @ '' not found in plainTableMap'')"

definition DbSetTable ::
    "'s backend \<Rightarrow> string \<Rightarrow> string \<Rightarrow> (string, string) gomap \<Rightarrow> 's tableState \<Rightarrow> goerr option \<times> 's tableState" where
  "DbSetTable be table key values c =
     (case GetTable table c of
        (None, c1) \<Rightarrow>
          if table \<notin> set (tb_plainTableMap c1) then (Some (notFound table), c1)
          else onBackend (wrapped (be_Set be PlainTable table key values)) c1
      | (Some pt, c1) \<Rightarrow> onBackend (RetryHelper be (tb_zmqClient c1) (wrapped (be_Set be pt table key values))) c1)"

definition DbDelTable :: "'s backend \<Rightarrow> string \<Rightarrow> string \<Rightarrow> 's tableState \<Rightarrow> goerr option \<times> 's tableState" where
  "DbDelTable be table key c =
     (case GetTable table c of
        (None, c1) \<Rightarrow>
          if table \<notin> set (tb_plainTableMap c1) then (Some (notFound table), c1)
          else onBackend (TableDeleteWrapper be table key) c1
      | (Some pt, c1) \<Rightarrow> onBackend (RetryHelper be (tb_zmqClient c1) (wrapped (be_Delete be pt table key))) c1)"

fun setEach ::
    "'s backend \<Rightarrow> string \<Rightarrow> (string \<times> (string, string) gomap) list \<Rightarrow> 's tableState \<Rightarrow> goerr option \<times> 's tableState" where
  "setEach be table [] c = (None, c)"
| "setEach be table ((key, values) # es) c =
     (case DbSetTable be table key values c of
        (Some e, c1) \<Rightarrow> (Some e, c1)
      | (None, c1) \<Rightarrow> setEach be table es c1)"

fun delEach :: "'s backend \<Rightarrow> string \<Rightarrow> string list \<Rightarrow> 's tableState \<Rightarrow> goerr option \<times> 's tableState" where
  "delEach be table [] c = (None, c)"
| "delEach be table (key # ks) c =
     (case DbDelTable be table key c of
        (Some e, c1) \<Rightarrow> (Some e, c1)
      | (None, c1) \<Rightarrow> delEach be table ks c1)"

definition DbBatchSetTable ::
    "'s backend \<Rightarrow> string \<Rightarrow> (string \<times> (string, string) gomap) list \<Rightarrow> 's tableState \<Rightarrow> goerr option \<times> 's tableState" where
  "DbBatchSetTable be table entries c =
     (case entries of
        [] \<Rightarrow> (None, c)
      | [(key, values)] \<Rightarrow> DbSetTable be table key values c
      | _ \<Rightarrow>
          let c1 = snd (GetTable table c)
          in if table \<notin> set (tb_zmqTableMap c1) then setEach be table entries c1
             else onBackend (RetryHelper be (tb_zmqClient c1) (wrapped (be_BatchedSet be table entries))) c1)"

definition DbBatchDelTable :: "'s backend \<Rightarrow> string \<Rightarrow> string list \<Rightarrow> 's tableState \<Rightarrow> goerr option \<times> 's tableState" where
  "DbBatchDelTable be table keys c =
     (case keys of
        [] \<Rightarrow> (None, c)
      | [key] \<Rightarrow> DbDelTable be table key c
      | _ \<Rightarrow>
          let c1 = snd (GetTable table c)
          in if table \<notin> set (tb_zmqTableMap c1) then delEach be table keys c1
             else onBackend (RetryHelper be (tb_zmqClient c1) (wrapped (be_BatchedDel be table keys))) c1)"

section \<open>How often an action is repeated\<close>

text \<open>One failed attempt: the action, a new connection and the sleep; and the state after a number of them.\<close>

definition attempt :: "'s backend \<Rightarrow> ('s \<Rightarrow> goerr option \<times> 's) \<Rightarrow> nat \<Rightarrow> 's \<Rightarrow> 's" where
  "attempt be action i s = be_Sleep be (RETRY_DELAY_MILLISECOND * RETRY_DELAY_FACTOR ^ i) (snd (be_Connect be (snd (action s))))"

definition afterAttempts :: "'s backend \<Rightarrow> ('s \<Rightarrow> goerr option \<times> 's) \<Rightarrow> nat \<Rightarrow> 's \<Rightarrow> 's" where
  "afterAttempts be action n s = fold (attempt be action) [0..<n] s"

definition brokenConnection :: "goerr option \<Rightarrow> bool" where
  "brokenConnection r \<longleftrightarrow> (\<exists>e. r = Some e \<and> connectionError e)"

lemma afterAttempts_Suc: "afterAttempts be action (Suc n) s = attempt be action n (afterAttempts be action n s)"
  by (simp add: afterAttempts_def)

lemma retryFrom_stop:
  "action s = (r, s1) \<Longrightarrow> \<not> (brokenConnection r \<and> retry \<le> MAX_RETRY_COUNT) \<Longrightarrow>
   retryFrom be zmqClient action retry delay s = (r, s1)"
  by (cases r) (auto simp: retryFrom.simps [where s = s] brokenConnection_def)

lemma retryFrom_attempts:
  assumes "\<And>s. fst (be_Connect be s) = None" "k \<le> Suc MAX_RETRY_COUNT"
  shows "\<exists>n. k \<le> n \<and> n \<le> Suc MAX_RETRY_COUNT \<and>
    retryFrom be True action k (RETRY_DELAY_MILLISECOND * RETRY_DELAY_FACTOR ^ k) (afterAttempts be action k s) =
      action (afterAttempts be action n s) \<and>
    (\<forall>i. k \<le> i \<and> i < n \<longrightarrow> brokenConnection (fst (action (afterAttempts be action i s)))) \<and>
    (n \<le> MAX_RETRY_COUNT \<longrightarrow> \<not> brokenConnection (fst (action (afterAttempts be action n s))))"
  using assms(2)
proof (induction "Suc MAX_RETRY_COUNT - k" arbitrary: k)
  case 0
  then have k: "k = Suc MAX_RETRY_COUNT" by simp
  obtain r s1 where a: "action (afterAttempts be action k s) = (r, s1)" by fastforce
  show ?case
    using k a retryFrom_stop [of action "afterAttempts be action k s", OF a] by (intro exI [of _ k]) auto
next
  case (Suc m)
  let ?s = "afterAttempts be action k s"
  obtain r s1 where a: "action ?s = (r, s1)" by fastforce
  show ?case
  proof (cases "brokenConnection r")
    case False
    then show ?thesis
      using a Suc.prems retryFrom_stop [of action ?s, OF a] by (intro exI [of _ k]) auto
  next
    case True
    then obtain e where e: "r = Some e" "connectionError e" by (auto simp: brokenConnection_def)
    obtain s2 where s2: "be_Connect be s1 = (None, s2)" using assms(1) [of s1] by (cases "be_Connect be s1") auto
    have k: "k \<le> MAX_RETRY_COUNT" using Suc.hyps(2) by simp
    have next_state: "afterAttempts be action (Suc k) s = be_Sleep be (RETRY_DELAY_MILLISECOND * RETRY_DELAY_FACTOR ^ k) s2"
      using a s2 by (simp add: afterAttempts_Suc attempt_def)
    have run: "retryFrom be True action k (RETRY_DELAY_MILLISECOND * RETRY_DELAY_FACTOR ^ k) ?s =
        retryFrom be True action (Suc k) (RETRY_DELAY_MILLISECOND * RETRY_DELAY_FACTOR ^ Suc k) (afterAttempts be action (Suc k) s)"
      unfolding next_state using a e s2 k by (simp add: retryFrom.simps [where s = ?s] ac_simps)
    have "m = Suc MAX_RETRY_COUNT - Suc k" "Suc k \<le> Suc MAX_RETRY_COUNT" using Suc.hyps(2) k by simp_all
    from Suc.hyps(1) [OF this] obtain n where n: "Suc k \<le> n" "n \<le> Suc MAX_RETRY_COUNT"
      "retryFrom be True action (Suc k) (RETRY_DELAY_MILLISECOND * RETRY_DELAY_FACTOR ^ Suc k) (afterAttempts be action (Suc k) s) =
         action (afterAttempts be action n s)"
      "\<forall>i. Suc k \<le> i \<and> i < n \<longrightarrow> brokenConnection (fst (action (afterAttempts be action i s)))"
      "n \<le> MAX_RETRY_COUNT \<longrightarrow> \<not> brokenConnection (fst (action (afterAttempts be action n s)))"
      by blast
    have "brokenConnection (fst (action (afterAttempts be action i s)))" if "k \<le> i" "i < n" for i
      using that n(4) a True by (cases "i = k") auto
    with n run show ?thesis by (intro exI [of _ n]) auto
  qed
qed

lemma RetryHelper_attempts:
  assumes "\<And>s. fst (be_Connect be s) = None"
  shows "\<exists>n \<le> 6. RetryHelper be True action s = action (afterAttempts be action n s) \<and>
    (\<forall>i<n. brokenConnection (fst (action (afterAttempts be action i s)))) \<and>
    (n < 6 \<longrightarrow> \<not> brokenConnection (fst (action (afterAttempts be action n s))))"
proof -
  have "afterAttempts be action 0 s = s" by (simp add: afterAttempts_def)
  then show ?thesis
    using retryFrom_attempts [OF assms, of 0 action s]
    by (auto simp: RetryHelper_def MAX_RETRY_COUNT_def less_Suc_eq_le numeral_eq_Suc)
qed

text \<open>C31. The repetition ends: with a ZMQ client that can reconnect, an action is called at most seven times, the first
  \<open>n\<close> calls all failed with a broken connection, the result is that of the last call, and only the seventh may end with
  a broken connection. The sleeps between the calls are 100 ms, 200 ms and so on, 6.3 s at most in total.\<close>

theorem retry_ends:
  assumes "\<And>s. fst (be_Connect be s) = None"
  shows "\<exists>n. n \<le> 6 \<and> RetryHelper be True action s = action (afterAttempts be action n s) \<and>
    (\<forall>i<n. brokenConnection (fst (action (afterAttempts be action i s)))) \<and>
    (n < 6 \<longrightarrow> \<not> brokenConnection (fst (action (afterAttempts be action n s)))) \<and>
    sum (\<lambda>i. RETRY_DELAY_MILLISECOND * RETRY_DELAY_FACTOR ^ i) {..<n} \<le> 6300"
proof -
  obtain n where n: "n \<le> 6" "RetryHelper be True action s = action (afterAttempts be action n s)"
    "\<forall>i<n. brokenConnection (fst (action (afterAttempts be action i s)))"
    "n < 6 \<longrightarrow> \<not> brokenConnection (fst (action (afterAttempts be action n s)))"
    using RetryHelper_attempts [OF assms] by blast
  have "sum (\<lambda>i. RETRY_DELAY_MILLISECOND * RETRY_DELAY_FACTOR ^ i) {..<n} \<le> sum (\<lambda>i. RETRY_DELAY_MILLISECOND * RETRY_DELAY_FACTOR ^ i) {..<6}"
    using n(1) by (intro sum_mono2) auto
  also have "{..<6} = {0, 1, 2, 3, 4, 5 :: nat}" by auto
  finally have "sum (\<lambda>i. RETRY_DELAY_MILLISECOND * RETRY_DELAY_FACTOR ^ i) {..<n} \<le> 6300"
    by (simp add: RETRY_DELAY_MILLISECOND_def RETRY_DELAY_FACTOR_def)
  then show ?thesis using n by blast
qed

text \<open>A backend that logs what happens: an action that always finds the connection broken is called seven times.\<close>

definition logBackend :: "string list backend" where
  "logBackend = \<lparr>be_Set = (\<lambda>k t key v s. (None, s @ [''SET '' @ t @ '':'' @ key])), be_Delete = (\<lambda>k t key s. (None, s @ [''DEL '' @ t @ '':'' @ key])),
     be_Flush = (\<lambda>t s. (None, s)), be_BatchedSet = (\<lambda>t es s. (None, s @ map (\<lambda>(key, v). ''SET '' @ t @ '':'' @ key) es)),
     be_BatchedDel = (\<lambda>t ks s. (None, s @ map (\<lambda>key. ''DEL '' @ t @ '':'' @ key) ks)), be_Connect = (\<lambda>s. (None, s)),
     be_Sleep = (\<lambda>d s. s @ [''sleep''])\<rparr>"

definition broken :: "string list \<Rightarrow> goerr option \<times> string list" where
  "broken s = (Some (Plain ''zmq connection break''), s @ [''call''])"

lemma broken_log: "snd (RetryHelper logBackend True broken []) = concat (replicate 6 [''call'', ''sleep'']) @ [''call'']"
  by code_simp

theorem retry_ends_witness:
  "(\<exists>n. n \<le> 6 \<and> RetryHelper logBackend True broken [] = broken (afterAttempts logBackend broken n []) \<and>
     sum (\<lambda>i. RETRY_DELAY_MILLISECOND * RETRY_DELAY_FACTOR ^ i) {..<n} \<le> 6300) \<and>
   length (filter (\<lambda>e. e = ''call'') (snd (RetryHelper logBackend True broken []))) = 7"
proof -
  have "fst (be_Connect logBackend s) = None" for s by (simp add: logBackend_def)
  from retry_ends [OF this, of broken "[]"] show ?thesis
    unfolding broken_log by (auto simp: numeral_eq_Suc)
qed

section \<open>Batches\<close>

text \<open>What the batched calls of the library promise: the same as the single calls in order. \<open>reliable\<close> says that no
  single call throws.\<close>

definition reliable :: "'s backend \<Rightarrow> bool" where
  "reliable be \<longleftrightarrow> (\<forall>k t key v s. fst (be_Set be k t key v s) = None) \<and> (\<forall>k t key s. fst (be_Delete be k t key s) = None) \<and>
     (\<forall>t s. fst (be_Flush be t s) = None)"

definition batchesInOrder :: "'s backend \<Rightarrow> bool" where
  "batchesInOrder be \<longleftrightarrow>
     (\<forall>t es s. be_BatchedSet be t es s = (None, fold (\<lambda>(key, v) s. snd (be_Set be ZmqProducerStateTable t key v s)) es s)) \<and>
     (\<forall>t ks s. be_BatchedDel be t ks s = (None, fold (\<lambda>key s. snd (be_Delete be ZmqProducerStateTable t key s)) ks s))"

lemma RetryHelper_ok: "action s = (None, s1) \<Longrightarrow> RetryHelper be z action s = (None, s1)"
  by (simp add: RetryHelper_def retryFrom_stop brokenConnection_def)

lemma GetTable_again: "GetTable table (snd (GetTable table c)) = GetTable table c"
  by (auto simp: GetTable_def)

lemma DbSetTable_again: "DbSetTable be table key v (snd (GetTable table c)) = DbSetTable be table key v c"
  by (simp add: DbSetTable_def GetTable_again)

lemma DbDelTable_again: "DbDelTable be table key (snd (GetTable table c)) = DbDelTable be table key c"
  by (simp add: DbDelTable_def GetTable_again)

text \<open>The three maps have no name in common.\<close>

definition tablesOk :: "'s tableState \<Rightarrow> bool" where
  "tablesOk c \<longleftrightarrow> set (tb_tableMap c) \<inter> set (tb_zmqTableMap c) = {} \<and> set (tb_tableMap c) \<inter> set (tb_plainTableMap c) = {} \<and>
     set (tb_zmqTableMap c) \<inter> set (tb_plainTableMap c) = {}"

lemma GetTable_ok: "tablesOk c \<Longrightarrow> tablesOk (snd (GetTable table c))"
  by (auto simp: tablesOk_def GetTable_def)

lemma onBackend_ok: "tablesOk c \<Longrightarrow> tablesOk (snd (onBackend f c))"
  by (auto simp: onBackend_def tablesOk_def split: prod.splits)

lemma DbSetTable_ok: "tablesOk c \<Longrightarrow> tablesOk (snd (DbSetTable be table key v c))"
  by (auto simp: DbSetTable_def intro!: onBackend_ok dest: GetTable_ok [of c table] split: prod.splits option.splits)

lemma DbDelTable_ok: "tablesOk c \<Longrightarrow> tablesOk (snd (DbDelTable be table key c))"
  by (auto simp: DbDelTable_def intro!: onBackend_ok dest: GetTable_ok [of c table] split: prod.splits option.splits)

definition zmqTable :: "string \<Rightarrow> 's tableState \<Rightarrow> bool" where
  "zmqTable table c \<longleftrightarrow> table \<notin> set (tb_tableMap c) \<and> table \<in> set (tb_zmqTableMap c)"

lemma zmqTable_get: "zmqTable table c \<Longrightarrow> GetTable table c = (Some ZmqProducerStateTable, c)"
  by (simp add: zmqTable_def GetTable_def)

lemma zmqTable_backend [simp]: "zmqTable table (c\<lparr>tb_backend := s\<rparr>) = zmqTable table c"
  by (simp add: zmqTable_def)

lemma zmqTable_known: "tablesOk c \<Longrightarrow> table \<in> set (tb_zmqTableMap (snd (GetTable table c))) \<Longrightarrow> zmqTable table (snd (GetTable table c))"
  using GetTable_ok [of c table] by (auto simp: zmqTable_def tablesOk_def)

lemma retried_write:
  "f (tb_backend c) = (None, s1) \<Longrightarrow> onBackend (RetryHelper be z (wrapped f)) c = (None, c\<lparr>tb_backend := s1\<rparr>)"
  by (simp add: onBackend_def RetryHelper_ok [of "wrapped f" "tb_backend c" s1] wrapped_def)

lemma setEach_zmq:
  assumes "reliable be" "zmqTable table c"
  shows "setEach be table es c =
    (None, c\<lparr>tb_backend := fold (\<lambda>(key, v) s. snd (be_Set be ZmqProducerStateTable table key v s)) es (tb_backend c)\<rparr>)"
  using assms(2)
proof (induction es arbitrary: c)
  case (Cons e es)
  obtain key v where e: "e = (key, v)" by fastforce
  obtain s1 where s1: "be_Set be ZmqProducerStateTable table key v (tb_backend c) = (None, s1)"
    using assms(1) by (metis prod.collapse reliable_def)
  have "DbSetTable be table key v c = (None, c\<lparr>tb_backend := s1\<rparr>)"
    using zmqTable_get [OF Cons.prems] retried_write [of "be_Set be ZmqProducerStateTable table key v", OF s1]
    by (simp add: DbSetTable_def)
  then show ?case using Cons.IH [of "c\<lparr>tb_backend := s1\<rparr>"] Cons.prems e s1 by simp
qed simp

lemma delEach_zmq:
  assumes "reliable be" "zmqTable table c"
  shows "delEach be table ks c =
    (None, c\<lparr>tb_backend := fold (\<lambda>key s. snd (be_Delete be ZmqProducerStateTable table key s)) ks (tb_backend c)\<rparr>)"
  using assms(2)
proof (induction ks arbitrary: c)
  case (Cons key ks)
  obtain s1 where s1: "be_Delete be ZmqProducerStateTable table key (tb_backend c) = (None, s1)"
    using assms(1) by (metis prod.collapse reliable_def)
  have "DbDelTable be table key c = (None, c\<lparr>tb_backend := s1\<rparr>)"
    using zmqTable_get [OF Cons.prems] retried_write [of "be_Delete be ZmqProducerStateTable table key", OF s1]
    by (simp add: DbDelTable_def)
  then show ?case using Cons.IH [of "c\<lparr>tb_backend := s1\<rparr>"] Cons.prems s1 by simp
qed simp

lemma batchSet_loop:
  assumes "reliable be" "batchesInOrder be" "tablesOk c"
  shows "DbBatchSetTable be table (e1 # e2 # es) c = setEach be table (e1 # e2 # es) c"
proof -
  let ?c = "snd (GetTable table c)" and ?es = "e1 # e2 # es"
  obtain key v where e1: "e1 = (key, v)" by fastforce
  have again: "setEach be table ?es ?c = setEach be table ?es c"
    by (simp add: e1 DbSetTable_again)
  show ?thesis
  proof (cases "table \<in> set (tb_zmqTableMap ?c)")
    case True
    have "be_BatchedSet be table ?es (tb_backend ?c) =
        (None, fold (\<lambda>(key, v) s. snd (be_Set be ZmqProducerStateTable table key v s)) ?es (tb_backend ?c))"
      using assms(2) unfolding batchesInOrder_def by blast
    note batched = retried_write [of "be_BatchedSet be table ?es" ?c, OF this]
    have "DbBatchSetTable be table ?es c = onBackend (RetryHelper be (tb_zmqClient ?c) (wrapped (be_BatchedSet be table ?es))) ?c"
      using True by (simp add: DbBatchSetTable_def e1 Let_def)
    also have "\<dots> = setEach be table ?es ?c"
      unfolding batched by (rule setEach_zmq [OF assms(1) zmqTable_known [OF assms(3) True], symmetric])
    finally show ?thesis using again by (simp only:)
  next
    case False
    then show ?thesis using again by (simp add: DbBatchSetTable_def e1)
  qed
qed

lemma batchDel_loop:
  assumes "reliable be" "batchesInOrder be" "tablesOk c"
  shows "DbBatchDelTable be table (k1 # k2 # ks) c = delEach be table (k1 # k2 # ks) c"
proof -
  let ?c = "snd (GetTable table c)" and ?ks = "k1 # k2 # ks"
  have again: "delEach be table ?ks ?c = delEach be table ?ks c"
    by (simp add: DbDelTable_again)
  show ?thesis
  proof (cases "table \<in> set (tb_zmqTableMap ?c)")
    case True
    have "be_BatchedDel be table ?ks (tb_backend ?c) =
        (None, fold (\<lambda>key s. snd (be_Delete be ZmqProducerStateTable table key s)) ?ks (tb_backend ?c))"
      using assms(2) unfolding batchesInOrder_def by blast
    note batched = retried_write [of "be_BatchedDel be table ?ks" ?c, OF this]
    have "DbBatchDelTable be table ?ks c = onBackend (RetryHelper be (tb_zmqClient ?c) (wrapped (be_BatchedDel be table ?ks))) ?c"
      using True by (simp add: DbBatchDelTable_def Let_def)
    also have "\<dots> = delEach be table ?ks ?c"
      unfolding batched by (rule delEach_zmq [OF assms(1) zmqTable_known [OF assms(3) True], symmetric])
    finally show ?thesis using again by (simp only:)
  next
    case False
    then show ?thesis using again by (simp add: DbBatchDelTable_def)
  qed
qed

lemma each_single: "setEach be table [(key, v)] c = DbSetTable be table key v c" "delEach be table [key] c = DbDelTable be table key c"
  by (auto split: prod.splits option.splits)


definition exTables :: "string list tableState" where
  "exTables = \<lparr>tb_zmqClient = True, tb_tableMap = [], tb_zmqTableMap = [], tb_plainTableMap = [], tb_backend = []\<rparr>"

lemma fold_snoc: "fold (\<lambda>x s. s @ [f x]) xs s = s @ map f xs"
  by (induction xs arbitrary: s) auto

lemma logBackend_in_order: "batchesInOrder logBackend"
  unfolding batchesInOrder_def logBackend_def
  using fold_snoc [of "\<lambda>(key, v). ''SET '' @ _ @ '':'' @ key"] by (simp add: fold_snoc case_prod_beta')


end
