(* ===== verification/Json_Client.thy ===== *)
theory Json_Client
  imports Json
begin

text \<open>
  The client of a checkpoint file, \<^verbatim>\<open>sonic_data_client/json_client.go\<close>: tables, entries and fields of a configuration
  in JSON, addressed by a path of one to four names.

  The file is read when the client is made; the operations work on the decoded map. Nested Go maps are changed in place
  in the source, so every operation here gives the whole map back, also when it fails: what a failed operation has
  changed before it noticed stays. \<open>fields\<close> is the view of the data that the rest of the server has, a map from table,
  key and field to a value, and the theorem of this theory says what the operations do to it.
\<close>

section \<open>Decoding\<close>

type_synonym jsonMap = "(string, json) gomap"

text \<open>The texts of numbers: \<open>nt_v\<close> for the verb \<^verbatim>\<open>%v\<close>, \<open>nt_json\<close> for \<^verbatim>\<open>json.Marshal\<close>.\<close>

record numText =
  nt_v :: "string \<Rightarrow> string option"
  nt_json :: "string \<Rightarrow> string option"

definition vText :: "numText \<Rightarrow> json \<Rightarrow> string" where
  "vText nt v = goText (nt_v nt) v"

definition parseJsonGo :: "numText \<Rightarrow> string \<Rightarrow> goerr + json" where
  "parseJsonGo nt s =
     (case decodeJson (nt_json nt) s of None \<Rightarrow> Inl (Plain ''JSON unmarshalling error'') | Some v \<Rightarrow> Inr v)"

definition emitJSON :: "numText \<Rightarrow> jsonMap \<Rightarrow> string" where
  "emitJSON nt m = encodeGo (nt_json nt) (JObj m)"

definition DecodeJsonTable :: "numText \<Rightarrow> jsonMap \<Rightarrow> string \<Rightarrow> goerr + jsonMap" where
  "DecodeJsonTable nt database tableName =
     (case gm_get database tableName of
        None \<Rightarrow> Inl (Plain (''Invalid database '' @ tableName @ '' -> '' @ vText nt (JObj database)))
      | Some (JObj v) \<Rightarrow> Inr v
      | Some vtable \<Rightarrow> Inl (Plain (''Invalid table '' @ vText nt vtable)))"

definition DecodeJsonEntry :: "numText \<Rightarrow> jsonMap \<Rightarrow> string \<Rightarrow> goerr + jsonMap" where
  "DecodeJsonEntry nt table entryName =
     (case gm_get table entryName of
        None \<Rightarrow> Inl (Plain (''Invalid entry '' @ vText nt (JObj table)))
      | Some (JObj v) \<Rightarrow> Inr v
      | Some ventry \<Rightarrow> Inl (Plain (''Invalid entry '' @ vText nt ventry)))"

text \<open>A field is a string or a list.\<close>

definition DecodeJsonField :: "numText \<Rightarrow> jsonMap \<Rightarrow> string \<Rightarrow> goerr + (string + json list)" where
  "DecodeJsonField nt entry fieldName =
     (case gm_get entry fieldName of
        None \<Rightarrow> Inl (Plain (''Invalid entry '' @ vText nt (JObj entry)))
      | Some (JStr str) \<Rightarrow> Inr (Inl str)
      | Some (JArr l) \<Rightarrow> Inr (Inr l)
      | Some vfield \<Rightarrow> Inl (Plain (''Invalid field '' @ vText nt vfield)))"

definition invalidIndex :: "string \<Rightarrow> goerr" where
  "invalidIndex index = Plain (''Invalid index '' @ index)"

definition DecodeJsonListItem :: "numText \<Rightarrow> json list \<Rightarrow> string \<Rightarrow> goerr + string" where
  "DecodeJsonListItem nt l index =
     (case Atoi index of
        None \<Rightarrow> Inl (invalidIndex index)
      | Some i \<Rightarrow>
          if i < 0 \<or> i \<ge> int (length l) then Inl (invalidIndex index)
          else (case l ! nat i of
                  JStr str \<Rightarrow> Inr str
                | vitem \<Rightarrow> Inl (Plain (''Invalid item '' @ vText nt vitem))))"

text \<open>The part of a decoded file that a namespace selects.\<close>

definition NewJsonClient :: "numText \<Rightarrow> (string \<Rightarrow> goerr + string) \<Rightarrow> string \<Rightarrow> string \<Rightarrow> goerr + jsonMap" where
  "NewJsonClient nt readFile fileName nameSpace =
     (case readFile fileName of
        Inl e \<Rightarrow> Inl e
      | Inr jsonData \<Rightarrow>
          (case parseJsonGo nt jsonData of
             Inl e \<Rightarrow> Inl e
           | Inr (JObj m) \<Rightarrow>
               if nameSpace = [] then Inr m
               else (case gm_get m nameSpace of
                       Some (JObj m') \<Rightarrow> Inr m'
                     | Some _ \<Rightarrow> Inl (Plain (''Invalid namespace '' @ nameSpace))
                     | None \<Rightarrow> Inl (Plain (''Unexpected namespace '' @ nameSpace)))
           | Inr _ \<Rightarrow> Inl (Plain (''Invalid checkpoint '' @ fileName))))"

fun FixPath :: "string list \<Rightarrow> string list" where
  "FixPath (t # k # r) = t # replace2 CHR ''~'' CHR ''1'' ''/'' k # r"
| "FixPath p = p"

definition invalidPath :: "string list \<Rightarrow> goerr" where
  "invalidPath path = Plain (''Invalid db table Path ['' @ join '' '' path @ '']'')"

section \<open>Operations\<close>

definition entryAt :: "numText \<Rightarrow> jsonMap \<Rightarrow> string \<Rightarrow> string \<Rightarrow> goerr + jsonMap" where
  "entryAt nt d t k =
     (case DecodeJsonTable nt d t of Inl e \<Rightarrow> Inl e | Inr vtable \<Rightarrow> DecodeJsonEntry nt vtable k)"

definition fieldAt :: "numText \<Rightarrow> jsonMap \<Rightarrow> string \<Rightarrow> string \<Rightarrow> string \<Rightarrow> goerr + (string + json list)" where
  "fieldAt nt d t k f =
     (case entryAt nt d t k of Inl e \<Rightarrow> Inl e | Inr ventry \<Rightarrow> DecodeJsonField nt ventry f)"

definition quoted :: "string \<Rightarrow> string" where
  "quoted s = CHR 0x22 # s @ [CHR 0x22]"

definition Get :: "numText \<Rightarrow> string list \<Rightarrow> jsonMap \<Rightarrow> goerr + string" where
  "Get nt path0 d =
     (let path = FixPath path0
      in case path of
           [] \<Rightarrow> Inr (emitJSON nt d)
         | [t] \<Rightarrow> (case DecodeJsonTable nt d t of Inl e \<Rightarrow> Inl e | Inr vtable \<Rightarrow> Inr (emitJSON nt vtable))
         | [t, k] \<Rightarrow> (case entryAt nt d t k of Inl e \<Rightarrow> Inl e | Inr ventry \<Rightarrow> Inr (emitJSON nt ventry))
         | [t, k, f] \<Rightarrow>
             (case fieldAt nt d t k f of
                Inl e \<Rightarrow> Inl e
              | Inr (Inl vstr) \<Rightarrow> Inr (quoted vstr)
              | Inr (Inr vlist) \<Rightarrow> Inr (encodeGo (nt_json nt) (JArr vlist)))
         | [t, k, f, i] \<Rightarrow>
             (case fieldAt nt d t k f of
                Inl e \<Rightarrow> Inl e
              | Inr v \<Rightarrow>
                  (case DecodeJsonListItem nt (case v of Inl _ \<Rightarrow> [] | Inr vlist \<Rightarrow> vlist) i of
                     Inl e \<Rightarrow> Inl e
                   | Inr vstr \<Rightarrow> Inr (quoted vstr)))
         | _ \<Rightarrow> Inl (invalidPath path))"

text \<open>The table and the entry for a new value: the existing one, or an empty one that is put there.\<close>

definition openTable :: "numText \<Rightarrow> string \<Rightarrow> jsonMap \<Rightarrow> jsonMap \<times> jsonMap" where
  "openTable nt t d = (case DecodeJsonTable nt d t of Inr vtable \<Rightarrow> (vtable, d) | Inl _ \<Rightarrow> ([], gm_set t (JObj []) d))"

definition putEntry :: "string \<Rightarrow> string \<Rightarrow> jsonMap \<Rightarrow> jsonMap \<Rightarrow> jsonMap \<Rightarrow> jsonMap" where
  "putEntry t k ventry vtable d = gm_set t (JObj (gm_set k (JObj ventry) vtable)) d"

definition openEntry :: "numText \<Rightarrow> string \<Rightarrow> string \<Rightarrow> jsonMap \<Rightarrow> jsonMap \<times> jsonMap \<times> jsonMap" where
  "openEntry nt t k d =
     (case openTable nt t d of
        (vtable, d1) \<Rightarrow>
          (case DecodeJsonEntry nt vtable k of
             Inr ventry \<Rightarrow> (ventry, vtable, d1)
           | Inl _ \<Rightarrow> ([], gm_set k (JObj []) vtable, putEntry t k [] vtable d1)))"

definition putField :: "string \<Rightarrow> string \<Rightarrow> string \<Rightarrow> json \<Rightarrow> jsonMap \<times> jsonMap \<times> jsonMap \<Rightarrow> jsonMap" where
  "putField t k f v = (\<lambda>(ventry, vtable, d). putEntry t k (gm_set f v ventry) vtable d)"

definition failParse :: "string \<Rightarrow> goerr option" where
  "failParse v = Some (Plain (''Fail to parse '' @ v))"

definition addTable :: "numText \<Rightarrow> string \<Rightarrow> string \<Rightarrow> jsonMap \<Rightarrow> goerr option \<times> jsonMap" where
  "addTable nt t v d =
     (case parseJsonGo nt v of
        Inl _ \<Rightarrow> (failParse v, d)
      | Inr (JObj m) \<Rightarrow> (None, gm_set t (JObj m) d)
      | Inr vtable \<Rightarrow> (Some (Plain (''Invalid table '' @ vText nt vtable)), d))"

definition addEntry :: "numText \<Rightarrow> string \<Rightarrow> string \<Rightarrow> string \<Rightarrow> jsonMap \<Rightarrow> goerr option \<times> jsonMap" where
  "addEntry nt t k v d =
     (case openTable nt t d of
        (vtable, d1) \<Rightarrow>
          (case parseJsonGo nt v of
             Inl _ \<Rightarrow> (failParse v, d1)
           | Inr (JObj m) \<Rightarrow> (None, putEntry t k m vtable d1)
           | Inr ventry \<Rightarrow> (Some (Plain (''Invalid entry '' @ vText nt ventry)), d1)))"

definition addField :: "numText \<Rightarrow> string \<Rightarrow> string \<Rightarrow> string \<Rightarrow> string \<Rightarrow> jsonMap \<Rightarrow> goerr option \<times> jsonMap" where
  "addField nt t k f v d =
     (let opened = openEntry nt t k d
      in case parseJsonGo nt v of
           Inl _ \<Rightarrow> (failParse v, snd (snd opened))
         | Inr (JStr s) \<Rightarrow> (None, putField t k f (JStr s) opened)
         | Inr (JArr l) \<Rightarrow> (None, putField t k f (JArr l) opened)
         | Inr vfield \<Rightarrow> (Some (Plain (''Invalid field '' @ vText nt vfield)), snd (snd opened)))"

text \<open>The list grows by one before the new value is parsed: at its end by an empty string, elsewhere by a copy of the
  item at the index. A field that is not there, or has another type, becomes an empty list.\<close>

definition growList :: "nat \<Rightarrow> json list \<Rightarrow> json list" where
  "growList i l = (if i = length l then l @ [JStr []] else take (i + 1) l @ drop i l)"

definition addItem :: "numText \<Rightarrow> string \<Rightarrow> string \<Rightarrow> string \<Rightarrow> string \<Rightarrow> string \<Rightarrow> jsonMap \<Rightarrow> goerr option \<times> jsonMap" where
  "addItem nt t k f index v d =
     (case Atoi index of
        None \<Rightarrow> (Some (invalidIndex index), d)
      | Some i \<Rightarrow>
          (case openEntry nt t k d of
             (ventry, vtable, d1) \<Rightarrow>
               (case DecodeJsonField nt ventry f of
                  Inr (Inl vstr) \<Rightarrow> (Some (Plain (''Invalid target field '' @ vText nt (JObj ventry))), d1)
                | r \<Rightarrow>
                    (let vlist = (case r of Inr (Inr l) \<Rightarrow> l | _ \<Rightarrow> []);
                         d2 = (case r of Inl _ \<Rightarrow> putField t k f (JArr []) (ventry, vtable, d1) | _ \<Rightarrow> d1)
                     in if i < 0 \<or> i > int (length vlist) then (Some (invalidIndex (FormatInt i)), d2)
                        else
                          let grown = growList (nat i) vlist
                          in case parseJsonGo nt v of
                               Inl _ \<Rightarrow> (failParse v, putField t k f (JArr grown) (ventry, vtable, d2))
                             | Inr w \<Rightarrow> (None, putField t k f (JArr (grown[nat i := w])) (ventry, vtable, d2))))))"

definition Add :: "numText \<Rightarrow> string list \<Rightarrow> string \<Rightarrow> jsonMap \<Rightarrow> goerr option \<times> jsonMap" where
  "Add nt path0 v d =
     (let path = FixPath path0
      in case path of
           [t] \<Rightarrow> addTable nt t v d
         | [t, k] \<Rightarrow> addEntry nt t k v d
         | [t, k, f] \<Rightarrow> addField nt t k f v d
         | [t, k, f, i] \<Rightarrow> addItem nt t k f i v d
         | _ \<Rightarrow> (Some (invalidPath path), d))"

text \<open>A map that has become empty is removed from the map above it.\<close>

definition shrinkTable :: "string \<Rightarrow> jsonMap \<Rightarrow> jsonMap \<Rightarrow> jsonMap" where
  "shrinkTable t vtable d = (if vtable = [] then gm_del t d else gm_set t (JObj vtable) d)"

definition shrinkEntry :: "string \<Rightarrow> string \<Rightarrow> jsonMap \<Rightarrow> jsonMap \<Rightarrow> jsonMap \<Rightarrow> jsonMap" where
  "shrinkEntry t k ventry vtable d =
     shrinkTable t (if ventry = [] then gm_del k vtable else gm_set k (JObj ventry) vtable) d"

text \<open>The case distinctions of the source, with the table and the entry that a removal needs.\<close>

definition Remove :: "numText \<Rightarrow> string list \<Rightarrow> jsonMap \<Rightarrow> goerr option \<times> jsonMap" where
  "Remove nt path0 d =
     (let path = FixPath path0
      in case path of
           [t] \<Rightarrow> (case DecodeJsonTable nt d t of Inl e \<Rightarrow> (Some e, d) | Inr _ \<Rightarrow> (None, gm_del t d))
         | [t, k] \<Rightarrow>
             (case DecodeJsonTable nt d t of
                Inl e \<Rightarrow> (Some e, d)
              | Inr vtable \<Rightarrow>
                  (case DecodeJsonEntry nt vtable k of
                     Inl e \<Rightarrow> (Some e, d)
                   | Inr _ \<Rightarrow> (None, shrinkTable t (gm_del k vtable) d)))
         | [t, k, f] \<Rightarrow>
             (case DecodeJsonTable nt d t of
                Inl e \<Rightarrow> (Some e, d)
              | Inr vtable \<Rightarrow>
                  (case DecodeJsonEntry nt vtable k of
                     Inl e \<Rightarrow> (Some e, d)
                   | Inr ventry \<Rightarrow>
                       (case DecodeJsonField nt ventry f of
                          Inl e \<Rightarrow> (Some e, d)
                        | Inr _ \<Rightarrow> (None, shrinkEntry t k (gm_del f ventry) vtable d))))
         | [t, k, f, index] \<Rightarrow>
             (case Atoi index of
                None \<Rightarrow> (Some (invalidIndex index), d)
              | Some i \<Rightarrow>
                  (case DecodeJsonTable nt d t of
                     Inl e \<Rightarrow> (Some e, d)
                   | Inr vtable \<Rightarrow>
                       (case DecodeJsonEntry nt vtable k of
                          Inl e \<Rightarrow> (Some e, d)
                        | Inr ventry \<Rightarrow>
                            (case DecodeJsonField nt ventry f of
                               Inl e \<Rightarrow> (Some e, d)
                             | Inr r \<Rightarrow>
                                 let vlist = (case r of Inl _ \<Rightarrow> [] | Inr l \<Rightarrow> l)
                                 in case DecodeJsonListItem nt vlist index of
                                      Inl e \<Rightarrow> (Some e, d)
                                    | Inr _ \<Rightarrow>
                                        let shorter = take (nat i) vlist @ drop (nat i + 1) vlist
                                        in (None, shrinkEntry t k (if shorter = [] then gm_del f ventry
                                                                   else gm_set f (JArr shorter) ventry) vtable d)))))
         | _ \<Rightarrow> (Some (invalidPath path), d))"

definition Replace :: "numText \<Rightarrow> string list \<Rightarrow> string \<Rightarrow> jsonMap \<Rightarrow> goerr option \<times> jsonMap" where
  "Replace nt path v d =
     (case Remove nt path d of
        (Some e, d1) \<Rightarrow> (Some e, d1)
      | (None, d1) \<Rightarrow> Add nt (FixPath path) v d1)"

section \<open>The data as a map of fields\<close>

text \<open>The map below a name, empty when there is none; the value of a field; what a path means for that view.\<close>

definition sub :: "jsonMap \<Rightarrow> string \<Rightarrow> jsonMap" where
  "sub d t = (case gm_get d t of Some (JObj m) \<Rightarrow> m | _ \<Rightarrow> [])"

type_synonym fieldMap = "string \<Rightarrow> string \<Rightarrow> string \<Rightarrow> json option"

definition fields :: "jsonMap \<Rightarrow> fieldMap" where
  "fields d t k f = gm_get (sub (sub d t) k) f"

fun members :: "json \<Rightarrow> jsonMap" where
  "members (JObj m) = m"
| "members v = []"

fun items :: "json option \<Rightarrow> json list" where
  "items (Some (JArr l)) = l"
| "items v = []"

definition position :: "string \<Rightarrow> nat" where
  "position index = (case Atoi index of Some i \<Rightarrow> nat i | None \<Rightarrow> 0)"

fun specAdd :: "string list \<Rightarrow> json \<Rightarrow> fieldMap \<Rightarrow> fieldMap" where
  "specAdd [t] j F = F(t := (\<lambda>k. gm_get (sub (members j) k)))"
| "specAdd [t, k] j F = F(t := (F t)(k := gm_get (members j)))"
| "specAdd [t, k, f] j F = F(t := (F t)(k := (F t k)(f := Some j)))"
| "specAdd [t, k, f, index] j F =
     (let l = items (F t k f); i = position index
      in F(t := (F t)(k := (F t k)(f := Some (JArr (take i l @ j # drop i l))))))"
| "specAdd p j F = F"

fun specRemove :: "string list \<Rightarrow> fieldMap \<Rightarrow> fieldMap" where
  "specRemove [t] F = F(t := (\<lambda>k f. None))"
| "specRemove [t, k] F = F(t := (F t)(k := (\<lambda>f. None)))"
| "specRemove [t, k, f] F = F(t := (F t)(k := (F t k)(f := None)))"
| "specRemove [t, k, f, index] F =
     (let l = items (F t k f); i = position index; l' = take i l @ drop (i + 1) l
      in F(t := (F t)(k := (F t k)(f := (if l' = [] then None else Some (JArr l'))))))"
| "specRemove p F = F"

lemma sub_simps [simp]:
  "sub [] t = []"
  "sub (gm_set t (JObj m) d) t' = (if t' = t then m else sub d t')"
  "sub (gm_del t d) t' = (if t' = t then [] else sub d t')"
  by (auto simp: sub_def update_conv' delete_conv')

lemma shrinkTable_sub [simp]: "sub (shrinkTable t m d) t' = (if t' = t then m else sub d t')"
  by (simp add: shrinkTable_def)

lemma shrinkEntry_sub [simp]:
  "sub (shrinkEntry t k m vt d) t' = (if t' = t then (if m = [] then gm_del k vt else gm_set k (JObj m) vt) else sub d t')"
  by (simp add: shrinkEntry_def)

lemma DecodeJsonTable_sub: "DecodeJsonTable nt d t = Inr m \<Longrightarrow> sub d t = m"
  by (auto simp: DecodeJsonTable_def sub_def split: option.splits json.splits)

lemma DecodeJsonEntry_sub: "DecodeJsonEntry nt d k = Inr m \<Longrightarrow> sub d k = m"
  by (auto simp: DecodeJsonEntry_def sub_def split: option.splits json.splits)

lemma Decode_Inl_sub: "DecodeJsonTable nt d t = Inl e \<Longrightarrow> sub d t = []" "DecodeJsonEntry nt d t = Inl e \<Longrightarrow> sub d t = []"
  by (auto simp: DecodeJsonTable_def DecodeJsonEntry_def sub_def split: option.splits json.splits)

lemma openTable_sub: "openTable nt t d = (vt, d1) \<Longrightarrow> vt = sub d t \<and> sub d1 = sub d"
  by (auto simp: openTable_def fun_eq_iff dest: DecodeJsonTable_sub Decode_Inl_sub split: sum.splits)

lemma openEntry_sub:
  assumes "openEntry nt t k d = (ve, vt, d1)"
  shows "ve = sub (sub d t) k \<and> sub vt = sub (sub d t) \<and> (\<forall>t'. sub (sub d1 t') = sub (sub d t'))"
proof -
  obtain vt0 d0 where o: "openTable nt t d = (vt0, d0)" by fastforce
  note s = openTable_sub [OF o]
  show ?thesis
    using assms o s
    by (auto simp: openEntry_def putEntry_def fun_eq_iff dest: DecodeJsonEntry_sub Decode_Inl_sub split: sum.splits)
qed

lemma putField_fields:
  assumes "openEntry nt t k d = (ve, vt, d1)"
  shows "fields (putField t k f v (ve, vt, d1)) = (fields d)(t := (fields d t)(k := (fields d t k)(f := Some v)))"
  using openEntry_sub [OF assms]
  by (auto simp: putField_def putEntry_def fields_def fun_eq_iff update_conv')

lemma openEntry_fields: "openEntry nt t k d = (ve, vt, d1) \<Longrightarrow> fields d1 = fields d"
  by (auto simp: fields_def fun_eq_iff dest: openEntry_sub)

lemma DecodeJsonField_get:
  "DecodeJsonField nt ve f = Inr (Inl s) \<Longrightarrow> gm_get ve f = Some (JStr s)"
  "DecodeJsonField nt ve f = Inr (Inr l) \<Longrightarrow> gm_get ve f = Some (JArr l)"
  "DecodeJsonField nt ve f = Inl e \<Longrightarrow> items (gm_get ve f) = []"
  by (auto simp: DecodeJsonField_def split: option.splits json.splits)

lemma growList_update: "i \<le> length l \<Longrightarrow> (growList i l)[i := v] = take i l @ v # drop i l"
  by (auto simp: growList_def list_update_append min_def take_Suc_conv_app_nth Cons_nth_drop_Suc [symmetric])

lemma addTable_spec:
  assumes "addTable nt t v d = (r, d')"
  shows "if r = None then \<exists>j. parseJsonGo nt v = Inr j \<and> fields d' = specAdd [t] j (fields d) else d' = d"
  using assms
  by (auto simp: addTable_def failParse_def fields_def fun_eq_iff split: sum.splits json.splits)

lemma addEntry_spec:
  assumes "addEntry nt t k v d = (r, d')"
  shows "if r = None then \<exists>j. parseJsonGo nt v = Inr j \<and> fields d' = specAdd [t, k] j (fields d) else fields d' = fields d"
proof -
  obtain vt d1 where o: "openTable nt t d = (vt, d1)" by fastforce
  note s = openTable_sub [OF o]
  show ?thesis
    using assms o s
    by (auto simp: addEntry_def failParse_def putEntry_def fields_def fun_eq_iff split: sum.splits json.splits)
qed

lemma addField_spec:
  assumes "addField nt t k f v d = (r, d')"
  shows "if r = None then \<exists>j. parseJsonGo nt v = Inr j \<and> fields d' = specAdd [t, k, f] j (fields d) else fields d' = fields d"
proof -
  obtain ve vt d1 where o: "openEntry nt t k d = (ve, vt, d1)" by (cases "openEntry nt t k d") auto
  show ?thesis
    using assms o openEntry_fields [OF o] putField_fields [OF o]
    by (auto simp: addField_def failParse_def Let_def split: sum.splits json.splits)
qed

lemma addItem_spec:
  assumes "addItem nt t k f index v d = (None, d')"
  shows "\<exists>j. parseJsonGo nt v = Inr j \<and> fields d' = specAdd [t, k, f, index] j (fields d)"
proof -
  obtain ve vt d1 where o: "openEntry nt t k d = (ve, vt, d1)" by (cases "openEntry nt t k d") auto
  obtain i where i: "Atoi index = Some i"
    using assms by (cases "Atoi index") (simp_all add: addItem_def)
  let ?r = "DecodeJsonField nt ve f"
  let ?l = "case ?r of Inr (Inr l) \<Rightarrow> l | _ \<Rightarrow> []"
  let ?d2 = "case ?r of Inl _ \<Rightarrow> putField t k f (JArr []) (ve, vt, d1) | _ \<Rightarrow> d1"
  have str: "\<nexists>s. ?r = Inr (Inl s)"
    using assms i o by (auto simp: addItem_def)
  have run: "addItem nt t k f index v d =
      (if i < 0 \<or> i > int (length ?l) then (Some (invalidIndex (FormatInt i)), ?d2)
       else case parseJsonGo nt v of
              Inl _ \<Rightarrow> (failParse v, putField t k f (JArr (growList (nat i) ?l)) (ve, vt, ?d2))
            | Inr w \<Rightarrow> (None, putField t k f (JArr ((growList (nat i) ?l)[nat i := w])) (ve, vt, ?d2)))"
    using i o str by (auto simp: addItem_def Let_def split: sum.splits)
  obtain w where w: "parseJsonGo nt v = Inr w" "0 \<le> i" "nat i \<le> length ?l"
      "d' = putField t k f (JArr ((growList (nat i) ?l)[nat i := w])) (ve, vt, ?d2)"
    using assms unfolding run by (auto simp: failParse_def split: if_splits sum.splits)
  have l: "items (fields d t k f) = ?l"
    using openEntry_sub [OF o] str by (auto simp: fields_def split: sum.splits dest: DecodeJsonField_get)
  have "putField t k f u (ve, vt, ?d2) = putField t k f u (ve, vt, d1)" for u
    by (auto simp: putField_def putEntry_def update_last split: sum.splits)
  then have "fields d' = (fields d)(t := (fields d t)(k := (fields d t k)(f := Some (JArr ((growList (nat i) ?l)[nat i := w])))))"
    using w(4) putField_fields [OF o] by simp
  with w i l show ?thesis
    by (simp add: growList_update position_def Let_def)
qed

lemma shrinkEntry_fields:
  assumes "DecodeJsonTable nt d t = Inr vt" "DecodeJsonEntry nt vt k = Inr ve"
  shows "fields (shrinkEntry t k m vt d) = (fields d)(t := (fields d t)(k := gm_get m))"
  using DecodeJsonTable_sub [OF assms(1)] DecodeJsonEntry_sub [OF assms(2)]
  by (auto simp: fields_def fun_eq_iff)

lemma removed_fields:
  assumes "DecodeJsonTable nt d t = Inr vt" "DecodeJsonEntry nt vt k = Inr ve"
  shows "fields d t k f = gm_get ve f"
  using DecodeJsonTable_sub [OF assms(1)] DecodeJsonEntry_sub [OF assms(2)] by (simp add: fields_def)

lemma Remove_table_spec:
  assumes "Remove nt path d = (r, d')" "FixPath path = [t]"
  shows "if r = None then fields d' = specRemove [t] (fields d) else d' = d"
  using assms by (auto simp: Remove_def fields_def fun_eq_iff split: sum.splits)

lemma Remove_entry_spec:
  assumes "Remove nt path d = (r, d')" "FixPath path = [t, k]"
  shows "if r = None then fields d' = specRemove [t, k] (fields d) else d' = d"
  using assms by (auto simp: Remove_def fields_def fun_eq_iff dest: DecodeJsonTable_sub split: sum.splits)

lemma Remove_field_spec:
  assumes "Remove nt path d = (r, d')" "FixPath path = [t, k, f]"
  shows "if r = None then fields d' = specRemove [t, k, f] (fields d) else d' = d"
  using assms
  by (auto simp: Remove_def shrinkEntry_fields removed_fields fun_eq_iff delete_conv' split: sum.splits)

lemma DecodeJsonListItem_index: "DecodeJsonListItem nt l index = Inr s \<Longrightarrow> Atoi index = Some i \<Longrightarrow> 0 \<le> i \<and> nat i < length l"
  by (auto simp: DecodeJsonListItem_def split: if_splits)

lemma Remove_item_spec:
  assumes "Remove nt path d = (None, d')" "FixPath path = [t, k, f, index]"
  shows "fields d' = specRemove [t, k, f, index] (fields d)"
proof -
  obtain i vt ve r where i: "Atoi index = Some i" and t: "DecodeJsonTable nt d t = Inr vt" "DecodeJsonEntry nt vt k = Inr ve"
      and f: "DecodeJsonField nt ve f = Inr r"
    using assms by (auto simp: Remove_def split: option.splits sum.splits)
  define l where "l = (case r of Inl _ \<Rightarrow> [] | Inr l \<Rightarrow> l)"
  let ?s = "take (nat i) l @ drop (nat i + 1) l"
  have d': "d' = shrinkEntry t k (if ?s = [] then gm_del f ve else gm_set f (JArr ?s) ve) vt d"
    using assms i t f by (auto simp: Remove_def Let_def l_def split: sum.splits)
  obtain s where "DecodeJsonListItem nt l index = Inr s"
    using assms i t f by (auto simp: Remove_def Let_def l_def split: sum.splits)
  then have "l \<noteq> []" using DecodeJsonListItem_index [OF _ i] by fastforce
  then have l: "items (gm_get ve f) = l"
    using DecodeJsonField_get [of nt ve f] f by (auto simp: l_def split: sum.splits)
  show ?thesis
    unfolding d' shrinkEntry_fields [OF t]
    by (auto simp: l position_def i Let_def fun_eq_iff removed_fields [OF t] delete_conv' update_conv')
qed

lemma Remove_error: "Remove nt path d = (Some e, d') \<Longrightarrow> d' = d"
  by (auto simp: Remove_def Let_def split: list.splits option.splits sum.splits)

lemma Remove_spec:
  assumes "Remove nt path d = (None, d')"
  shows "fields d' = specRemove (FixPath path) (fields d)"
proof -
  consider t where "FixPath path = [t]" | t k where "FixPath path = [t, k]" | t k f where "FixPath path = [t, k, f]"
    | t k f i where "FixPath path = [t, k, f, i]"
    using assms by (auto simp: Remove_def Let_def split: list.splits)
  then show ?thesis
  proof cases
    case 1
    then show ?thesis using Remove_table_spec [OF assms 1] by simp
  next
    case 2
    then show ?thesis using Remove_entry_spec [OF assms 2] by simp
  next
    case 3
    then show ?thesis using Remove_field_spec [OF assms 3] by simp
  next
    case 4
    then show ?thesis using Remove_item_spec [OF assms 4] by (simp only:)
  qed
qed

lemma Add_spec:
  assumes "Add nt path v d = (None, d')"
  shows "\<exists>j. parseJsonGo nt v = Inr j \<and> fields d' = specAdd (FixPath path) j (fields d)"
proof -
  consider t where "FixPath path = [t]" | t k where "FixPath path = [t, k]" | t k f where "FixPath path = [t, k, f]"
    | t k f i where "FixPath path = [t, k, f, i]"
    using assms by (auto simp: Add_def Let_def split: list.splits)
  then show ?thesis
  proof cases
    case 1
    then show ?thesis using assms addTable_spec [of nt t v d None d'] by (simp add: Add_def)
  next
    case 2
    then show ?thesis using assms addEntry_spec [of nt t k v d None d'] by (simp add: Add_def)
  next
    case 3
    then show ?thesis using assms addField_spec [of nt t k f v d None d'] by (simp add: Add_def)
  next
    case 4
    then show ?thesis using assms addItem_spec [of nt t k f i v d d'] by (simp add: Add_def)
  qed
qed

lemma FixPath_length [simp]: "length (FixPath path) = length path"
  by (cases path rule: FixPath.cases) auto

lemma Add_error:
  assumes "Add nt path v d = (Some e, d')" "length path \<noteq> 4"
  shows "fields d' = fields d"
proof -
  have len: "length (FixPath path) \<noteq> 4" using assms(2) by simp
  consider t where "FixPath path = [t]" | t k where "FixPath path = [t, k]" | t k f where "FixPath path = [t, k, f]"
    | "d' = d"
    using assms(1) len by (auto simp del: FixPath_length simp: Add_def Let_def split: list.splits)
  then show ?thesis
  proof cases
    case 1
    then show ?thesis using assms addTable_spec [of nt t v d "Some e" d'] by (simp add: Add_def)
  next
    case 2
    then show ?thesis using assms addEntry_spec [of nt t k v d "Some e" d'] by (simp add: Add_def)
  next
    case 3
    then show ?thesis using assms addField_spec [of nt t k f v d "Some e" d'] by (simp add: Add_def)
  qed simp
qed

text \<open>C30. The client implements a map from table, key and field to a value. An Add that succeeds parsed its value and
  changed exactly what the path names: the whole table, the whole entry, one field, or one position of a list. A Remove
  that succeeds removed exactly that. One that fails changed no field, except an Add to a position of a list.\<close>

theorem json_client_implements_fields:
  "(Add nt path v d = (None, d') \<longrightarrow> (\<exists>j. parseJsonGo nt v = Inr j \<and> fields d' = specAdd (FixPath path) j (fields d))) \<and>
   (Remove nt path d = (None, d') \<longrightarrow> fields d' = specRemove (FixPath path) (fields d)) \<and>
   (Add nt path v d = (Some e, d') \<and> length path \<noteq> 4 \<longrightarrow> fields d' = fields d) \<and>
   (Remove nt path d = (Some e, d') \<longrightarrow> fields d' = fields d)"
  using Add_spec Remove_spec Add_error Remove_error by blast

definition exNums :: numText where
  "exNums = \<lparr>nt_v = Some, nt_json = Some\<rparr>"

definition exData :: jsonMap where
  "exData = [(''PORT'', JObj [(''Ethernet0'', JObj [(''mtu'', JStr ''9100''), (''lanes'', JArr [JStr ''1''])])])]"

theorem json_client_implements_fields_witness:
  "let d' = snd (Add exNums [''PORT'', ''Ethernet0'', ''lanes'', ''1''] ''\"2\"'' exData)
   in fields d' ''PORT'' ''Ethernet0'' ''lanes'' = Some (JArr [JStr ''1'', JStr ''2'']) \<and>
      fields d' ''PORT'' ''Ethernet0'' ''mtu'' = Some (JStr ''9100'')"
proof -
  let ?p = "[''PORT'', ''Ethernet0'', ''lanes'', ''1'']"
  let ?run = "Add exNums ?p ''\"2\"'' exData"
  have "fst ?run = None" and j: "parseJsonGo exNums ''\"2\"'' = Inr (JStr ''2'')"
    by code_simp+
  then have run: "?run = (None, snd ?run)" by (metis prod.collapse)
  have F: "fields (snd ?run) = specAdd (FixPath ?p) (JStr ''2'') (fields exData)"
    using conjunct1 [OF json_client_implements_fields, THEN mp, OF run] unfolding j by blast
  have "specAdd (FixPath ?p) (JStr ''2'') (fields exData) ''PORT'' ''Ethernet0'' ''lanes'' = Some (JArr [JStr ''1'', JStr ''2''])"
    "specAdd (FixPath ?p) (JStr ''2'') (fields exData) ''PORT'' ''Ethernet0'' ''mtu'' = Some (JStr ''9100'')"
    by code_simp+
  then show ?thesis unfolding Let_def F by (rule conjI)
qed

text \<open>What is not as one would expect: an index Add whose value does not parse has already changed the list, Replace of
  a value that does not parse removes the old one, and a string is put between quotes as it is.\<close>

lemma failed_index_add_keeps_copy:
  "fst (Add exNums [''PORT'', ''Ethernet0'', ''lanes'', ''0''] ''x'' exData) \<noteq> None \<and>
   fields (snd (Add exNums [''PORT'', ''Ethernet0'', ''lanes'', ''0''] ''x'' exData)) ''PORT'' ''Ethernet0'' ''lanes'' =
     Some (JArr [JStr ''1'', JStr ''1''])"
  by code_simp

lemma failed_replace_removes:
  "fst (Replace exNums [''PORT'', ''Ethernet0'', ''mtu''] ''x'' exData) \<noteq> None \<and>
   fields (snd (Replace exNums [''PORT'', ''Ethernet0'', ''mtu''] ''x'' exData)) ''PORT'' ''Ethernet0'' ''mtu'' = None"
  by code_simp

end
