(* ===== verification/Mixed_Db.thy ===== *)
theory Mixed_Db
  imports Swss_Tables Json_Client Gnmi_Server "HOL-Library.Sublist"
begin

text \<open>
  The client for the origin \<^verbatim>\<open>sonic-db\<close>, \<^verbatim>\<open>sonic_data_client/mixed_db_client.go\<close>: how a gNMI path names a database
  and a table, how Get renders the hashes of Redis as JSON, and how Set writes tables or sends a patch of the
  configuration to the host.

  Arguments: the database configuration library and the tables of \<^verbatim>\<open>swss-common\<close>, the Redis servers (a function from the
  address of a connection to what it answers), the D-Bus of the host, the checkpoint file that the host writes, the Python
  code that checks YANG, and the texts of numbers. The state has the globals of the package, the client of the request
  and the world of files. Texts of errors leave out the values that the drivers report.
\<close>

section \<open>State\<close>

record redisClient =
  rc_Keys :: "string \<Rightarrow> goerr + string list"
  rc_Exists :: "string \<Rightarrow> goerr + nat"
  rc_HGetAll :: "string \<Rightarrow> goerr + (string, string) gomap"
  rc_HGet :: "string \<Rightarrow> string \<Rightarrow> goerr + string"

record mixedClient =
  mc_prefix :: "gpath option"
  mc_paths :: "gpath option list"
  mc_encoding :: encoding
  mc_target :: string
  mc_origin :: string
  mc_workPath :: string
  mc_dbkey :: "sonicDBKey option"
  mc_mapkey :: string
  mc_namespace_cnt :: nat
  mc_container_cnt :: nat

record ('l, 's, 'h) mixedEnv =
  me_swss :: "'l swss"
  me_redis :: "string \<times> int \<Rightarrow> redisClient"
  me_configEntry :: "string \<Rightarrow> string \<Rightarrow> (string, string) gomap"
  me_tables :: "'s backend"
  me_bus :: "'h bus"
  me_readFile :: "string \<Rightarrow> 'h \<Rightarrow> goerr + string"
  me_yang :: "string \<Rightarrow> bool"
  me_nums :: numText

record ('l, 's, 'h) mixedState =
  mx_db :: "'l dbState"
  mx_RedisDbMap :: "(string, string \<times> int) gomap option"
  mx_DbInstNum :: nat
  mx_zmqClientMap :: "(string, string) gomap"
  mx_client :: mixedClient
  mx_tables :: "'s tableState"
  mx_host :: "'h hostState"
  mx_world :: world

definition onDb :: "('l dbState \<Rightarrow> 'a \<times> 'l dbState) \<Rightarrow> ('l, 's, 'h) mixedState \<Rightarrow> 'a \<times> ('l, 's, 'h) mixedState" where
  "onDb f st = (case f (mx_db st) of (r, d) \<Rightarrow> (r, st\<lparr>mx_db := d\<rparr>))"

definition onHost :: "('h hostState \<Rightarrow> 'a \<times> 'h hostState) \<Rightarrow> ('l, 's, 'h) mixedState \<Rightarrow> 'a \<times> ('l, 's, 'h) mixedState" where
  "onHost f st = (case f (mx_host st) of (r, h) \<Rightarrow> (r, st\<lparr>mx_host := h\<rparr>))"

definition onTables :: "('s tableState \<Rightarrow> 'a \<times> 's tableState) \<Rightarrow> ('l, 's, 'h) mixedState \<Rightarrow> 'a \<times> ('l, 's, 'h) mixedState" where
  "onTables f st = (case f (mx_tables st) of (r, t) \<Rightarrow> (r, st\<lparr>mx_tables := t\<rparr>))"

definition onWorld :: "(world \<Rightarrow> 'a \<times> world) \<Rightarrow> ('l, 's, 'h) mixedState \<Rightarrow> 'a \<times> ('l, 's, 'h) mixedState" where
  "onWorld f st = (case f (mx_world st) of (r, w) \<Rightarrow> (r, st\<lparr>mx_world := w\<rparr>))"

definition nilDeref :: goerr where
  "nilDeref = Panic ''invalid memory address or nil pointer dereference''"

section \<open>ZMQ clients\<close>

definition LOCAL_ADDRESS :: string where "LOCAL_ADDRESS = ''127.0.0.1''"

definition Hget :: "(string \<Rightarrow> string \<Rightarrow> (string, string) gomap) \<Rightarrow> string \<Rightarrow> string \<Rightarrow> string \<Rightarrow> goerr + string" where
  "Hget db table key fld =
     (case gm_get (db table key) fld of
        Some v \<Rightarrow> Inr v
      | None \<Rightarrow> Inl (Plain (''Can'' @ CHR 0x27 # ''t read '' @ key @ '':'' @ fld @ '' from '' @ table @ '' table'')))"

definition getDpuAddress :: "(string \<Rightarrow> string \<Rightarrow> (string, string) gomap) \<Rightarrow> string \<Rightarrow> goerr + string" where
  "getDpuAddress db dpuId =
     (case Hget db ''MID_PLANE_BRIDGE'' ''GLOBAL'' ''bridge'' of
        Inl e \<Rightarrow> Inl e
      | Inr bridgePlane \<Rightarrow>
          (case Hget db ''DPUS'' dpuId ''midplane_interface'' of
             Inl e \<Rightarrow> Inl e
           | Inr dpuInterface \<Rightarrow>
               (case Hget db ''DHCP_SERVER_IPV4_PORT'' (bridgePlane @ ''|'' @ dpuInterface) ''ips@'' of
                  Inl e \<Rightarrow> Inl e
                | Inr dpuAddresses \<Rightarrow>
                    (case split_char CHR '','' dpuAddresses of
                       [] \<Rightarrow> Inl (Plain (''Can'' @ CHR 0x27 # ''t find address of dpu:'' @ CHR 0x27 # dpuId @ CHR 0x27 #
                                '' from DHCP_SERVER_IPV4_PORT table''))
                     | a # _ \<Rightarrow> Inr a))))"

definition getZmqAddress :: "(string \<Rightarrow> string \<Rightarrow> (string, string) gomap) \<Rightarrow> string \<Rightarrow> string \<Rightarrow> goerr + string" where
  "getZmqAddress db container zmqPort =
     (if zmqPort = [] then Inl (Plain ''ZMQ port is empty.'')
      else (case getDpuAddress db container of
              Inl e \<Rightarrow> Inl (Plain (''Get DPU address failed: '' @ errText e))
            | Inr dpuAddress \<Rightarrow> Inr (''tcp://'' @ dpuAddress @ '':'' @ zmqPort)))"

text \<open>The map has one client per address; the client is known by its address and the VRF it was made with.\<close>

definition getZmqClientByAddress :: "string \<Rightarrow> string \<Rightarrow> (string, string) gomap \<Rightarrow> (string \<times> string) \<times> (string, string) gomap" where
  "getZmqClientByAddress zmqAddress vrf m =
     (case gm_get m zmqAddress of
        Some v \<Rightarrow> ((zmqAddress, v), m)
      | None \<Rightarrow> ((zmqAddress, vrf), gm_set zmqAddress vrf m))"

definition removeZmqClient :: "string \<times> string \<Rightarrow> (string, string) gomap \<Rightarrow> goerr option \<times> (string, string) gomap" where
  "removeZmqClient zc m =
     (if gm_get m (fst zc) = Some (snd zc) then (None, gm_del (fst zc) m)
      else (Some (Plain ''Can not find ZMQ client in zmqClientMap''), m))"

definition getZmqClient ::
    "(string \<Rightarrow> string \<Rightarrow> (string, string) gomap) \<Rightarrow> string \<Rightarrow> string \<Rightarrow> string \<Rightarrow> (string, string) gomap \<Rightarrow>
     (goerr + (string \<times> string) option) \<times> (string, string) gomap" where
  "getZmqClient db dpuId zmqPort vrf m =
     (if zmqPort = [] then (Inr None, m)
      else if dpuId = SONIC_DEFAULT_CONTAINER
      then (case getZmqClientByAddress (''tcp://'' @ LOCAL_ADDRESS @ '':'' @ zmqPort) vrf m of (zc, m1) \<Rightarrow> (Inr (Some zc), m1))
      else (case getZmqAddress db dpuId zmqPort of
              Inl e \<Rightarrow> (Inl (Plain (''Get ZMQ address failed: '' @ errText e)), m)
            | Inr zmqAddress \<Rightarrow> (case getZmqClientByAddress zmqAddress vrf m of (zc, m1) \<Rightarrow> (Inr (Some zc), m1))))"

section \<open>Databases\<close>

definition IsTargetDbByDBKey :: "'l swss \<Rightarrow> string \<Rightarrow> sonicDBKey \<Rightarrow> 'l dbState \<Rightarrow> bool \<times> 'l dbState" where
  "IsTargetDbByDBKey sw dbName k s =
     (case GetDbInstanceFromTarget sw (sk_Netns k) (sk_ContainerName k) s of
        (None, s1) \<Rightarrow> (False, s1)
      | (Some _, s1) \<Rightarrow>
          (case GetDbListByDBKey sw k s1 of
             (Inl _, s2) \<Rightarrow> (False, s2)
           | (Inr dbList, s2) \<Rightarrow> (dbName \<in> set dbList, s2)))"

definition HOSTNAME :: string where "HOSTNAME = ''localhost''"

record parseAcc =
  pa_target :: string
  pa_prev_instance :: string
  pa_namespace :: string
  pa_container :: string

text \<open>The second name of a path: a namespace, a container, or nothing of both when there is only one of each.\<close>

definition parseInstance ::
    "'l swss \<Rightarrow> nat \<Rightarrow> nat \<Rightarrow> string \<Rightarrow> parseAcc \<Rightarrow> 'l dbState \<Rightarrow> (goerr + parseAcc) \<times> 'l dbState" where
  "parseInstance sw nsCnt ctCnt elem_name a s =
     (if nsCnt > 1 \<and> ctCnt > 1 then
        if elem_name = HOSTNAME then (Inr a, s)
        else (case GetDbInstanceFromTarget sw elem_name SONIC_DEFAULT_CONTAINER s of
                (Some _, s1) \<Rightarrow> (Inr (a\<lparr>pa_namespace := elem_name\<rparr>), s1)
              | (None, s1) \<Rightarrow>
                  (case GetDbInstanceFromTarget sw SONIC_DEFAULT_NAMESPACE elem_name s1 of
                     (Some _, s2) \<Rightarrow> (Inr (a\<lparr>pa_container := elem_name\<rparr>), s2)
                   | (None, s2) \<Rightarrow> (Inl (Plain (''Unsupported namespace/container '' @ elem_name)), s2)))
      else if nsCnt > 1 then (Inr (a\<lparr>pa_namespace := elem_name\<rparr>), s)
      else if ctCnt > 1 then (Inr (a\<lparr>pa_container := elem_name\<rparr>), s)
      else (Inr a, s))"

fun parsePaths ::
    "'l swss \<Rightarrow> nat \<Rightarrow> nat \<Rightarrow> gpath option \<Rightarrow> gpath option list \<Rightarrow> parseAcc \<Rightarrow> 'l dbState \<Rightarrow> (goerr + parseAcc) \<times> 'l dbState" where
  "parsePaths sw nsCnt ctCnt pre [] a s = (Inr a, s)"
| "parsePaths sw nsCnt ctCnt pre (path # ps) a s =
     (if GetElem path = [] then parsePaths sw nsCnt ctCnt pre ps a s
      else
        let elems = map pe_name (GetElem pre @ GetElem path)
        in if length elems < 2 then (Inl (Status Unimplemented ''Invalid elem length''), s)
           else if pa_target a \<noteq> [] \<and> pa_target a \<noteq> elems ! 0 then (Inl (Status Unimplemented ''Target conflict in path''), s)
           else if pa_prev_instance a \<noteq> [] \<and> pa_prev_instance a \<noteq> elems ! 1
           then (Inl (Status Unimplemented ''Namespace/container conflict in path''), s)
           else (case parseInstance sw nsCnt ctCnt (elems ! 1) (a\<lparr>pa_target := elems ! 0, pa_prev_instance := elems ! 1\<rparr>) s of
                   (Inl e, s1) \<Rightarrow> (Inl e, s1)
                 | (Inr a1, s1) \<Rightarrow> parsePaths sw nsCnt ctCnt pre ps a1 s1))"

definition ParseDatabase ::
    "'l swss \<Rightarrow> nat \<Rightarrow> nat \<Rightarrow> gpath option \<Rightarrow> gpath option list \<Rightarrow> 'l dbState \<Rightarrow> (goerr + (string \<times> sonicDBKey)) \<times> 'l dbState" where
  "ParseDatabase sw nsCnt ctCnt pre paths s =
     (if paths = [] then (Inl (Status Unimplemented ''No valid path''), s)
      else (case parsePaths sw nsCnt ctCnt pre paths
                   \<lparr>pa_target = [], pa_prev_instance = [], pa_namespace = SONIC_DEFAULT_NAMESPACE, pa_container = SONIC_DEFAULT_CONTAINER\<rparr> s of
              (Inl e, s1) \<Rightarrow> (Inl e, s1)
            | (Inr a, s1) \<Rightarrow>
                if pa_target a = [] then (Inl (Status Unimplemented ''No target specified in path''), s1)
                else (Inr (pa_target a,
                       \<lparr>sk_Netns = (if pa_namespace a = HOSTNAME then SONIC_DEFAULT_NAMESPACE else pa_namespace a),
                        sk_ContainerName = (if pa_container a = HOSTNAME then SONIC_DEFAULT_NAMESPACE else pa_container a)\<rparr>), s1)))"

text \<open>The connections of all databases. An early return keeps what was entered so far, and the number of instances that
  decides whether the map is made again has been stored before.\<close>

fun redisOfDbs :: "'l swss \<Rightarrow> sonicDBKey \<Rightarrow> string list \<Rightarrow> (string, string \<times> int) gomap \<Rightarrow> 'l dbState \<Rightarrow> bool \<times> (string, string \<times> int) gomap \<times> 'l dbState" where
  "redisOfDbs sw k [] m s = (True, m, s)"
| "redisOfDbs sw k (db # dbs) m s =
     (case GetDbSockByDBKey sw db k s of
        (Inl e, s1) \<Rightarrow> (False, m, s1)
      | (Inr addr, s1) \<Rightarrow>
          (case GetDbIdByDBKey sw db k s1 of
             (Inl e, s2) \<Rightarrow> (False, m, s2)
           | (Inr dbn, s2) \<Rightarrow>
               redisOfDbs sw k dbs (gm_set (sk_Netns k @ '':'' @ sk_ContainerName k @ '':'' @ db) (addr, dbn) m) s2))"

fun redisOfKeys :: "'l swss \<Rightarrow> sonicDBKey list \<Rightarrow> (string, string \<times> int) gomap \<Rightarrow> 'l dbState \<Rightarrow> (string, string \<times> int) gomap \<times> 'l dbState" where
  "redisOfKeys sw [] m s = (m, s)"
| "redisOfKeys sw (k # ks) m s =
     (case GetDbListByDBKey sw k s of
        (Inl e, s1) \<Rightarrow> (m, s1)
      | (Inr dbList, s1) \<Rightarrow>
          (case redisOfDbs sw k dbList m s1 of
             (False, m1, s2) \<Rightarrow> (m1, s2)
           | (True, m1, s2) \<Rightarrow> redisOfKeys sw ks m1 s2))"

definition initRedisDbMap :: "'l swss \<Rightarrow> ('l, 's, 'h) mixedState \<Rightarrow> ('l, 's, 'h) mixedState" where
  "initRedisDbMap sw st =
     (case onDb (GetDbAllInstances sw) st of
        (Inl e, st1) \<Rightarrow> st1
      | (Inr dbkeys, st1) \<Rightarrow>
          if length dbkeys = mx_DbInstNum st1 then st1
          else (case redisOfKeys sw dbkeys [] (mx_db st1) of
                  (m, d) \<Rightarrow> st1\<lparr>mx_DbInstNum := length dbkeys, mx_RedisDbMap := Some m, mx_db := d\<rparr>))"

definition DPU_APPL_DB_NAME :: string where "DPU_APPL_DB_NAME = ''DPU_APPL_DB''"
definition APPL_DB_NAME :: string where "APPL_DB_NAME = ''APPL_DB''"
definition GNMI_WORK_PATH :: string where "GNMI_WORK_PATH = ''/tmp''"

definition newClient :: "'l swss \<Rightarrow> gpath option \<Rightarrow> string \<Rightarrow> encoding \<Rightarrow> ('l, 's, 'h) mixedState \<Rightarrow> ('l, 's, 'h) mixedState" where
  "newClient sw pre origin enc st0 =
     (case onDb (GetDbAllInstances sw) (initRedisDbMap sw st0) of
        (r, st) \<Rightarrow>
          let ks = (case r of Inl _ \<Rightarrow> [] | Inr ks \<Rightarrow> ks)
          in st\<lparr>mx_client := \<lparr>mc_prefix = pre, mc_paths = [], mc_encoding = enc,
                 mc_target = (case GetElem pre of [] \<Rightarrow> [] | e # _ \<Rightarrow> pe_name e), mc_origin = origin, mc_workPath = [],
                 mc_dbkey = None, mc_mapkey = [],
                 mc_namespace_cnt = 1 + length (filter (\<lambda>k. sk_Netns k \<noteq> SONIC_DEFAULT_NAMESPACE) ks),
                 mc_container_cnt = 1 + length (filter (\<lambda>k. sk_ContainerName k \<noteq> SONIC_DEFAULT_CONTAINER) ks)\<rparr>\<rparr>)"

text \<open>The constructor. \<open>tables\<close> is the state of the tables without a table in it. The name of the database is the result,
  empty when there are no paths.\<close>

definition NewMixedDbClient ::
    "('l, 's, 'h) mixedEnv \<Rightarrow> gpath option list \<Rightarrow> gpath option \<Rightarrow> string \<Rightarrow> encoding \<Rightarrow> string \<Rightarrow> string \<Rightarrow>
     ('l, 's, 'h) mixedState \<Rightarrow> (goerr + string) \<times> ('l, 's, 'h) mixedState" where
  "NewMixedDbClient en paths pre origin enc zmqPort vrf st0 =
     (let st = newClient (me_swss en) pre origin enc st0; c = mx_client st
      in if paths = [] then (Inr [], st)
         else (case onDb (ParseDatabase (me_swss en) (mc_namespace_cnt c) (mc_container_cnt c) pre paths) st of
                 (Inl e, st1) \<Rightarrow> (Inl e, st1)
               | (Inr (tgt, dbkey), st1) \<Rightarrow>
                   (case onDb (IsTargetDbByDBKey (me_swss en) tgt dbkey) st1 of
                      (False, st2) \<Rightarrow>
                        (Inl (Status Unimplemented (''Invalid target: ns '' @ sk_Netns dbkey @ '', container '' @ sk_ContainerName dbkey)), st2)
                    | (True, st2) \<Rightarrow>
                        (case getZmqClient (me_configEntry en) (sk_ContainerName dbkey) zmqPort vrf (mx_zmqClientMap st2) of
                           (Inl e, m) \<Rightarrow> (Inl (Plain (''Get ZMQ client failed: '' @ errText e)), st2\<lparr>mx_zmqClientMap := m\<rparr>)
                         | (Inr zc, m) \<Rightarrow>
                             (Inr tgt, st2\<lparr>mx_zmqClientMap := m, mx_client := c\<lparr>mc_target := tgt,
                                mc_mapkey := sk_Netns dbkey @ '':'' @ sk_ContainerName dbkey, mc_paths := paths,
                                mc_workPath := GNMI_WORK_PATH, mc_dbkey := Some dbkey\<rparr>,
                                mx_tables := (mx_tables st2)\<lparr>tb_zmqClient := (zc \<noteq> None), tb_tableMap := [], tb_zmqTableMap := [],
                                  tb_plainTableMap := []\<rparr>\<rparr>)))))"

section \<open>Paths\<close>

text \<open>\<^verbatim>\<open>gnmiFullPath\<close>: the elements after the database and the instance. A path without elements stays empty, whatever the
  prefix has.\<close>

definition gnmiFullPath :: "gpath option \<Rightarrow> gpath option \<Rightarrow> goerr + gpath" where
  "gnmiFullPath pre path =
     (if GetOrigin pre = [] \<and> path = None then Inl nilDeref
      else
        let fullPath = \<lparr>p_origin = (if GetOrigin pre = [] then GetOrigin path else GetOrigin pre), p_target = [], p_elem = []\<rparr>;
            elems = GetElem pre @ GetElem path
        in if GetElem path = [] then Inr fullPath
           else if length elems < 2 then Inl (Plain (''Invalid gnmi path: length '' @ FormatNat (length elems)))
           else Inr (fullPath\<lparr>p_elem := drop 2 elems\<rparr>))"

datatype tableOp = opAdd | opRemove

record tablePath =
  tp_dbNamespace :: string
  tp_dbName :: string
  tp_tableName :: string
  tp_tableKey :: string
  tp_delimitor :: string
  tp_field :: string
  tp_jsonValue :: string
  tp_protoValue :: string
  tp_index :: int
  tp_operation :: tableOp
  tp_jsonField :: string

definition countersDbHasTableKeys :: "string \<Rightarrow> bool" where
  "countersDbHasTableKeys tableName \<longleftrightarrow> tableName = ''COUNTERS'' \<or> tableName = ''PORT_PHY_ATTR''"

definition keylessTable :: "string \<Rightarrow> string \<Rightarrow> bool" where
  "keylessTable dbName tableName \<longleftrightarrow> dbName = ''COUNTERS_DB'' \<and> \<not> countersDbHasTableKeys tableName"

text \<open>The names of a path: the database, then the names of the elements, each with its key if there is one called
  \<^verbatim>\<open>key\<close>; an empty table key is inserted for the tables that have none.\<close>

definition elemNames :: "path_elem \<Rightarrow> string list" where
  "elemNames e = pe_name e # (case gm_get (pe_key e) ''key'' of Some v \<Rightarrow> [v] | None \<Rightarrow> [])"

definition stringSlice :: "string \<Rightarrow> path_elem list \<Rightarrow> string list" where
  "stringSlice tgt elems =
     (let s = tgt # concat (map elemNames elems)
      in if length s > 1 \<and> keylessTable tgt (s ! 1) then take 2 s @ [] # drop 2 s else s)"

definition GetProtoBytes :: "typedValue option \<Rightarrow> string option" where
  "GetProtoBytes v = (case v of Some (ProtoBytes s) \<Rightarrow> Some s | _ \<Rightarrow> None)"

text \<open>The operation and the values of a request.\<close>

definition withValue :: "typedValue option \<Rightarrow> tablePath \<Rightarrow> goerr + tablePath" where
  "withValue v tp =
     (case v of
        None \<Rightarrow> Inr tp
      | Some (JsonIetfVal jv) \<Rightarrow> Inr (tp\<lparr>tp_operation := opAdd, tp_jsonValue := jv\<rparr>)
      | Some (ProtoBytes pv) \<Rightarrow> Inr (tp\<lparr>tp_operation := opAdd, tp_protoValue := pv\<rparr>)
      | Some _ \<Rightarrow> Inl (Plain ''Unsupported TypedValue''))"

definition existsFails :: "redisClient \<Rightarrow> tablePath \<Rightarrow> string \<Rightarrow> bool" where
  "existsFails rd tp mappedKey \<longleftrightarrow>
     tp_operation tp = opRemove \<and> isl (rc_Exists rd (tp_tableName tp @ tp_delimitor tp @ mappedKey))"

text \<open>The switch on the number of names. A path that is to be read or deleted is asked for in Redis; only for a whole table
  does the answer matter.\<close>

definition placePath :: "redisClient \<Rightarrow> string list \<Rightarrow> tablePath \<Rightarrow> goerr + tablePath" where
  "placePath rd pieces tp =
     (let opFailed = Inl (Plain ''redis Exists op failed'')
      in case pieces of
           [db] \<Rightarrow> Inr tp
         | [db, t] \<Rightarrow>
             if tp_operation tp = opRemove \<and> (case rc_Keys rd (tp_tableName tp @ ''*'') of Inl _ \<Rightarrow> True | Inr ks \<Rightarrow> ks = [])
             then Inl (Plain (''Failed to find '' @ db @ '' '' @ t)) else Inr tp
         | [db, t, k] \<Rightarrow> if existsFails rd tp k then opFailed else Inr (tp\<lparr>tp_tableKey := k\<rparr>)
         | [db, t, k, f] \<Rightarrow> if existsFails rd tp k then opFailed else Inr (tp\<lparr>tp_tableKey := k, tp_field := f\<rparr>)
         | [db, t, k, f, i] \<Rightarrow>
             if existsFails rd tp k then opFailed
             else (case Atoi i of
                     None \<Rightarrow> Inl (Plain (''Invalid index '' @ i))
                   | Some n \<Rightarrow> Inr (tp\<lparr>tp_tableKey := k, tp_field := f, tp_index := n\<rparr>))
         | _ \<Rightarrow> Inl (Plain ''Invalid db table Path''))"

definition redisFor :: "('l, 's, 'h) mixedEnv \<Rightarrow> string \<Rightarrow> ('l, 's, 'h) mixedState \<Rightarrow> redisClient option" where
  "redisFor en dbName st =
     (case mx_RedisDbMap st of
        None \<Rightarrow> None
      | Some m \<Rightarrow> map_option (me_redis en) (gm_get m (mc_mapkey (mx_client st) @ '':'' @ dbName)))"

definition noRedis :: "string \<Rightarrow> goerr" where
  "noRedis dbName = Plain (''Redis Client not present for dbName '' @ dbName)"

definition getDbtablePath ::
    "('l, 's, 'h) mixedEnv \<Rightarrow> gpath option \<Rightarrow> typedValue option \<Rightarrow> ('l, 's, 'h) mixedState \<Rightarrow>
     (goerr + tablePath) \<times> ('l, 's, 'h) mixedState" where
  "getDbtablePath en path v st =
     (let c = mx_client st
      in case gnmiFullPath (mc_prefix c) path of
           Inl e \<Rightarrow> (Inl e, st)
         | Inr fullPath \<Rightarrow>
             (case mc_dbkey c of
                None \<Rightarrow> (Inl nilDeref, st)
              | Some k \<Rightarrow>
                  (case onDb (GetDbSeparatorByDBKey (me_swss en) (mc_target c) k) st of
                     (r, st1) \<Rightarrow>
                       let pieces = stringSlice (mc_target c) (p_elem fullPath);
                           tp = \<lparr>tp_dbNamespace = sk_Netns k, tp_dbName = mc_target c,
                                 tp_tableName = (if length pieces > 1 then pieces ! 1 else []), tp_tableKey = [],
                                 tp_delimitor = (case r of Inl _ \<Rightarrow> [] | Inr sep \<Rightarrow> sep), tp_field = [], tp_jsonValue = [],
                                 tp_protoValue = [], tp_index = -1, tp_operation = opRemove, tp_jsonField = []\<rparr>
                       in (case withValue v tp of
                             Inl e \<Rightarrow> Inl e
                           | Inr tp1 \<Rightarrow>
                               (case redisFor en (mc_target c) st1 of
                                  None \<Rightarrow> Inl (noRedis (mc_target c))
                                | Some rd \<Rightarrow> placePath rd pieces tp1), st1))))"

fun getAllDbtablePath ::
    "('l, 's, 'h) mixedEnv \<Rightarrow> gpath option list \<Rightarrow> ('l, 's, 'h) mixedState \<Rightarrow> (goerr + tablePath list) \<times> ('l, 's, 'h) mixedState" where
  "getAllDbtablePath en [] st = (Inr [], st)"
| "getAllDbtablePath en (p # ps) st =
     (case getDbtablePath en p None st of
        (Inl e, st1) \<Rightarrow> (Inl e, st1)
      | (Inr tp, st1) \<Rightarrow>
          (case getAllDbtablePath en ps st1 of
             (Inl e, st2) \<Rightarrow> (Inl e, st2)
           | (Inr tps, st2) \<Rightarrow> (Inr (tp # tps), st2)))"

section \<open>Reading\<close>

text \<open>The map that becomes the JSON value: strings, lists of strings, maps, and the bytes of a protobuf entry.\<close>

datatype msiVal = MStr string | MList "string list" | MMap "(string \<times> msiVal) list" | MBytes string

type_synonym msi = "(string, msiVal) gomap"

definition TrimSuffix :: "string \<Rightarrow> string \<Rightarrow> string" where
  "TrimSuffix s t = (if HasSuffix s t then take (length s - length t) s else s)"

definition addField1 :: "string \<times> string \<Rightarrow> msi \<Rightarrow> msi" where
  "addField1 = (\<lambda>(f, v) m.
     if f = ''NULL'' then m
     else if HasSuffix f ''@'' then gm_set (TrimSuffix f ''@'') (MList (split_char CHR '','' v)) m
     else gm_set f (MStr v) m)"

definition makeJSON_redis :: "string option \<Rightarrow> string option \<Rightarrow> (string, string) gomap \<Rightarrow> msi \<Rightarrow> msi" where
  "makeJSON_redis key op mfv m =
     (case (key, op) of
        (None, None) \<Rightarrow> fold addField1 mfv m
      | (None, Some op1) \<Rightarrow> gm_set op1 (MMap (fold addField1 mfv [])) m
      | (Some key1, None) \<Rightarrow> gm_set key1 (MMap (fold addField1 mfv [])) m
      | (Some key1, Some op1) \<Rightarrow> gm_set key1 (MMap [(op1, MMap (fold addField1 mfv []))]) m)"

text \<open>\<^verbatim>\<open>strings.SplitN(s, sep, 2)\<close>: the parts before and after the first separator.\<close>

fun splitOnce :: "string \<Rightarrow> string \<Rightarrow> string \<times> string option" where
  "splitOnce sep [] = ([], None)"
| "splitOnce sep (c # s) =
     (if HasPrefix (c # s) sep then ([], Some (drop (length sep) (c # s)))
      else (case splitOnce sep s of (a, b) \<Rightarrow> (c # a, b)))"

definition outOfRangePanic :: goerr where
  "outOfRangePanic = Panic ''index out of range''"

text \<open>One key of the database.\<close>

definition renderKey :: "redisClient \<Rightarrow> encoding \<Rightarrow> tablePath \<Rightarrow> bool \<Rightarrow> string option \<Rightarrow> string \<Rightarrow> msi \<Rightarrow> goerr option \<times> msi" where
  "renderKey rd enc tp useKey op dbkey m =
     (case rc_HGetAll rd dbkey of
        Inl e \<Rightarrow> (Some e, m)
      | Inr fv \<Rightarrow>
          if tp_tableName tp = [] then
            (case splitOnce (tp_delimitor tp) dbkey of
               (t, None) \<Rightarrow> (Some outOfRangePanic, m)
             | (t, Some key) \<Rightarrow>
                 (None, gm_set t (MMap (makeJSON_redis (Some key) op fv (case gm_get m t of Some (MMap tm) \<Rightarrow> tm | _ \<Rightarrow> []))) m))
          else if (tp_tableKey tp \<noteq> [] \<and> \<not> useKey) \<or> tp_tableName tp = dbkey then
            if enc = JSON_IETF then (None, makeJSON_redis None op fv m)
            else if enc = PROTO then
              (case gm_get fv ''pb'' of
                 Some v \<Rightarrow> (None, gm_set ''pb'' (MBytes v) m)
               | None \<Rightarrow> (Some (Plain ''No proto bytes found in redis''), m))
            else (None, m)
          else
            (case splitOnce (tp_delimitor tp) dbkey of
               (t, None) \<Rightarrow> (Some outOfRangePanic, m)
             | (t, Some key) \<Rightarrow> (None, makeJSON_redis (Some key) op fv m)))"

fun renderKeys :: "redisClient \<Rightarrow> encoding \<Rightarrow> tablePath \<Rightarrow> bool \<Rightarrow> string option \<Rightarrow> string list \<Rightarrow> msi \<Rightarrow> goerr option \<times> msi" where
  "renderKeys rd enc tp useKey op [] m = (None, m)"
| "renderKeys rd enc tp useKey op (k # ks) m =
     (case renderKey rd enc tp useKey op k m of
        (Some e, m1) \<Rightarrow> (Some e, m1)
      | (None, m1) \<Rightarrow> renderKeys rd enc tp useKey op ks m1)"

definition keyPattern :: "tablePath \<Rightarrow> string" where
  "keyPattern tp =
     (if keylessTable (tp_dbName tp) (tp_tableName tp) then tp_tableName tp else tp_tableName tp @ tp_delimitor tp @ ''*'')"

definition tableData2Msi :: "redisClient \<Rightarrow> encoding \<Rightarrow> tablePath \<Rightarrow> bool \<Rightarrow> string option \<Rightarrow> msi \<Rightarrow> goerr option \<times> msi" where
  "tableData2Msi rd enc tp useKey op m =
     (let byPattern = (\<lambda>pattern.
            case rc_Keys rd pattern of
              Inl e \<Rightarrow> (Some (Plain (''redis Keys failed for pattern '' @ pattern)), m)
            | Inr ks \<Rightarrow> renderKeys rd enc tp useKey op ks m)
      in if tp_tableName tp = [] then
           if tp_dbName tp = ''COUNTERS_DB'' then (Some (Plain ''Can not read all tables in COUNTERS_DB''), m)
           else byPattern (''*'' @ tp_delimitor tp @ ''*'')
         else if tp_tableKey tp = [] then byPattern (keyPattern tp)
         else renderKeys rd enc tp useKey op [tp_tableName tp @ tp_delimitor tp @ tp_tableKey tp] m)"

fun msiJson :: "msiVal \<Rightarrow> json" where
  "msiJson (MStr s) = JStr s"
| "msiJson (MList ss) = JArr (map JStr ss)"
| "msiJson (MMap m) = JObj (map (\<lambda>(k, v). (k, msiJson v)) m)"
| "msiJson (MBytes s) = JStr s"

definition msi2TypedValue :: "encoding \<Rightarrow> msi \<Rightarrow> goerr + typedValue" where
  "msi2TypedValue enc m =
     (if enc = JSON_IETF then Inr (JsonIetfVal (encodeGo Some (msiJson (MMap m))))
      else if enc = PROTO then
        (case gm_get m ''pb'' of
           Some (MBytes s) \<Rightarrow> Inr (ProtoBytes s)
         | Some _ \<Rightarrow> Inl (Panic ''interface conversion'')
         | None \<Rightarrow> Inl (Plain ''No proto bytes found in msi''))
      else Inl (Plain ''Unknown encoding''))"

text \<open>One field of an entry: the field itself, or a list, whose name in Redis ends with an at sign. \<open>Inr None\<close> is no data.\<close>

definition readField :: "redisClient \<Rightarrow> tablePath \<Rightarrow> goerr + typedValue option" where
  "readField rd tp =
     (let key = (if tp_tableKey tp \<noteq> [] then tp_tableName tp @ tp_delimitor tp @ tp_tableKey tp else tp_tableName tp)
      in if tp_index tp \<ge> 0 then
           (case rc_HGet rd key (tp_field tp @ ''@'') of
              Inl _ \<Rightarrow> Inr None
            | Inr v \<Rightarrow>
                (let pieces = split_char CHR '','' v
                 in if tp_index tp \<ge> int (length pieces) then Inl (Plain (''Invalid index '' @ FormatInt (tp_index tp)))
                    else Inr (Some (JsonIetfVal (quoted (pieces ! nat (tp_index tp)))))))
         else
           (case rc_HGet rd key (tp_field tp) of
              Inr v \<Rightarrow> Inr (Some (JsonIetfVal (quoted v)))
            | Inl _ \<Rightarrow>
                (case rc_HGet rd key (tp_field tp @ ''@'') of
                   Inr v \<Rightarrow> Inr (Some (JsonIetfVal (encodeGo Some (JArr (map JStr (split_char CHR '','' v))))))
                 | Inl _ \<Rightarrow> Inr None)))"

definition tableData2TypedValue ::
    "('l, 's, 'h) mixedEnv \<Rightarrow> tablePath \<Rightarrow> ('l, 's, 'h) mixedState \<Rightarrow> goerr + typedValue option" where
  "tableData2TypedValue en tp st =
     (case redisFor en (tp_dbName tp) st of
        None \<Rightarrow> Inl (noRedis (tp_dbName tp))
      | Some rd \<Rightarrow>
          if tp_jsonField tp = [] \<and> tp_field tp \<noteq> [] then readField rd tp
          else (case tableData2Msi rd (mc_encoding (mx_client st)) tp False None [] of
                  (Some e, m) \<Rightarrow> Inl e
                | (None, m) \<Rightarrow>
                    if m = [] then Inr None
                    else map_sum id Some (msi2TypedValue (mc_encoding (mx_client st)) m)))"

section \<open>Writing tables\<close>

definition strings :: "json list \<Rightarrow> string list" where
  "strings l = concat (map (\<lambda>v. case v of JStr s \<Rightarrow> [s] | _ \<Rightarrow> []) l)"

definition convertField :: "string \<times> json \<Rightarrow> (string, string) gomap \<Rightarrow> (string, string) gomap" where
  "convertField = (\<lambda>(key, v) out.
     case v of
       JStr s \<Rightarrow> gm_set key s out
     | JArr l \<Rightarrow> gm_set (key @ ''@'') (join '','' (strings l)) out
     | _ \<Rightarrow> out)"

definition ConvertDbEntry :: "jsonMap \<Rightarrow> (string, string) gomap" where
  "ConvertDbEntry inputData = fold convertField inputData []"

definition removeTableData :: "'s backend \<Rightarrow> redisClient \<Rightarrow> tablePath \<Rightarrow> 's tableState \<Rightarrow> goerr option \<times> 's tableState" where
  "removeTableData be rd tp c =
     (let del = (\<lambda>dbkeys. DbBatchDelTable be (tp_tableName tp) (map (\<lambda>k. TrimPrefix k (tp_tableName tp @ tp_delimitor tp)) dbkeys) c)
      in if tp_tableKey tp = [] then
           (case rc_Keys rd (keyPattern tp) of
              Inl e \<Rightarrow> (Some (Plain (''redis Keys failed for pattern '' @ keyPattern tp)), c)
            | Inr dbkeys \<Rightarrow> del dbkeys)
         else del [tp_tableName tp @ tp_delimitor tp @ tp_tableKey tp])"

definition unsupported :: "goerr" where
  "unsupported = Plain ''Unsupported value''"

definition addTableData :: "numText \<Rightarrow> 's backend \<Rightarrow> tablePath \<Rightarrow> 's tableState \<Rightarrow> goerr option \<times> 's tableState" where
  "addTableData nt be tp c =
     (if tp_tableKey tp \<noteq> [] then
        if tp_jsonValue tp \<noteq> [] then
          (case parseJsonGo nt (tp_jsonValue tp) of
             Inl e \<Rightarrow> (Some e, c)
           | Inr (JObj m) \<Rightarrow> DbSetTable be (tp_tableName tp) (tp_tableKey tp) (ConvertDbEntry m) c
           | Inr _ \<Rightarrow> (Some unsupported, c))
        else DbSetTable be (tp_tableName tp) (tp_tableKey tp) (ConvertDbEntry [(''pb'', JStr (tp_protoValue tp))]) c
      else if tp_jsonValue tp = [] then (Some (Plain ''No valid value''), c)
      else
        (case parseJsonGo nt (tp_jsonValue tp) of
           Inl e \<Rightarrow> (Some e, c)
         | Inr (JObj m) \<Rightarrow>
             if list_all (\<lambda>(k, v). case v of JObj _ \<Rightarrow> True | _ \<Rightarrow> False) m
             then DbBatchSetTable be (tp_tableName tp) (map (\<lambda>(k, v). (k, ConvertDbEntry (members v))) m) c
             else (Some unsupported, c)
         | Inr _ \<Rightarrow> (Some unsupported, c)))"

definition handleTableData ::
    "('l, 's, 'h) mixedEnv \<Rightarrow> tablePath \<Rightarrow> ('l, 's, 'h) mixedState \<Rightarrow> goerr option \<times> ('l, 's, 'h) mixedState" where
  "handleTableData en tp st =
     (case redisFor en (tp_dbName tp) st of
        None \<Rightarrow> (Some (noRedis (tp_dbName tp)), st)
      | Some rd \<Rightarrow>
          if tp_jsonField tp = [] \<and> tp_field tp \<noteq> [] then (Some (Plain ''Unsupported path, can not update field''), st)
          else (case tp_operation tp of
                  opRemove \<Rightarrow> onTables (removeTableData (me_tables en) rd tp) st
                | opAdd \<Rightarrow> onTables (addTableData (me_nums en) (me_tables en) tp) st))"

fun handleAll :: "('l, 's, 'h) mixedEnv \<Rightarrow> tablePath list \<Rightarrow> ('l, 's, 'h) mixedState \<Rightarrow> goerr option \<times> ('l, 's, 'h) mixedState" where
  "handleAll en [] st = (None, st)"
| "handleAll en (tp # tps) st =
     (case handleTableData en tp st of
        (Some e, st1) \<Rightarrow> (Some e, st1)
      | (None, st1) \<Rightarrow> handleAll en tps st1)"

fun writeAll :: "('l, 's, 'h) mixedEnv \<Rightarrow> update list \<Rightarrow> ('l, 's, 'h) mixedState \<Rightarrow> goerr option \<times> ('l, 's, 'h) mixedState" where
  "writeAll en [] st = (None, st)"
| "writeAll en (u # us) st =
     (case getDbtablePath en (u_Path u) (u_Val u) st of
        (Inl e, st1) \<Rightarrow> (Some e, st1)
      | (Inr tp, st1) \<Rightarrow>
          (case handleTableData en tp st1 of
             (Some e, st2) \<Rightarrow> (Some e, st2)
           | (None, st2) \<Rightarrow> writeAll en us st2))"

definition SetDB ::
    "('l, 's, 'h) mixedEnv \<Rightarrow> gpath option list \<Rightarrow> update list \<Rightarrow> update list \<Rightarrow> ('l, 's, 'h) mixedState \<Rightarrow>
     goerr option \<times> ('l, 's, 'h) mixedState" where
  "SetDB en delete replace upd st =
     (case getAllDbtablePath en delete st of
        (Inl e, st1) \<Rightarrow> (Some e, st1)
      | (Inr tps, st1) \<Rightarrow>
          (case handleAll en tps st1 of
             (Some e, st2) \<Rightarrow> (Some e, st2)
           | (None, st2) \<Rightarrow> writeAll en (replace @ upd) st2))"

section \<open>Patching the configuration\<close>

record patchOp =
  pt_op :: string
  pt_path :: string
  pt_value :: "json option"

definition jsonPath :: "path_elem list \<Rightarrow> string" where
  "jsonPath elems = TrimSuffix (''/'' @
     concat (map (\<lambda>e. pe_name e @ concat (map (\<lambda>(k, v). ''['' @ k @ ''='' @ v @ '']'') (pe_key e)) @ ''/'') elems)) ''/''"

definition ConvertToJsonPatch ::
    "numText \<Rightarrow> gpath option \<Rightarrow> gpath option \<Rightarrow> typedValue option \<Rightarrow> string \<Rightarrow> goerr + patchOp" where
  "ConvertToJsonPatch nt pre path t operation =
     (if t \<noteq> None \<and> GetJsonIetfVal t = [] then Inl (Plain ''Value encoding is not IETF JSON'')
      else (case gnmiFullPath pre path of
              Inl e \<Rightarrow> Inl e
            | Inr fullPath \<Rightarrow>
                let p = \<lparr>pt_op = operation, pt_path = jsonPath (p_elem fullPath), pt_value = None\<rparr>
                in if t = None then Inr p
                   else (case parseJsonGo nt (GetJsonIetfVal t) of
                           Inl e \<Rightarrow> Inl e
                         | Inr v \<Rightarrow> Inr (p\<lparr>pt_value := Some v\<rparr>))))"

definition patchJson :: "patchOp \<Rightarrow> json" where
  "patchJson p = JObj ([(''op'', JStr (pt_op p)), (''path'', JStr (pt_path p))] @
     (case pt_value p of None \<Rightarrow> [] | Some v \<Rightarrow> [(''value'', v)]))"

definition inNamespace :: "bool \<Rightarrow> string \<Rightarrow> patchOp \<Rightarrow> patchOp" where
  "inNamespace multiNs namespace p = (if multiNs then p\<lparr>pt_path := ''/'' @ namespace @ pt_path p\<rparr> else p)"

text \<open>What an operation does to the copy of the configuration, and whether it goes into the patch: a removal that
  fails is left out.\<close>

definition tryRemove :: "numText \<Rightarrow> string list \<Rightarrow> jsonMap \<Rightarrow> bool \<times> jsonMap" where
  "tryRemove nt p d = (case Json_Client.Remove nt p d of (e, d1) \<Rightarrow> (e = None, d1))"

definition mustSucceed :: "goerr option \<times> jsonMap \<Rightarrow> goerr + bool \<times> jsonMap" where
  "mustSucceed r = (case r of (Some e, _) \<Rightarrow> Inl e | (None, d) \<Rightarrow> Inr (True, d))"

definition simulate :: "numText \<Rightarrow> updateOp \<Rightarrow> string list \<Rightarrow> typedValue option \<Rightarrow> jsonMap \<Rightarrow> goerr + bool \<times> jsonMap" where
  "simulate nt op p t d =
     (if p = [] then Inr (True, d)
      else (case (op, t) of
              (OpDelete, _) \<Rightarrow> Inr (tryRemove nt p d)
            | (OpReplace, None) \<Rightarrow> Inr (tryRemove nt p d)
            | (OpReplace, Some _) \<Rightarrow> mustSucceed (Json_Client.Replace nt p (GetJsonIetfVal t) d)
            | (OpUpdate, None) \<Rightarrow> Inl (Plain ''Invalid update'')
            | (OpUpdate, Some _) \<Rightarrow> mustSucceed (Json_Client.Add nt p (GetJsonIetfVal t) d)))"

fun opText :: "updateOp \<Rightarrow> string" where
  "opText OpDelete = ''remove''"
| "opText OpReplace = ''replace''"
| "opText OpUpdate = ''add''"

fun patchList ::
    "numText \<Rightarrow> gpath option \<Rightarrow> bool \<Rightarrow> string \<Rightarrow> (updateOp \<times> gpath option \<times> typedValue option) list \<Rightarrow> jsonMap \<Rightarrow> goerr + patchOp list" where
  "patchList nt pre multiNs namespace [] d = Inr []"
| "patchList nt pre multiNs namespace ((op, path, t) # us) d =
     (case gnmiFullPath pre path of
        Inl e \<Rightarrow> Inl e
      | Inr fullPath \<Rightarrow>
          (case simulate nt op (map pe_name (p_elem fullPath)) t d of
             Inl e \<Rightarrow> Inl e
           | Inr (False, d1) \<Rightarrow> patchList nt pre multiNs namespace us d1
           | Inr (True, d1) \<Rightarrow>
               (case ConvertToJsonPatch nt pre path t (opText op) of
                  Inl e \<Rightarrow> Inl e
                | Inr p \<Rightarrow> map_sum id (\<lambda>ps. inNamespace multiNs namespace p # ps) (patchList nt pre multiNs namespace us d1))))"

definition setOps :: "gpath option list \<Rightarrow> update list \<Rightarrow> update list \<Rightarrow> (updateOp \<times> gpath option \<times> typedValue option) list" where
  "setOps delete replace upd =
     map (\<lambda>p. (OpDelete, p, None)) delete @ map (\<lambda>u. (OpReplace, u_Path u, u_Val u)) replace @ map (\<lambda>u. (OpUpdate, u_Path u, u_Val u)) upd"

definition checkPoint :: string where "checkPoint = ''/etc/sonic/config''"
definition startupConfig :: string where "startupConfig = ''/etc/sonic/config_db.json''"

text \<open>The end of an incremental Set: the patch is written to a file, applied and saved.\<close>

definition applyPatch :: "('l, 's, 'h) mixedEnv \<Rightarrow> string \<Rightarrow> ('l, 's, 'h) mixedState \<Rightarrow> goerr option \<times> ('l, 's, 'h) mixedState" where
  "applyPatch en patch st =
     (case onWorld (osWriteFile (Name (mc_workPath (mx_client st) @ ''/gcu.patch'')) patch) st of
        (Some e, st1) \<Rightarrow> (Some e, st1)
      | (None, st1) \<Rightarrow>
          (case (if mc_origin (mx_client st) = ''sonic-db'' then onHost (ApplyPatchDb (me_bus en) patch) st1 else (None, st1)) of
             (Some e, st2) \<Rightarrow> (Some e, st2)
           | (None, st2) \<Rightarrow> onHost (ConfigSave (me_bus en) startupConfig) st2))"

definition incrementalBody ::
    "('l, 's, 'h) mixedEnv \<Rightarrow> bool \<Rightarrow> string \<Rightarrow> (updateOp \<times> gpath option \<times> typedValue option) list \<Rightarrow> ('l, 's, 'h) mixedState \<Rightarrow>
     goerr option \<times> ('l, 's, 'h) mixedState" where
  "incrementalBody en multiNs namespace ops st =
     (case NewJsonClient (me_nums en) (\<lambda>f. me_readFile en f (hs_host (mx_host st))) (checkPoint @ ''.cp.json'') namespace of
        Inl e \<Rightarrow> (Some e, st)
      | Inr d \<Rightarrow>
          (case patchList (me_nums en) (mc_prefix (mx_client st)) multiNs namespace ops d of
             Inl e \<Rightarrow> (Some e, st)
           | Inr [] \<Rightarrow> (None, st)
           | Inr ps \<Rightarrow> applyPatch en (encodeGo (nt_json (me_nums en)) (JArr (map patchJson ps))) st))"

definition gcuNamespace :: "bool \<Rightarrow> mixedClient \<Rightarrow> goerr + string" where
  "gcuNamespace multiNs c =
     (if \<not> multiNs then Inr []
      else (case mc_dbkey c of
              None \<Rightarrow> Inl nilDeref
            | Some k \<Rightarrow> Inr (if sk_Netns k = SONIC_DEFAULT_NAMESPACE then HOSTNAME else sk_Netns k)))"

definition SetIncrementalConfig ::
    "('l, 's, 'h) mixedEnv \<Rightarrow> gpath option list \<Rightarrow> update list \<Rightarrow> update list \<Rightarrow> ('l, 's, 'h) mixedState \<Rightarrow>
     goerr option \<times> ('l, 's, 'h) mixedState" where
  "SetIncrementalConfig en delete replace upd st =
     (case onDb (CheckDbMultiNamespace (me_swss en)) st of
        (Inl e, st1) \<Rightarrow> (Some e, st1)
      | (Inr multiNs, st1) \<Rightarrow>
          (case gcuNamespace multiNs (mx_client st1) of
             Inl e \<Rightarrow> (Some e, st1)
           | Inr namespace \<Rightarrow>
               (case onHost (CreateCheckPoint (me_bus en) checkPoint) st1 of
                  (Some e, st2) \<Rightarrow> (Some e, st2)
                | (None, st2) \<Rightarrow>
                    (case incrementalBody en multiNs namespace (setOps delete replace upd) st2 of
                       (r, st3) \<Rightarrow> (r, snd (onHost (DeleteCheckPoint (me_bus en) checkPoint) st3))))))"

definition SetFullConfig :: "('l, 's, 'h) mixedEnv \<Rightarrow> update \<Rightarrow> ('l, 's, 'h) mixedState \<Rightarrow> goerr option \<times> ('l, 's, 'h) mixedState" where
  "SetFullConfig en u st =
     (let content = GetJsonIetfVal (u_Val u)
      in if content = [] then (Some (Plain ''Value encoding is not IETF JSON''), st)
         else (case onWorld (osWriteFile (Name (mc_workPath (mx_client st) @ ''/config_db.json.tmp'')) content) st of
                 (Some e, st1) \<Rightarrow> (Some e, st1)
               | (None, st1) \<Rightarrow> (if me_yang en content then None else Some (Plain ''Yang validation failed!''), st1)))"

definition ReplaceFullConfig :: "('l, 's, 'h) mixedEnv \<Rightarrow> update \<Rightarrow> ('l, 's, 'h) mixedState \<Rightarrow> goerr option \<times> ('l, 's, 'h) mixedState" where
  "ReplaceFullConfig en u st =
     (let content = GetJsonIetfVal (u_Val u)
      in if content = [] then (Some (Plain ''Value encoding is not IETF JSON''), st)
         else (case onHost (ConfigReplace (me_bus en) content) st of
                 (Some e, st1) \<Rightarrow> (Some e, st1)
               | (None, st1) \<Rightarrow> onHost (ConfigSave (me_bus en) startupConfig) st1))"

definition SetConfigDB ::
    "('l, 's, 'h) mixedEnv \<Rightarrow> gpath option list \<Rightarrow> update list \<Rightarrow> update list \<Rightarrow> ('l, 's, 'h) mixedState \<Rightarrow>
     goerr option \<times> ('l, 's, 'h) mixedState" where
  "SetConfigDB en delete replace upd st0 =
     (let st = snd (onWorld (osRemove (Name (mc_workPath (mx_client st0) @ ''/config_db.json.tmp''))) st0);
          pre = mc_prefix (mx_client st)
      in case (delete, replace, upd) of
           ([dp], [], [u]) \<Rightarrow>
             (case gnmiFullPath pre dp of
                Inl e \<Rightarrow> (Some e, st)
              | Inr deletePath \<Rightarrow>
                  (case gnmiFullPath pre (u_Path u) of
                     Inl e \<Rightarrow> (Some e, st)
                   | Inr updatePath \<Rightarrow>
                       if p_elem deletePath = [] \<and> p_elem updatePath = [] then SetFullConfig en u st
                       else SetIncrementalConfig en delete replace upd st))
         | ([], [u], []) \<Rightarrow>
             (case gnmiFullPath pre (u_Path u) of
                Inl e \<Rightarrow> (Some e, st)
              | Inr replacePath \<Rightarrow>
                  if p_elem replacePath = [] then ReplaceFullConfig en u st
                  else SetIncrementalConfig en delete replace upd st)
         | _ \<Rightarrow> SetIncrementalConfig en delete replace upd st)"

definition MixedSet ::
    "('l, 's, 'h) mixedEnv \<Rightarrow> gpath option list \<Rightarrow> update list \<Rightarrow> update list \<Rightarrow> ('l, 's, 'h) mixedState \<Rightarrow>
     goerr option \<times> ('l, 's, 'h) mixedState" where
  "MixedSet en delete replace upd st =
     (let tgt = mc_target (mx_client st)
      in if tgt = ''CONFIG_DB'' then SetConfigDB en delete replace upd st
         else if tgt = DPU_APPL_DB_NAME \<or> tgt = APPL_DB_NAME then SetDB en delete replace upd st
         else (Some (Plain (''Set RPC does not support '' @ tgt)), st))"

section \<open>Get\<close>

text \<open>The checkpoint is read without a namespace: the variable that gets one on a device with several namespaces is a new
  one that is not used.\<close>

fun checkPointValues :: "numText \<Rightarrow> 64 word \<Rightarrow> gpath option \<Rightarrow> gpath option list \<Rightarrow> jsonMap \<Rightarrow> goerr + dataValue list" where
  "checkPointValues nt ts pre [] d = Inr []"
| "checkPointValues nt ts pre (path # ps) d =
     (case gnmiFullPath pre path of
        Inl e \<Rightarrow> Inl e
      | Inr fullPath \<Rightarrow>
          if p_elem fullPath = [] then checkPointValues nt ts pre ps d
          else (case Json_Client.Get nt (map pe_name (p_elem fullPath)) d of
                  Inl e \<Rightarrow> Inl e
                | Inr jv \<Rightarrow>
                    map_sum id (\<lambda>vs. \<lparr>dv_Timestamp = ts, dv_Path = path, dv_Val = Some (JsonIetfVal jv)\<rparr> # vs)
                      (checkPointValues nt ts pre ps d)))"

definition GetCheckPoint ::
    "('l, 's, 'h) mixedEnv \<Rightarrow> 64 word \<Rightarrow> ('l, 's, 'h) mixedState \<Rightarrow> (goerr + dataValue list) \<times> ('l, 's, 'h) mixedState" where
  "GetCheckPoint en ts st =
     (case onDb (CheckDbMultiNamespace (me_swss en)) st of
        (Inl e, st1) \<Rightarrow> (Inl e, st1)
      | (Inr multiNs, st1) \<Rightarrow>
          (case gcuNamespace multiNs (mx_client st1) of
             Inl e \<Rightarrow> (Inl e, st1)
           | Inr _ \<Rightarrow>
               (case NewJsonClient (me_nums en) (\<lambda>f. me_readFile en f (hs_host (mx_host st1))) (checkPoint @ ''.cp.json'') [] of
                  Inl e \<Rightarrow> (Inl (Plain (''There'' @ CHR 0x27 # ''s no check point'')), st1)
                | Inr d \<Rightarrow> (checkPointValues (me_nums en) ts (mc_prefix (mx_client st1)) (mc_paths (mx_client st1)) d, st1))))"

fun getEach ::
    "('l, 's, 'h) mixedEnv \<Rightarrow> 64 word \<Rightarrow> gpath option list \<Rightarrow> ('l, 's, 'h) mixedState \<Rightarrow> (goerr + dataValue list) \<times> ('l, 's, 'h) mixedState" where
  "getEach en ts [] st = (Inr [], st)"
| "getEach en ts (p # ps) st =
     (case getDbtablePath en p None st of
        (Inl e, st1) \<Rightarrow> (Inl e, st1)
      | (Inr tp, st1) \<Rightarrow>
          (case tableData2TypedValue en tp st1 of
             Inl e \<Rightarrow> (Inl e, st1)
           | Inr None \<Rightarrow>
               if tp_tableKey tp \<noteq> [] \<or> tp_field tp \<noteq> [] then (Inl (Plain ''No valid entry found for path''), st1)
               else getEach en ts ps st1
           | Inr (Some v) \<Rightarrow>
               mapResult (\<lambda>vs. \<lparr>dv_Timestamp = ts, dv_Path = p, dv_Val = Some v\<rparr> # vs) (getEach en ts ps st1)))"

definition MixedGet ::
    "('l, 's, 'h) mixedEnv \<Rightarrow> 64 word \<Rightarrow> ('l, 's, 'h) mixedState \<Rightarrow> (goerr + dataValue list) \<times> ('l, 's, 'h) mixedState" where
  "MixedGet en ts st =
     (case (if mc_target (mx_client st) = ''CONFIG_DB'' then GetCheckPoint en ts st else (Inl (Plain []), st)) of
        (Inr vs, st1) \<Rightarrow> (Inr vs, st1)
      | (Inl e, st1) \<Rightarrow> if isPanic (Some e) then (Inl e, st1) else getEach en ts (mc_paths (mx_client st1)) st1)"

section \<open>What is written reads back\<close>

text \<open>The entries that Redis can hold: the names of the fields are free of the at sign that marks a list, and the items of a
  list of the comma that separates them.\<close>

definition plainField :: "string \<times> json \<Rightarrow> bool" where
  "plainField = (\<lambda>(k, v). k \<noteq> ''NULL'' \<and> \<not> HasSuffix k ''@'' \<and>
     (case v of
        JStr _ \<Rightarrow> True
      | JArr l \<Rightarrow> l \<noteq> [] \<and> list_all (\<lambda>i. case i of JStr s \<Rightarrow> CHR '','' \<notin> set s | _ \<Rightarrow> False) l
      | _ \<Rightarrow> False))"

definition plainEntry :: "jsonMap \<Rightarrow> bool" where
  "plainEntry e \<longleftrightarrow> distinct (map fst e) \<and> list_all plainField e"

definition redisName :: "string \<times> json \<Rightarrow> string" where
  "redisName = (\<lambda>(k, v). case v of JArr _ \<Rightarrow> k @ ''@'' | _ \<Rightarrow> k)"

definition redisText :: "string \<times> json \<Rightarrow> string" where
  "redisText = (\<lambda>(k, v). case v of JArr l \<Rightarrow> join '','' (strings l) | JStr s \<Rightarrow> s | _ \<Rightarrow> [])"

definition msiOf :: "json \<Rightarrow> msiVal" where
  "msiOf v = (case v of JArr l \<Rightarrow> MList (strings l) | JStr s \<Rightarrow> MStr s | _ \<Rightarrow> MStr [])"

lemma TrimSuffix_snoc [simp]: "TrimSuffix (k @ [c]) [c] = k"
  by (simp add: TrimSuffix_def)

lemma strings_JStr: "list_all (\<lambda>i. case i of JStr s \<Rightarrow> P s | _ \<Rightarrow> False) l \<Longrightarrow> map JStr (strings l) = l \<and> list_all P (strings l)"
  by (induction l) (auto simp: strings_def split: json.splits)

lemma strings_nonempty: "l \<noteq> [] \<Longrightarrow> list_all (\<lambda>i. case i of JStr s \<Rightarrow> P s | _ \<Rightarrow> False) l \<Longrightarrow> strings l \<noteq> []"
  using strings_JStr by force

lemma convertField_plain: "plainField x \<Longrightarrow> convertField x = gm_set (redisName x) (redisText x)"
  by (cases x) (auto simp: plainField_def convertField_def redisName_def redisText_def split: json.splits)

lemma addField1_plain: "plainField x \<Longrightarrow> addField1 (redisName x, redisText x) = gm_set (fst x) (msiOf (snd x))"
proof (cases x)
  case (Pair k v)
  assume "plainField x"
  moreover have "split_char CHR '','' (join '','' (strings l)) = strings l"
    if "l \<noteq> []" "list_all (\<lambda>i. case i of JStr s \<Rightarrow> CHR '','' \<notin> set s | _ \<Rightarrow> False) l" for l
    using that strings_nonempty [OF that] strings_JStr [OF that(2)] by (simp add: split_char_join)
  ultimately show ?thesis
    by (cases v) (auto simp: Pair plainField_def addField1_def redisName_def redisText_def msiOf_def)
qed

lemma redisName_inj: "plainField x \<Longrightarrow> plainField y \<Longrightarrow> redisName x = redisName y \<Longrightarrow> fst x = fst y"
  by (cases x; cases y) (auto simp: plainField_def redisName_def split: json.splits)

lemma distinct_redisName: "plainEntry e \<Longrightarrow> distinct (map redisName e)"
proof (induction e)
  case (Cons x e)
  have "redisName x \<noteq> redisName y" if "y \<in> set e" for y
    using that Cons.prems redisName_inj [of x y] by (auto simp: plainEntry_def list_all_iff)
  with Cons show ?case by (auto simp: plainEntry_def)
qed simp

lemma ConvertDbEntry_plain: "plainEntry e \<Longrightarrow> ConvertDbEntry e = map (\<lambda>x. (redisName x, redisText x)) e"
proof -
  assume e: "plainEntry e"
  have "ConvertDbEntry e = fold (\<lambda>x. gm_set (redisName x) (redisText x)) e []"
    using e by (auto simp: ConvertDbEntry_def plainEntry_def list_all_iff convertField_plain intro!: fold_cong)
  then show ?thesis using distinct_redisName [OF e] by (simp add: fold_gm_set_distinct)
qed

lemma makeJSON_redis_plain:
  "plainEntry e \<Longrightarrow> makeJSON_redis None None (map (\<lambda>x. (redisName x, redisText x)) e) [] = map (\<lambda>x. (fst x, msiOf (snd x))) e"
proof -
  assume e: "plainEntry e"
  have "fold (\<lambda>x. addField1 (redisName x, redisText x)) e [] = fold (\<lambda>x. gm_set (fst x) (msiOf (snd x))) e []"
    using e by (auto simp: plainEntry_def list_all_iff addField1_plain intro!: fold_cong)
  with e show ?thesis
    by (simp add: makeJSON_redis_def fold_map comp_def plainEntry_def fold_gm_set_distinct)
qed

lemma msiJson_msiOf: "plainField (k, v) \<Longrightarrow> msiJson (msiOf v) = v"
  by (cases v) (auto simp: plainField_def msiOf_def dest: strings_JStr)




section \<open>The calls of an incremental Set\<close>

text \<open>A bus that keeps a list of the calls it got, whatever it answers.\<close>

definition recording :: "'h bus \<Rightarrow> ('h \<times> dbusCall list) bus" where
  "recording bus call s = (case bus call (fst s) of (out, h) \<Rightarrow> (out, (h, snd s @ [call])))"

definition calls :: "('l, 's, 'h \<times> dbusCall list) mixedState \<Rightarrow> dbusCall list" where
  "calls st = snd (hs_host (mx_host st))"

definition moduleCall :: "string \<Rightarrow> string \<Rightarrow> int \<Rightarrow> string list \<Rightarrow> dbusCall" where
  "moduleCall modName method timeout args =
     \<lparr>dc_busName = busNamePrefix @ modName, dc_busPath = busPathPrefix @ modName,
      dc_intName = intNamePrefix @ modName @ method, dc_timeout = timeout, dc_args = args\<rparr>"

abbreviation createCall :: dbusCall where "createCall \<equiv> moduleCall ''gcu'' ''.create_checkpoint'' 60 [checkPoint]"
abbreviation deleteCall :: dbusCall where "deleteCall \<equiv> moduleCall ''gcu'' ''.delete_checkpoint'' 60 [checkPoint]"
abbreviation applyCall :: "string \<Rightarrow> dbusCall" where "applyCall patch \<equiv> moduleCall ''gcu'' ''.apply_patch_db'' 600 [patch]"
abbreviation saveCall :: dbusCall where "saveCall \<equiv> moduleCall ''config'' ''.save'' 60 [startupConfig]"

text \<open>The text of a patch whose operations are, in their order, some of those of the request.\<close>

definition patchOf :: "numText \<Rightarrow> (updateOp \<times> gpath option \<times> typedValue option) list \<Rightarrow> string \<Rightarrow> bool" where
  "patchOf nt ops patch \<longleftrightarrow>
     (\<exists>ps. ps \<noteq> [] \<and> subseq (map pt_op ps) (map (opText \<circ> fst) ops) \<and> patch = encodeGo (nt_json nt) (JArr (map patchJson ps)))"

definition bodyCalls ::
    "numText \<Rightarrow> string \<Rightarrow> (updateOp \<times> gpath option \<times> typedValue option) list \<Rightarrow> goerr option \<Rightarrow> dbusCall list \<Rightarrow> bool" where
  "bodyCalls nt origin ops r cs \<longleftrightarrow>
     cs = [] \<or> (\<exists>patch. patchOf nt ops patch \<and>
       (if origin = ''sonic-db'' then cs = [applyCall patch] \<and> r \<noteq> None \<or> cs = [applyCall patch, saveCall] else cs = [saveCall]))"

definition setCalls ::
    "numText \<Rightarrow> string \<Rightarrow> (updateOp \<times> gpath option \<times> typedValue option) list \<Rightarrow> goerr option \<Rightarrow> dbusCall list \<Rightarrow> bool" where
  "setCalls nt origin ops r cs \<longleftrightarrow>
     r \<noteq> None \<and> cs \<in> {[], [createCall]} \<or> (\<exists>body. cs = createCall # body @ [deleteCall] \<and> bodyCalls nt origin ops r body)"

lemma callModule_recording:
  "errOnly (callModule (recording bus) m f t args s) = (r, s') \<Longrightarrow> snd (hs_host s') = snd (hs_host s) @ [moduleCall m f t args]"
  by (auto simp: errOnly_def callModule_def DbusApi_def recording_def moduleCall_def count_def Let_def
      split: prod.splits sum.splits)

lemma method_recording:
  assumes "onHost (\<lambda>s. errOnly (callModule (recording bus) m f t args (count n s))) st = (r, st')"
  shows "calls st' = calls st @ [moduleCall m f t args] \<and> mx_client st' = mx_client st"
  using assms by (auto simp: onHost_def calls_def count_def split: prod.splits dest!: callModule_recording)

lemma methods_recording:
  "onHost (CreateCheckPoint (recording bus) checkPoint) st = (r, st') \<Longrightarrow> calls st' = calls st @ [createCall] \<and> mx_client st' = mx_client st"
  "onHost (DeleteCheckPoint (recording bus) checkPoint) st = (r, st') \<Longrightarrow> calls st' = calls st @ [deleteCall] \<and> mx_client st' = mx_client st"
  "onHost (ApplyPatchDb (recording bus) patch) st = (r, st') \<Longrightarrow> calls st' = calls st @ [applyCall patch] \<and> mx_client st' = mx_client st"
  "onHost (ConfigSave (recording bus) startupConfig) st = (r, st') \<Longrightarrow> calls st' = calls st @ [saveCall] \<and> mx_client st' = mx_client st"
  unfolding CreateCheckPoint_def DeleteCheckPoint_def ApplyPatchDb_def ConfigSave_def
  by (auto dest: method_recording)

lemma delete_recorded: "calls (snd (onHost (DeleteCheckPoint (recording bus) checkPoint) st)) = calls st @ [deleteCall]"
  using methods_recording(2) [of bus st] by (metis prod.collapse)

lemma onWorld_calls: "onWorld f st = (r, st') \<Longrightarrow> calls st' = calls st \<and> mx_client st' = mx_client st"
  by (auto simp: onWorld_def calls_def split: prod.splits)

lemma onDb_calls: "onDb f st = (r, st') \<Longrightarrow> calls st' = calls st \<and> mx_client st' = mx_client st"
  by (auto simp: onDb_def calls_def split: prod.splits)

lemma ConvertToJsonPatch_op: "ConvertToJsonPatch nt pre path t operation = Inr p \<Longrightarrow> pt_op p = operation"
  by (auto simp: ConvertToJsonPatch_def Let_def split: if_splits sum.splits)

lemma patchList_subseq:
  "patchList nt pre multiNs namespace ops d = Inr ps \<Longrightarrow> subseq (map pt_op ps) (map (opText \<circ> fst) ops)"
proof (induction nt pre multiNs namespace ops d arbitrary: ps rule: patchList.induct)
  case (2 nt pre multiNs namespace op path t us d)
  then show ?case
    by (auto simp: map_sum_def inNamespace_def ConvertToJsonPatch_op split: sum.splits prod.splits bool.splits)
qed simp

lemma applyPatch_calls:
  assumes "applyPatch (en\<lparr>me_bus := recording bus\<rparr>) patch st = (r, st')"
  shows "\<exists>cs. calls st' = calls st @ cs \<and>
    (cs = [] \<or> (if mc_origin (mx_client st) = ''sonic-db'' then cs = [applyCall patch] \<and> r \<noteq> None \<or> cs = [applyCall patch, saveCall]
               else cs = [saveCall]))"
  using assms
  by (auto simp: applyPatch_def split: prod.splits option.splits if_splits dest!: onWorld_calls methods_recording)

lemma incrementalBody_calls:
  assumes "incrementalBody (en\<lparr>me_bus := recording bus\<rparr>) multiNs namespace ops st = (r, st')"
  shows "\<exists>cs. calls st' = calls st @ cs \<and> bodyCalls (me_nums en) (mc_origin (mx_client st)) ops r cs"
proof (cases "st' = st")
  case True
  then show ?thesis by (simp add: bodyCalls_def)
next
  case False
  with assms obtain d p ps where ps: "patchList (me_nums en) (mc_prefix (mx_client st)) multiNs namespace ops d = Inr (p # ps)"
    and run: "applyPatch (en\<lparr>me_bus := recording bus\<rparr>) (encodeGo (nt_json (me_nums en)) (JArr (map patchJson (p # ps)))) st = (r, st')"
    by (auto simp: incrementalBody_def split: sum.splits list.splits)
  have "patchOf (me_nums en) ops (encodeGo (nt_json (me_nums en)) (JArr (map patchJson (p # ps))))"
    unfolding patchOf_def using patchList_subseq [OF ps] by blast
  with applyPatch_calls [OF run] show ?thesis
    unfolding bodyCalls_def by blast
qed


section \<open>The shape of a table path\<close>

definition wfTablePath :: "mixedClient \<Rightarrow> typedValue option \<Rightarrow> tablePath \<Rightarrow> bool" where
  "wfTablePath c v tp \<longleftrightarrow>
     tp_dbName tp = mc_target c \<and> tp_jsonField tp = [] \<and>
     tp_operation tp = (if v = None then opRemove else opAdd) \<and>
     tp_jsonValue tp = GetJsonIetfVal v \<and> tp_protoValue tp = (case GetProtoBytes v of None \<Rightarrow> [] | Some b \<Rightarrow> b) \<and>
     (keylessTable (tp_dbName tp) (tp_tableName tp) \<longrightarrow> tp_tableKey tp = [])"

lemma placePath_keeps:
  "placePath rd pieces tp = Inr tp' \<Longrightarrow>
     tp_dbName tp' = tp_dbName tp \<and> tp_tableName tp' = tp_tableName tp \<and> tp_jsonField tp' = tp_jsonField tp \<and>
     tp_operation tp' = tp_operation tp \<and> tp_jsonValue tp' = tp_jsonValue tp \<and> tp_protoValue tp' = tp_protoValue tp"
  by (auto simp: placePath_def Let_def split: list.splits if_splits option.splits)

lemma placePath_key:
  "placePath rd pieces tp = Inr tp' \<Longrightarrow> tp_tableKey tp = [] \<Longrightarrow> tp_tableKey tp' = (if length pieces > 2 then pieces ! 2 else [])"
  by (auto simp: placePath_def Let_def split: list.splits if_splits option.splits)

lemma stringSlice_keyless:
  assumes "length (stringSlice tgt elems) > 2" "keylessTable tgt (stringSlice tgt elems ! 1)"
  shows "stringSlice tgt elems ! 2 = []"
  using assms by (auto simp: stringSlice_def Let_def nth_append simp del: concat_eq_Nil_conv split: if_splits)

lemma withValue_keeps:
  "withValue v tp = Inr tp' \<Longrightarrow> tp_dbName tp' = tp_dbName tp \<and> tp_tableName tp' = tp_tableName tp \<and>
     tp_jsonField tp' = tp_jsonField tp \<and> tp_tableKey tp' = tp_tableKey tp"
  by (auto simp: withValue_def split: option.splits typedValue.splits)

lemma withValue_value:
  "withValue v tp = Inr tp' \<Longrightarrow> tp_operation tp = opRemove \<Longrightarrow> tp_jsonValue tp = [] \<Longrightarrow> tp_protoValue tp = [] \<Longrightarrow>
     tp_operation tp' = (if v = None then opRemove else opAdd) \<and> tp_jsonValue tp' = GetJsonIetfVal v \<and>
     tp_protoValue tp' = (case GetProtoBytes v of None \<Rightarrow> [] | Some b \<Rightarrow> b)"
  by (auto simp: withValue_def GetProtoBytes_def GetJsonIetfVal_def split: option.splits typedValue.splits)

lemma handleTableData_field:
  "tp_jsonField tp = [] \<Longrightarrow> tp_field tp \<noteq> [] \<Longrightarrow> \<exists>e. handleTableData en tp st = (Some e, st)"
  by (auto simp: handleTableData_def split: option.splits)

text \<open>C35. Every table path that the client makes of a gNMI path is well formed: it names the target's database, removes if and
  only if there is no value, holds the value of the request in the form it came in, and has no key for the tables of
  \<^verbatim>\<open>COUNTERS_DB\<close> that have none; one that names a field is refused by the writing operations before anything is written.\<close>

theorem getDbtablePath_wf:
  "case getDbtablePath en path v st of
     (Inl e, st') \<Rightarrow> True
   | (Inr tp, st') \<Rightarrow> wfTablePath (mx_client st) v tp \<and>
       (if tp_field tp = [] then True else \<exists>e. handleTableData en tp st' = (Some e, st'))"
proof (cases "getDbtablePath en path v st")
  case (Pair r st')
  show ?thesis
  proof (cases r)
    case (Inr tp)
    with Pair obtain elems rd tp0 tp1 where
      wv: "withValue v tp0 = Inr tp1" and pp: "placePath rd (stringSlice (mc_target (mx_client st)) elems) tp1 = Inr tp"
      and tp0: "tp_dbName tp0 = mc_target (mx_client st)" "tp_tableKey tp0 = []" "tp_jsonField tp0 = []" "tp_operation tp0 = opRemove"
        "tp_jsonValue tp0 = []" "tp_protoValue tp0 = []"
        "tp_tableName tp0 = (let s = stringSlice (mc_target (mx_client st)) elems in if length s > 1 then s ! 1 else [])"
      by (auto simp: getDbtablePath_def Let_def split: sum.splits option.splits prod.splits)
    note facts = placePath_keeps [OF pp] placePath_key [OF pp] withValue_keeps [OF wv] withValue_value [OF wv] tp0
    have "wfTablePath (mx_client st) v tp"
      using facts stringSlice_keyless [of "mc_target (mx_client st)" elems] by (auto simp: wfTablePath_def Let_def split: if_splits)
    moreover have "tp_field tp = [] \<or> (\<exists>e. handleTableData en tp st' = (Some e, st'))"
      using facts handleTableData_field [of tp en st'] by auto
    ultimately show ?thesis using Pair Inr by auto
  qed (simp add: Pair)
qed

end
