(* ===== verification/Mixed_Stream.thy ===== *)
theory Mixed_Stream
  imports Mixed_Db
begin

text \<open>
  The subscriptions of the client for the origin \<^verbatim>\<open>sonic-db\<close>, the second part of
  \<^verbatim>\<open>sonic_data_client/mixed_db_client.go\<close>: \<open>PollRun\<close>, the loops of \<open>dbFieldSubscribe\<close>, \<open>dbSingleTableKeySubscribe\<close> and
  \<open>dbTableKeySubscribe\<close>, and \<open>StreamRun\<close>, which starts them.

  A loop that waits for a channel takes the list of what it receives; the databases change between two receptions, so what
  is read then comes with each of them. What a loop puts on the queue of the subscription is its result, without the
  timestamps. The goroutines of \<open>StreamRun\<close> are the relation \<open>streamStep\<close>, which interleaves them.
\<close>

section \<open>The values on the queue\<close>

record spbValue =
  sv_Path :: "gpath option"
  sv_Val :: "typedValue option"
  sv_Delete :: "gpath option list"
  sv_SyncResponse :: bool
  sv_Fatal :: string

definition updateOf :: "gpath option \<Rightarrow> typedValue \<Rightarrow> spbValue" where
  "updateOf p v = \<lparr>sv_Path = p, sv_Val = Some v, sv_Delete = [], sv_SyncResponse = False, sv_Fatal = []\<rparr>"

definition deleteOf :: "gpath option \<Rightarrow> spbValue" where
  "deleteOf p = \<lparr>sv_Path = None, sv_Val = Some (StringVal []), sv_Delete = [p], sv_SyncResponse = False, sv_Fatal = []\<rparr>"

definition syncMsg :: spbValue where
  "syncMsg = \<lparr>sv_Path = None, sv_Val = None, sv_Delete = [], sv_SyncResponse = True, sv_Fatal = []\<rparr>"

definition putFatalMsg :: "string \<Rightarrow> spbValue" where
  "putFatalMsg msg = \<lparr>sv_Path = None, sv_Val = None, sv_Delete = [], sv_SyncResponse = False, sv_Fatal = msg\<rparr>"

section \<open>Poll\<close>

text \<open>One path of a poll: what is put on the queue, and what is remembered of it; an error ends the routine.\<close>

definition pollPath ::
    "('l, 's, 'h) mixedEnv \<Rightarrow> gpath option \<Rightarrow> (gpath option, bool) gomap \<Rightarrow> ('l, 's, 'h) mixedState \<Rightarrow>
     (goerr + spbValue list \<times> (gpath option, bool) gomap) \<times> ('l, 's, 'h) mixedState" where
  "pollPath en p prevUpdates st =
     (case getDbtablePath en p None st of
        (Inl e, st1) \<Rightarrow> (Inl e, st1)
      | (Inr tp, st1) \<Rightarrow>
          (case tableData2TypedValue en tp st1 of
             Inl e \<Rightarrow> Inl e
           | Inr None \<Rightarrow>
               Inr (if gm_get prevUpdates p = Some True then ([deleteOf p], gm_set p False prevUpdates) else ([], prevUpdates))
           | Inr (Some v) \<Rightarrow> Inr ([updateOf p v], gm_set p True prevUpdates), st1))"

fun pollPaths ::
    "('l, 's, 'h) mixedEnv \<Rightarrow> gpath option list \<Rightarrow> (gpath option, bool) gomap \<Rightarrow> ('l, 's, 'h) mixedState \<Rightarrow>
     spbValue list \<times> (goerr + (gpath option, bool) gomap) \<times> ('l, 's, 'h) mixedState" where
  "pollPaths en [] prev st = ([syncMsg], Inr prev, st)"
| "pollPaths en (p # ps) prev st =
     (case pollPath en p prev st of
        (Inl e, st1) \<Rightarrow> ([], Inl e, st1)
      | (Inr (vs, prev1), st1) \<Rightarrow>
          (case pollPaths en ps prev1 st1 of (ws, r) \<Rightarrow> (vs @ ws, r)))"

text \<open>One environment for each poll, until the channel is closed.\<close>

fun pollLoop ::
    "('l, 's, 'h) mixedEnv list \<Rightarrow> (gpath option, bool) gomap \<Rightarrow> ('l, 's, 'h) mixedState \<Rightarrow>
     spbValue list \<times> goerr option \<times> ('l, 's, 'h) mixedState" where
  "pollLoop [] prev st = ([], None, st)"
| "pollLoop (en # ens) prev st =
     (case pollPaths en (mc_paths (mx_client st)) prev st of
        (vs, Inl e, st1) \<Rightarrow> (vs, Some e, st1)
      | (vs, Inr prev1, st1) \<Rightarrow> (case pollLoop ens prev1 st1 of (ws, r) \<Rightarrow> (vs @ ws, r)))"

definition PollRun ::
    "('l, 's, 'h) mixedEnv list \<Rightarrow> ('l, 's, 'h) mixedState \<Rightarrow> spbValue list \<times> goerr option \<times> ('l, 's, 'h) mixedState" where
  "PollRun ens st = pollLoop ens [] st"

section \<open>One field\<close>

definition fieldKey :: "tablePath \<Rightarrow> string" where
  "fieldKey tp = (if tp_tableKey tp \<noteq> [] then tp_tableName tp @ tp_delimitor tp @ tp_tableKey tp else tp_tableName tp)"

definition readVal :: "tablePath \<Rightarrow> redisClient \<Rightarrow> string" where
  "readVal tp rd = (case rc_HGet rd (fieldKey tp) (tp_field tp) of Inl _ \<Rightarrow> [] | Inr v \<Rightarrow> v)"

text \<open>The loop: the database at each tick.\<close>

fun fieldLoop :: "tablePath \<Rightarrow> bool \<Rightarrow> string \<Rightarrow> redisClient list \<Rightarrow> string list" where
  "fieldLoop tp onChange val [] = []"
| "fieldLoop tp onChange val (rd # rds) =
     (let newVal = readVal tp rd
      in if \<not> onChange \<or> newVal \<noteq> val then newVal # fieldLoop tp onChange newVal rds else fieldLoop tp onChange val rds)"

definition dbFieldSubscribe ::
    "('l, 's, 'h) mixedEnv \<Rightarrow> gpath option \<Rightarrow> bool \<Rightarrow> redisClient list \<Rightarrow> ('l, 's, 'h) mixedState \<Rightarrow> goerr + spbValue list" where
  "dbFieldSubscribe en p onChange rds st =
     (case getDbtablePath en p None st of
        (Inl e, st1) \<Rightarrow> if isPanic (Some e) then Inl e else Inr [putFatalMsg (errText e)]
      | (Inr tp, st1) \<Rightarrow>
          (case redisFor en (tp_dbName tp) st1 of
             None \<Rightarrow> Inr [putFatalMsg (''RedisDbMap not exist:  '' @ mc_mapkey (mx_client st1) @ '':'' @ tp_dbName tp)]
           | Some rd \<Rightarrow>
               let val = readVal tp rd
               in Inr (map (\<lambda>v. updateOf p (StringVal v)) (val # fieldLoop tp onChange val rds))))"

section \<open>The keys of a table\<close>

text \<open>What a subscription to keyspace notifications can receive, and how the listening ends: an error that is not a timeout
  makes the listener wait for the stop signal; a message of another type is a failed type assertion.\<close>

datatype rsEvent = RsTimeout | RsError | RsMessage redisClient string string | RsOther | RsStop

datatype listenEnd = Listening | Stopped | Waiting | Fatal string | Crashed

text \<open>\<^verbatim>\<open>reflect.DeepEqual\<close> does not see the order of a map.\<close>

fun canon :: "msiVal \<Rightarrow> msiVal" where
  "canon (MMap m) = MMap (sort_key fst (map (\<lambda>(k, v). (k, canon v)) m))"
| "canon v = v"

definition canonMsi :: "msi \<Rightarrow> msi" where
  "canonMsi m = sort_key fst (map (\<lambda>(k, v). (k, canon v)) m)"

definition DeepEqual :: "msi \<Rightarrow> msi \<Rightarrow> bool" where
  "DeepEqual a b \<longleftrightarrow> canonMsi a = canonMsi b"

text \<open>The data of one message: \<open>Inr (None, prev)\<close> goes back to the loop.\<close>

definition readMessage ::
    "encoding \<Rightarrow> tablePath \<Rightarrow> nat \<Rightarrow> redisClient \<Rightarrow> string \<Rightarrow> string \<Rightarrow> msi \<Rightarrow> goerr + msi option \<times> msi" where
  "readMessage enc tp prefixLen rd channel payload prev =
     (let short = (tp_tableKey tp = [] \<and> length channel < prefixLen); key = drop prefixLen channel
      in if payload = ''del'' \<or> payload = ''hdel'' then
           if tp_tableKey tp \<noteq> [] then Inr (Some [], prev)
           else if short then Inr (None, prev)
           else Inr (Some (gm_set ''delete'' (MStr ''null_value'') [(key, MMap [])]), prev)
         else if payload = ''hset'' then
           if short then Inr (None, prev)
           else (case (if tp_tableKey tp \<noteq> [] then tableData2Msi rd enc tp False None []
                       else tableData2Msi rd enc (tp\<lparr>tp_tableKey := key\<rparr>) True None []) of
                   (Some e, _) \<Rightarrow> Inl e
                 | (None, newMsi) \<Rightarrow> if DeepEqual newMsi prev then Inr (None, prev) else Inr (Some newMsi, newMsi))
         else Inr (None, prev))"

fun dbSingleTableKeySubscribe :: "encoding \<Rightarrow> tablePath \<Rightarrow> nat \<Rightarrow> msi \<Rightarrow> rsEvent list \<Rightarrow> msi list \<times> listenEnd" where
  "dbSingleTableKeySubscribe enc tp prefixLen prev [] = ([], Listening)"
| "dbSingleTableKeySubscribe enc tp prefixLen prev (e # es) =
     (case e of
        RsStop \<Rightarrow> ([], Stopped)
      | RsTimeout \<Rightarrow> dbSingleTableKeySubscribe enc tp prefixLen prev es
      | RsError \<Rightarrow> ([], if RsStop \<in> set es then Stopped else Waiting)
      | RsOther \<Rightarrow> ([], Crashed)
      | RsMessage rd channel payload \<Rightarrow>
          (case readMessage enc tp prefixLen rd channel payload prev of
             Inl err \<Rightarrow> ([], if isPanic (Some err) then Crashed else Fatal (errText err))
           | Inr (Some (m # ms), prev1) \<Rightarrow>
               (case dbSingleTableKeySubscribe enc tp prefixLen prev1 es of (us, r) \<Rightarrow> ((m # ms) # us, r))
           | Inr (_, prev1) \<Rightarrow> dbSingleTableKeySubscribe enc tp prefixLen prev1 es))"

text \<open>\<^verbatim>\<open>sendMsiData\<close>: the value for the queue, and the map without its mark.\<close>

definition sendMsiData :: "encoding \<Rightarrow> gpath option \<Rightarrow> msi \<Rightarrow> goerr + spbValue" where
  "sendMsiData enc p m =
     map_sum id (\<lambda>v. (updateOf p v)\<lparr>sv_Delete := (if gm_get m ''delete'' = None then [] else [p])\<rparr>)
       (msi2TypedValue enc (gm_del ''delete'' m))"

text \<open>The events of the main loop: an update of a listener, a tick of the sample interval, the stop signal.\<close>

datatype tkEvent = TkUpdate msi | TkTick | TkStop

fun tableLoop :: "encoding \<Rightarrow> gpath option \<Rightarrow> bool \<Rightarrow> bool \<Rightarrow> msi \<Rightarrow> tkEvent list \<Rightarrow> goerr + spbValue list" where
  "tableLoop enc p onChange updateOnly msiAll [] = Inr []"
| "tableLoop enc p onChange updateOnly msiAll (TkStop # es) = Inr []"
| "tableLoop enc p onChange updateOnly msiAll (TkUpdate m # es) =
     (if onChange then
        (case sendMsiData enc p m of
           Inl e \<Rightarrow> if isPanic (Some e) then Inl e else Inr [putFatalMsg (errText e)]
         | Inr v \<Rightarrow> map_sum id (\<lambda>vs. v # vs) (tableLoop enc p onChange updateOnly msiAll es))
      else tableLoop enc p onChange updateOnly (fold (\<lambda>(k, v). gm_set k v) m msiAll) es)"
| "tableLoop enc p onChange updateOnly msiAll (TkTick # es) =
     (case sendMsiData enc p msiAll of
        Inl e \<Rightarrow> if isPanic (Some e) then Inl e else Inr [putFatalMsg (errText e)]
      | Inr v \<Rightarrow>
          map_sum id (\<lambda>vs. v # vs)
            (tableLoop enc p onChange updateOnly (if updateOnly then [] else gm_del ''delete'' msiAll) es))"

text \<open>The numbers of the databases in \<^verbatim>\<open>spb.Target_value\<close>; a name that is not there has number zero.\<close>

definition Target_value :: "string \<Rightarrow> nat" where
  "Target_value db =
     (case gm_get [(''APPL_DB'', 0), (''ASIC_DB'', 1), (''COUNTERS_DB'', 2), (''CONFIG_DB'', 4), (''PFC_WD_DB'', 5),
        (''FLEX_COUNTER_DB'', 5), (''STATE_DB'', 6), (''CHASSIS_STATE_DB'', 13), (''OTHERS'', 100)] db of
        Some n \<Rightarrow> n | None \<Rightarrow> 0)"

definition keyspacePattern :: "tablePath \<Rightarrow> string \<times> nat" where
  "keyspacePattern tp =
     (let pattern = ''__keyspace@'' @ FormatNat (Target_value (tp_dbName tp)) @ ''__:'' @ tp_tableName tp @
            (if keylessTable (tp_dbName tp) (tp_tableName tp) then [] else tp_delimitor tp)
      in if tp_tableKey tp \<noteq> [] then (pattern @ tp_tableKey tp, length (pattern @ tp_tableKey tp))
         else (pattern @ ''*'', length pattern))"

text \<open>\<open>psub\<close> is the reply to a subscription: its channel, or none when it does not come within a second.\<close>

definition dbTableKeySubscribe ::
    "('l, 's, 'h) mixedEnv \<Rightarrow> (string \<Rightarrow> string option) \<Rightarrow> gpath option \<Rightarrow> bool \<Rightarrow> bool \<Rightarrow> tkEvent list \<Rightarrow>
     ('l, 's, 'h) mixedState \<Rightarrow> goerr + spbValue list" where
  "dbTableKeySubscribe en psub p onChange updateOnly es st =
     (let fatal = (\<lambda>e. if isPanic (Some e) then Inl e else Inr [putFatalMsg (errText e)]); enc = mc_encoding (mx_client st)
      in case getDbtablePath en p None st of
           (Inl e, st1) \<Rightarrow> if isPanic (Some e) then Inl e else Inr [putFatalMsg (''Path error:  '' @ errText e)]
         | (Inr tp, st1) \<Rightarrow>
             (case redisFor en (tp_dbName tp) st1 of
                None \<Rightarrow> Inr [putFatalMsg (''RedisDbMap not exist:  '' @ mc_mapkey (mx_client st1) @ '':'' @ tp_dbName tp)]
              | Some rd \<Rightarrow>
                  let pattern = fst (keyspacePattern tp)
                  in if psub pattern \<noteq> Some pattern then Inr [putFatalMsg (''psubscribe to '' @ pattern @ '' failed'')]
                     else (case tableData2Msi rd enc tp False None [] of
                             (Some e, _) \<Rightarrow> fatal e
                           | (None, msiAll) \<Rightarrow>
                               (case sendMsiData enc p msiAll of
                                  Inl e \<Rightarrow> fatal e
                                | Inr v \<Rightarrow>
                                    map_sum id (\<lambda>vs. v # vs)
                                      (tableLoop enc p onChange updateOnly (if updateOnly then [] else gm_del ''delete'' msiAll) es)))))"

section \<open>Starting the subscriptions\<close>

datatype subscriptionMode = TARGET_DEFINED | ON_CHANGE | SAMPLE

record subscription =
  sb_path :: "gpath option"
  sb_mode :: subscriptionMode
  sb_sampleInterval :: "64 word"

definition MinSampleInterval :: int where
  "MinSampleInterval = 1000000000"

definition validateSampleInterval :: "subscription \<Rightarrow> goerr + int" where
  "validateSampleInterval s =
     (let requestedInterval = sint (sb_sampleInterval s)
      in if requestedInterval = 0 then Inr MinSampleInterval
         else if requestedInterval < MinSampleInterval then Inl (Plain ''invalid interval'')
         else Inr requestedInterval)"

datatype streamTask = OnChangeTask "gpath option" | SampleTask subscription bool

text \<open>What \<^verbatim>\<open>StreamRun\<close> starts for each subscription, or none for a mode that is not supported.\<close>

definition taskOf :: "bool \<Rightarrow> subscription \<Rightarrow> streamTask option" where
  "taskOf updatesOnly s =
     (case sb_mode s of
        SAMPLE \<Rightarrow> Some (SampleTask s updatesOnly)
      | ON_CHANGE \<Rightarrow> Some (OnChangeTask (sb_path s))
      | TARGET_DEFINED \<Rightarrow> None)"

definition streamTasks :: "gpath option list \<Rightarrow> subscription list \<Rightarrow> bool \<Rightarrow> streamTask option list" where
  "streamTasks paths subs updatesOnly =
     (if subs = [] then map (\<lambda>p. Some (OnChangeTask p)) paths else map (taskOf updatesOnly) subs)"

definition tryFatal :: "goerr \<Rightarrow> goerr + spbValue list" where
  "tryFatal e = (if isPanic (Some e) then Inl e else Inr [putFatalMsg (errText e)])"

definition streamOnChangeSubscription ::
    "('l, 's, 'h) mixedEnv \<Rightarrow> (string \<Rightarrow> string option) \<Rightarrow> gpath option \<Rightarrow> redisClient list \<Rightarrow> tkEvent list \<Rightarrow>
     ('l, 's, 'h) mixedState \<Rightarrow> goerr + spbValue list" where
  "streamOnChangeSubscription en psub p rds es st =
     (case getDbtablePath en p None st of
        (Inl e, st1) \<Rightarrow> if isPanic (Some e) then Inl e else Inr [putFatalMsg (''streamOnChangeSubscription error:  '' @ errText e)]
      | (Inr tp, st1) \<Rightarrow>
          if tp_field tp \<noteq> [] then dbFieldSubscribe en p True rds st1 else dbTableKeySubscribe en psub p True True es st1)"

definition streamSampleSubscription ::
    "('l, 's, 'h) mixedEnv \<Rightarrow> (string \<Rightarrow> string option) \<Rightarrow> subscription \<Rightarrow> bool \<Rightarrow> redisClient list \<Rightarrow> tkEvent list \<Rightarrow>
     ('l, 's, 'h) mixedState \<Rightarrow> goerr + spbValue list" where
  "streamSampleSubscription en psub s updateOnly rds es st =
     (case validateSampleInterval s of
        Inl e \<Rightarrow> tryFatal e
      | Inr _ \<Rightarrow>
          (case getDbtablePath en (sb_path s) None st of
             (Inl e, st1) \<Rightarrow> tryFatal e
           | (Inr tp, st1) \<Rightarrow>
               if tp_field tp \<noteq> [] then dbFieldSubscribe en (sb_path s) False rds st1
               else dbTableKeySubscribe en psub (sb_path s) False updateOnly es st1))"

text \<open>What a started subscription puts on the queue in the course of a session.\<close>

fun runTask ::
    "('l, 's, 'h) mixedEnv \<Rightarrow> (string \<Rightarrow> string option) \<Rightarrow> streamTask \<Rightarrow> redisClient list \<Rightarrow> tkEvent list \<Rightarrow>
     ('l, 's, 'h) mixedState \<Rightarrow> goerr + spbValue list" where
  "runTask en psub (OnChangeTask p) rds es st = streamOnChangeSubscription en psub p rds es st"
| "runTask en psub (SampleTask s updateOnly) rds es st = streamSampleSubscription en psub s updateOnly rds es st"

section \<open>What a subscription to a field sends\<close>

lemma fieldLoop_on_change: "val # fieldLoop tp True val rds = remdups_adj (val # map (readVal tp) rds)"
  by (induction rds arbitrary: val) (auto simp: Let_def)

lemma fieldLoop_sample: "fieldLoop tp False val rds = map (readVal tp) rds"
  by (induction rds arbitrary: val) (auto simp: Let_def)

lemma dbFieldSubscribe_sends:
  assumes "getDbtablePath en p None st = (Inr tp, st1)" "redisFor en (tp_dbName tp) st1 = Some rd"
  shows "dbFieldSubscribe en p onChange rds st = Inr (map (\<lambda>v. updateOf p (StringVal v))
           ((if onChange then remdups_adj else id) (map (readVal tp) (rd # rds))))"
  using assms by (cases onChange) (simp_all add: dbFieldSubscribe_def Let_def fieldLoop_on_change [symmetric] fieldLoop_sample)

section \<open>What a listener reports\<close>

definition readable :: "encoding \<Rightarrow> tablePath \<Rightarrow> rsEvent \<Rightarrow> bool" where
  "readable enc tp e \<longleftrightarrow>
     (case e of
        RsTimeout \<Rightarrow> True
      | RsMessage rd channel payload \<Rightarrow> payload = ''hset'' \<longrightarrow> fst (tableData2Msi rd enc tp False None []) = None
      | _ \<Rightarrow> False)"

text \<open>The entry as it is in the database at each message that tells of a change.\<close>

definition readings :: "encoding \<Rightarrow> tablePath \<Rightarrow> rsEvent list \<Rightarrow> msi list" where
  "readings enc tp es = concat (map (\<lambda>e.
     case e of
       RsMessage rd channel payload \<Rightarrow> if payload = ''hset'' then [snd (tableData2Msi rd enc tp False None [])] else []
     | _ \<Rightarrow> []) es)"

lemma canonMsi_Nil [simp]: "canonMsi m = [] \<longleftrightarrow> m = []"
  by (auto simp: canonMsi_def dest: arg_cong [where f = length])

lemma tl_remdups_adj:
  "tl (remdups_adj (x # y # zs)) = (if x = y then tl (remdups_adj (y # zs)) else y # tl (remdups_adj (y # zs)))"
  by (cases zs) auto

lemma filter_remdups_adj:
  "filter P (remdups_adj (x # xs)) = (if P x then [x] else []) @ filter P (tl (remdups_adj (x # xs)))"
  by (cases "remdups_adj (x # xs)") (auto dest: arg_cong [where f = hd])

lemma readings_Cons:
  "readings enc tp (e # es) =
     (case e of
        RsMessage rd channel payload \<Rightarrow> if payload = ''hset'' then [snd (tableData2Msi rd enc tp False None [])] else []
      | _ \<Rightarrow> []) @ readings enc tp es"
  by (simp add: readings_def)

lemma readMessage_hset:
  "tp_tableKey tp \<noteq> [] \<Longrightarrow> tableData2Msi rd enc tp False None [] = (None, m) \<Longrightarrow>
     readMessage enc tp prefixLen rd channel ''hset'' prev =
       (if canonMsi m = canonMsi prev then Inr (None, prev) else Inr (Some m, m))"
  by (simp add: readMessage_def DeepEqual_def Let_def)

lemma readMessage_silent:
  "tp_tableKey tp \<noteq> [] \<Longrightarrow> payload \<noteq> ''hset'' \<Longrightarrow>
     readMessage enc tp prefixLen rd channel payload prev \<in> {Inr (None, prev), Inr (Some [], prev)}"
  by (simp add: readMessage_def Let_def)

text \<open>C36. A listener for one entry reports the entry when it is not what it was at the last message: over any run of messages
  whose data can be read, it goes on listening, and its reports are the readings without those equal to the one before,
  empty ones left out. Messages about the deletion of the entry or of a field play no part in it: they are not reported,
  and an entry that is deleted and written again with the same fields is not reported either.\<close>

theorem listener_reports:
  assumes "tp_tableKey tp \<noteq> []" and "list_all (readable enc tp) es"
  shows "case dbSingleTableKeySubscribe enc tp prefixLen prev es of
     (us, r) \<Rightarrow> r = Listening \<and>
       map canonMsi us = filter (\<lambda>m. m \<noteq> []) (tl (remdups_adj (map canonMsi (prev # readings enc tp es))))"
  using assms(2)
proof (induction es arbitrary: prev)
  case Nil
  then show ?case by (simp add: readings_def)
next
  case (Cons e es)
  show ?case
  proof (cases e)
    case RsTimeout
    with Cons show ?thesis by (simp add: readings_Cons)
  next
    case (RsMessage rd channel payload)
    show ?thesis
    proof (cases "payload = ''hset''")
      case True
      with RsMessage Cons.prems obtain m where m: "tableData2Msi rd enc tp False None [] = (None, m)"
        by (cases "tableData2Msi rd enc tp False None []") (auto simp: readable_def)
      show ?thesis
        using Cons.IH [of prev] Cons.IH [of m] Cons.prems RsMessage True m
          readMessage_hset [OF assms(1) m, of prefixLen channel prev]
        by (cases m) (auto simp: readings_Cons tl_remdups_adj filter_remdups_adj simp del: remdups_adj.simps split: prod.splits)
    next
      case False
      with Cons.IH [of prev] Cons.prems RsMessage readMessage_silent [OF assms(1) False, of enc prefixLen rd channel prev]
      show ?thesis by (auto simp: readings_Cons simp del: remdups_adj.simps)
    qed
  qed (use Cons in \<open>auto simp: readable_def\<close>)
qed

text \<open>A database with one entry, and a path that names it.\<close>

definition oneEntry :: "(string, string) gomap \<Rightarrow> redisClient" where
  "oneEntry fv = \<lparr>rc_Keys = (\<lambda>_. Inr []), rc_Exists = (\<lambda>_. Inr 1), rc_HGetAll = (\<lambda>_. Inr fv), rc_HGet = (\<lambda>_ _. Inl (Plain []))\<rparr>"

definition portPath :: tablePath where
  "portPath = \<lparr>tp_dbNamespace = [], tp_dbName = ''STATE_DB'', tp_tableName = ''PORT'', tp_tableKey = ''e0'', tp_delimitor = ''|'',
     tp_field = [], tp_jsonValue = [], tp_protoValue = [], tp_index = -1, tp_operation = opRemove, tp_jsonField = []\<rparr>"

definition upDownUp :: "rsEvent list" where
  "upDownUp = [RsMessage (oneEntry [(''a'', ''1'')]) [] ''hset'', RsTimeout, RsMessage (oneEntry []) [] ''del'',
     RsMessage (oneEntry [(''a'', ''1'')]) [] ''hset'', RsMessage (oneEntry [(''a'', ''2'')]) [] ''hset'']"

theorem listener_reports_witness:
  "map canonMsi (fst (dbSingleTableKeySubscribe JSON_IETF portPath 0 [] upDownUp)) = [[(''a'', MStr ''1'')], [(''a'', MStr ''2'')]]"
proof -
  have "filter (\<lambda>m. m \<noteq> []) (tl (remdups_adj (map canonMsi ([] # readings JSON_IETF portPath upDownUp)))) =
      [[(''a'', MStr ''1'')], [(''a'', MStr ''2'')]]"
    by code_simp
  moreover have "tp_tableKey portPath \<noteq> []" "list_all (readable JSON_IETF portPath) upDownUp" by code_simp+
  ultimately show ?thesis
    using listener_reports [where tp = portPath and enc = JSON_IETF and es = upDownUp and prefixLen = 0 and prev = "[]"] by (auto split: prod.splits)
qed

section \<open>The sync response\<close>

text \<open>The routines of a stream. The main routine starts the subscriptions one after another, waits until each has counted
  down \<^verbatim>\<open>c.synced\<close>, and puts the sync response on the queue; a started one puts its first value, counts down and then goes
  on. The values on the queue carry the number of the routine that put them, none for the main routine.\<close>

datatype mainState = Starting "streamTask option list" | Syncing | Synced | Returned

datatype taskState = Fresh streamTask | FirstSent streamTask | Running streamTask

record streamSys =
  ss_main :: mainState
  ss_tasks :: "taskState list"
  ss_queue :: "(nat option \<times> spbValue) list"

definition syncedCount :: "streamSys \<Rightarrow> nat" where
  "syncedCount s = length (filter (\<lambda>t. case t of Running _ \<Rightarrow> False | _ \<Rightarrow> True) (ss_tasks s))"

definition put :: "nat option \<Rightarrow> spbValue \<Rightarrow> streamSys \<Rightarrow> streamSys" where
  "put who v s = s\<lparr>ss_queue := ss_queue s @ [(who, v)]\<rparr>"

inductive streamStep :: "('l, 's, 'h) mixedEnv \<Rightarrow> (string \<Rightarrow> string option) \<Rightarrow> streamSys \<Rightarrow> streamSys \<Rightarrow> bool"
  for en :: "('l, 's, 'h) mixedEnv" and psub :: "string \<Rightarrow> string option" where
  start: "ss_main s = Starting (Some t # ts) \<Longrightarrow>
     streamStep en psub s (s\<lparr>ss_main := Starting ts, ss_tasks := ss_tasks s @ [Fresh t]\<rparr>)"
| unsupported: "ss_main s = Starting (None # ts) \<Longrightarrow>
     streamStep en psub s (put None (putFatalMsg ''unsupported subscription mode'') (s\<lparr>ss_main := Returned\<rparr>))"
| started: "ss_main s = Starting [] \<Longrightarrow> streamStep en psub s (s\<lparr>ss_main := Syncing\<rparr>)"
| sync: "ss_main s = Syncing \<Longrightarrow> syncedCount s = 0 \<Longrightarrow> streamStep en psub s (put None syncMsg (s\<lparr>ss_main := Synced\<rparr>))"
| stop: "ss_main s = Synced \<Longrightarrow> streamStep en psub s (s\<lparr>ss_main := Returned\<rparr>)"
| first: "i < length (ss_tasks s) \<Longrightarrow> ss_tasks s ! i = Fresh t \<Longrightarrow> runTask en psub t [] [] st = Inr [v] \<Longrightarrow>
     streamStep en psub s (put (Some i) v (s\<lparr>ss_tasks := (ss_tasks s)[i := FirstSent t]\<rparr>))"
| count: "i < length (ss_tasks s) \<Longrightarrow> ss_tasks s ! i = FirstSent t \<Longrightarrow>
     streamStep en psub s (s\<lparr>ss_tasks := (ss_tasks s)[i := Running t]\<rparr>)"
| more: "i < length (ss_tasks s) \<Longrightarrow> ss_tasks s ! i = Running t \<Longrightarrow> runTask en psub t rds es st = Inr (v0 # vs) \<Longrightarrow> v \<in> set vs \<Longrightarrow>
     streamStep en psub s (put (Some i) v s)"

inductive_cases streamStepE: "streamStep en psub s s'"

definition streamInit :: "gpath option list \<Rightarrow> subscription list \<Rightarrow> bool \<Rightarrow> streamSys" where
  "streamInit paths subs updatesOnly = \<lparr>ss_main = Starting (streamTasks paths subs updatesOnly), ss_tasks = [], ss_queue = []\<rparr>"

lemma sendMsiData_not_sync: "sendMsiData enc p m = Inr v \<Longrightarrow> \<not> sv_SyncResponse v"
  by (cases "msi2TypedValue enc (gm_del ''delete'' m)") (auto simp: sendMsiData_def updateOf_def)

lemma map_sum_Cons: "map_sum id (\<lambda>vs. v # vs) r = Inr ws \<longleftrightarrow> (\<exists>vs. r = Inr vs \<and> ws = v # vs)"
  by (cases r) auto

lemma putFatalMsg_not_sync [simp]: "\<not> sv_SyncResponse (putFatalMsg msg)"
  by (simp add: putFatalMsg_def)

lemma loops_not_sync:
  "tableLoop enc p onChange updateOnly m es = Inr vs \<Longrightarrow> v \<in> set vs \<Longrightarrow> \<not> sv_SyncResponse v"
proof (induction es arbitrary: m vs)
  case (Cons e es)
  then show ?case
    by (cases e) (auto simp: map_sum_Cons split: if_splits sum.splits dest!: sendMsiData_not_sync)
qed simp

lemma dbFieldSubscribe_not_sync: "dbFieldSubscribe en p onChange rds st = Inr vs \<Longrightarrow> v \<in> set vs \<Longrightarrow> \<not> sv_SyncResponse v"
  by (auto simp: dbFieldSubscribe_def updateOf_def Let_def split: prod.splits sum.splits option.splits if_splits)

lemma dbTableKeySubscribe_not_sync:
  "dbTableKeySubscribe en psub p onChange updateOnly es st = Inr vs \<Longrightarrow> v \<in> set vs \<Longrightarrow> \<not> sv_SyncResponse v"
  by (auto simp: dbTableKeySubscribe_def map_sum_Cons Let_def
      split: prod.splits sum.splits option.splits if_splits dest: loops_not_sync sendMsiData_not_sync)

lemma runTask_not_sync: "runTask en psub t rds es st = Inr vs \<Longrightarrow> v \<in> set vs \<Longrightarrow> \<not> sv_SyncResponse v"
  by (cases t)
     (auto simp: streamOnChangeSubscription_def streamSampleSubscription_def tryFatal_def
      split: prod.splits sum.splits if_splits dest: dbFieldSubscribe_not_sync dbTableKeySubscribe_not_sync)

text \<open>The invariant: a routine that has counted down has put a value before, there is no sync response before the main
  routine got there, and the values in front of one are from all routines.\<close>

definition isSync :: "nat option \<times> spbValue \<Rightarrow> bool" where
  "isSync x \<longleftrightarrow> sv_SyncResponse (snd x)"

definition spoke :: "nat \<Rightarrow> (nat option \<times> spbValue) list \<Rightarrow> bool" where
  "spoke i q \<longleftrightarrow> Some i \<in> fst ` set q"

definition sentFirst :: "streamSys \<Rightarrow> bool" where
  "sentFirst s \<longleftrightarrow> (\<forall>i < length (ss_tasks s). (\<forall>t. ss_tasks s ! i \<noteq> Fresh t) \<longrightarrow> spoke i (ss_queue s))"

definition syncLast :: "nat \<Rightarrow> (nat option \<times> spbValue) list \<Rightarrow> bool" where
  "syncLast n q \<longleftrightarrow> (\<forall>before x after. q = before @ x # after \<longrightarrow> isSync x \<longrightarrow>
     (\<forall>i < n. spoke i before) \<and> filter isSync before = [])"

definition mainInv :: "streamSys \<Rightarrow> bool" where
  "mainInv s \<longleftrightarrow>
     (case ss_main s of
        Starting _ \<Rightarrow> filter isSync (ss_queue s) = []
      | Syncing \<Rightarrow> filter isSync (ss_queue s) = []
      | _ \<Rightarrow> syncLast (length (ss_tasks s)) (ss_queue s))"

lemma spoke_append [simp]: "spoke i (q @ r) \<longleftrightarrow> spoke i q \<or> spoke i r"
  by (auto simp: spoke_def)

lemma spoke_own [simp]: "spoke i [(Some i, v)]"
  by (simp add: spoke_def)

lemma syncLastD: "syncLast n (p @ x # r) \<Longrightarrow> isSync x \<Longrightarrow> (\<forall>i < n. spoke i p) \<and> filter isSync p = []"
  unfolding syncLast_def by blast

lemma syncLast_quiet: "\<not> isSync x \<Longrightarrow> syncLast n (q @ [x]) \<longleftrightarrow> syncLast n q"
  by (fastforce simp: syncLast_def append_eq_append_conv2 append_eq_Cons_conv Cons_eq_append_conv)

lemma syncLast_none: "filter isSync q = [] \<Longrightarrow> syncLast n q"
  by (auto simp: syncLast_def)

lemma syncLast_sync: "filter isSync q = [] \<Longrightarrow> \<forall>i < n. spoke i q \<Longrightarrow> syncLast n (q @ [x])"
  by (auto simp: syncLast_def append_eq_append_conv2 append_eq_Cons_conv Cons_eq_append_conv)

lemma syncedCount_zero: "syncedCount s = 0 \<Longrightarrow> i < length (ss_tasks s) \<Longrightarrow> \<exists>t. ss_tasks s ! i = Running t"
proof -
  assume "syncedCount s = 0" "i < length (ss_tasks s)"
  then have "\<not> (case ss_tasks s ! i of Running _ \<Rightarrow> False | _ \<Rightarrow> True)"
    by (simp add: syncedCount_def filter_empty_conv)
  then show ?thesis by (simp split: taskState.splits)
qed

lemma sentFirst_step: "streamStep en psub s s' \<Longrightarrow> sentFirst s \<Longrightarrow> sentFirst s'"
  by (erule streamStepE) (auto simp: sentFirst_def put_def nth_append nth_list_update less_Suc_eq)

lemma mainInv_quiet:
  "mainInv s \<Longrightarrow> \<not> isSync (who, v) \<Longrightarrow> length ts = length (ss_tasks s) \<Longrightarrow> mainInv (put who v (s\<lparr>ss_tasks := ts\<rparr>))"
  by (auto simp: mainInv_def put_def syncLast_quiet split: mainState.splits)

lemma mainInv_step:
  assumes "streamStep en psub s s'" "sentFirst s" "mainInv s"
  shows "mainInv s'"
  using assms(1)
proof cases
  case (sync)
  then have "\<forall>i < length (ss_tasks s). spoke i (ss_queue s)"
    using assms(2) syncedCount_zero [of s] by (metis sentFirst_def taskState.distinct(3))
  with sync assms(3) show ?thesis by (simp add: mainInv_def put_def syncLast_sync)
next
  case (count i t)
  with assms(3) show ?thesis by (simp add: mainInv_def cong: mainState.case_cong)
next
  case (first i t st v)
  then show ?thesis using assms(3) runTask_not_sync [OF first(4), of v] by (auto simp: isSync_def intro!: mainInv_quiet)
next
  case (more i t rds es st v0 vs v)
  then show ?thesis using assms(3) runTask_not_sync [OF more(4), of v] mainInv_quiet [of s "Some i" v "ss_tasks s"]
    by (auto simp: isSync_def)
qed (use assms(3) in \<open>auto simp: mainInv_def put_def isSync_def putFatalMsg_def intro!: syncLast_none\<close>)

lemma streamInit_inv: "sentFirst (streamInit paths subs updatesOnly) \<and> mainInv (streamInit paths subs updatesOnly)"
  by (simp add: sentFirst_def mainInv_def streamInit_def)

lemma stream_reachable_inv:
  "(streamStep en psub)\<^sup>*\<^sup>* (streamInit paths subs updatesOnly) s \<Longrightarrow> sentFirst s \<and> mainInv s"
  by (induction rule: rtranclp_induct) (auto simp: streamInit_inv intro: sentFirst_step mainInv_step)

text \<open>C37. The sync response comes after the initial data: in every interleaving of the routines of a stream, each subscription
  that was started has put its first value on the queue before a sync response, and there is at most one.\<close>

theorem sync_after_data:
  assumes "(streamStep en psub)\<^sup>*\<^sup>* (streamInit paths subs updatesOnly) s" and "ss_queue s = before @ x # after" and "isSync x"
  shows "(\<forall>i < length (ss_tasks s). spoke i before) \<and> filter isSync (before @ after) = []"
proof -
  note stream_reachable_inv [OF assms(1)]
  with assms(2,3) have last: "syncLast (length (ss_tasks s)) (before @ x # after)"
    by (auto simp: mainInv_def split: mainState.splits)
  have "\<not> isSync y" if "after = a1 @ y # a2" for y a1 a2
    using syncLastD [of _ "before @ x # a1" y a2] last assms(3) that by auto
  then have "filter isSync after = []" by (metis filter_empty_conv in_set_conv_decomp)
  with syncLastD [OF last assms(3)] show ?thesis by simp
qed

text \<open>A stream with one subscription, whose interval is too short.\<close>

definition tooShort :: subscription where
  "tooShort = \<lparr>sb_path = None, sb_mode = SAMPLE, sb_sampleInterval = 1\<rparr>"

definition refusedStream :: streamSys where
  "refusedStream = \<lparr>ss_main = Synced, ss_tasks = [Running (SampleTask tooShort False)],
     ss_queue = [(Some 0, putFatalMsg ''invalid interval''), (None, syncMsg)]\<rparr>"

lemma tooShort_refused: "runTask en psub (SampleTask tooShort False) [] [] st = Inr [putFatalMsg ''invalid interval'']"
  by (simp add: streamSampleSubscription_def validateSampleInterval_def tooShort_def MinSampleInterval_def tryFatal_def isPanic_def)

lemma refusedStream_reachable:
  fixes en :: "(unit, unit, unit) mixedEnv"
  shows "(streamStep en psub)\<^sup>*\<^sup>* (streamInit [] [tooShort] False) refusedStream"
proof -
  let ?t = "SampleTask tooShort False" and ?v = "putFatalMsg ''invalid interval''"
  let ?s = "\<lambda>m t q. \<lparr>ss_main = m, ss_tasks = t, ss_queue = q\<rparr>"
  have h0: "streamInit [] [tooShort] False = ?s (Starting [Some ?t]) [] []"
    by (simp add: streamInit_def streamTasks_def taskOf_def tooShort_def)
  have h1: "streamStep en psub (?s (Starting [Some ?t]) [] []) (?s (Starting []) [Fresh ?t] [])"
    using streamStep.start [of "?s (Starting [Some ?t]) [] []" ?t "[]" en psub] by simp
  have h2: "streamStep en psub (?s (Starting []) [Fresh ?t] []) (?s Syncing [Fresh ?t] [])"
    using streamStep.started [of "?s (Starting []) [Fresh ?t] []" en psub] by simp
  have h3: "streamStep en psub (?s Syncing [Fresh ?t] []) (?s Syncing [FirstSent ?t] [(Some 0, ?v)])"
    using streamStep.first [of 0 "?s Syncing [Fresh ?t] []" ?t en psub undefined ?v, OF _ _ tooShort_refused] by (simp add: put_def)
  have h4: "streamStep en psub (?s Syncing [FirstSent ?t] [(Some 0, ?v)]) (?s Syncing [Running ?t] [(Some 0, ?v)])"
    using streamStep.count [of 0 "?s Syncing [FirstSent ?t] [(Some 0, ?v)]" ?t en psub] by simp
  have h5: "streamStep en psub (?s Syncing [Running ?t] [(Some 0, ?v)]) refusedStream"
    using streamStep.sync [of "?s Syncing [Running ?t] [(Some 0, ?v)]" en psub]
    by (simp add: syncedCount_def put_def refusedStream_def)
  show ?thesis
    unfolding h0
    by (rule converse_rtranclp_into_rtranclp [OF h1 converse_rtranclp_into_rtranclp [OF h2 converse_rtranclp_into_rtranclp
          [OF h3 converse_rtranclp_into_rtranclp [OF h4 r_into_rtranclp [of "streamStep en psub", OF h5]]]]])
qed

theorem sync_after_data_witness:
  "\<forall>(en :: (unit, unit, unit) mixedEnv) psub. (streamStep en psub)\<^sup>*\<^sup>* (streamInit [] [tooShort] False) refusedStream \<and>
     spoke 0 [(Some 0, putFatalMsg ''invalid interval'')]"
proof (intro allI conjI)
  fix en :: "(unit, unit, unit) mixedEnv" and psub :: "string \<Rightarrow> string option"
  show reach: "(streamStep en psub)\<^sup>*\<^sup>* (streamInit [] [tooShort] False) refusedStream"
    by (rule refusedStream_reachable)
  show "spoke 0 [(Some 0, putFatalMsg ''invalid interval'')]"
    using sync_after_data [OF reach, of "[(Some 0, putFatalMsg ''invalid interval'')]" "(None, syncMsg)" "[]"]
    by (simp add: refusedStream_def isSync_def syncMsg_def)
qed

end
