(* ===== verification/Gnoi_File.thy ===== *)
theory Gnoi_File
  imports Server_Auth Os_World
begin

text \<open>
  The gNOI file service: \<^verbatim>\<open>pkg/gnoi/file/file.go\<close> with the downloads and hashes it uses (\<^verbatim>\<open>internal/download/download.go\<close>,
  \<^verbatim>\<open>internal/hash/hash.go\<close>) and the handlers of \<^verbatim>\<open>gnmi_server/gnoi_file.go\<close> that authenticate its requests.

  The files are those of \<open>Os_World\<close>, where each system call may fail. The hash function, the web server and the other end of
  a stream are arguments. Permissions and times of files are not part of the world: the mode of a request is checked but
  not stored, and Stat takes the metadata from an argument.
\<close>

section \<open>Opened files\<close>

text \<open>\<^verbatim>\<open>os.OpenFile\<close> with the flags create, write only and truncate, which is also \<^verbatim>\<open>os.Create\<close>. It follows links and gives
  the file that is written to.\<close>

definition osOpenTrunc :: "fname \<Rightarrow> world \<Rightarrow> (goerr + fname) \<times> world" where
  "osOpenTrunc n w =
     (if fate w \<noteq> None then (Inl ErrIO, step w)
      else (case target w n of
              None \<Rightarrow> (Inl ErrInvalid, step w)
            | Some m \<Rightarrow>
                if node w m = Some Directory then (Inl ErrInvalid, step w)
                else (Inr m, putNode m (Regular []) (step w))))"

definition fileAppend :: "fname \<Rightarrow> string \<Rightarrow> world \<Rightarrow> goerr option \<times> world" where
  "fileAppend m d w =
     (case node w m of
        Some (Regular c) \<Rightarrow>
          (case fate w of
             None \<Rightarrow> (None, putNode m (Regular (c @ d)) (step w))
           | Some k \<Rightarrow> (Some ErrIO, putNode m (Regular (c @ take k d)) (step w)))
      | _ \<Rightarrow> (if fate w = None then None else Some ErrIO, step w))"

definition isPermission :: "goerr \<Rightarrow> bool" where
  "isPermission e \<longleftrightarrow> Contains (ToLower (errText e)) ''permission denied''"

section \<open>Paths\<close>

definition hostRoot :: string where
  "hostRoot = ''/mnt/host''"

definition maxFileSize :: int where
  "maxFileSize = 4 * 1024 * 1024 * 1024"

definition translatePathForContainer :: "string \<Rightarrow> world \<Rightarrow> string \<times> world" where
  "translatePathForContainer path w =
     (case osStat (Name hostRoot) w of
        (Inr _, w1) \<Rightarrow> (hostRoot @ Clean path, w1)
      | (Inl _, w1) \<Rightarrow> (Clean path, w1))"

definition allowedPrefixes :: "string list" where
  "allowedPrefixes = [''/tmp/'', ''/var/tmp/'', ''/host/'']"

definition validatePath :: "string \<Rightarrow> goerr option" where
  "validatePath path =
     (let cleanPath = Clean path
      in if \<not> HasPrefix cleanPath ''/'' then Some (Plain (''path must be absolute, got: '' @ path))
         else if Contains cleanPath ''..'' then Some (Plain (''path traversal not allowed: '' @ path))
         else if list_ex (HasPrefix cleanPath) allowedPrefixes then None
         else Some (Plain (''path must be under /tmp/, /var/tmp/, or /host/, got: '' @ cleanPath)))"

section \<open>Put\<close>

datatype putRequest = POpen string nat | PContents string | PHash string | PNone

text \<open>What a stream delivers; a list that is used up is the end of the stream.\<close>

datatype 'm recv = Got 'm | RecvEOF | RecvCanceled goerr | RecvFailed goerr

fun putLoop :: "(string \<Rightarrow> string) \<Rightarrow> fname \<Rightarrow> string \<Rightarrow> putRequest recv list \<Rightarrow> world \<Rightarrow> goerr option \<times> world" where
  "putLoop md5 f hashed [] w = (Some (Status InvalidArgument ''unexpected end of stream before hash''), w)"
| "putLoop md5 f hashed (RecvEOF # es) w = (Some (Status InvalidArgument ''unexpected end of stream before hash''), w)"
| "putLoop md5 f hashed (RecvCanceled e # es) w = (Some (Status Canceled (''stream canceled: '' @ errText e)), w)"
| "putLoop md5 f hashed (RecvFailed e # es) w = (Some (Status Internal (''failed to receive chunk: '' @ errText e)), w)"
| "putLoop md5 f hashed (Got (PContents c) # es) w =
     (case fileAppend f c w of
        (Some e, w1) \<Rightarrow> (Some (Status Internal (''failed to write chunk: '' @ errText e)), w1)
      | (None, w1) \<Rightarrow> putLoop md5 f (hashed @ c) es w1)"
| "putLoop md5 f hashed (Got (PHash h) # es) w =
     (if md5 hashed \<noteq> h then (Some (Status DataLoss ''hash mismatch: file corrupted during transfer''), w) else (None, w))"
| "putLoop md5 f hashed (Got (POpen p m) # es) w = (Some (Status InvalidArgument ''message must contain contents or hash''), w)"
| "putLoop md5 f hashed (Got PNone # es) w = (Some (Status InvalidArgument ''message must contain contents or hash''), w)"

text \<open>The deferred function: it removes the temporary file if there still is one.\<close>

definition putCleanup :: "string \<Rightarrow> world \<Rightarrow> world" where
  "putCleanup tempPath w =
     (case osStat (Name tempPath) (snd (fileClose w)) of
        (Inl _, w1) \<Rightarrow> w1
      | (Inr _, w1) \<Rightarrow> snd (osRemove (Name tempPath) w1))"

text \<open>The steps after the hash was verified. \<open>sendErr\<close> is the result of sending the response.\<close>

definition putFinish :: "string \<Rightarrow> string \<Rightarrow> goerr option \<Rightarrow> world \<Rightarrow> goerr option \<times> world" where
  "putFinish tempPath translatedPath sendErr w =
     (case fileClose w of
        (Some e, w1) \<Rightarrow> (Some (Status Internal (''failed to close temp file: '' @ errText e)), w1)
      | (None, w1) \<Rightarrow>
          (case osChmod (Name tempPath) w1 of
             (Some e, w2) \<Rightarrow> (Some (Status Internal (''failed to set permissions: '' @ errText e)), w2)
           | (None, w2) \<Rightarrow>
               (case osRename (Name tempPath) (Name translatedPath) w2 of
                  (Some e, w3) \<Rightarrow> (Some (Status Internal (''failed to rename file: '' @ errText e)), w3)
                | (None, w3) \<Rightarrow> (sendErr, w3))))"

definition putTo :: "(string \<Rightarrow> string) \<Rightarrow> string \<Rightarrow> putRequest recv list \<Rightarrow> goerr option \<Rightarrow> world \<Rightarrow> goerr option \<times> world" where
  "putTo md5 translatedPath es sendErr w =
     (let tempPath = translatedPath @ ''.tmp''
      in case osMkdirAll (DirPath tempPath) w of
           (Some e, w1) \<Rightarrow> (Some (Status Internal (''failed to create parent dir: '' @ errText e)), w1)
         | (None, w1) \<Rightarrow>
             (case osOpenTrunc (Name tempPath) w1 of
                (Inl e, w2) \<Rightarrow> (Some (Status Internal (''failed to create temp file: '' @ errText e)), w2)
              | (Inr f, w2) \<Rightarrow>
                  (case putLoop md5 f [] es w2 of
                     (Some e, w3) \<Rightarrow> (Some e, putCleanup tempPath w3)
                   | (None, w3) \<Rightarrow>
                       (case putFinish tempPath translatedPath sendErr w3 of (r, w4) \<Rightarrow> (r, putCleanup tempPath w4)))))"

definition HandlePut :: "(string \<Rightarrow> string) \<Rightarrow> putRequest recv list \<Rightarrow> goerr option \<Rightarrow> world \<Rightarrow> goerr option \<times> world" where
  "HandlePut md5 stream sendErr w =
     (case stream of
        Got (POpen remotePath permissions) # es \<Rightarrow>
          if remotePath = [] then (Some (Status InvalidArgument ''remote_file cannot be empty''), w)
          else (case validatePath remotePath of
                  Some e \<Rightarrow> (Some (Status InvalidArgument (''invalid remote_file: '' @ errText e)), w)
                | None \<Rightarrow>
                    (case translatePathForContainer remotePath w of
                       (translatedPath, w1) \<Rightarrow> putTo md5 translatedPath es sendErr w1))
      | Got _ # es \<Rightarrow> (Some (Status InvalidArgument ''first message must be Open''), w)
      | _ \<Rightarrow> (Some (Status Internal ''failed to receive first message''), w))"

section \<open>Get\<close>

datatype getResponse = GContents string | GHash string

text \<open>The stream of a Get: whether its context has ended before the n-th message, and the result of sending that message.\<close>

record getStream =
  gs_ctxErr :: "nat \<Rightarrow> goerr option"
  gs_sendErr :: "nat \<Rightarrow> goerr option"

definition chunkSize :: nat where
  "chunkSize = 65536"

function getLoop ::
    "(string \<Rightarrow> string) \<Rightarrow> getStream \<Rightarrow> nat \<Rightarrow> string \<Rightarrow> string \<Rightarrow> world \<Rightarrow> getResponse list \<times> goerr option \<times> world" where
  "getLoop md5 gs k hashed rest w =
     (case gs_ctxErr gs k of
        Some e \<Rightarrow> ([], Some e, w)
      | None \<Rightarrow>
          if fate w \<noteq> None then ([], Some (Status Internal ''failed to read''), step w)
          else if rest = [] then
            (case gs_sendErr gs k of
               Some e \<Rightarrow> ([], Some (Status Internal (''failed to send hash: '' @ errText e)), step w)
             | None \<Rightarrow> ([GHash (md5 hashed)], None, step w))
          else
            (case gs_sendErr gs k of
               Some e \<Rightarrow> ([], Some (Status Internal (''failed to send chunk: '' @ errText e)), step w)
             | None \<Rightarrow>
                 (case getLoop md5 gs (Suc k) (hashed @ take chunkSize rest) (drop chunkSize rest) (step w) of
                    (rs, r) \<Rightarrow> (GContents (take chunkSize rest) # rs, r))))"
  by pat_completeness auto
termination
  by (relation "measure (\<lambda>(md5, gs, k, hashed, rest, w). length rest)") (auto simp: chunkSize_def)

declare getLoop.simps [simp del]

definition containerInternal :: "string \<Rightarrow> bool" where
  "containerInternal p \<longleftrightarrow> p = ''/mnt/host'' \<or> HasPrefix p ''/mnt/host/''"

definition statFailure :: "string \<Rightarrow> goerr \<Rightarrow> goerr" where
  "statFailure p e =
     (if e = ErrNotExist then Status NotFound (''not found: '' @ p)
      else if isPermission e then Status PermissionDenied (''permission denied: '' @ p)
      else Status Internal (''failed to stat '' @ p))"

definition HandleGet :: "(string \<Rightarrow> string) \<Rightarrow> string option \<Rightarrow> getStream \<Rightarrow> world \<Rightarrow> getResponse list \<times> goerr option \<times> world" where
  "HandleGet md5 req gs w =
     (case req of
        None \<Rightarrow> ([], Some (Status InvalidArgument ''request cannot be nil''), w)
      | Some remoteFile \<Rightarrow>
          if remoteFile = [] then ([], Some (Status InvalidArgument ''remote_file cannot be empty''), w)
          else if \<not> HasPrefix remoteFile ''/'' then ([], Some (Status InvalidArgument ''remote_file must be absolute''), w)
          else if containerInternal (Clean remoteFile) then ([], Some (Status InvalidArgument ''remote_file must be host-visible''), w)
          else
            (case translatePathForContainer (Clean remoteFile) w of
               (p, w1) \<Rightarrow>
                 (case osStat (Name p) w1 of
                    (Inl e, w2) \<Rightarrow> ([], Some (statFailure remoteFile e), w2)
                  | (Inr Directory, w2) \<Rightarrow> ([], Some (Status FailedPrecondition ''remote_file is a directory''), w2)
                  | (Inr (Symlink _), w2) \<Rightarrow> ([], Some (Status FailedPrecondition ''remote_file is not a regular file''), w2)
                  | (Inr (Regular c), w2) \<Rightarrow>
                      if int (length c) > maxFileSize then ([], Some (Status FailedPrecondition ''file exceeds maximum size''), w2)
                      else (case osOpen (Name p) w2 of
                              (Inl e, w3) \<Rightarrow>
                                ([], Some (if isPermission e then Status PermissionDenied ''permission denied opening''
                                           else Status Internal ''failed to open''), w3)
                            | (Inr content, w3) \<Rightarrow> getLoop md5 gs 0 [] content w3))))"

section \<open>Remove and Stat\<close>

definition HandleFileRemove :: "string option \<Rightarrow> world \<Rightarrow> goerr option \<times> world" where
  "HandleFileRemove req w =
     (case req of
        None \<Rightarrow> (Some (Status InvalidArgument ''Invalid nil request.''), w)
      | Some remoteFile \<Rightarrow>
          if remoteFile = [] then (Some (Status InvalidArgument ''Invalid request: remote_file field is empty.''), w)
          else if validatePath remoteFile \<noteq> None
          then (Some (Status PermissionDenied ''only files in /tmp/ or /var/tmp/ can be removed''), w)
          else
            (case translatePathForContainer remoteFile w of
               (p, w1) \<Rightarrow>
                 (case osRemove (Name p) w1 of
                    (None, w2) \<Rightarrow> (None, w2)
                  | (Some e, w2) \<Rightarrow>
                      (Some (Status (if e = ErrNotExist \<or> Contains (ToLower (errText e)) ''no such file'' then NotFound
                                     else if isPermission e then PermissionDenied else Internal) (errText e)), w2))))"

record statInfo =
  si_Path :: string
  si_LastModified :: "64 word"
  si_Permissions :: nat
  si_Size :: nat
  si_Umask :: nat

definition defaultUmask :: nat where
  "defaultUmask = 18"

text \<open>\<open>strconv.FormatUint(p, 8)\<close> read in base ten.\<close>

fun octalAsDecimal :: "nat \<Rightarrow> nat" where
  "octalAsDecimal n = (if n < 8 then n else 10 * octalAsDecimal (n div 8) + n mod 8)"

declare octalAsDecimal.simps [simp del]

text \<open>\<open>meta\<close> gives the permission bits and the time of a file.\<close>

definition statInfoFromFileInfo :: "string \<Rightarrow> nat \<times> 64 word \<Rightarrow> inode \<Rightarrow> statInfo" where
  "statInfoFromFileInfo reportPath m i =
     \<lparr>si_Path = reportPath, si_LastModified = snd m, si_Permissions = octalAsDecimal (fst m mod 512),
      si_Size = (case i of Directory \<Rightarrow> 0 | Regular c \<Rightarrow> length c | Symlink t \<Rightarrow> length t), si_Umask = defaultUmask\<rparr>"

fun statEntries :: "(fname \<Rightarrow> nat \<times> 64 word) \<Rightarrow> string \<Rightarrow> string \<Rightarrow> string list \<Rightarrow> world \<Rightarrow> statInfo list \<times> world" where
  "statEntries meta cleanPath dir [] w = ([], w)"
| "statEntries meta cleanPath dir (e # es) w =
     (case osLstat (Name (dir @ ''/'' @ e)) w of
        (Inl _, w1) \<Rightarrow> statEntries meta cleanPath dir es w1
      | (Inr i, w1) \<Rightarrow>
          (case statEntries meta cleanPath dir es w1 of
             (ss, w2) \<Rightarrow> (statInfoFromFileInfo (JoinPath [cleanPath, e]) (meta (Name (dir @ ''/'' @ e))) i # ss, w2)))"

definition HandleStat :: "(fname \<Rightarrow> nat \<times> 64 word) \<Rightarrow> string option \<Rightarrow> world \<Rightarrow> (goerr + statInfo list) \<times> world" where
  "HandleStat meta req w =
     (case req of
        None \<Rightarrow> (Inl (Status InvalidArgument ''request cannot be nil''), w)
      | Some reqPath \<Rightarrow>
          if reqPath = [] then (Inl (Status InvalidArgument ''path cannot be empty''), w)
          else if \<not> HasPrefix reqPath ''/'' then (Inl (Status InvalidArgument ''path must be absolute''), w)
          else if containerInternal (Clean reqPath) then (Inl (Status InvalidArgument ''path must be host-visible''), w)
          else
            (case translatePathForContainer (Clean reqPath) w of
               (p, w1) \<Rightarrow>
                 (case osStat (Name p) w1 of
                    (Inl e, w2) \<Rightarrow> (Inl (statFailure reqPath e), w2)
                  | (Inr Directory, w2) \<Rightarrow>
                      (case osReadDir p w2 of
                         (Inl e, w3) \<Rightarrow> (Inl (statFailure reqPath e), w3)
                       | (Inr es, w3) \<Rightarrow> (case statEntries meta (Clean reqPath) p es w3 of (ss, w4) \<Rightarrow> (Inr ss, w4)))
                  | (Inr i, w2) \<Rightarrow> (Inr [statInfoFromFileInfo (Clean reqPath) (meta (Name p)) i], w2))))"

section \<open>Transfers\<close>

text \<open>The answer of a web server: its status, the declared length, and what the reads of its body give.\<close>

record httpResponse =
  hr_StatusCode :: int
  hr_ContentLength :: int
  hr_body :: "string list"
  hr_end :: "goerr option"

type_synonym http = "string \<Rightarrow> goerr + httpResponse"

text \<open>\<^verbatim>\<open>io.LimitReader\<close>: the reads that are left, and how they end, \<^term>\<open>None\<close> for the end of the data.\<close>

fun limitReader :: "int \<Rightarrow> string list \<Rightarrow> goerr option \<Rightarrow> string list \<times> goerr option" where
  "limitReader n [] e = ([], if n \<le> 0 then None else e)"
| "limitReader n (c # cs) e =
     (if n \<le> 0 then ([], None)
      else if int (length c) \<ge> n then ([take (nat n) c], None)
      else (case limitReader (n - int (length c)) cs e of (ds, e1) \<Rightarrow> (c # ds, e1)))"

definition httpGet :: "http \<Rightarrow> string \<Rightarrow> int \<Rightarrow> goerr + httpResponse" where
  "httpGet http url maxSize =
     (case http url of
        Inl e \<Rightarrow> Inl (Plain (''HTTP request failed: '' @ errText e))
      | Inr resp \<Rightarrow>
          if hr_StatusCode resp < 200 \<or> hr_StatusCode resp \<ge> 300 then Inl (Plain (''HTTP error '' @ FormatInt (hr_StatusCode resp)))
          else if maxSize > 0 \<and> hr_ContentLength resp > maxSize then Inl (Plain ''file size exceeds maximum allowed size'')
          else Inr resp)"

text \<open>\<^verbatim>\<open>io.Copy\<close> to a file: the error and the number of bytes written.\<close>

fun copyBody :: "fname \<Rightarrow> string list \<Rightarrow> goerr option \<Rightarrow> int \<Rightarrow> world \<Rightarrow> (goerr option \<times> int) \<times> world" where
  "copyBody f [] e written w = ((e, written), w)"
| "copyBody f (c # cs) e written w =
     (case fileAppend f c w of
        (Some e1, w1) \<Rightarrow> ((Some e1, written), w1)
      | (None, w1) \<Rightarrow> copyBody f cs e (written + int (length c)) w1)"

definition DownloadHTTP :: "http \<Rightarrow> string \<Rightarrow> string \<Rightarrow> int \<Rightarrow> world \<Rightarrow> goerr option \<times> world" where
  "DownloadHTTP http url localPath maxSize w =
     (case osMkdirAll (DirPath localPath) w of
        (Some e, w1) \<Rightarrow> (Some (Plain (''failed to create output directory: '' @ errText e)), w1)
      | (None, w1) \<Rightarrow>
          (case httpGet http url maxSize of
             Inl e \<Rightarrow> (Some e, w1)
           | Inr resp \<Rightarrow>
               (case osOpenTrunc (Name localPath) w1 of
                  (Inl e, w2) \<Rightarrow> (Some (Plain (''failed to create output file: '' @ errText e)), w2)
                | (Inr f, w2) \<Rightarrow>
                    (case (if maxSize > 0 then limitReader (maxSize + 1) (hr_body resp) (hr_end resp) else (hr_body resp, hr_end resp)) of
                       (cs, e) \<Rightarrow>
                         (case copyBody f cs e 0 w2 of
                            ((Some e1, n), w3) \<Rightarrow>
                              (Some (Plain (''failed to write file: '' @ errText e1)), snd (fileClose (snd (osRemove (Name localPath) w3))))
                          | ((None, n), w3) \<Rightarrow>
                              if maxSize > 0 \<and> n > maxSize
                              then (Some (Plain ''downloaded file size exceeds maximum allowed size''),
                                    snd (fileClose (snd (osRemove (Name localPath) w3))))
                              else (None, snd (fileClose w3)))))))"

definition CalculateMD5 :: "(string \<Rightarrow> string) \<Rightarrow> string \<Rightarrow> world \<Rightarrow> (goerr + string) \<times> world" where
  "CalculateMD5 md5 filePath w =
     (case osOpen (Name filePath) w of
        (Inl e, w1) \<Rightarrow> (Inl (Plain (''failed to open file: '' @ errText e)), w1)
      | (Inr c, w1) \<Rightarrow> (Inr (md5 c), snd (fileClose w1)))"

datatype protocol = PROTO_UNKNOWN | SFTP | HTTP | HTTPS | SCP

record transferRequest =
  tr_remoteDownload :: "(protocol \<times> string) option"
  tr_localPath :: string

definition handleTransferToRemoteLocal ::
    "(string \<Rightarrow> string) \<Rightarrow> http \<Rightarrow> transferRequest option \<Rightarrow> world \<Rightarrow> (goerr + string) \<times> world" where
  "handleTransferToRemoteLocal md5 http req0 w =
     (case req0 of
        None \<Rightarrow> (Inl (Status InvalidArgument ''request cannot be nil''), w)
      | Some req \<Rightarrow>
          (case tr_remoteDownload req of
             None \<Rightarrow> (Inl (Status InvalidArgument ''remote_download cannot be nil''), w)
           | Some (protocol, url) \<Rightarrow>
               if tr_localPath req = [] then (Inl (Status InvalidArgument ''local_path cannot be empty''), w)
               else (case validatePath (tr_localPath req) of
                       Some e \<Rightarrow> (Inl (Status InvalidArgument (''invalid local_path: '' @ errText e)), w)
                     | None \<Rightarrow>
                         if protocol \<noteq> HTTP then (Inl (Status Unimplemented ''only HTTP protocol is supported''), w)
                         else if url = [] then (Inl (Status InvalidArgument ''remote download path (URL) cannot be empty''), w)
                         else
                           (case translatePathForContainer (tr_localPath req) w of
                              (p, w1) \<Rightarrow>
                                (case DownloadHTTP http url p maxFileSize w1 of
                                   (Some e, w2) \<Rightarrow> (Inl (Status Internal (''download failed: '' @ errText e)), w2)
                                 | (None, w2) \<Rightarrow>
                                     (case CalculateMD5 md5 p w2 of
                                        (Inl e, w3) \<Rightarrow>
                                          (Inl (Status Internal (''hash calculation failed: '' @ errText e)), snd (osRemove (Name p) w3))
                                      | (Inr h, w3) \<Rightarrow> (Inr h, w3)))))))"

text \<open>The reads of \<^verbatim>\<open>DownloadHTTPStreaming\<close>: each with what it read, and how the data end after it if they do. One read may go
  beyond the limit: its data are delivered together with the error.\<close>

datatype readEnd = EndOfFile | ReadError goerr

fun limitedReads :: "int \<Rightarrow> int \<Rightarrow> string list \<Rightarrow> goerr option \<Rightarrow> (string \<times> readEnd option) list" where
  "limitedReads maxSize rd [] e = [([], Some (case e of None \<Rightarrow> EndOfFile | Some e1 \<Rightarrow> ReadError e1))]"
| "limitedReads maxSize rd (c # cs) e =
     (if maxSize > 0 \<and> rd + int (length c) > maxSize
      then [(c, Some (ReadError (Plain ''downloaded file size exceeds maximum allowed size'')))]
      else (c, None) # limitedReads maxSize (rd + int (length c)) cs e)"

definition DownloadHTTPStreaming :: "http \<Rightarrow> string \<Rightarrow> int \<Rightarrow> goerr + (string \<times> readEnd option) list" where
  "DownloadHTTPStreaming http url maxSize =
     (case httpGet http url maxSize of
        Inl e \<Rightarrow> Inl e
      | Inr resp \<Rightarrow>
          Inr (case (if maxSize > 0 then limitReader (maxSize + 1) (hr_body resp) (hr_end resp) else (hr_body resp, hr_end resp)) of
                 (cs, e) \<Rightarrow> limitedReads maxSize 0 cs e))"

text \<open>The other end of the stream to a DPU: the connection, the result of the n-th send, whether the time is up before the
  n-th read, and the answer to the messages sent.\<close>

record dpu =
  dp_conn :: "string \<Rightarrow> goerr option"
  dp_open :: "goerr option"
  dp_sendErr :: "nat \<Rightarrow> goerr option"
  dp_timeout :: "nat \<Rightarrow> bool"
  dp_answer :: "putRequest list \<Rightarrow> goerr option"

fun dpuLoop :: "dpu \<Rightarrow> nat \<Rightarrow> (string \<times> readEnd option) list \<Rightarrow> string \<Rightarrow> putRequest list \<Rightarrow> (goerr + string) \<times> putRequest list" where
  "dpuLoop d k [] hashed sent = (Inr hashed, sent)"
| "dpuLoop d k ((c, r) # rs) hashed sent =
     (if dp_timeout d k then (Inl (Status DeadlineExceeded ''streaming operation timed out''), sent)
      else if c \<noteq> [] \<and> dp_sendErr d (length sent) \<noteq> None then (Inl (Status Internal ''failed to send content chunk''), sent)
      else
        let sent1 = (if c = [] then sent else sent @ [PContents c])
        in case r of
             Some EndOfFile \<Rightarrow> (Inr (hashed @ c), sent1)
           | Some (ReadError e) \<Rightarrow> (Inl (Status Internal (''failed to read from HTTP stream: '' @ errText e)), sent1)
           | None \<Rightarrow> dpuLoop d (Suc k) rs (hashed @ c) sent1)"

definition streamToDpu ::
    "(string \<Rightarrow> string) \<Rightarrow> dpu \<Rightarrow> string \<Rightarrow> (string \<times> readEnd option) list \<Rightarrow> (goerr + string) \<times> putRequest list" where
  "streamToDpu md5 d localPath reads =
     (if dp_open d \<noteq> None then (Inl (Status Internal ''failed to create Put client''), [])
      else if dp_sendErr d 0 \<noteq> None then (Inl (Status Internal ''failed to send open request''), [])
      else (case dpuLoop d 0 reads [] [POpen localPath 420] of
              (Inl e, sent) \<Rightarrow> (Inl e, sent)
            | (Inr content, sent) \<Rightarrow>
                if dp_sendErr d (length sent) \<noteq> None then (Inl (Status Internal ''failed to send hash''), sent)
                else let sent1 = sent @ [PHash (md5 content)]
                     in (case dp_answer d sent1 of
                           Some e \<Rightarrow> (Inl (Status Internal (''failed to complete Put to DPU: '' @ errText e)), sent1)
                         | None \<Rightarrow> (Inr (md5 content), sent1))))"

definition HandleTransferToRemoteForDPUStreaming ::
    "(string \<Rightarrow> string) \<Rightarrow> http \<Rightarrow> dpu \<Rightarrow> transferRequest option \<Rightarrow> string \<Rightarrow> (goerr + string) \<times> putRequest list" where
  "HandleTransferToRemoteForDPUStreaming md5 http d req0 dpuIndex =
     (case req0 of
        None \<Rightarrow> (Inl (Status InvalidArgument ''request cannot be nil''), [])
      | Some req \<Rightarrow>
          if dpuIndex = [] then (Inl (Status InvalidArgument ''dpuIndex cannot be empty''), [])
          else
            (case tr_remoteDownload req of
               None \<Rightarrow> (Inl (Status InvalidArgument ''remote_download cannot be nil''), [])
             | Some (protocol, url) \<Rightarrow>
                 if tr_localPath req = [] then (Inl (Status InvalidArgument ''local_path cannot be empty''), [])
                 else if protocol \<noteq> HTTP then (Inl (Status Unimplemented ''only HTTP protocol is supported''), [])
                 else if url = [] then (Inl (Status InvalidArgument ''remote download path (URL) cannot be empty''), [])
                 else
                   (case DownloadHTTPStreaming http url maxFileSize of
                      Inl e \<Rightarrow> (Inl (Status Internal (''failed to create HTTP stream: '' @ errText e)), [])
                    | Inr reads \<Rightarrow>
                        (case dp_conn d dpuIndex of
                           Some e \<Rightarrow> (Inl (Status Internal (''failed to get DPU connection: '' @ errText e)), [])
                         | None \<Rightarrow> streamToDpu md5 d (tr_localPath req) reads))))"

text \<open>The first value of a metadata key.\<close>

definition mdFirst :: "ctx \<Rightarrow> string \<Rightarrow> string" where
  "mdFirst cx key =
     (case cx_md cx of
        None \<Rightarrow> []
      | Some md \<Rightarrow> (case gm_get md key of Some (v # _) \<Rightarrow> v | _ \<Rightarrow> []))"

definition HandleTransferToRemote ::
    "(string \<Rightarrow> string) \<Rightarrow> http \<Rightarrow> dpu \<Rightarrow> ctx \<Rightarrow> transferRequest option \<Rightarrow> world \<Rightarrow> (goerr + string) \<times> putRequest list \<times> world" where
  "HandleTransferToRemote md5 http d cx req w =
     (let targetType = mdFirst cx ''x-sonic-ss-target-type''; targetIndex = mdFirst cx ''x-sonic-ss-target-index''
      in if targetType = ''dpu'' \<and> targetIndex \<noteq> [] then
           (case HandleTransferToRemoteForDPUStreaming md5 http d req targetIndex of (r, sent) \<Rightarrow> (r, sent, w))
         else (case handleTransferToRemoteLocal md5 http req w of (r, w1) \<Rightarrow> (r, [], w1)))"

section \<open>The handlers of the server\<close>

text \<open>Every handler authenticates the peer for reading, the writing ones too.\<close>

definition authenticated ::
    "authConfig \<Rightarrow> authn_env \<Rightarrow> ctx \<Rightarrow> crlState \<Rightarrow> (goerr \<Rightarrow> 'a) \<Rightarrow> 'a \<Rightarrow> 'a \<times> crlState" where
  "authenticated config en cx st refused answer =
     (case authenticate config en cx ''gnoi'' False st of
        ((_, Some e), st1) \<Rightarrow> (refused e, st1)
      | ((_, None), st1) \<Rightarrow> (answer, st1))"

definition FilePut ::
    "(string \<Rightarrow> string) \<Rightarrow> authConfig \<Rightarrow> authn_env \<Rightarrow> ctx \<Rightarrow> crlState \<Rightarrow> putRequest recv list \<Rightarrow> goerr option \<Rightarrow> world \<Rightarrow>
     (goerr option \<times> world) \<times> crlState" where
  "FilePut md5 config en cx st stream sendErr w =
     authenticated config en cx st (\<lambda>e. (Some e, w)) (HandlePut md5 stream sendErr w)"

definition FileGet ::
    "(string \<Rightarrow> string) \<Rightarrow> authConfig \<Rightarrow> authn_env \<Rightarrow> ctx \<Rightarrow> crlState \<Rightarrow> string option \<Rightarrow> getStream \<Rightarrow> world \<Rightarrow>
     (getResponse list \<times> goerr option \<times> world) \<times> crlState" where
  "FileGet md5 config en cx st req gs w = authenticated config en cx st (\<lambda>e. ([], Some e, w)) (HandleGet md5 req gs w)"

definition FileStat ::
    "(fname \<Rightarrow> nat \<times> 64 word) \<Rightarrow> authConfig \<Rightarrow> authn_env \<Rightarrow> ctx \<Rightarrow> crlState \<Rightarrow> string option \<Rightarrow> world \<Rightarrow>
     ((goerr + statInfo list) \<times> world) \<times> crlState" where
  "FileStat meta config en cx st req w = authenticated config en cx st (\<lambda>e. (Inl e, w)) (HandleStat meta req w)"

definition FileRemove ::
    "authConfig \<Rightarrow> authn_env \<Rightarrow> ctx \<Rightarrow> crlState \<Rightarrow> string option \<Rightarrow> world \<Rightarrow> (goerr option \<times> world) \<times> crlState" where
  "FileRemove config en cx st req w =
     (if req = None then ((Some (Status InvalidArgument ''Invalid nil request.''), w), st)
      else authenticated config en cx st (\<lambda>e. (Some e, w)) (HandleFileRemove req w))"

definition FileTransferToRemote ::
    "(string \<Rightarrow> string) \<Rightarrow> http \<Rightarrow> dpu \<Rightarrow> authConfig \<Rightarrow> authn_env \<Rightarrow> ctx \<Rightarrow> crlState \<Rightarrow> transferRequest option \<Rightarrow> world \<Rightarrow>
     ((goerr + string) \<times> putRequest list \<times> world) \<times> crlState" where
  "FileTransferToRemote md5 http d config en cx st req w =
     authenticated config en cx st (\<lambda>e. (Inl e, [], w)) (HandleTransferToRemote md5 http d cx req w)"

section \<open>Cleaned paths\<close>

definition plainParts :: "string list \<Rightarrow> bool" where
  "plainParts ps \<longleftrightarrow> list_all (\<lambda>p. p \<noteq> [] \<and> CHR ''/'' \<notin> set p) ps"

lemma split_char_parts: "list_all (\<lambda>p. d \<notin> set p) (split_char d s)"
  by (induction s) (auto split: list.splits)

text \<open>What holds of the elements that are pushed holds of those that are left.\<close>

lemma cleanParts_all:
  assumes "\<And>p. p \<in> set ps \<Longrightarrow> p \<noteq> [] \<Longrightarrow> p \<noteq> ''.'' \<Longrightarrow> p \<noteq> ''..'' \<Longrightarrow> P p" and "\<not> r \<Longrightarrow> P ''..''"
  shows "list_all P stack \<Longrightarrow> list_all P (cleanParts r stack ps)"
  using assms(1)
proof (induction ps arbitrary: stack)
  case (Cons p ps)
  have IH: "list_all P st \<Longrightarrow> list_all P (cleanParts r st ps)" for st
    by (rule Cons.IH) (auto intro: Cons.prems(2))
  consider "p = [] \<or> p = ''.''" | "p = ''..''" | "p \<noteq> []" "p \<noteq> ''.''" "p \<noteq> ''..''" by blast
  then show ?case
  proof cases
    case 2
    then show ?thesis
      using Cons.prems(1) assms(2) IH by (cases stack; cases r; cases "hd stack = ''..''") simp_all
  next
    case 3
    then have "P p" using Cons.prems(2) by simp
    with 3 Cons.prems(1) IH show ?thesis by simp
  qed (use Cons.prems(1) IH in simp)
qed simp

lemma cleanParts_plain: "list_all (\<lambda>p. CHR ''/'' \<notin> set p) ps \<Longrightarrow> plainParts (cleanParts r [] ps)"
  unfolding plainParts_def by (rule cleanParts_all) (simp_all add: list_all_iff)

lemma cleanParts_rooted: "list_all (\<lambda>p. p \<noteq> ''..'' \<and> p \<noteq> ''.'') (cleanParts True [] ps)"
  by (rule cleanParts_all) simp_all

lemma cleanParts_id:
  "plainParts ps \<Longrightarrow> list_all (\<lambda>p. p \<noteq> ''..'' \<and> p \<noteq> ''.'') ps \<Longrightarrow> cleanParts r stack ps = rev stack @ ps"
  by (induction ps arbitrary: stack) (simp_all add: plainParts_def)

lemma plain_ends: "p \<noteq> [] \<Longrightarrow> d \<notin> set p \<Longrightarrow> hd p \<noteq> d" "p \<noteq> [] \<Longrightarrow> d \<notin> set p \<Longrightarrow> last p \<noteq> d"
  using hd_in_set [of p] last_in_set [of p] by metis+

lemma join_last: "ps \<noteq> [] \<Longrightarrow> plainParts ps \<Longrightarrow> join ''/'' ps \<noteq> [] \<and> last (join ''/'' ps) \<noteq> CHR ''/''"
  by (induction "''/''" ps rule: join.induct) (simp_all add: plainParts_def plain_ends)

lemma join_head: "ps \<noteq> [] \<Longrightarrow> plainParts ps \<Longrightarrow> hd (join ''/'' ps) \<noteq> CHR ''/''"
  by (induction "''/''" ps rule: join.induct) (simp_all add: plainParts_def plain_ends)

lemma HasPrefix_slash: "HasPrefix s ''/'' \<longleftrightarrow> s \<noteq> [] \<and> hd s = CHR ''/''"
  by (cases s) (auto simp: HasPrefix_def)

text \<open>An absolute path is clean if its elements are.\<close>

definition partsOf :: "string \<Rightarrow> string list" where
  "partsOf q = cleanParts (HasPrefix q ''/'') [] (split_char (CHR ''/'') q)"

lemma partsOf_plain: "plainParts (partsOf q)"
  by (simp add: partsOf_def cleanParts_plain split_char_parts)

lemma Clean_rooted: "HasPrefix q ''/'' \<Longrightarrow> Clean q = ''/'' @ join ''/'' (partsOf q)"
  by (simp add: Clean_def partsOf_def)

lemma Clean_absolute: "HasPrefix (Clean q) ''/'' \<longleftrightarrow> HasPrefix q ''/''"
  using join_head [of "partsOf q"] join_last [of "partsOf q"] partsOf_plain [of q]
  by (cases "HasPrefix q ''/''"; cases "partsOf q = []")
     (auto simp: Clean_def partsOf_def HasPrefix_slash Let_def)

lemma Clean_not_slash: "HasPrefix q ''/'' \<Longrightarrow> Clean q \<noteq> ''/'' \<Longrightarrow> last (Clean q) \<noteq> CHR ''/''"
  using join_last [of "partsOf q"] partsOf_plain [of q] by (cases "partsOf q = []") (auto simp: Clean_rooted)

lemma Clean_idem: "HasPrefix q ''/'' \<Longrightarrow> Clean (Clean q) = Clean q"
proof -
  assume q: "HasPrefix q ''/''"
  have good: "list_all (\<lambda>p. p \<noteq> ''..'' \<and> p \<noteq> ''.'') (partsOf q)"
    using q by (simp add: partsOf_def cleanParts_rooted)
  have "split_char (CHR ''/'') (join ''/'' (partsOf q)) = (if partsOf q = [] then [[]] else partsOf q)"
    using partsOf_plain [of q] by (auto simp: plainParts_def list_all_iff intro!: split_char_join)
  then have "partsOf (Clean q) = partsOf q"
    using good partsOf_plain [of q] q cleanParts_id [of "partsOf q" True "[]"]
    by (simp add: Clean_rooted partsOf_def [of "CHR ''/'' # join ''/'' (partsOf q)"] HasPrefix_slash split: if_splits)
  moreover have "HasPrefix (Clean q) ''/''" using q by (simp add: Clean_absolute)
  ultimately show ?thesis using Clean_rooted [OF q] Clean_rooted [of "Clean q"] by simp
qed

text \<open>A cleaned path is not longer.\<close>

definition weight :: "string list \<Rightarrow> nat" where
  "weight ps = sum_list (map (\<lambda>p. length p + 1) ps)"

lemma weight_simps [simp]: "weight [] = 0" "weight (p # ps) = length p + 1 + weight ps" "weight (rev ps) = weight ps"
  by (simp_all add: weight_def rev_map [symmetric])

lemma weight_cleanParts: "weight (cleanParts r stack ps) \<le> weight stack + weight ps"
  by (induction r stack ps rule: cleanParts.induct) (auto split: list.splits)

lemma weight_split: "weight (split_char d s) = length s + 1"
  by (induction s) (auto split: list.splits)

lemma length_join: "ps \<noteq> [] \<Longrightarrow> length (join ''/'' ps) + 1 = weight ps"
  by (induction "''/''" ps rule: join.induct) auto

lemma length_Clean: "HasPrefix q ''/'' \<Longrightarrow> length (Clean q) \<le> length q"
proof -
  assume q: "HasPrefix q ''/''"
  then obtain z where z: "q = CHR ''/'' # z" by (cases q) (auto simp: HasPrefix_slash)
  then have "weight (partsOf q) \<le> length z + 1"
    using weight_cleanParts [of True "[]" "split_char (CHR ''/'') z"] q by (simp add: partsOf_def weight_split)
  then show ?thesis
    using q z length_join [of "partsOf q"] by (cases "partsOf q = []") (auto simp: Clean_rooted)
qed

lemma last_dropWhile: "dropWhile P xs \<noteq> [] \<Longrightarrow> last (dropWhile P xs) = last xs"
  by (induction xs) (auto split: if_splits)

lemma DirPath_shorter:
  assumes "HasPrefix p ''/''" "last p \<noteq> CHR ''/''" "CHR ''/'' \<notin> set e"
  shows "length (DirPath (p @ e)) < length p"
proof -
  let ?d = "rev (dropWhile (\<lambda>c. c \<noteq> CHR ''/'') (rev p))"
  from assms(1) have p: "p \<noteq> []" "hd p = CHR ''/''" by (auto simp: HasPrefix_slash)
  have "DirPath (p @ e) = Clean ?d"
    using assms(3) dropWhile_append2 [of "rev e" "\<lambda>c. c \<noteq> CHR ''/''" "rev p"] by (force simp: DirPath_def)
  moreover have "length ?d < length p"
    using assms(2) p by (cases p rule: rev_cases) (auto simp: less_Suc_eq_le intro: order_trans [OF length_dropWhile_le])
  moreover have "HasPrefix ?d ''/''"
  proof -
    have "CHR ''/'' \<in> set (rev p)" using p by (cases p) auto
    then have "dropWhile (\<lambda>c. c \<noteq> CHR ''/'') (rev p) \<noteq> []" by auto
    moreover from this have "last (dropWhile (\<lambda>c. c \<noteq> CHR ''/'') (rev p)) = last (rev p)" by (rule last_dropWhile)
    ultimately show ?thesis using p by (simp add: HasPrefix_slash hd_rev last_rev)
  qed
  ultimately show ?thesis using length_Clean [of ?d] by simp
qed

section \<open>An upload is all or nothing\<close>

definition allowedPath :: "string \<Rightarrow> bool" where
  "allowedPath q \<longleftrightarrow> \<not> Contains q ''..'' \<and> list_ex (HasPrefix q) allowedPrefixes"

text \<open>The contents of a complete and correct upload: the chunks in front of the first hash, if it is theirs.\<close>

fun uploadFrom :: "(string \<Rightarrow> string) \<Rightarrow> string \<Rightarrow> putRequest recv list \<Rightarrow> string option" where
  "uploadFrom md5 c (Got (PContents d) # es) = uploadFrom md5 (c @ d) es"
| "uploadFrom md5 c (Got (PHash h) # es) = (if md5 c = h then Some c else None)"
| "uploadFrom md5 c es = None"

lemma validatePath_allowed: "validatePath q = None \<Longrightarrow> allowedPath (Clean q) \<and> HasPrefix q ''/''"
  by (auto simp: validatePath_def allowedPath_def Let_def Clean_absolute split: if_splits)

lemma putLoop_upload:
  "putLoop md5 f c es w = (r, w') \<Longrightarrow> node w f = Some (Regular c) \<Longrightarrow>
     (\<forall>n. n \<noteq> f \<longrightarrow> node w' n = node w n) \<and>
     (r = None \<longrightarrow> (\<exists>d. uploadFrom md5 c es = Some d \<and> node w' f = Some (Regular d)))"
proof (induction md5 f c es w arbitrary: r w' rule: putLoop.induct)
  case (5 md5 f hashed c es w)
  then show ?case
    by (cases "fate w") (auto simp: fileAppend_def update_conv' putNode_def step_def)
qed (auto split: if_splits)

lemma osMkdirAll_names: "osMkdirAll d w = (r, w') \<Longrightarrow> g \<noteq> d \<Longrightarrow> names w' g = names w g"
  by (auto simp: osMkdirAll_def split: if_splits option.splits inode.splits)

lemma osMkdirAll_dir: "osMkdirAll d w = (r, w') \<Longrightarrow> names w d \<noteq> None \<Longrightarrow> names w' d = names w d"
  by (auto simp: osMkdirAll_def names_def split: if_splits option.splits inode.splits)

lemma target_no_link: "(\<And>t. names w f \<noteq> Some (Symlink t)) \<Longrightarrow> target w (Name f) = Some (Name f)"
  using resolve.simps(2) [of 39 "w_files w" "Name f"]
  by (simp add: target_def names_def split: option.splits inode.splits)

lemma osOpenTrunc_plain:
  "osOpenTrunc (Name f) w = (r, w') \<Longrightarrow> (\<And>t. names w f \<noteq> Some (Symlink t)) \<Longrightarrow>
     (\<forall>g. g \<noteq> f \<longrightarrow> names w' g = names w g) \<and> (\<forall>m. r = Inr m \<longrightarrow> m = Name f \<and> names w' f = Some (Regular []))"
  by (auto simp: osOpenTrunc_def target_no_link split: if_splits option.splits)

lemma putLoop_names:
  assumes "putLoop md5 (Name f) [] es w = (r, w')" "names w f = Some (Regular [])"
  shows "\<And>g. g \<noteq> f \<Longrightarrow> names w' g = names w g"
    and "r = None \<Longrightarrow> \<exists>d. uploadFrom md5 [] es = Some d \<and> names w' f = Some (Regular d)"
  using putLoop_upload [OF assms(1)] assms(2) by (auto simp: names_def)

lemma fileClose_names [simp]: "names (snd (fileClose w)) = names w"
  by (simp add: fileClose_def)

lemma putCleanup_names: "g \<noteq> f \<Longrightarrow> names (putCleanup f w) g = names w g"
  by (auto simp: putCleanup_def osStat_def osRemove_def split: prod.splits sum.splits option.splits inode.splits if_splits)

lemma osRename_names:
  "osRename (Name a) (Name b) w = (r, w') \<Longrightarrow> a \<noteq> b \<Longrightarrow>
     (r \<noteq> None \<and> names w' = names w) \<or>
     (r = None \<and> names w a \<noteq> None \<and> names w' = (names w)(a := None, b := names w a))"
  by (cases "fate w"; cases "names w a") (auto simp: osRename_def names_def fun_eq_iff split: if_splits)

lemma osChmod_names: "osChmod n w = (r, w') \<Longrightarrow> names w' = names w"
  by (auto simp: osChmod_def split: if_splits)

lemma fileClose_same: "fileClose w = (r, w') \<Longrightarrow> names w' = names w"
  by (auto simp: fileClose_def split: if_splits)

lemma putFinish_names:
  assumes "putFinish t p sendErr w = (r, w')" "t \<noteq> p"
  shows "(names w' = names w \<and> r \<noteq> None) \<or> (names w' = (names w)(t := None, p := names w t) \<and> r = sendErr)"
proof -
  obtain r1 w1 where c: "fileClose w = (r1, w1)" by force
  obtain r2 w2 where m: "osChmod (Name t) w1 = (r2, w2)" by force
  obtain r3 w3 where n: "osRename (Name t) (Name p) w2 = (r3, w3)" by force
  note same = fileClose_same [OF c] osChmod_names [OF m] osRename_names [OF n assms(2)]
  show ?thesis
    using assms(1) same by (cases r1; cases r2; cases r3) (auto simp: putFinish_def c m n)
qed

lemma translate_names:
  "translatePathForContainer q w = (p, w') \<Longrightarrow> names w' = names w \<and> p \<in> {Clean q, hostRoot @ Clean q}"
  by (auto simp: translatePathForContainer_def osStat_def split: prod.splits sum.splits option.splits if_splits)

text \<open>The whole of the upload, for a path that differs from its directory.\<close>

lemma putTo_names:
  assumes run: "putTo md5 p es sendErr w = (r, w')"
    and dir: "length (DirPath (p @ ''.tmp'')) < length p" and link: "\<And>t. names w (p @ ''.tmp'') \<noteq> Some (Symlink t)"
  shows "(\<forall>g. g \<notin> {p, p @ ''.tmp'', DirPath (p @ ''.tmp'')} \<longrightarrow> names w' g = names w g) \<and>
    (names w' p = names w p \<and> r \<noteq> None \<or> (\<exists>c. uploadFrom md5 [] es = Some c \<and> names w' p = Some (Regular c))) \<and>
    (names w (DirPath (p @ ''.tmp'')) \<noteq> None \<longrightarrow> names w' (DirPath (p @ ''.tmp'')) = names w (DirPath (p @ ''.tmp'')))"
proof -
  let ?t = "p @ ''.tmp''" and ?d = "DirPath (p @ ''.tmp'')"
  have ne: "?d \<noteq> p" "?d \<noteq> ?t" using dir by auto
  obtain r1 w1 where mk: "osMkdirAll ?d w = (r1, w1)" by force
  obtain r2 w2 where op: "osOpenTrunc (Name ?t) w1 = (r2, w2)" by force
  have w1: "g \<noteq> ?d \<Longrightarrow> names w1 g = names w g" for g using osMkdirAll_names [OF mk] by auto
  have d: "names w ?d \<noteq> None \<Longrightarrow> names w1 ?d = names w ?d" using osMkdirAll_dir [OF mk] by simp
  from w1 have w2: "g \<noteq> ?t \<Longrightarrow> names w2 g = names w1 g" "r2 = Inr m \<Longrightarrow> m = Name ?t \<and> names w2 ?t = Some (Regular [])" for g m
    using osOpenTrunc_plain [OF op] link ne by auto
  show ?thesis
  proof (cases "r1 = None \<and> \<not> isl r2")
    case False
    then have "r \<noteq> None \<and> (w' = w1 \<or> w' = w2)"
      using run by (cases r1; cases r2) (auto simp: putTo_def mk op)
    then show ?thesis using w1 w2(1) d ne by auto
  next
    case True
    then have r2: "r2 = Inr (Name ?t)" "names w2 ?t = Some (Regular [])" using w2(2) by (cases r2; simp)+
    obtain r3 w3 where lp: "putLoop md5 (Name ?t) [] es w2 = (r3, w3)" by force
    note w3 = putLoop_names [OF lp r2(2)]
    show ?thesis
    proof (cases r3)
      case (Some e)
      then have "r = Some e" "w' = putCleanup ?t w3" using run True r2 lp by (simp_all add: putTo_def mk op)
      then show ?thesis using putCleanup_names [of _ ?t w3] w1 w2(1) w3(1) d ne by simp
    next
      case None
      obtain r4 w4 where fin: "putFinish ?t p sendErr w3 = (r4, w4)" by force
      have w': "r = r4" "w' = putCleanup ?t w4" using run True r2 lp None fin by (simp_all add: putTo_def mk op)
      obtain c where c: "uploadFrom md5 [] es = Some c" "names w3 ?t = Some (Regular c)" using w3(2) [OF None] by auto
      show ?thesis
        using putFinish_names [OF fin] putCleanup_names [of _ ?t w4] w1 w2(1) w3(1) c w' d ne by auto
    qed
  qed
qed

lemma put_path:
  assumes "validatePath q = None" "p \<in> {Clean q, hostRoot @ Clean q}"
  shows "HasPrefix p ''/'' \<and> last p \<noteq> CHR ''/''"
proof -
  from assms(1) have q: "HasPrefix q ''/''" "allowedPath (Clean q)" by (simp_all add: validatePath_allowed)
  then have "Clean q \<noteq> ''/''" by (auto simp: allowedPath_def allowedPrefixes_def HasPrefix_def)
  with q have "last (Clean q) \<noteq> CHR ''/''" "Clean q \<noteq> []" "HasPrefix (Clean q) ''/''"
    by (simp_all add: Clean_not_slash Clean_absolute) (simp add: Clean_rooted)
  with assms(2) show ?thesis by (auto simp: hostRoot_def HasPrefix_slash)
qed

lemma HandlePut_cases:
  assumes "HandlePut md5 stream sendErr w = (r, w')"
  shows "(w' = w \<and> r \<noteq> None) \<or>
    (\<exists>q m es p w1. stream = Got (POpen q m) # es \<and> q \<noteq> [] \<and> validatePath q = None \<and>
       translatePathForContainer q w = (p, w1) \<and> putTo md5 p es sendErr w1 = (r, w'))"
proof (cases "\<exists>q m es. stream = Got (POpen q m) # es")
  case True
  then obtain q m es where s: "stream = Got (POpen q m) # es" by blast
  obtain p w1 where t: "translatePathForContainer q w = (p, w1)" by force
  show ?thesis
    using assms by (cases "q = []"; cases "validatePath q") (auto simp: HandlePut_def s t)
next
  case False
  with assms show ?thesis
    by (auto simp: HandlePut_def split: list.splits recv.splits putRequest.splits)
qed

lemma put_effect:
  assumes "HandlePut md5 stream sendErr w = (r, w')" and "\<forall>g t. names w (g @ ''.tmp'') \<noteq> Some (Symlink t)"
  shows "(names w' = names w \<and> r \<noteq> None) \<or>
    (\<exists>q m es p. stream = Got (POpen q m) # es \<and> allowedPath (Clean q) \<and> p \<in> {Clean q, hostRoot @ Clean q} \<and>
       (\<forall>g. g \<notin> {p, p @ ''.tmp'', DirPath (p @ ''.tmp'')} \<longrightarrow> names w' g = names w g) \<and>
       (names w' p = names w p \<and> r \<noteq> None \<or> (\<exists>c. uploadFrom md5 [] es = Some c \<and> names w' p = Some (Regular c))))"
proof (cases "names w' = names w \<and> r \<noteq> None")
  case False
  then obtain q m es p w1 where stream: "stream = Got (POpen q m) # es" and ok: "validatePath q = None"
    and tr: "translatePathForContainer q w = (p, w1)" and run: "putTo md5 p es sendErr w1 = (r, w')"
    using HandlePut_cases [OF assms(1)] by auto
  have p: "names w1 = names w" "p \<in> {Clean q, hostRoot @ Clean q}" using translate_names [OF tr] by simp_all
  have "length (DirPath (p @ ''.tmp'')) < length p"
    using put_path [OF ok p(2)] by (intro DirPath_shorter) simp_all
  moreover have "names w1 (p @ ''.tmp'') \<noteq> Some (Symlink t)" for t using assms(2) p(1) by simp
  ultimately have res: "(\<forall>g. g \<notin> {p, p @ ''.tmp'', DirPath (p @ ''.tmp'')} \<longrightarrow> names w' g = names w g) \<and>
      (names w' p = names w p \<and> r \<noteq> None \<or> (\<exists>c. uploadFrom md5 [] es = Some c \<and> names w' p = Some (Regular c)))"
    using putTo_names [OF run] p(1) by simp
  have allowed: "allowedPath (Clean q)" using validatePath_allowed [OF ok] by blast
  show ?thesis
    by (rule disjI2, intro exI conjI) (rule stream allowed p(2) conjunct1 [OF res] conjunct2 [OF res])+
qed simp


definition putWorld :: world where
  "putWorld = \<lparr>w_files = [(Name ''/tmp'', Directory)], w_db = [], w_tick = 0, w_fault = (\<lambda>_. None)\<rparr>"

definition putExample :: "putRequest recv list" where
  "putExample = [Got (POpen ''/tmp/x/../a'' 0), Got (PContents ''he''), Got (PContents ''llo''), Got (PHash ''hello'')]"

lemma putExample_run: "fst (HandlePut id putExample None putWorld) = None"
  by code_simp

lemma putExample_clean: "Clean ''/tmp/x/../a'' = ''/tmp/a''"
  by code_simp

lemma putWorld_no_link: "\<forall>g t. names putWorld (g @ ''.tmp'') \<noteq> Some (Symlink t)"
  by (simp add: putWorld_def names_def)


section \<open>What was uploaded is downloaded\<close>

lemma getLoop_streams:
  assumes "\<And>n. gs_ctxErr gs n = None" "\<And>n. gs_sendErr gs n = None" "quiet w"
  shows "\<exists>chunks w'. getLoop md5 gs k hashed rest w = (map GContents chunks @ [GHash (md5 (hashed @ rest))], None, w') \<and>
    concat chunks = rest \<and> list_all (\<lambda>c. length c \<le> chunkSize) chunks"
  using assms(3)
proof (induction "length rest" arbitrary: k hashed rest w rule: less_induct)
  case less
  show ?case
  proof (cases "rest = []")
    case True
    with assms less.prems show ?thesis by (subst getLoop.simps) (auto intro: exI [of _ "[]"])
  next
    case False
    then have "length (drop chunkSize rest) < length rest" by (simp add: chunkSize_def)
    from less.hyps [OF this, of "step w" "Suc k" "hashed @ take chunkSize rest"] less.prems
    obtain chunks w' where "getLoop md5 gs (Suc k) (hashed @ take chunkSize rest) (drop chunkSize rest) (step w) =
        (map GContents chunks @ [GHash (md5 (hashed @ rest))], None, w')"
      and "concat chunks = drop chunkSize rest" "list_all (\<lambda>c. length c \<le> chunkSize) chunks"
      by (auto simp: append_take_drop_id)
    with assms less.prems False show ?thesis
      by (subst getLoop.simps) (auto intro!: exI [of _ "take chunkSize rest # chunks"])
  qed
qed

lemma putLoop_quiet:
  assumes "quiet w" "node w f = Some (Regular h)"
  shows "\<exists>w'. putLoop md5 f h (map (\<lambda>c. Got (PContents c)) cs @ Got (PHash (md5 (h @ concat cs))) # es) w = (None, w') \<and> quiet w'"
  using assms
proof (induction cs arbitrary: h w)
  case (Cons c cs)
  from Cons.IH [of "putNode f (Regular (h @ c)) (step w)" "h @ c"] Cons.prems
  show ?case by (auto simp: fileAppend_def)
qed simp

lemma uploadFrom_all: "uploadFrom md5 h (map (\<lambda>c. Got (PContents c)) cs @ Got (PHash (md5 (h @ concat cs))) # es) = Some (h @ concat cs)"
  by (induction cs arbitrary: h) (auto, metis append_assoc)

text \<open>A place where a file can be put: neither the file nor its temporary file is a directory, the latter is no link, and what
  should be the directory is one or does not exist.\<close>

definition freePlace :: "string \<Rightarrow> world \<Rightarrow> bool" where
  "freePlace p w \<longleftrightarrow> names w p \<noteq> Some Directory \<and> names w (DirPath (p @ ''.tmp'')) \<in> {None, Some Directory} \<and>
     (case names w (p @ ''.tmp'') of None \<Rightarrow> True | Some (Regular _) \<Rightarrow> True | _ \<Rightarrow> False)"

lemma osMkdirAll_quiet: "quiet w \<Longrightarrow> names w d \<in> {None, Some Directory} \<Longrightarrow> \<exists>w'. osMkdirAll d w = (None, w') \<and> quiet w'"
  by (auto simp: osMkdirAll_def names_def)

lemma osOpenTrunc_quiet:
  "quiet w \<Longrightarrow> (case names w f of None \<Rightarrow> True | Some (Regular _) \<Rightarrow> True | _ \<Rightarrow> False) \<Longrightarrow>
     \<exists>w'. osOpenTrunc (Name f) w = (Inr (Name f), w') \<and> quiet w'"
  by (auto simp: osOpenTrunc_def target_plain names_def split: option.splits inode.splits)

lemma putFinish_quiet:
  "quiet w \<Longrightarrow> names w t \<noteq> None \<Longrightarrow> names w p \<noteq> Some Directory \<Longrightarrow> \<exists>w'. putFinish t p None w = (None, w') \<and> quiet w'"
  by (auto simp: putFinish_def fileClose_def osChmod_def osRename_def names_def)

lemma putCleanup_quiet: "quiet w \<Longrightarrow> quiet (putCleanup t w)"
  by (auto simp: putCleanup_def fileClose_def osStat_def osRemove_def split: prod.splits sum.splits option.splits inode.splits)

definition uploadOf :: "(string \<Rightarrow> string) \<Rightarrow> string list \<Rightarrow> putRequest recv list" where
  "uploadOf md5 cs = map (\<lambda>c. Got (PContents c)) cs @ [Got (PHash (md5 (concat cs)))]"

lemma uploadFrom_uploadOf: "uploadFrom md5 [] (uploadOf md5 cs) = Some (concat cs)"
  using uploadFrom_all [of md5 "[]" cs "[]"] by (simp add: uploadOf_def)

lemma putTo_quiet:
  assumes "quiet w" "freePlace p w" "length (DirPath (p @ ''.tmp'')) < length p"
  shows "\<exists>w'. putTo md5 p (uploadOf md5 cs) None w = (None, w') \<and> quiet w'"
proof -
  let ?t = "p @ ''.tmp''" and ?d = "DirPath (p @ ''.tmp'')"
  have ne: "?d \<noteq> p" "?d \<noteq> ?t" using assms(3) by auto
  obtain w1 where mk: "osMkdirAll ?d w = (None, w1)" "quiet w1"
    using osMkdirAll_quiet [of w ?d] assms by (auto simp: freePlace_def)
  have w1: "names w1 ?t = names w ?t" "names w1 p = names w p" using osMkdirAll_names [OF mk(1)] ne by auto
  then have t: "case names w1 ?t of None \<Rightarrow> True | Some (Regular _) \<Rightarrow> True | _ \<Rightarrow> False"
    using assms(2) by (simp add: freePlace_def)
  obtain w2 where op: "osOpenTrunc (Name ?t) w1 = (Inr (Name ?t), w2)" "quiet w2"
    using osOpenTrunc_quiet [OF mk(2) t] by auto
  have "names w1 ?t \<noteq> Some (Symlink l)" for l using t by auto
  then have w2: "names w2 ?t = Some (Regular [])" "names w2 p = names w p"
    using osOpenTrunc_plain [OF op(1)] w1 by auto
  obtain w3 where lp: "putLoop md5 (Name ?t) [] (uploadOf md5 cs) w2 = (None, w3)" "quiet w3"
    using putLoop_quiet [of w2 "Name ?t" "[]" md5 cs "[]"] op(2) w2(1) by (auto simp: names_def uploadOf_def)
  have "names w3 ?t \<noteq> None" "names w3 p \<noteq> Some Directory"
    using putLoop_names [OF lp(1) w2(1)] w2(2) assms(2) by (auto simp: freePlace_def)
  then obtain w4 where "putFinish ?t p None w3 = (None, w4)" "quiet w4" using putFinish_quiet [OF lp(2)] by blast
  then show ?thesis using mk(1) op(1) lp(1) by (auto simp: putTo_def intro: putCleanup_quiet)
qed

lemma translate_container:
  "quiet w \<Longrightarrow> names w hostRoot = Some Directory \<Longrightarrow> translatePathForContainer q w = (hostRoot @ Clean q, step w)"
  using target_no_link [of w hostRoot] by (simp add: translatePathForContainer_def osStat_def names_def)

lemma get_regular:
  assumes "quiet w" "names w hostRoot = Some Directory" "validatePath q = None" "q \<noteq> []"
    and "names w (hostRoot @ Clean q) = Some (Regular c)" "int (length c) \<le> maxFileSize"
  shows "HandleGet md5 (Some q) gs w = getLoop md5 gs 0 [] c (step (step (step w)))"
proof -
  from assms(3) have q: "HasPrefix q ''/''" "allowedPath (Clean q)" by (simp_all add: validatePath_allowed)
  then have "\<not> containerInternal (Clean q)"
    by (auto simp: containerInternal_def allowedPath_def allowedPrefixes_def HasPrefix_iff)
  with q assms translate_container [OF assms(1,2), of "Clean q"] show ?thesis
    by (simp add: HandleGet_def Clean_idem osStat_plain osOpen_def osReadFile_plain)
qed


definition containerWorld :: world where
  "containerWorld = \<lparr>w_files = [(Name ''/mnt/host'', Directory), (Name ''/mnt/host/tmp'', Directory)], w_db = [], w_tick = 0,
     w_fault = (\<lambda>_. None)\<rparr>"

definition willing :: getStream where
  "willing = \<lparr>gs_ctxErr = (\<lambda>_. None), gs_sendErr = (\<lambda>_. None)\<rparr>"


section \<open>A link under the temporary name\<close>

text \<open>The temporary file is opened without regard to links. Whoever can make a link under its name, in a directory like
  \<^verbatim>\<open>/tmp\<close> everyone, has a Put write to the file the link leads to, wherever that is.\<close>

theorem put_follows_temp_link:
  assumes "quiet w" and "names w hostRoot = Some Directory" and "validatePath q = None" and "q \<noteq> []"
    and "names w (hostRoot @ Clean q) \<noteq> Some Directory" and "names w (DirPath (hostRoot @ Clean q @ ''.tmp'')) = Some Directory"
    and "names w (hostRoot @ Clean q @ ''.tmp'') = Some (Symlink f)" and "names w f = Some (Regular old)"
    and "f \<noteq> hostRoot @ Clean q"
  shows "\<exists>w1. HandlePut md5 (Got (POpen q m) # uploadOf md5 cs) None w = (None, w1) \<and> names w1 f = Some (Regular (concat cs))"
proof -
  let ?p = "hostRoot @ Clean q" let ?t = "?p @ ''.tmp''"
  have ft: "f \<noteq> ?t" using assms(7,8) by auto
  have mk: "osMkdirAll (DirPath ?t) (step w) = (None, step (step w))"
    using assms(1,6) by (simp add: osMkdirAll_def names_def)
  define w2 where "w2 = putNode (Name f) (Regular []) (step (step (step w)))"
  have "target (step (step w)) (Name ?t) = Some (Name f)"
    using assms(7,8) resolve.simps(2) [of 39 "w_files w" "Name ?t"] resolve.simps(2) [of 38 "w_files w" "Name f"]
    by (simp add: target_def names_def)
  then have op: "osOpenTrunc (Name ?t) (step (step w)) = (Inr (Name f), w2)"
    using assms(1,8) by (simp add: osOpenTrunc_def names_def w2_def)
  have w2: "quiet w2" "node w2 (Name f) = Some (Regular [])" using assms(1) by (simp_all add: w2_def)
  obtain w3 where lp: "putLoop md5 (Name f) [] (uploadOf md5 cs) w2 = (None, w3)" "quiet w3"
    using putLoop_quiet [OF w2, of md5 cs "[]"] by (auto simp: uploadOf_def)
  have w3: "names w3 ?t = Some (Symlink f)" "names w3 ?p \<noteq> Some Directory" "names w3 f = Some (Regular (concat cs))"
    using putLoop_upload [OF lp(1) w2(2)] ft assms(5,7,9) uploadFrom_uploadOf [of md5 cs] by (auto simp: names_def w2_def)
  obtain w4 where fin: "putFinish ?t ?p None w3 = (None, w4)" using putFinish_quiet [OF lp(2)] w3 by blast
  have "names w4 f = Some (Regular (concat cs))"
    using putFinish_names [OF fin] w3(3) ft assms(9) by auto
  then have "names (putCleanup ?t w4) f = Some (Regular (concat cs))" using putCleanup_names [OF ft] by simp
  moreover have "HandlePut md5 (Got (POpen q m) # uploadOf md5 cs) None w = (None, putCleanup ?t w4)"
    using assms(3,4) translate_container [OF assms(1,2)] mk op lp(1) fin by (simp add: HandlePut_def putTo_def)
  ultimately show ?thesis by blast
qed

section \<open>Transfers to a DPU\<close>

lemma limitReader_whole:
  "limitReader n body e = (cs, e1) \<Longrightarrow> int (length (concat cs)) < n \<Longrightarrow> cs = body \<and> e1 = e"
  by (induction n body e arbitrary: cs e1 rule: limitReader.induct) (auto split: if_splits prod.splits)

lemma dpuLoop_limited:
  "dpuLoop d k (limitedReads M rd cs e) hashed sent = (Inr content, sent') \<Longrightarrow> 0 < M \<Longrightarrow> rd \<le> M \<Longrightarrow>
     e = None \<and> content = hashed @ concat cs \<and> sent' = sent @ map PContents (filter (\<lambda>c. c \<noteq> []) cs) \<and>
     rd + int (length (concat cs)) \<le> M"
proof (induction cs arbitrary: k rd hashed sent)
  case Nil
  then show ?case by (auto simp: Let_def split: if_splits option.splits)
next
  case (Cons c cs)
  let ?sent = "if c = [] then sent else sent @ [PContents c]"
  from Cons.prems have fits: "rd + int (length c) \<le> M"
    and run: "dpuLoop d (Suc k) (limitedReads M (rd + int (length c)) cs e) (hashed @ c) ?sent = (Inr content, sent')"
    by (auto simp: Let_def split: if_splits)
  from Cons.IH [OF run Cons.prems(2) fits] show ?case by auto
qed

text \<open>What a successful transfer has sent, and that it was the whole answer of the web server.\<close>

lemma streamed_whole:
  assumes "HandleTransferToRemoteForDPUStreaming md5 http d (Some req) idx = (Inr h, sent)"
  shows "\<exists>url resp. tr_remoteDownload req = Some (HTTP, url) \<and> http url = Inr resp \<and> hr_end resp = None \<and>
    int (length (concat (hr_body resp))) \<le> maxFileSize \<and> h = md5 (concat (hr_body resp)) \<and> dp_answer d sent = None \<and>
    sent = POpen (tr_localPath req) 420 # map PContents (filter (\<lambda>c. c \<noteq> []) (hr_body resp)) @ [PHash h]"
proof -
  from assms obtain url reads where dl: "tr_remoteDownload req = Some (HTTP, url)"
      "DownloadHTTPStreaming http url maxFileSize = Inr reads"
    and run: "streamToDpu md5 d (tr_localPath req) reads = (Inr h, sent)"
    by (auto simp: HandleTransferToRemoteForDPUStreaming_def split: option.splits if_splits sum.splits prod.splits)
  from dl(2) obtain resp cs e where resp: "http url = Inr resp"
    and lim: "limitReader (maxFileSize + 1) (hr_body resp) (hr_end resp) = (cs, e)" "reads = limitedReads maxFileSize 0 cs e"
    by (auto simp: DownloadHTTPStreaming_def httpGet_def maxFileSize_def split: sum.splits if_splits prod.splits)
  from run obtain content sent0 where loop: "dpuLoop d 0 reads [] [POpen (tr_localPath req) 420] = (Inr content, sent0)"
    and fin: "h = md5 content" "sent = sent0 @ [PHash (md5 content)]" "dp_answer d sent = None"
    by (auto simp: streamToDpu_def Let_def split: if_splits prod.splits sum.splits option.splits)
  from dpuLoop_limited [OF loop [unfolded lim(2)]]
  have all: "e = None" "content = concat cs" "int (length (concat cs)) \<le> maxFileSize"
    "sent0 = POpen (tr_localPath req) 420 # map PContents (filter (\<lambda>c. c \<noteq> []) cs)"
    by (simp_all add: maxFileSize_def)
  with limitReader_whole [OF lim(1)] have "cs = hr_body resp" "hr_end resp = None" by simp_all
  with all fin dl(1) resp show ?thesis by simp
qed

lemma concat_filter_nonempty: "concat (filter (\<lambda>c. c \<noteq> []) cs) = concat cs"
  by (induction cs) auto


definition exWeb :: http where
  "exWeb url = Inr \<lparr>hr_StatusCode = 200, hr_ContentLength = -1, hr_body = [''he'', [], ''llo''], hr_end = None\<rparr>"

definition exDpu :: dpu where
  "exDpu = \<lparr>dp_conn = (\<lambda>_. None), dp_open = None, dp_sendErr = (\<lambda>_. None), dp_timeout = (\<lambda>_. False), dp_answer = (\<lambda>_. None)\<rparr>"

definition exTransfer :: transferRequest where
  "exTransfer = \<lparr>tr_remoteDownload = Some (HTTP, ''http://h/f''), tr_localPath = ''/tmp/a''\<rparr>"

definition exSent :: "putRequest list" where
  "exSent = [POpen ''/tmp/a'' 420, PContents ''he'', PContents ''llo'', PHash ''hello'']"

lemma exTransfer_run:
  "HandleTransferToRemoteForDPUStreaming id exWeb (exDpu\<lparr>dp_answer := \<lambda>ms. fst (HandlePut id (map Got ms) None putWorld)\<rparr>)
     (Some exTransfer) ''0'' = (Inr ''hello'', exSent)"
  by code_simp


end
