(* ===== verification/Spec2Isabelle.thy ===== *)
theory Spec2Isabelle
  imports Pathz_Authorizer Server_Auth Gnsi_Pathz Gnsi_Authz Gnsi_Certz Gnsi_Credentialz Gnmi_Subscribe Gnoi_Debug Mixed_Stream Gnoi_File
begin

text \<open>
  A verification development for the management server of SONiC switches, which serves gNMI (get, set and subscribe to
  the configuration and state), gNSI (rotation of credentials, certificates and policies) and gNOI (operations).

  \<^bold>\<open>The program.\<close> A request arrives at \<^verbatim>\<open>gnmi_server/server.go\<close>, which authenticates the peer
  (\<^verbatim>\<open>gnmi_server/{basicAuth,jwtAuth,clientCertAuth,pamAuth}.go\<close>), may ask the path policy
  (\<^verbatim>\<open>pathz_authorizer\<close>), and passes the request to a data client; for the native databases that is
  \<^verbatim>\<open>sonic_data_client/mixed_db_client.go\<close>. One kind of Set skips validation (\<^verbatim>\<open>pkg/bypass\<close>). Changes of the host go
  over D-Bus (\<^verbatim>\<open>sonic_service_client\<close>). The gNSI services change policies, certificates and credentials in streams that
  can be abandoned, and keep them in files and in STATE_DB.

  \<^bold>\<open>The theories.\<close>

  \<^item> \<open>Prelude\<close>: Go strings, numbers and maps (association lists with \<open>gm_get\<close>, \<open>gm_set\<close>, \<open>gm_del\<close>), gRPC errors, gNMI paths, and
    the lemmas on them. A run-time panic is the error \<open>Panic\<close>.
  \<^item> \<open>Json\<close>: JSON texts and their decoding to Go values, with the round trip of printing and parsing.
  \<^item> \<open>Os_World\<close>: files, links and STATE_DB. Every system call takes one step of a fault plan, \<open>w_fault\<close>, so a theorem for all
    worlds is one for all failures; \<open>quiet\<close> worlds have none.
  \<^item> \<open>Pathz_Authorizer\<close> (\<^verbatim>\<open>pathz_authorizer/pathz_authorizer.go\<close>): the tree of rules and the look-up. The tree is proved to
    decide as the list of rules does, for every path with wildcards; nothing is permitted without a rule.
  \<^item> \<open>Server_Auth\<close> (authentication, \<^verbatim>\<open>common_utils/context.go\<close>, CRL cache): \<open>authenticate\<close> with its three mechanisms and the
    roles. It fails closed, and the theorems say where roles leak between mechanisms.
  \<^item> \<open>Gnsi_Rotation\<close>: the interface of a rotation, the locale \<open>rotation\<close>, whose law is that one step of a stream keeps what a
    revert needs. \<open>Gnsi_Pathz\<close>, \<open>Gnsi_Authz\<close>, \<open>Gnsi_Certz\<close> (\<^verbatim>\<open>gnmi_server/gnsi_{pathz,authz,certz}.go\<close>) interpret it on
    their handlers; the policy of \<open>Gnsi_Pathz\<close> sits behind the locale \<open>authz_processor\<close>. An abandoned rotation restores what was
    there, a finalized one installs what was uploaded, and files are never torn; the theorems of kind error state what a
    revert does not restore.
  \<^item> \<open>Dbus_Client\<close> and \<open>Gnsi_Credentialz\<close> (\<^verbatim>\<open>dbus_client.go\<close>, \<^verbatim>\<open>gnsi_credentialz.go\<close>): the calls of the host, whose answers are an
    argument, and the rotation of accounts, keys and GLOME, restored by checkpoints.
  \<^item> \<open>Bypass\<close> (\<^verbatim>\<open>pkg/bypass/bypass.go\<close>): the fast path touches only allowed tables.
  \<^item> \<open>Gnmi_Server\<close> (\<^verbatim>\<open>server.go\<close>): Get, Set, Capabilities and the arbitration of masters, composed with authentication, the
    policy, the bypass and the saving of the configuration; the data clients are an argument.
  \<^item> \<open>Gnmi_Subscribe\<close> (\<^verbatim>\<open>client_subscribe.go\<close>, \<^verbatim>\<open>connection_manager.go\<close>): the limit of connections and the closing of channels,
    as step relations over all interleavings.
  \<^item> \<open>Gnoi_Debug\<close> (\<^verbatim>\<open>pkg/gnoi/debug\<close>, \<^verbatim>\<open>internal/exec\<close>): what passes the validation runs only commands of the list.
  \<^item> \<open>Gnoi_File\<close> (\<^verbatim>\<open>pkg/gnoi/file\<close>, \<^verbatim>\<open>internal/download\<close>, \<^verbatim>\<open>internal/hash\<close>): an upload is all or nothing, is read back as it was
    sent, and arrives when it is streamed to a DPU that runs the same service.
  \<^item> \<open>Db_Config\<close> (\<^verbatim>\<open>sonic_db_config/db_config.go\<close>), \<open>Json_Client\<close> (\<^verbatim>\<open>json_client.go\<close>), \<open>Swss_Tables\<close>, \<open>Mixed_Db\<close> and \<open>Mixed_Stream\<close>
    (\<^verbatim>\<open>mixed_db_client.go\<close>): namespaces and instances; the checkpoint file, which implements a map from table, key and field
    to a value; writing with retries and batches; paths, Get, Set and patches; poll and stream subscriptions. An entry
    reads back as written, a Set leaves no checkpoint behind, and the sync response follows the initial data.

  \<^bold>\<open>Correspondence.\<close> Definitions have the names of the functions they translate; a helper that has no counterpart translates a
  part of one. A method takes and returns the fields of its receiver as a record. Code that is not in the repository (Redis,
  the C++ library, the host, X.509, shell and YAML parsing, web servers, hash functions, clocks) is an argument, and what a
  theorem needs of it is among its hypotheses, which its witness satisfies. Goroutines are step relations when the order of
  their steps matters; a loop over a channel takes the list of what it receives. Log messages and most texts of errors are
  shortened, their status codes are not.

  \<^bold>\<open>Bounds.\<close> Links are followed forty times, as Linux does. The JSON parser has fuel, the length of the text, which is proved to
  be enough for every printed value. Loops end by structure or with a termination proof; the repetition of a write has
  seven calls at most, which is a theorem. Integers that can wrap (election identifiers, counters, sample intervals) are words.

  \<^bold>\<open>Not modelled.\<close> The clients for translib, events, show commands and \<^verbatim>\<open>/proc\<close> (adapters of libraries that are not in the
  repository, or texts of the host), the older \<^verbatim>\<open>db_client.go\<close> with its virtual paths but for what the mixed client shares with it,
  dial-out, the DPU proxy, the start-up of the process, the gNOI services for system, OS, ORAS, containers, health and factory
  reset, generated code, command-line clients and tests. Of the modelled parts: JWT generation and refresh, the sending loop of
  a subscription, the disposal of its queue and timestamps, and the modes and times of files.
\<close>

end
